(* ===== verification/Go_Prelude.thy ===== *)
theory Go_Prelude
  imports Main "HOL-Library.AList" "HOL-Library.Char_ord" "HOL-Library.List_Lexorder"
begin

text \<open>
  What every component of the gateway uses of Go and its standard library:
  \<^item> a Go string is a byte sequence, here a \<^typ>\<open>string\<close> (a list of 8-bit characters),
    ordered byte-wise as Go orders strings; \<open>TrimSpace\<close>, \<open>ToLower\<close>, \<open>Trim\<close>, \<open>HasPrefix\<close>,
    \<open>HasSuffix\<close>, \<open>EqualFold\<close>, \<open>Contains\<close> follow package strings; \<open>Atoi\<close>,
    \<open>ParseBool\<close>, \<open>Itoa\<close> follow package strconv.  \<open>TrimSpace\<close> trims the UTF-8 encodings
    of every Unicode white space character; \<open>ToLower\<close> maps the ASCII letters;
  \<^item> a Go map is an association list with one entry per key (read by \<^const>\<open>map_of\<close>,
    written by \<^const>\<open>AList.update\<close> and \<^const>\<open>AList.delete\<close>); the list order stands for
    the unspecified iteration order of Go; a nil map reads as the empty one;
  \<^item> an instant is the number of nanoseconds since January 1 of the year 1, so that the zero
    \<open>time.Time\<close> is 0; a duration is a number of nanoseconds.
\<close>

named_theorems gomap_simps
named_theorems string_simps

subsection \<open>Maps\<close>

type_synonym ('k, 'v) gomap = "('k \<times> 'v) list"

abbreviation gomap_ok :: "('k, 'v) gomap \<Rightarrow> bool" where
  "gomap_ok m \<equiv> distinct (map fst m)"

lemma map_of_update [gomap_simps, simp]:
  "map_of (AList.update k v m) k' = (if k' = k then Some v else map_of m k')"
  by (simp add: update_conv')

lemma map_of_delete [gomap_simps, simp]:
  "map_of (AList.delete k m) k' = (if k' = k then None else map_of m k')"
  by (simp add: delete_conv')

lemma gomap_ok_update [gomap_simps, simp, intro]:
  "gomap_ok m \<Longrightarrow> gomap_ok (AList.update k v m)"
  by (rule distinct_update)

lemma gomap_ok_delete [gomap_simps, simp, intro]:
  "gomap_ok m \<Longrightarrow> gomap_ok (AList.delete k m)"
  by (rule distinct_delete)

lemma gomap_ok_mem: "gomap_ok m \<Longrightarrow> (k, v) \<in> set m \<longleftrightarrow> map_of m k = Some v"
  by (auto intro: map_of_is_SomeI dest: map_of_SomeD)

lemma gomap_fst_mem: "k \<in> fst ` set m \<longleftrightarrow> (\<exists>v. map_of m k = Some v)"
  by (metis map_of_eq_None_iff not_None_eq)

lemma map_of_map_values [gomap_simps]:
  "map_of (map (\<lambda>(k, v). (k, f k v)) m) k = map_option (f k) (map_of m k)"
  by (induction m) auto

lemma map_fst_map_values [gomap_simps, simp]:
  "map fst (map (\<lambda>(k, v). (k, f k v)) m) = map fst m"
  "map (fst \<circ> (\<lambda>(k, v). (k, f k v))) m = map fst m"
  by (induction m) auto

lemma list_all2_mem:
  "list_all2 P xs ys \<Longrightarrow> x \<in> set xs \<Longrightarrow> \<exists>y\<in>set ys. P x y"
  "list_all2 P xs ys \<Longrightarrow> y \<in> set ys \<Longrightarrow> \<exists>x\<in>set xs. P x y"
  by (induction rule: list_all2_induct) auto

subsection \<open>Instants and durations\<close>

type_synonym gotime = int
type_synonym duration = int

definition zero_time :: gotime where
  "zero_time = 0"

definition IsZero :: "gotime \<Rightarrow> bool" where
  "IsZero t \<longleftrightarrow> t = zero_time"

definition second :: duration where
  "second = 1000000000"

definition minute :: duration where
  "minute = 60 * second"

text \<open>\<open>time.Unix\<close> and \<open>time.UnixMilli\<close>: 62135596800 seconds lie between the year 1 and 1970.\<close>

definition time_Unix :: "int \<Rightarrow> gotime" where
  "time_Unix s = (s + 62135596800) * second"

definition time_UnixMilli :: "int \<Rightarrow> gotime" where
  "time_UnixMilli ms = ms * 1000000 + 62135596800 * second"

subsection \<open>64-bit integers\<close>

text \<open>The value a signed 64-bit result wraps around to.\<close>

definition wrap64 :: "int \<Rightarrow> int" where
  "wrap64 x = (x + 2 ^ 63) mod 2 ^ 64 - 2 ^ 63"

lemma wrap64_id: "- (2 ^ 63) \<le> x \<Longrightarrow> x < 2 ^ 63 \<Longrightarrow> wrap64 x = x"
  by (simp add: wrap64_def)

lemma wrap64_range: "- (2 ^ 63) \<le> wrap64 x \<and> wrap64 x < 2 ^ 63"
  by (simp add: wrap64_def)

subsection \<open>Package strings\<close>

text \<open>The UTF-8 encodings of the characters with the Unicode property White\_Space.\<close>

definition space_encodings :: "string list" where
  "space_encodings =
     [[CHR 0x20], [CHR 0x09], [CHR 0x0A], [CHR 0x0B], [CHR 0x0C], [CHR 0x0D],
      [CHR 0xC2, CHR 0x85], [CHR 0xC2, CHR 0xA0], [CHR 0xE1, CHR 0x9A, CHR 0x80],
      [CHR 0xE2, CHR 0x80, CHR 0x80], [CHR 0xE2, CHR 0x80, CHR 0x81],
      [CHR 0xE2, CHR 0x80, CHR 0x82], [CHR 0xE2, CHR 0x80, CHR 0x83],
      [CHR 0xE2, CHR 0x80, CHR 0x84], [CHR 0xE2, CHR 0x80, CHR 0x85],
      [CHR 0xE2, CHR 0x80, CHR 0x86], [CHR 0xE2, CHR 0x80, CHR 0x87],
      [CHR 0xE2, CHR 0x80, CHR 0x88], [CHR 0xE2, CHR 0x80, CHR 0x89],
      [CHR 0xE2, CHR 0x80, CHR 0x8A], [CHR 0xE2, CHR 0x80, CHR 0xA8],
      [CHR 0xE2, CHR 0x80, CHR 0xA9], [CHR 0xE2, CHR 0x80, CHR 0xAF],
      [CHR 0xE2, CHR 0x81, CHR 0x9F], [CHR 0xE3, CHR 0x80, CHR 0x80]]"

definition HasPrefix :: "string \<Rightarrow> string \<Rightarrow> bool" where
  "HasPrefix s p \<longleftrightarrow> take (length p) s = p"

definition HasSuffix :: "string \<Rightarrow> string \<Rightarrow> bool" where
  "HasSuffix s p \<longleftrightarrow> HasPrefix (rev s) (rev p)"

definition TrimPrefix :: "string \<Rightarrow> string \<Rightarrow> string" where
  "TrimPrefix s p = (if HasPrefix s p then drop (length p) s else s)"

definition TrimSuffix :: "string \<Rightarrow> string \<Rightarrow> string" where
  "TrimSuffix s p = (if HasSuffix s p then take (length s - length p) s else s)"

function trim_left :: "string list \<Rightarrow> string \<Rightarrow> string" where
  "trim_left ws s =
     (case find (\<lambda>w. w \<noteq> [] \<and> HasPrefix s w) ws of
        None \<Rightarrow> s
      | Some w \<Rightarrow> trim_left ws (drop (length w) s))"
  by pat_completeness auto
termination
proof (relation "measure (\<lambda>(ws, s). length s)")
  fix ws s w
  assume "find (\<lambda>w. w \<noteq> [] \<and> HasPrefix s w) ws = Some w"
  then have "w \<noteq> []" and "take (length w) s = w"
    by (auto simp: find_Some_iff HasPrefix_def)
  then have "0 < length w" and "length w \<le> length s"
    by (simp, metis length_take min.cobounded1 min.commute)
  then have "length s - length w < length s"
    by linarith
  then show "((ws, drop (length w) s), ws, s) \<in> measure (\<lambda>(ws, s). length s)"
    by simp
qed simp

declare trim_left.simps [simp del]

definition TrimSpace :: "string \<Rightarrow> string" where
  "TrimSpace s = rev (trim_left (map rev space_encodings) (rev (trim_left space_encodings s)))"

definition lower_char :: "char \<Rightarrow> char" where
  "lower_char c =
     (if 65 \<le> (of_char c :: nat) \<and> (of_char c :: nat) \<le> 90 then char_of ((of_char c :: nat) + 32) else c)"

definition ToLower :: "string \<Rightarrow> string" where
  "ToLower s = map lower_char s"

text \<open>\<open>strings.EqualFold\<close> against an ASCII pattern without the letters k and s.\<close>

definition EqualFold :: "string \<Rightarrow> string \<Rightarrow> bool" where
  "EqualFold s t \<longleftrightarrow> ToLower s = ToLower t"

text \<open>\<open>strings.Trim\<close> with a cutset of ASCII characters.\<close>

definition Trim :: "string \<Rightarrow> string \<Rightarrow> string" where
  "Trim s cutset = rev (dropWhile (\<lambda>c. c \<in> set cutset) (rev (dropWhile (\<lambda>c. c \<in> set cutset) s)))"

definition TrimRight :: "string \<Rightarrow> string \<Rightarrow> string" where
  "TrimRight s cutset = rev (dropWhile (\<lambda>c. c \<in> set cutset) (rev s))"

text \<open>\<open>strings.LastIndexByte\<close>; \<open>None\<close> stands for -1.\<close>

fun LastIndexByte :: "string \<Rightarrow> char \<Rightarrow> nat option" where
  "LastIndexByte [] c = None"
| "LastIndexByte (x # s) c =
     (case LastIndexByte s c of
        Some i \<Rightarrow> Some (Suc i)
      | None \<Rightarrow> if x = c then Some 0 else None)"

fun Contains :: "string \<Rightarrow> string \<Rightarrow> bool" where
  "Contains s p = (HasPrefix s p \<or> (case s of [] \<Rightarrow> False | _ # r \<Rightarrow> Contains r p))"

subsection \<open>Package strconv\<close>

definition is_digit :: "char \<Rightarrow> bool" where
  "is_digit c \<longleftrightarrow> 48 \<le> (of_char c :: nat) \<and> (of_char c :: nat) \<le> 57"

definition digit_value :: "char \<Rightarrow> int" where
  "digit_value c = of_char c - 48"

definition digits_value :: "string \<Rightarrow> int" where
  "digits_value ds = foldl (\<lambda>n c. 10 * n + digit_value c) 0 ds"

text \<open>\<open>strconv.Atoi\<close> and \<open>strconv.ParseInt(s, 10, 64)\<close>: an optional sign, decimal digits,
  and a value in the range of a signed 64-bit integer; \<open>None\<close> is the error return.\<close>

definition Atoi :: "string \<Rightarrow> int option" where
  "Atoi s =
     (let neg = HasPrefix s ''-'';
          ds = (if HasPrefix s ''-'' \<or> HasPrefix s ''+'' then tl s else s);
          v = (if neg then - digits_value ds else digits_value ds)
      in if ds = [] \<or> \<not> list_all is_digit ds then None
         else if - (2 ^ 63) \<le> v \<and> v < 2 ^ 63 then Some v else None)"

definition ParseBool :: "string \<Rightarrow> bool option" where
  "ParseBool s =
     (if s \<in> set [''1'', ''t'', ''T'', ''TRUE'', ''true'', ''True''] then Some True
      else if s \<in> set [''0'', ''f'', ''F'', ''FALSE'', ''false'', ''False''] then Some False
      else None)"

fun nat_digits :: "nat \<Rightarrow> string" where
  "nat_digits n =
     (if n < 10 then [char_of (48 + n)] else nat_digits (n div 10) @ [char_of (48 + n mod 10)])"

declare nat_digits.simps [simp del]

definition Itoa :: "int \<Rightarrow> string" where
  "Itoa n = (if n < 0 then ''-'' @ nat_digits (nat (- n)) else nat_digits (nat n))"

text \<open>\<open>strconv.Quote\<close>, the verb \<open>%q\<close>: ASCII control characters, the quote and the backslash are
  escaped; bytes from 128 on are taken to belong to printable characters.\<close>

definition hex_digit :: "nat \<Rightarrow> char" where
  "hex_digit n = char_of (if n < 10 then 48 + n else 87 + n)"

definition quote_char :: "char \<Rightarrow> string" where
  "quote_char c =
     (case map_of [(CHR 0x22, CHR 0x22), (CHR 0x5C, CHR 0x5C), (CHR 0x07, CHR ''a''), (CHR 0x08, CHR ''b''),
                   (CHR 0x0C, CHR ''f''), (CHR 0x0A, CHR ''n''), (CHR 0x0D, CHR ''r''), (CHR 0x09, CHR ''t''),
                   (CHR 0x0B, CHR ''v'')] c of
        Some e \<Rightarrow> [CHR 0x5C, e]
      | None \<Rightarrow>
          if (of_char c :: nat) < 32 \<or> (of_char c :: nat) = 127
          then [CHR 0x5C, CHR ''x'', hex_digit (of_char c div 16), hex_digit (of_char c mod 16)]
          else [c])"

definition quoted :: "string \<Rightarrow> string" where
  "quoted s = [CHR 0x22] @ concat (map quote_char s) @ [CHR 0x22]"

subsection \<open>Facts on strings\<close>

lemma trim_left_stop:
  "(\<And>w. w \<in> set ws \<Longrightarrow> w = [] \<or> \<not> HasPrefix s w) \<Longrightarrow> trim_left ws s = s"
proof -
  assume "\<And>w. w \<in> set ws \<Longrightarrow> w = [] \<or> \<not> HasPrefix s w"
  then have "find (\<lambda>w. w \<noteq> [] \<and> HasPrefix s w) ws = None"
    by (auto simp: find_None_iff)
  then show ?thesis by (subst trim_left.simps) simp
qed

lemma trim_left_Nil [simp]: "trim_left ws [] = []"
  by (rule trim_left_stop) (auto simp: HasPrefix_def)

lemma trim_left_suffix: "\<exists>u. s = u @ trim_left ws s"
proof (induction ws s rule: trim_left.induct)
  case (1 ws s)
  show ?case
  proof (cases "find (\<lambda>w. w \<noteq> [] \<and> HasPrefix s w) ws")
    case None
    then show ?thesis by (subst trim_left.simps) simp
  next
    case (Some w)
    from "1.IH" [OF Some] obtain u where "drop (length w) s = u @ trim_left ws (drop (length w) s)"
      by blast
    then have "s = (take (length w) s @ u) @ trim_left ws (drop (length w) s)"
      by (metis append.assoc append_take_drop_id)
    moreover have "trim_left ws s = trim_left ws (drop (length w) s)"
      using Some by (subst trim_left.simps) simp
    ultimately show ?thesis by metis
  qed
qed

lemma trim_left_done:
  "w \<in> set ws \<Longrightarrow> w \<noteq> [] \<Longrightarrow> \<not> HasPrefix (trim_left ws s) w"
proof (induction ws s rule: trim_left.induct)
  case (1 ws s)
  show ?case
  proof (cases "find (\<lambda>w. w \<noteq> [] \<and> HasPrefix s w) ws")
    case None
    then have "trim_left ws s = s" by (subst trim_left.simps) simp
    moreover have "\<not> HasPrefix s w" using None "1.prems" by (auto simp: find_None_iff)
    ultimately show ?thesis by simp
  next
    case (Some v)
    with "1.IH" [OF Some "1.prems"] show ?thesis by (subst trim_left.simps) simp
  qed
qed

lemma trim_left_idem [simp]: "trim_left ws (trim_left ws s) = trim_left ws s"
  by (rule trim_left_stop) (use trim_left_done in blast)

lemma HasPrefix_append: "HasPrefix s w \<Longrightarrow> HasPrefix (s @ u) w"
  by (auto simp: HasPrefix_def take_append) (metis append_Nil2 append_eq_append_conv_if append_take_drop_id take_all_iff nat_le_linear)

lemma TrimSpace_idem [simp, string_simps]: "TrimSpace (TrimSpace s) = TrimSpace s"
proof -
  let ?l = "trim_left space_encodings s"
  let ?r = "trim_left (map rev space_encodings) (rev ?l)"
  obtain u where "rev ?l = u @ ?r" using trim_left_suffix by blast
  then have l: "?l = rev ?r @ rev u" by (metis rev_append rev_rev_ident)
  have "trim_left space_encodings (rev ?r) = rev ?r"
  proof (rule trim_left_stop)
    fix w assume w: "w \<in> set space_encodings"
    show "w = [] \<or> \<not> HasPrefix (rev ?r) w"
    proof (rule ccontr)
      assume "\<not> ?thesis"
      then have "w \<noteq> []" and "HasPrefix ?l w" using HasPrefix_append [of "rev ?r" w "rev u"] l by auto
      with trim_left_done [OF w] show False by blast
    qed
  qed
  then show ?thesis by (simp add: TrimSpace_def)
qed

lemma TrimSpace_Nil [simp, string_simps]: "TrimSpace [] = []"
  by (simp add: TrimSpace_def)

text \<open>A string that starts and ends in a printable ASCII character is trimmed already.\<close>

definition plain_char :: "char \<Rightarrow> bool" where
  "plain_char c \<longleftrightarrow> 32 < (of_char c :: nat) \<and> (of_char c :: nat) < 128"

lemma space_encodings_not_plain:
  "w \<in> set space_encodings \<Longrightarrow> w \<noteq> [] \<and> \<not> plain_char (hd w) \<and> \<not> plain_char (last w)"
  by (simp add: space_encodings_def plain_char_def) (elim disjE; simp)

lemma trim_left_plain:
  assumes "s \<noteq> []" and "plain_char (hd s)" and "\<And>w. w \<in> set ws \<Longrightarrow> w \<noteq> [] \<and> \<not> plain_char (hd w)"
  shows "trim_left ws s = s"
proof (rule trim_left_stop)
  fix w assume "w \<in> set ws"
  with assms(3) have "w \<noteq> []" "\<not> plain_char (hd w)" by auto
  with assms(1,2) have "\<not> HasPrefix s w"
    by (cases s; cases w) (auto simp: HasPrefix_def)
  then show "w = [] \<or> \<not> HasPrefix s w" ..
qed

lemma TrimSpace_plain [string_simps]:
  assumes "s \<noteq> []" and "plain_char (hd s)" and "plain_char (last s)"
  shows "TrimSpace s = s"
proof -
  have l: "trim_left space_encodings s = s"
    using assms space_encodings_not_plain by (intro trim_left_plain) auto
  have "trim_left (map rev space_encodings) (rev s) = rev s"
    using assms space_encodings_not_plain by (intro trim_left_plain) (auto simp: hd_rev)
  with l show ?thesis by (simp add: TrimSpace_def)
qed

lemma TrimSpace_code [code]:
  "TrimSpace s =
     (if s = [] \<or> plain_char (hd s) \<and> plain_char (last s) then s
      else rev (trim_left (map rev space_encodings) (rev (trim_left space_encodings s))))"
  by (cases "s = []") (use TrimSpace_plain [of s] in \<open>simp_all add: TrimSpace_def\<close>)

lemma lower_char_idem [simp]: "lower_char (lower_char c) = lower_char c"
  by (auto simp: lower_char_def of_char_of)

lemma ToLower_idem [simp, string_simps]: "ToLower (ToLower s) = ToLower s"
  by (simp add: ToLower_def comp_def)

lemma ToLower_Nil [simp, string_simps]: "ToLower s = [] \<longleftrightarrow> s = []"
  by (simp add: ToLower_def)

end
