(* ===== verification/Parse_Utils.thy ===== *)
theory Parse_Utils
  imports Go_Prelude Complex_Main
begin

text \<open>
  Package internal/utils, file parse.go: reading instants, booleans and integers out of the
  untyped values (\<open>any\<close>) of a metadata map.  A \<open>float64\<close> is the rational number it denotes.
  \<open>time.Parse\<close> is the parameter \<open>parse\<close> (a layout and a text to an instant), so every fact
  holds whatever the calendar parser accepts.
\<close>

datatype goval =
    GNil
  | GBool bool
  | GString string
  | GFloat64 rat
  | GInt int
  | GInt32 int
  | GInt64 int
  | GNumber string
  | GMap "(string \<times> goval) list"
  | GStringMap "(string \<times> string) list"
  | GOther

type_synonym time_parser = "string \<Rightarrow> string \<Rightarrow> gotime option"

subsection \<open>Definitions\<close>

definition expireKeys :: "string list" where
  "expireKeys = [''expired'', ''expire'', ''expires_at'', ''expiresAt'', ''expiry'', ''expires'']"

definition timeLayouts :: "string list" where
  "timeLayouts =
     [''2006-01-02T15:04:05Z07:00'', ''2006-01-02T15:04:05.999999999Z07:00'',
      ''2006-01-02 15:04:05'', ''2006-01-02 15:04'']"

definition normaliseUnix :: "int \<Rightarrow> gotime" where
  "normaliseUnix raw =
     (if raw \<le> 0 then zero_time
      else if raw > 1000000000000 then time_UnixMilli raw
      else time_Unix raw)"

text \<open>The conversion \<open>int64(f)\<close>: truncation, and the least int64 out of range (amd64).\<close>

definition float64_to_int64 :: "rat \<Rightarrow> int" where
  "float64_to_int64 r =
     (let t = (if r < 0 then \<lceil>r\<rceil> else \<lfloor>r\<rfloor>)
      in if - (2 ^ 63) \<le> t \<and> t < 2 ^ 63 then t else - (2 ^ 63))"

fun try_layouts :: "time_parser \<Rightarrow> string \<Rightarrow> string list \<Rightarrow> gotime option" where
  "try_layouts parse s [] = None"
| "try_layouts parse s (l # ls) =
     (case parse l s of Some ts \<Rightarrow> Some ts | None \<Rightarrow> try_layouts parse s ls)"

definition ParseTimeValue :: "time_parser \<Rightarrow> goval \<Rightarrow> gotime option" where
  "ParseTimeValue parse v =
     (case v of
        GString value \<Rightarrow>
          (let s = TrimSpace value
           in if s = [] then None
              else (case try_layouts parse s timeLayouts of
                      Some ts \<Rightarrow> Some ts
                    | None \<Rightarrow> map_option normaliseUnix (Atoi s)))
      | GFloat64 value \<Rightarrow> Some (normaliseUnix (float64_to_int64 value))
      | GInt64 value \<Rightarrow> Some (normaliseUnix value)
      | GNumber value \<Rightarrow> map_option normaliseUnix (Atoi value)
      | _ \<Rightarrow> None)"

fun first_expiry :: "time_parser \<Rightarrow> (string, goval) gomap \<Rightarrow> string list \<Rightarrow> gotime option" where
  "first_expiry parse meta [] = None"
| "first_expiry parse meta (key # keys) =
     (case Option.bind (map_of meta key) (ParseTimeValue parse) of
        Some ts \<Rightarrow> Some ts
      | None \<Rightarrow> first_expiry parse meta keys)"

text \<open>The \<open>temp\<close> map built from a \<open>map[string]string\<close>.\<close>

definition widen :: "(string, string) gomap \<Rightarrow> (string, goval) gomap" where
  "widen m = map (\<lambda>(k, v). (k, GString v)) m"

fun gdepth :: "goval \<Rightarrow> nat" where
  "gdepth (GMap m) = Suc (foldr max (map (\<lambda>(k, v). gdepth v) m) 0)"
| "gdepth (GStringMap m) = 1"
| "gdepth _ = 0"

definition mdepth :: "(string, goval) gomap \<Rightarrow> nat" where
  "mdepth m = foldr max (map (\<lambda>(k, v). gdepth v) m) 0"

lemma gdepth_le_mdepth: "(k, v) \<in> set m \<Longrightarrow> gdepth v \<le> mdepth m"
  unfolding mdepth_def by (induction m) (auto simp: le_max_iff_disj)

lemma mdepth_widen [simp]: "mdepth (widen m) = 0"
  unfolding mdepth_def widen_def by (induction m) auto

lemma nested_map_depth: "map_of m k = Some (GMap n) \<Longrightarrow> mdepth n < mdepth m"
  using gdepth_le_mdepth [OF map_of_SomeD, of m k "GMap n"] by (simp add: mdepth_def)

lemma nested_string_map_depth: "map_of m k = Some (GStringMap n) \<Longrightarrow> 0 < mdepth m"
  using gdepth_le_mdepth [OF map_of_SomeD, of m k "GStringMap n"] by simp

text \<open>The first result of a sequence of attempts.\<close>

fun or_else :: "'a option \<Rightarrow> 'a option \<Rightarrow> 'a option" where
  "or_else (Some x) r = Some x"
| "or_else None r = r"

lemma or_else_Some: "or_else a b = Some x \<longleftrightarrow> a = Some x \<or> (a = None \<and> b = Some x)"
  by (cases a) auto

function ExpirationFromMap :: "time_parser \<Rightarrow> (string, goval) gomap \<Rightarrow> gotime option" where
  "ExpirationFromMap parse meta =
     or_else (first_expiry parse meta expireKeys)
       (or_else
          (case map_of meta ''token'' of
             Some (GMap val) \<Rightarrow> ExpirationFromMap parse val
           | Some (GStringMap val) \<Rightarrow> ExpirationFromMap parse (widen val)
           | _ \<Rightarrow> None)
          (case map_of meta ''Token'' of
             Some (GMap val) \<Rightarrow> ExpirationFromMap parse val
           | Some (GStringMap val) \<Rightarrow> ExpirationFromMap parse (widen val)
           | _ \<Rightarrow> None))"
  by pat_completeness auto
termination
  by (relation "measure (\<lambda>(parse, meta). mdepth meta)")
     (auto dest: nested_map_depth nested_string_map_depth)

declare ExpirationFromMap.simps [simp del]

definition ParseBoolAny :: "goval \<Rightarrow> bool option" where
  "ParseBoolAny val =
     (case val of
        GBool typed \<Rightarrow> Some typed
      | GString typed \<Rightarrow>
          (let trimmed = TrimSpace typed in if trimmed = [] then None else ParseBool trimmed)
      | GFloat64 typed \<Rightarrow> Some (typed \<noteq> 0)
      | GNumber typed \<Rightarrow> map_option (\<lambda>parsed. parsed \<noteq> 0) (Atoi typed)
      | _ \<Rightarrow> None)"

definition ParseIntAny :: "goval \<Rightarrow> int option" where
  "ParseIntAny val =
     (case val of
        GInt typed \<Rightarrow> Some typed
      | GInt32 typed \<Rightarrow> Some typed
      | GInt64 typed \<Rightarrow> Some typed
      | GFloat64 typed \<Rightarrow> Some (float64_to_int64 typed)
      | GNumber typed \<Rightarrow> Atoi typed
      | GString typed \<Rightarrow>
          (let trimmed = TrimSpace typed in if trimmed = [] then None else Atoi trimmed)
      | _ \<Rightarrow> None)"

text \<open>The specification: some map reachable through the keys token and Token holds a value
  under an expiry key that reads as an instant.\<close>

inductive has_expiry :: "time_parser \<Rightarrow> (string, goval) gomap \<Rightarrow> bool" for parse where
  direct: "key \<in> set expireKeys \<Longrightarrow> map_of meta key = Some v \<Longrightarrow>
     ParseTimeValue parse v = Some ts \<Longrightarrow> has_expiry parse meta"
| nested: "key \<in> {''token'', ''Token''} \<Longrightarrow> map_of meta key = Some (GMap val) \<Longrightarrow>
     has_expiry parse val \<Longrightarrow> has_expiry parse meta"
| nested_strings: "key \<in> {''token'', ''Token''} \<Longrightarrow> map_of meta key = Some (GStringMap val) \<Longrightarrow>
     has_expiry parse (widen val) \<Longrightarrow> has_expiry parse meta"

subsection \<open>Facts\<close>

lemma first_expiry_Some:
  "(\<exists>ts. first_expiry parse meta keys = Some ts) \<longleftrightarrow>
   (\<exists>key\<in>set keys. \<exists>v ts. map_of meta key = Some v \<and> ParseTimeValue parse v = Some ts)"
  by (induction keys) (auto split: option.splits bind_splits)

lemma first_expiry_value:
  "first_expiry parse meta keys = Some ts \<Longrightarrow>
   \<exists>key\<in>set keys. \<exists>v. map_of meta key = Some v \<and> ParseTimeValue parse v = Some ts"
  by (induction keys) (auto split: option.splits bind_splits)

lemma ExpirationFromMap_sound: "ExpirationFromMap parse meta = Some ts \<Longrightarrow> has_expiry parse meta"
proof (induction parse meta arbitrary: ts rule: ExpirationFromMap.induct)
  case (1 parse meta)
  have tok: "''token'' \<in> {''token'', ''Token''}" "''Token'' \<in> {''token'', ''Token''}"
    by simp_all
  from "1.prems" consider (direct) "first_expiry parse meta expireKeys = Some ts"
    | (t1) val where "map_of meta ''token'' = Some (GMap val)" "ExpirationFromMap parse val = Some ts"
    | (t2) val where "map_of meta ''token'' = Some (GStringMap val)"
        "ExpirationFromMap parse (widen val) = Some ts"
    | (t3) val where "map_of meta ''Token'' = Some (GMap val)" "ExpirationFromMap parse val = Some ts"
    | (t4) val where "map_of meta ''Token'' = Some (GStringMap val)"
        "ExpirationFromMap parse (widen val) = Some ts"
    by (subst (asm) ExpirationFromMap.simps)
       (auto simp: or_else_Some split: option.splits goval.splits)
  then show ?case
  proof cases
    case direct
    then show ?thesis by (metis first_expiry_value has_expiry.direct)
  next
    case t1
    from "1.IH"(1) [OF t1(1) refl t1(2)] show ?thesis
      by (rule has_expiry.nested [OF tok(1) t1(1)])
  next
    case t2
    from "1.IH"(2) [OF t2(1) refl t2(2)] show ?thesis
      by (rule has_expiry.nested_strings [OF tok(1) t2(1)])
  next
    case t3
    from "1.IH"(3) [OF t3(1) refl t3(2)] show ?thesis
      by (rule has_expiry.nested [OF tok(2) t3(1)])
  next
    case t4
    from "1.IH"(4) [OF t4(1) refl t4(2)] show ?thesis
      by (rule has_expiry.nested_strings [OF tok(2) t4(1)])
  qed
qed

lemma or_else_defined: "(\<exists>x. or_else a b = Some x) \<longleftrightarrow> (\<exists>x. a = Some x) \<or> (\<exists>x. b = Some x)"
  by (cases a) auto

lemma ExpirationFromMap_complete: "has_expiry parse meta \<Longrightarrow> \<exists>ts. ExpirationFromMap parse meta = Some ts"
proof (induction rule: has_expiry.induct)
  case (direct key meta v ts)
  then have "\<exists>t. first_expiry parse meta expireKeys = Some t"
    using first_expiry_Some by metis
  then show ?case by (subst ExpirationFromMap.simps) (simp only: or_else_defined, blast)
qed (subst ExpirationFromMap.simps, auto simp: or_else_defined)+

end
