(* ===== verification/Credential.thy ===== *)
theory Credential
  imports Parse_Utils
begin

text \<open>
  Package llm/cliauth/credential: the stored credential, its errors and its accessors.
  A pointer to an error or to a model state is an \<^typ>\<open>'a option\<close>; a nil map and an empty map
  are the same association list.  The code copies a credential (\<open>Clone\<close>) wherever it crosses
  the border of the manager, so credentials are values here and \<open>Clone\<close> is the identity
  (\<open>Clone_id\<close>).
\<close>

type_synonym status = string

definition StatusUnknown :: status where "StatusUnknown = ''unknown''"
definition StatusActive :: status where "StatusActive = ''active''"
definition StatusPending :: status where "StatusPending = ''pending''"
definition StatusRefreshing :: status where "StatusRefreshing = ''refreshing''"
definition StatusError :: status where "StatusError = ''error''"
definition StatusDisabled :: status where "StatusDisabled = ''disabled''"

lemmas status_defs = StatusUnknown_def StatusActive_def StatusPending_def StatusRefreshing_def
  StatusError_def StatusDisabled_def

record cred_error =
  err_Code :: string
  err_Message :: string
  err_Retryable :: bool
  err_HTTPStatus :: int

record quota_state =
  q_Exceeded :: bool
  q_Reason :: string
  q_NextRecoverAt :: gotime
  q_BackoffLevel :: int

definition zero_quota :: quota_state where
  "zero_quota = \<lparr>q_Exceeded = False, q_Reason = [], q_NextRecoverAt = zero_time, q_BackoffLevel = 0\<rparr>"

record model_state =
  ms_Status :: status
  ms_StatusMessage :: string
  ms_Unavailable :: bool
  ms_NextRetryAfter :: gotime
  ms_LastError :: "cred_error option"
  ms_Quota :: quota_state
  ms_UpdatedAt :: gotime

definition zero_model_state :: model_state where
  "zero_model_state =
     \<lparr>ms_Status = [], ms_StatusMessage = [], ms_Unavailable = False, ms_NextRetryAfter = zero_time,
      ms_LastError = None, ms_Quota = zero_quota, ms_UpdatedAt = zero_time\<rparr>"

record credential =
  c_ID :: string
  c_Provider :: string
  c_Prefix :: string
  c_Label :: string
  c_Status :: status
  c_StatusMessage :: string
  c_Unavailable :: bool
  c_ProxyURL :: string
  c_Attributes :: "(string, string) gomap"
  c_Metadata :: "(string, goval) gomap"
  c_Quota :: quota_state
  c_LastError :: "cred_error option"
  c_CreatedAt :: gotime
  c_UpdatedAt :: gotime
  c_LastRefreshedAt :: gotime
  c_NextRefreshAfter :: gotime
  c_NextRetryAfter :: gotime
  c_ModelStates :: "(string, model_state option) gomap"

definition zero_credential :: credential where
  "zero_credential =
     \<lparr>c_ID = [], c_Provider = [], c_Prefix = [], c_Label = [], c_Status = [], c_StatusMessage = [],
      c_Unavailable = False, c_ProxyURL = [], c_Attributes = [], c_Metadata = [],
      c_Quota = zero_quota, c_LastError = None, c_CreatedAt = zero_time, c_UpdatedAt = zero_time,
      c_LastRefreshedAt = zero_time, c_NextRefreshAfter = zero_time, c_NextRetryAfter = zero_time,
      c_ModelStates = []\<rparr>"

lemmas zero_defs = zero_credential_def zero_model_state_def zero_quota_def zero_time_def

subsection \<open>Operations\<close>

definition Error_Error :: "cred_error option \<Rightarrow> string" where
  "Error_Error e =
     (case e of
        None \<Rightarrow> []
      | Some e \<Rightarrow> if err_Code e = [] then err_Message e else err_Code e @ '': '' @ err_Message e)"

definition Error_StatusCode :: "cred_error option \<Rightarrow> int" where
  "Error_StatusCode e = (case e of None \<Rightarrow> 0 | Some e \<Rightarrow> err_HTTPStatus e)"

definition ModelState_Clone :: "model_state option \<Rightarrow> model_state option" where
  "ModelState_Clone m =
     map_option (\<lambda>m. m\<lparr>ms_LastError := map_option (\<lambda>e.
        \<lparr>err_Code = err_Code e, err_Message = err_Message e, err_Retryable = err_Retryable e,
         err_HTTPStatus = err_HTTPStatus e\<rparr>) (ms_LastError m)\<rparr>) m"

definition Clone :: "credential \<Rightarrow> credential" where
  "Clone c =
     c\<lparr>c_Attributes := map (\<lambda>(k, v). (k, v)) (c_Attributes c),
       c_Metadata := map (\<lambda>(k, v). (k, v)) (c_Metadata c),
       c_ModelStates := map (\<lambda>(k, v). (k, ModelState_Clone v)) (c_ModelStates c)\<rparr>"

definition IsDisabled :: "credential \<Rightarrow> bool" where
  "IsDisabled c \<longleftrightarrow> c_Status c = StatusDisabled"

text \<open>Indexing a \<open>map[string]string\<close>: the empty string for a missing key.\<close>

definition attribute :: "credential \<Rightarrow> string \<Rightarrow> string" where
  "attribute c k = (case map_of (c_Attributes c) k of None \<Rightarrow> [] | Some v \<Rightarrow> v)"

definition APIKey :: "credential \<Rightarrow> string" where
  "APIKey c = attribute c ''api_key''"

definition BaseURL :: "credential \<Rightarrow> string" where
  "BaseURL c = attribute c ''base_url''"

definition Priority :: "credential \<Rightarrow> int" where
  "Priority c =
     (let raw = TrimSpace (attribute c ''priority'')
      in if raw = [] then 0
         else (case Atoi raw of None \<Rightarrow> 0 | Some parsed \<Rightarrow> parsed))"

definition ExpirationTime :: "time_parser \<Rightarrow> credential \<Rightarrow> gotime option" where
  "ExpirationTime parse c = ExpirationFromMap parse (c_Metadata c)"

text \<open>The loops over the two spellings of an override key: the first spelling whose value
  parses wins.\<close>

fun first_parsed :: "(goval \<Rightarrow> 'a option) \<Rightarrow> (string, goval) gomap \<Rightarrow> string list \<Rightarrow> 'a option" where
  "first_parsed f m [] = None"
| "first_parsed f m (key # keys) =
     (case Option.bind (map_of m key) f of
        Some v \<Rightarrow> Some v
      | None \<Rightarrow> first_parsed f m keys)"

definition DisableCoolingOverride :: "credential \<Rightarrow> bool option" where
  "DisableCoolingOverride c =
     first_parsed ParseBoolAny (c_Metadata c) [''disable_cooling'', ''disable-cooling'']"

definition RequestRetryOverride :: "credential \<Rightarrow> int option" where
  "RequestRetryOverride c =
     map_option (\<lambda>parsed. if parsed < 0 then 0 else parsed)
       (first_parsed ParseIntAny (c_Metadata c) [''request_retry'', ''request-retry''])"

text \<open>The decoder of a stored credential, over \<open>json.Unmarshal\<close> as an argument.\<close>

definition DecodeCredential :: "(string \<Rightarrow> string + credential) \<Rightarrow> string \<Rightarrow> string + credential" where
  "DecodeCredential unmarshal data =
     (case unmarshal data of
        Inl err \<Rightarrow> Inl (''Decode credential object error: '' @ err)
      | Inr c \<Rightarrow> Inr c)"

subsection \<open>Facts\<close>

lemma cred_error_eta:
  "\<lparr>err_Code = err_Code e, err_Message = err_Message e, err_Retryable = err_Retryable e,
    err_HTTPStatus = err_HTTPStatus e\<rparr> = (e :: cred_error)"
  by (cases e) simp

lemma ModelState_Clone_id [simp]: "ModelState_Clone m = m"
  by (cases m) (simp_all add: ModelState_Clone_def cred_error_eta option.map_ident)

lemma Clone_id [simp]: "Clone c = c"
  by (simp add: Clone_def)

lemma Atoi_range: "Atoi s = Some v \<Longrightarrow> - (2 ^ 63) \<le> v \<and> v < 2 ^ 63"
  by (auto simp: Atoi_def Let_def split: if_splits)

lemma Priority_range: "- (2 ^ 63) \<le> Priority c \<and> Priority c < 2 ^ 63"
  by (auto simp: Priority_def Let_def dest: Atoi_range split: option.splits)

lemma RequestRetryOverride_nonneg: "RequestRetryOverride c = Some n \<Longrightarrow> 0 \<le> n"
  by (auto simp: RequestRetryOverride_def split: if_splits)

end
