(* ===== verification/Bucket_Selector.thy ===== *)
theory Bucket_Selector
  imports Credential
begin

text \<open>
  Package llm/cliauth/manager, file selector.go: choosing one credential out of a bucket of
  ready credentials, and deciding whether a credential is blocked for a model.  A \<open>Strategy\<close>
  returns its choice and the bucket with the cursor it leaves behind.  The contract of a
  strategy is the locale \<open>bucket_strategy\<close>; both built-in strategies are interpretations of it,
  and the scheduler relies on nothing else.
\<close>

record ready_bucket =
  rb_creds :: "credential list"
  rb_cursor :: nat

type_synonym cred_pred = "credential \<Rightarrow> bool"
type_synonym strategy = "ready_bucket \<Rightarrow> cred_pred \<Rightarrow> credential option \<times> ready_bucket"

subsection \<open>Strategies\<close>

definition rr_index :: "ready_bucket \<Rightarrow> cred_pred \<Rightarrow> nat option" where
  "rr_index bucket predicate =
     (let n = length (rb_creds bucket); start = rb_cursor bucket mod n
      in map_option (\<lambda>offset. (start + offset) mod n)
           (find (\<lambda>offset. predicate (rb_creds bucket ! ((start + offset) mod n))) [0..<n]))"

definition RoundRobinSelector_PickFromBucket :: strategy where
  "RoundRobinSelector_PickFromBucket bucket predicate =
     (if rb_creds bucket = [] then (None, bucket)
      else (case rr_index bucket predicate of
              None \<Rightarrow> (None, bucket)
            | Some index \<Rightarrow>
                (Some (rb_creds bucket ! index), bucket\<lparr>rb_cursor := index + 1\<rparr>)))"

definition FillFirstSelector_PickFromBucket :: strategy where
  "FillFirstSelector_PickFromBucket bucket predicate = (find predicate (rb_creds bucket), bucket)"

subsection \<open>Blocked credentials\<close>

datatype block_reason = BlockReasonNone | BlockReasonCooldown | BlockReasonDisabled | BlockReasonOther

definition canonicalModelKey :: "string \<Rightarrow> string" where
  "canonicalModelKey model =
     (let model = TrimSpace model
      in (case LastIndexByte model (CHR '':'') of
            None \<Rightarrow> model
          | Some idx \<Rightarrow> if idx > 0 then TrimSpace (take idx model) else model))"

definition later_time :: "gotime \<Rightarrow> gotime \<Rightarrow> gotime" where
  "later_time next_retry recover =
     (if \<not> IsZero recover \<and> recover > next_retry then recover else next_retry)"

definition lookup_model_state :: "credential \<Rightarrow> string \<Rightarrow> model_state option option" where
  "lookup_model_state cred model =
     (case map_of (c_ModelStates cred) model of
        Some state \<Rightarrow> Some state
      | None \<Rightarrow>
          (let baseModel = canonicalModelKey model
           in if baseModel \<noteq> [] \<and> baseModel \<noteq> model then map_of (c_ModelStates cred) baseModel
              else None))"

definition isCredentialBlockedForModel ::
    "credential option \<Rightarrow> string \<Rightarrow> gotime \<Rightarrow> bool \<times> block_reason \<times> gotime" where
  "isCredentialBlockedForModel c model now =
     (case c of
        None \<Rightarrow> (True, BlockReasonOther, zero_time)
      | Some cred \<Rightarrow>
          if IsDisabled cred then (True, BlockReasonDisabled, zero_time)
          else if model \<noteq> [] \<and> c_ModelStates cred \<noteq> [] then
            (case lookup_model_state cred model of
               Some (Some state) \<Rightarrow>
                 if ms_Status state = StatusDisabled then (True, BlockReasonDisabled, zero_time)
                 else if ms_Unavailable state \<and> \<not> IsZero (ms_NextRetryAfter state)
                         \<and> ms_NextRetryAfter state > now then
                   (True,
                    if q_Exceeded (ms_Quota state) then BlockReasonCooldown else BlockReasonOther,
                    later_time (ms_NextRetryAfter state) (q_NextRecoverAt (ms_Quota state)))
                 else (False, BlockReasonNone, zero_time)
             | _ \<Rightarrow> (False, BlockReasonNone, zero_time))
          else if c_Unavailable cred \<and> c_NextRetryAfter cred > now then
            (True,
             if q_Exceeded (c_Quota cred) then BlockReasonCooldown else BlockReasonOther,
             later_time (c_NextRetryAfter cred) (q_NextRecoverAt (c_Quota cred)))
          else (False, BlockReasonNone, zero_time))"

definition credentialPriority :: "credential option \<Rightarrow> int" where
  "credentialPriority c = (case c of None \<Rightarrow> 0 | Some cred \<Rightarrow> Priority cred)"

subsection \<open>The contract of a strategy\<close>

locale bucket_strategy =
  fixes pick_from_bucket :: strategy
  assumes pick_sound: "pick_from_bucket b p = (Some c, b') \<Longrightarrow> c \<in> set (rb_creds b) \<and> p c"
    and pick_complete: "c \<in> set (rb_creds b) \<Longrightarrow> p c \<Longrightarrow> fst (pick_from_bucket b p) \<noteq> None"
    and pick_frame: "rb_creds (snd (pick_from_bucket b p)) = rb_creds b"
begin

lemma pick_None_iff: "fst (pick_from_bucket b p) = None \<longleftrightarrow> (\<forall>c\<in>set (rb_creds b). \<not> p c)"
proof
  assume "fst (pick_from_bucket b p) = None"
  then show "\<forall>c\<in>set (rb_creds b). \<not> p c" using pick_complete by blast
next
  assume no: "\<forall>c\<in>set (rb_creds b). \<not> p c"
  show "fst (pick_from_bucket b p) = None"
  proof (rule ccontr)
    assume "fst (pick_from_bucket b p) \<noteq> None"
    then obtain c b' where "pick_from_bucket b p = (Some c, b')" by (metis not_None_eq prod.collapse)
    with no show False using pick_sound by blast
  qed
qed

end

lemma rr_index_Some:
  assumes "rr_index b p = Some i"
  shows "i < length (rb_creds b) \<and> p (rb_creds b ! i)"
  using assms
  by (auto simp: rr_index_def Let_def find_Some_iff intro!: mod_less_divisor gr_zeroI)

lemma rr_index_complete:
  assumes "c \<in> set (rb_creds b)" and "p c"
  shows "rr_index b p \<noteq> None"
proof -
  let ?n = "length (rb_creds b)" and ?s = "rb_cursor b mod length (rb_creds b)"
  from assms obtain i where i: "i < ?n" "p (rb_creds b ! i)" by (metis in_set_conv_nth)
  have n: "0 < ?n" using i by linarith
  then have s: "?s < ?n" by (rule mod_less_divisor)
  define k where "k = (i + ?n - ?s) mod ?n"
  have "(?s + k) mod ?n = (?s + (i + ?n - ?s)) mod ?n"
    by (simp add: k_def mod_add_right_eq)
  also have "\<dots> = i" using i s by simp
  finally have "(?s + k) mod ?n = i" .
  moreover have "k < ?n" unfolding k_def using n by (rule mod_less_divisor)
  ultimately have "\<exists>x\<in>set [0..<?n]. p (rb_creds b ! ((?s + x) mod ?n))"
    using i by (intro bexI [of _ k]) auto
  then have "find (\<lambda>x. p (rb_creds b ! ((?s + x) mod ?n))) [0..<?n] \<noteq> None"
    by (auto simp: find_None_iff)
  then show ?thesis by (simp add: rr_index_def Let_def)
qed

interpretation rr: bucket_strategy RoundRobinSelector_PickFromBucket
proof unfold_locales
  show "\<And>b p c b'. RoundRobinSelector_PickFromBucket b p = (Some c, b') \<Longrightarrow> c \<in> set (rb_creds b) \<and> p c"
    by (auto simp: RoundRobinSelector_PickFromBucket_def dest: rr_index_Some
        split: if_splits option.splits)
  show "\<And>c b p. c \<in> set (rb_creds b) \<Longrightarrow> p c \<Longrightarrow> fst (RoundRobinSelector_PickFromBucket b p) \<noteq> None"
    using rr_index_complete by (fastforce simp: RoundRobinSelector_PickFromBucket_def split: option.splits)
  show "\<And>b p. rb_creds (snd (RoundRobinSelector_PickFromBucket b p)) = rb_creds b"
    by (auto simp: RoundRobinSelector_PickFromBucket_def split: option.splits)
qed

interpretation ff: bucket_strategy FillFirstSelector_PickFromBucket
  by unfold_locales
     (auto simp: FillFirstSelector_PickFromBucket_def find_Some_iff find_None_iff)

end
