(* ===== verification/Auth_Scheduler.thy ===== *)
theory Auth_Scheduler
  imports Bucket_Selector "HOL-Library.Product_Lexorder"
begin

text \<open>
  Package llm/cliauth/manager, file scheduler.go: the incremental index from which the manager
  picks a credential.  Per provider it keeps the registered credentials and, per model asked
  for so far, a shard: the state of every credential for that model, the ready credentials in
  one bucket per priority, and the blocked ones.

  The entries of a shard are shared pointers in the code (the map \<open>entries\<close> and the list
  \<open>blocked\<close> hold the same objects), so \<open>blocked\<close> is a list of keys into \<open>entries\<close> here.  A
  bucket holds pointers to credentials that no code mutates, so it holds values.  Every call of
  \<open>time.Now\<close> is an argument of its own.  The mutex makes each operation atomic: an operation
  is one function from the state to the state.
\<close>

subsection \<open>State\<close>

datatype scheduled_state = SchedReady | SchedCooldown | SchedBlocked | SchedDisabled

record sched_meta =
  sm_cred :: credential
  sm_priority :: int

record scheduled_cred =
  se_meta :: sched_meta
  se_cred :: credential
  se_state :: scheduled_state
  se_nextRetryAt :: gotime

record model_scheduler =
  m_modelKey :: string
  m_entries :: "(string, scheduled_cred) gomap"
  m_priorityOrder :: "int list"
  m_readyByPriority :: "(int, ready_bucket) gomap"
  m_blocked :: "string list"

record provider_scheduler =
  p_providerKey :: string
  p_creds :: "(string, sched_meta) gomap"
  p_modelShards :: "(string, model_scheduler) gomap"

record auth_scheduler =
  s_strategy :: strategy
  s_providers :: "(string, provider_scheduler) gomap"
  s_credProviders :: "(string, string) gomap"
  s_mixedCursors :: "(string, nat) gomap"

datatype pick_error =
    CredentialError cred_error
  | CooldownError string string string

definition newAuthScheduler :: "strategy \<Rightarrow> auth_scheduler" where
  "newAuthScheduler strategy =
     \<lparr>s_strategy = strategy, s_providers = [], s_credProviders = [], s_mixedCursors = []\<rparr>"

subsection \<open>Model shards\<close>

definition entry_priority :: "scheduled_cred \<Rightarrow> int" where
  "entry_priority e = sm_priority (se_meta e)"

definition ready_at :: "(string, scheduled_cred) gomap \<Rightarrow> int \<Rightarrow> scheduled_cred list" where
  "ready_at entries p =
     filter (\<lambda>e. se_state e = SchedReady \<and> entry_priority e = p) (map snd entries)"

definition blocked_entries :: "(string, scheduled_cred) gomap \<Rightarrow> (string, scheduled_cred) gomap" where
  "blocked_entries entries = filter (\<lambda>(k, e). se_state e \<in> {SchedCooldown, SchedBlocked}) entries"

definition rebuildIndexesLocked :: "model_scheduler \<Rightarrow> model_scheduler" where
  "rebuildIndexesLocked m =
     (let ready = filter (\<lambda>e. se_state e = SchedReady) (map snd (m_entries m));
          order = rev (sort (remdups (map entry_priority ready)));
          bucket = (\<lambda>p. \<lparr>rb_creds = map se_cred (sort_key (\<lambda>e. c_ID (se_cred e)) (ready_at (m_entries m) p)),
                         rb_cursor = 0\<rparr>)
      in m\<lparr>m_readyByPriority := map (\<lambda>p. (p, bucket p)) order,
           m_priorityOrder := order,
           m_blocked := map fst (sort_key (\<lambda>(k, e). (IsZero (se_nextRetryAt e), se_nextRetryAt e, c_ID (se_cred e)))
                                   (blocked_entries (m_entries m)))\<rparr>)"

text \<open>The \<open>switch\<close> on the answer of \<open>isCredentialBlockedForModel\<close>, shared by
  \<open>upsertEntryLocked\<close> and \<open>promoteExpiredLocked\<close>.\<close>

definition classify :: "credential \<Rightarrow> string \<Rightarrow> gotime \<Rightarrow> scheduled_state \<times> gotime" where
  "classify cred model now =
     (case isCredentialBlockedForModel (Some cred) model now of
        (blocked, reason, next_at) \<Rightarrow>
          if \<not> blocked then (SchedReady, zero_time)
          else if reason = BlockReasonCooldown then (SchedCooldown, next_at)
          else if reason = BlockReasonDisabled then (SchedDisabled, zero_time)
          else (SchedBlocked, next_at))"

definition upsertEntryLocked :: "model_scheduler \<Rightarrow> sched_meta \<Rightarrow> string \<Rightarrow> gotime \<Rightarrow> model_scheduler" where
  "upsertEntryLocked m meta modelKey now =
     (let cred_id = c_ID (sm_cred meta);
          (st, next_at) = classify (sm_cred meta) modelKey now;
          m' = m\<lparr>m_entries := AList.update cred_id
                   \<lparr>se_meta = meta, se_cred = sm_cred meta, se_state = st, se_nextRetryAt = next_at\<rparr>
                   (m_entries m)\<rparr>
      in (case map_of (m_entries m) cred_id of
            Some entry \<Rightarrow>
              if se_state entry = st \<and> se_nextRetryAt entry = next_at
                 \<and> entry_priority entry = sm_priority meta then m'
              else rebuildIndexesLocked m'
          | None \<Rightarrow> rebuildIndexesLocked m'))"

definition removeEntryLocked :: "model_scheduler \<Rightarrow> string \<Rightarrow> model_scheduler" where
  "removeEntryLocked m credID =
     (if credID = [] \<or> map_of (m_entries m) credID = None then m
      else rebuildIndexesLocked (m\<lparr>m_entries := AList.delete credID (m_entries m)\<rparr>))"

definition expired :: "model_scheduler \<Rightarrow> gotime \<Rightarrow> string \<Rightarrow> scheduled_cred \<Rightarrow> bool" where
  "expired m now k e \<longleftrightarrow>
     k \<in> set (m_blocked m) \<and> \<not> IsZero (se_nextRetryAt e) \<and> \<not> se_nextRetryAt e > now"

definition promote_entry :: "model_scheduler \<Rightarrow> gotime \<Rightarrow> string \<Rightarrow> scheduled_cred \<Rightarrow> scheduled_cred" where
  "promote_entry m now k e =
     (if expired m now k e then
        (case classify (se_cred e) (m_modelKey m) now of
           (st, next_at) \<Rightarrow> e\<lparr>se_state := st, se_nextRetryAt := next_at\<rparr>)
      else e)"

definition promoteExpiredLocked :: "model_scheduler \<Rightarrow> gotime \<Rightarrow> model_scheduler" where
  "promoteExpiredLocked m now =
     (if m_blocked m = [] \<or> \<not> list_ex (\<lambda>(k, e). expired m now k e) (m_entries m) then m
      else rebuildIndexesLocked
             (m\<lparr>m_entries := map (\<lambda>(k, e). (k, promote_entry m now k e)) (m_entries m)\<rparr>))"

definition hasMatch :: "ready_bucket \<Rightarrow> cred_pred \<Rightarrow> bool" where
  "hasMatch bucket predicate \<longleftrightarrow> list_ex predicate (rb_creds bucket)"

fun bestPriority :: "model_scheduler \<Rightarrow> cred_pred \<Rightarrow> int option \<Rightarrow> int list \<Rightarrow> int option" where
  "bestPriority m predicate best [] = best"
| "bestPriority m predicate best (p # ps) =
     bestPriority m predicate
       (case map_of (m_readyByPriority m) p of
          None \<Rightarrow> best
        | Some bucket \<Rightarrow>
            if hasMatch bucket predicate then
              (case best of None \<Rightarrow> Some p | Some q \<Rightarrow> if p > q then Some p else Some q)
            else best) ps"

definition pickReadyLocked ::
    "model_scheduler \<Rightarrow> strategy \<Rightarrow> cred_pred \<Rightarrow> gotime \<Rightarrow> credential option \<times> model_scheduler" where
  "pickReadyLocked m strategy predicate now =
     (let m = promoteExpiredLocked m now
      in (case bestPriority m predicate None (m_priorityOrder m) of
            None \<Rightarrow> (None, m)
          | Some p \<Rightarrow>
              (case map_of (m_readyByPriority m) p of
                 None \<Rightarrow> (None, m)
               | Some bucket \<Rightarrow>
                   (case strategy bucket predicate of
                      (picked, bucket') \<Rightarrow>
                        (picked,
                         m\<lparr>m_readyByPriority := AList.update p bucket' (m_readyByPriority m)\<rparr>)))))"

definition formatDuration :: "duration \<Rightarrow> string" where
  "formatDuration d =
     (let secs = (d + (second - 1)) div second
      in if secs \<le> 0 then ''0s'' else Itoa secs @ ''s'')"

definition cred_err :: "string \<Rightarrow> cred_error" where
  "cred_err code =
     \<lparr>err_Code = code, err_Message = ''no credential available'', err_Retryable = False,
      err_HTTPStatus = 0\<rparr>"

fun earliestRetry :: "gotime \<Rightarrow> scheduled_cred list \<Rightarrow> gotime" where
  "earliestRetry earliest [] = earliest"
| "earliestRetry earliest (e # es) =
     earliestRetry
       (if \<not> IsZero (se_nextRetryAt e) \<and> (IsZero earliest \<or> se_nextRetryAt e < earliest)
        then se_nextRetryAt e else earliest) es"

definition unavailableErrorLocked ::
    "model_scheduler \<Rightarrow> string \<Rightarrow> string \<Rightarrow> cred_pred \<Rightarrow> gotime \<Rightarrow> pick_error" where
  "unavailableErrorLocked m provider model predicate now =
     (let candidates = filter (\<lambda>e. predicate (se_cred e)) (map snd (m_entries m));
          cooling = filter (\<lambda>e. se_state e = SchedCooldown) candidates;
          earliest = earliestRetry zero_time cooling
      in if candidates = [] then CredentialError (cred_err ''credential_not_found'')
         else if length cooling = length candidates \<and> \<not> IsZero earliest then
           CooldownError model provider (formatDuration (max 0 (earliest - now)))
         else CredentialError (cred_err ''credential_unavailable''))"

subsection \<open>Provider schedulers\<close>

definition ps_upsertLocked :: "provider_scheduler \<Rightarrow> sched_meta \<Rightarrow> gotime \<Rightarrow> provider_scheduler" where
  "ps_upsertLocked p meta now =
     p\<lparr>p_creds := AList.update (c_ID (sm_cred meta)) meta (p_creds p),
       p_modelShards := map (\<lambda>(modelKey, shard). (modelKey, upsertEntryLocked shard meta modelKey now))
                          (p_modelShards p)\<rparr>"

definition ps_removeLocked :: "provider_scheduler \<Rightarrow> string \<Rightarrow> provider_scheduler" where
  "ps_removeLocked p credID =
     (if credID = [] then p
      else p\<lparr>p_creds := AList.delete credID (p_creds p),
             p_modelShards := map (\<lambda>(modelKey, shard). (modelKey, removeEntryLocked shard credID))
                                (p_modelShards p)\<rparr>)"

definition new_shard :: "string \<Rightarrow> model_scheduler" where
  "new_shard modelKey =
     \<lparr>m_modelKey = modelKey, m_entries = [], m_priorityOrder = [], m_readyByPriority = [],
      m_blocked = []\<rparr>"

text \<open>The shard under its canonical key; it is stored in \<open>p_modelShards\<close> under that key.\<close>

definition ensureModelLocked ::
    "provider_scheduler \<Rightarrow> string \<Rightarrow> gotime \<Rightarrow> model_scheduler \<times> provider_scheduler" where
  "ensureModelLocked p modelKey0 now =
     (let modelKey = canonicalModelKey modelKey0;
          shard =
            (case map_of (p_modelShards p) modelKey of
               Some shard \<Rightarrow> promoteExpiredLocked shard now
             | None \<Rightarrow>
                 foldl (\<lambda>shard meta. upsertEntryLocked shard meta modelKey now)
                   (new_shard modelKey) (map snd (p_creds p)))
      in (shard, p\<lparr>p_modelShards := AList.update modelKey shard (p_modelShards p)\<rparr>))"

subsection \<open>The scheduler\<close>

definition removeLocked :: "auth_scheduler \<Rightarrow> string \<Rightarrow> auth_scheduler" where
  "removeLocked s credID =
     (if credID = [] then s
      else (case map_of (s_credProviders s) credID of
              None \<Rightarrow> s
            | Some providerKey \<Rightarrow>
                if providerKey = [] then s
                else s\<lparr>s_providers :=
                         (case map_of (s_providers s) providerKey of
                            None \<Rightarrow> s_providers s
                          | Some ps \<Rightarrow> AList.update providerKey (ps_removeLocked ps credID) (s_providers s)),
                       s_credProviders := AList.delete credID (s_credProviders s)\<rparr>))"

definition ensureProviderLocked :: "auth_scheduler \<Rightarrow> string \<Rightarrow> provider_scheduler" where
  "ensureProviderLocked s providerKey =
     (case map_of (s_providers s) providerKey of
        Some ps \<Rightarrow> ps
      | None \<Rightarrow> \<lparr>p_providerKey = providerKey, p_creds = [], p_modelShards = []\<rparr>)"

text \<open>A credential that moved to another provider leaves the shards of the previous one.\<close>

definition leaveProvider :: "auth_scheduler \<Rightarrow> string \<Rightarrow> string \<Rightarrow> auth_scheduler" where
  "leaveProvider s credID providerKey =
     (case map_of (s_credProviders s) credID of
        None \<Rightarrow> s
      | Some prev \<Rightarrow>
          if prev \<noteq> [] \<and> prev \<noteq> providerKey then
            (case map_of (s_providers s) prev of
               None \<Rightarrow> s
             | Some ps \<Rightarrow> s\<lparr>s_providers := AList.update prev (ps_removeLocked ps credID) (s_providers s)\<rparr>)
          else s)"

definition provider_key :: "string \<Rightarrow> string" where
  "provider_key provider = ToLower (TrimSpace provider)"

definition upsertLocked :: "auth_scheduler \<Rightarrow> credential \<Rightarrow> gotime \<Rightarrow> auth_scheduler" where
  "upsertLocked s cred now =
     (let credID = TrimSpace (c_ID cred);
          providerKey = provider_key (c_Provider cred)
      in if credID = [] \<or> providerKey = [] \<or> IsDisabled cred then removeLocked s credID
         else
           (let s1 = leaveProvider s credID providerKey;
                meta = \<lparr>sm_cred = cred, sm_priority = credentialPriority (Some cred)\<rparr>;
                ps = ensureProviderLocked s1 providerKey
            in s1\<lparr>s_credProviders := AList.update credID providerKey (s_credProviders s1),
                  s_providers := AList.update providerKey (ps_upsertLocked ps meta now) (s_providers s1)\<rparr>))"

definition sched_setStrategy :: "auth_scheduler \<Rightarrow> strategy \<Rightarrow> auth_scheduler" where
  "sched_setStrategy s strategy = s\<lparr>s_strategy := strategy, s_mixedCursors := []\<rparr>"

definition sched_rebuild :: "auth_scheduler \<Rightarrow> credential list \<Rightarrow> gotime \<Rightarrow> auth_scheduler" where
  "sched_rebuild s creds now =
     foldl (\<lambda>s cred. upsertLocked s cred now)
       (s\<lparr>s_providers := [], s_credProviders := [], s_mixedCursors := []\<rparr>) creds"

definition sched_upsert :: "auth_scheduler \<Rightarrow> credential \<Rightarrow> gotime \<Rightarrow> auth_scheduler" where
  "sched_upsert s cred now = upsertLocked s cred now"

definition sched_remove :: "auth_scheduler \<Rightarrow> string \<Rightarrow> auth_scheduler" where
  "sched_remove s credID =
     (let credID = TrimSpace credID in if credID = [] then s else removeLocked s credID)"

definition not_tried :: "string list \<Rightarrow> cred_pred" where
  "not_tried tried cred \<longleftrightarrow> \<not> List.member tried (c_ID cred)"

text \<open>\<open>pick\<close> reads the clock three times: in \<open>ensureModelLocked\<close>, in \<open>pickReadyLocked\<close> and
  in \<open>unavailableErrorLocked\<close>.\<close>

definition sched_pick ::
    "auth_scheduler \<Rightarrow> string \<Rightarrow> string \<Rightarrow> string list \<Rightarrow> gotime \<Rightarrow> gotime \<Rightarrow> gotime \<Rightarrow>
     (pick_error + credential) \<times> auth_scheduler" where
  "sched_pick s provider model tried now1 now2 now3 =
     (let providerKey = provider_key provider;
          modelKey = canonicalModelKey model
      in (case map_of (s_providers s) providerKey of
            None \<Rightarrow> (Inl (CredentialError (cred_err ''credential_not_found'')), s)
          | Some ps \<Rightarrow>
              (case ensureModelLocked ps modelKey now1 of
                 (shard, ps1) \<Rightarrow>
                   (case pickReadyLocked shard (s_strategy s) (not_tried tried) now2 of
                      (picked, shard2) \<Rightarrow>
                        (case picked of
                           Some cred \<Rightarrow> Inr cred
                         | None \<Rightarrow> Inl (unavailableErrorLocked shard2 provider model (not_tried tried) now3),
                         s\<lparr>s_providers := AList.update providerKey
                             (ps1\<lparr>p_modelShards := AList.update (canonicalModelKey modelKey) shard2
                                                     (p_modelShards ps1)\<rparr>) (s_providers s)\<rparr>)))))"

end
