(* ===== verification/Scheduler_Inv.thy ===== *)
theory Scheduler_Inv
  imports Auth_Scheduler "HOL-Library.Multiset"
begin

text \<open>
  The invariant of the scheduler and its preservation by every operation: the buckets and the
  blocked list of a shard are exactly the index of its entries, every entry carries the
  classification of its credential at some instant not later than \<open>T\<close>, every shard holds the
  credentials of its provider, and every credential belongs to one provider.  Read through
  \<open>sched_creds\<close> the scheduler is a finite map from identifiers to credentials; the locale
  \<open>credential_index\<close> is that view.
\<close>

subsection \<open>The invariant\<close>

definition ready_ids :: "(string, scheduled_cred) gomap \<Rightarrow> int \<Rightarrow> string set" where
  "ready_ids entries p =
     {k. \<exists>e. map_of entries k = Some e \<and> se_state e = SchedReady \<and> entry_priority e = p}"

definition blocked_ids :: "(string, scheduled_cred) gomap \<Rightarrow> string set" where
  "blocked_ids entries =
     {k. \<exists>e. map_of entries k = Some e \<and> se_state e \<in> {SchedCooldown, SchedBlocked}}"

definition entries_ok :: "(string, scheduled_cred) gomap \<Rightarrow> bool" where
  "entries_ok entries \<longleftrightarrow> gomap_ok entries \<and>
     (\<forall>k e. map_of entries k = Some e \<longrightarrow> c_ID (se_cred e) = k \<and> sm_cred (se_meta e) = se_cred e)"

definition index_ok :: "model_scheduler \<Rightarrow> bool" where
  "index_ok m \<longleftrightarrow>
     sorted_wrt (>) (m_priorityOrder m) \<and>
     (\<forall>p. p \<in> set (m_priorityOrder m) \<longleftrightarrow> ready_ids (m_entries m) p \<noteq> {}) \<and>
     (\<forall>p. map_option (\<lambda>b. map c_ID (rb_creds b)) (map_of (m_readyByPriority m) p) =
        (if ready_ids (m_entries m) p = {} then None
         else Some (sorted_list_of_set (ready_ids (m_entries m) p)))) \<and>
     set (m_blocked m) = blocked_ids (m_entries m)"

definition class_ok :: "gotime \<Rightarrow> model_scheduler \<Rightarrow> bool" where
  "class_ok T m \<longleftrightarrow>
     (\<forall>k e. map_of (m_entries m) k = Some e \<longrightarrow>
        (\<exists>t\<le>T. classify (se_cred e) (m_modelKey m) t = (se_state e, se_nextRetryAt e)))"

definition shard_inv ::
    "gotime \<Rightarrow> string \<Rightarrow> (string, sched_meta) gomap \<Rightarrow> model_scheduler \<Rightarrow> bool" where
  "shard_inv T modelKey creds m \<longleftrightarrow>
     m_modelKey m = modelKey \<and> entries_ok (m_entries m) \<and> index_ok m \<and> class_ok T m \<and>
     (\<forall>k. map_option se_meta (map_of (m_entries m) k) = map_of creds k)"

definition meta_ok :: "string \<Rightarrow> string \<Rightarrow> sched_meta \<Rightarrow> bool" where
  "meta_ok key k meta \<longleftrightarrow>
     c_ID (sm_cred meta) = k \<and> k \<noteq> [] \<and> TrimSpace k = k \<and> \<not> IsDisabled (sm_cred meta) \<and>
     provider_key (c_Provider (sm_cred meta)) = key \<and> sm_priority meta = Priority (sm_cred meta)"

definition provider_inv :: "gotime \<Rightarrow> string \<Rightarrow> provider_scheduler \<Rightarrow> bool" where
  "provider_inv T key ps \<longleftrightarrow>
     p_providerKey ps = key \<and> gomap_ok (p_creds ps) \<and>
     (\<forall>k meta. map_of (p_creds ps) k = Some meta \<longrightarrow> meta_ok key k meta) \<and>
     (\<forall>modelKey m. map_of (p_modelShards ps) modelKey = Some m \<longrightarrow>
        shard_inv T modelKey (p_creds ps) m)"

definition sched_inv :: "gotime \<Rightarrow> auth_scheduler \<Rightarrow> bool" where
  "sched_inv T s \<longleftrightarrow>
     (\<forall>key ps. map_of (s_providers s) key = Some ps \<longrightarrow> key \<noteq> [] \<and> provider_inv T key ps) \<and>
     (\<forall>k key. map_of (s_credProviders s) k = Some key \<longleftrightarrow>
        (\<exists>ps. map_of (s_providers s) key = Some ps \<and> map_of (p_creds ps) k \<noteq> None))"

text \<open>The abstraction: the credential registered under an identifier.\<close>

definition sched_creds :: "auth_scheduler \<Rightarrow> string \<rightharpoonup> credential" where
  "sched_creds s k =
     Option.bind (map_of (s_credProviders s) k) (\<lambda>key.
       Option.bind (map_of (s_providers s) key) (\<lambda>ps.
         map_option sm_cred (map_of (p_creds ps) k)))"

subsection \<open>Rebuilding the index\<close>

lemma entries_okD:
  "entries_ok entries \<Longrightarrow> gomap_ok entries"
  "entries_ok entries \<Longrightarrow> map_of entries k = Some e \<Longrightarrow> c_ID (se_cred e) = k"
  "entries_ok entries \<Longrightarrow> map_of entries k = Some e \<Longrightarrow> sm_cred (se_meta e) = se_cred e"
  by (auto simp: entries_ok_def)

lemma ids_of_filtered:
  assumes "\<forall>(k, e)\<in>set entries. c_ID (se_cred e) = k"
  shows "map (\<lambda>e. c_ID (se_cred e)) (filter P (map snd entries)) = map fst (filter (\<lambda>(k, e). P e) entries)"
  using assms by (induction entries) auto

lemma map_sort_key_id: "map f (sort_key f xs) = sort (map f xs)"
  by (rule properties_for_sort [symmetric]) simp_all

lemma ready_at_ids:
  assumes "entries_ok entries"
  shows "map c_ID (map se_cred (sort_key (\<lambda>e. c_ID (se_cred e)) (ready_at entries p))) =
         sorted_list_of_set (ready_ids entries p)"
proof -
  let ?P = "\<lambda>e. se_state e = SchedReady \<and> entry_priority e = p"
  let ?ids = "map fst (filter (\<lambda>(k, e). ?P e) entries)"
  have all: "\<forall>(k, e)\<in>set entries. c_ID (se_cred e) = k"
    using assms by (auto simp: entries_ok_def)
  have "map c_ID (map se_cred (sort_key (\<lambda>e. c_ID (se_cred e)) (ready_at entries p))) =
        sort (map (\<lambda>e. c_ID (se_cred e)) (ready_at entries p))"
    using map_sort_key_id [of "\<lambda>e. c_ID (se_cred e)"] by (simp add: comp_def)
  also have "\<dots> = sort ?ids"
    using ids_of_filtered [OF all, of ?P] by (simp add: ready_at_def)
  also have "\<dots> = sorted_list_of_set (ready_ids entries p)"
  proof (rule sorted_distinct_set_unique)
    show "distinct (sort ?ids)"
      using entries_okD(1) [OF assms] by (simp add: distinct_map_filter)
    have eq: "set ?ids = ready_ids entries p"
      by (force simp: ready_ids_def gomap_ok_mem [OF entries_okD(1) [OF assms], symmetric])
    then have "finite (ready_ids entries p)" by (metis List.finite_set)
    with eq show "set (sort ?ids) = set (sorted_list_of_set (ready_ids entries p))" by simp
  qed simp_all
  finally show ?thesis .
qed

lemma ready_ids_ready_list:
  assumes "gomap_ok entries"
  shows "ready_ids entries p \<noteq> {} \<longleftrightarrow>
         p \<in> entry_priority ` set (filter (\<lambda>e. se_state e = SchedReady) (map snd entries))"
  by (force simp: ready_ids_def gomap_ok_mem [OF assms, symmetric])

lemma sorted_wrt_rev_sort: "distinct (xs :: int list) \<Longrightarrow> sorted_wrt (>) (rev (sort xs))"
  by (simp add: sorted_wrt_rev strict_sorted_iff flip: strict_sorted_iff)
     (simp add: strict_sorted_iff)

lemma rebuild_entries [simp]:
  "m_entries (rebuildIndexesLocked m) = m_entries m"
  "m_modelKey (rebuildIndexesLocked m) = m_modelKey m"
  by (simp_all add: rebuildIndexesLocked_def Let_def)

lemma rebuild_index_ok:
  assumes "entries_ok (m_entries m)"
  shows "index_ok (rebuildIndexesLocked m)"
proof -
  let ?ready = "filter (\<lambda>e. se_state e = SchedReady) (map snd (m_entries m))"
  let ?order = "rev (sort (remdups (map entry_priority ?ready)))"
  have ok: "gomap_ok (m_entries m)" using assms by (rule entries_okD)
  have order: "p \<in> set ?order \<longleftrightarrow> ready_ids (m_entries m) p \<noteq> {}" for p
    using ready_ids_ready_list [OF ok] by simp
  have bucket: "map_of (map (\<lambda>p. (p, f p)) ps) p = (if p \<in> set ps then Some (f p) else None)"
    for f :: "int \<Rightarrow> ready_bucket" and ps p
    by (induction ps) auto
  have blocked: "fst ` set (blocked_entries (m_entries m)) = blocked_ids (m_entries m)"
    by (force simp: blocked_entries_def blocked_ids_def gomap_ok_mem [OF ok, symmetric])
  show ?thesis
    using order ready_at_ids [OF assms]
    by (auto simp: index_ok_def rebuildIndexesLocked_def Let_def bucket blocked sorted_wrt_rev_sort)
qed

subsection \<open>Operations on a shard\<close>

lemma classify_later:
  "classify c model t = (SchedReady, zero_time) \<Longrightarrow> t \<le> t' \<Longrightarrow>
   classify c model t' = (SchedReady, zero_time)"
  by (auto simp: classify_def isCredentialBlockedForModel_def
      split: if_splits option.splits)

lemma classify_ready_zero: "classify c model t = (SchedReady, n) \<Longrightarrow> n = zero_time"
  by (auto simp: classify_def split: prod.splits if_splits)

lemma classify_ready_iff:
  "fst (classify c model t) = SchedReady \<longleftrightarrow> \<not> fst (isCredentialBlockedForModel (Some c) model t)"
  by (auto simp: classify_def split: prod.splits if_splits)

lemma class_ok_mono: "class_ok T m \<Longrightarrow> T \<le> T' \<Longrightarrow> class_ok T' m"
  unfolding class_ok_def by (meson order_trans)

lemma shard_inv_mono: "shard_inv T k creds m \<Longrightarrow> T \<le> T' \<Longrightarrow> shard_inv T' k creds m"
  by (auto simp: shard_inv_def intro: class_ok_mono)

lemma shard_inv_new: "shard_inv T k [] (new_shard k)"
  by (simp add: shard_inv_def new_shard_def entries_ok_def index_ok_def class_ok_def ready_ids_def
      blocked_ids_def)

lemma index_ok_cong:
  assumes "index_ok m"
    and "m_priorityOrder m' = m_priorityOrder m" and "m_blocked m' = m_blocked m"
    and "m_readyByPriority m' = m_readyByPriority m"
    and "ready_ids (m_entries m') = ready_ids (m_entries m)"
    and "blocked_ids (m_entries m') = blocked_ids (m_entries m)"
  shows "index_ok m'"
  using assms by (simp add: index_ok_def)

lemma shard_inv_rebuild:
  assumes "m_modelKey m = k" and "entries_ok (m_entries m)" and "class_ok T m"
    and "\<And>i. map_option se_meta (map_of (m_entries m) i) = map_of creds i"
  shows "shard_inv T k creds (rebuildIndexesLocked m)"
  using assms rebuild_index_ok by (simp add: shard_inv_def class_ok_def)

lemma upsertEntry_inv:
  assumes inv: "shard_inv T k creds m" and T: "T \<le> now"
  shows "shard_inv now k (AList.update (c_ID (sm_cred meta)) meta creds) (upsertEntryLocked m meta k now)"
proof -
  let ?id = "c_ID (sm_cred meta)"
  obtain st nx where cl: "classify (sm_cred meta) k now = (st, nx)" by fastforce
  define e where "e = \<lparr>se_meta = meta, se_cred = sm_cred meta, se_state = st, se_nextRetryAt = nx\<rparr>"
  define m' where "m' = m\<lparr>m_entries := AList.update ?id e (m_entries m)\<rparr>"
  have m: "m_modelKey m = k" "entries_ok (m_entries m)" "index_ok m" "class_ok now m"
    and agree: "map_option se_meta (map_of (m_entries m) i) = map_of creds i" for i
    using shard_inv_mono [OF inv T] by (auto simp: shard_inv_def)
  have m': "m_modelKey m' = k" "entries_ok (m_entries m')" "class_ok now m'"
      "map_option se_meta (map_of (m_entries m') i) = map_of (AList.update ?id meta creds) i" for i
    using m agree cl by (auto simp: m'_def e_def entries_ok_def class_ok_def)
  then have re: "shard_inv now k (AList.update ?id meta creds) (rebuildIndexesLocked m')"
    by (intro shard_inv_rebuild)
  have keep: "shard_inv now k (AList.update ?id meta creds) m'"
    if "map_of (m_entries m) ?id = Some d" "se_state d = st" "entry_priority d = sm_priority meta" for d
  proof -
    have "ready_ids (m_entries m') = ready_ids (m_entries m)"
         "blocked_ids (m_entries m') = blocked_ids (m_entries m)"
      using that by (auto simp: fun_eq_iff ready_ids_def blocked_ids_def m'_def e_def entry_priority_def)
    then have "index_ok m'" by (intro index_ok_cong [OF m(3)]) (simp_all add: m'_def)
    with m' show ?thesis by (simp add: shard_inv_def)
  qed
  have "upsertEntryLocked m meta k now =
      (case map_of (m_entries m) ?id of
         Some d \<Rightarrow> if se_state d = st \<and> se_nextRetryAt d = nx \<and> entry_priority d = sm_priority meta
                   then m' else rebuildIndexesLocked m'
       | None \<Rightarrow> rebuildIndexesLocked m')"
    unfolding upsertEntryLocked_def Let_def cl m'_def e_def by simp
  with re keep show ?thesis by (auto split: option.splits)
qed

lemma removeEntry_inv:
  assumes "shard_inv T k creds m" and "i \<noteq> []"
  shows "shard_inv T k (AList.delete i creds) (removeEntryLocked m i)"
proof (cases "map_of (m_entries m) i")
  case None
  with assms have "map_of creds i = None" by (metis option.map_disc_iff shard_inv_def)
  then have "map_of (AList.delete i creds) = map_of creds" by (auto simp: fun_eq_iff)
  with None assms show ?thesis by (simp add: removeEntryLocked_def shard_inv_def)
next
  case (Some e)
  with assms have "removeEntryLocked m i = rebuildIndexesLocked (m\<lparr>m_entries := AList.delete i (m_entries m)\<rparr>)"
    by (simp add: removeEntryLocked_def)
  moreover have "shard_inv T k (AList.delete i creds) (rebuildIndexesLocked (m\<lparr>m_entries := AList.delete i (m_entries m)\<rparr>))"
    using assms(1) by (intro shard_inv_rebuild) (auto simp: shard_inv_def entries_ok_def class_ok_def)
  ultimately show ?thesis by simp
qed

lemma promote_entry_keeps [simp]:
  "se_cred (promote_entry m now k e) = se_cred e" "se_meta (promote_entry m now k e) = se_meta e"
  by (auto simp: promote_entry_def split: prod.splits)

lemma promote_entry_class:
  assumes "\<exists>t\<le>now. classify (se_cred e) (m_modelKey m) t = (se_state e, se_nextRetryAt e)"
  shows "\<exists>t\<le>now. classify (se_cred e) (m_modelKey m) t =
           (se_state (promote_entry m now k e), se_nextRetryAt (promote_entry m now k e))"
proof (cases "expired m now k e")
  case True
  then have "classify (se_cred e) (m_modelKey m) now =
      (se_state (promote_entry m now k e), se_nextRetryAt (promote_entry m now k e))"
    by (auto simp: promote_entry_def split: prod.splits)
  then show ?thesis by blast
next
  case False
  with assms show ?thesis by (simp add: promote_entry_def)
qed

lemma promote_inv:
  assumes inv: "shard_inv T k creds m" and "T \<le> now"
  shows "shard_inv now k creds (promoteExpiredLocked m now)"
proof -
  let ?m = "m\<lparr>m_entries := map (\<lambda>(k, e). (k, promote_entry m now k e)) (m_entries m)\<rparr>"
  have m: "m_modelKey m = k" "entries_ok (m_entries m)" "class_ok now m"
    and agree: "map_option se_meta (map_of (m_entries m) i) = map_of creds i" for i
    using shard_inv_mono [OF assms] by (auto simp: shard_inv_def)
  have "class_ok now ?m"
    using m(3) by (auto simp: class_ok_def gomap_simps intro!: promote_entry_class)
  moreover have "entries_ok (m_entries ?m)"
    using m by (auto simp: entries_ok_def gomap_simps)
  ultimately have "shard_inv now k creds (rebuildIndexesLocked ?m)"
    using m agree by (intro shard_inv_rebuild) (auto simp: gomap_simps option.map_comp comp_def)
  with shard_inv_mono [OF assms] show ?thesis by (simp add: promoteExpiredLocked_def)
qed

subsection \<open>Picking from a shard\<close>

definition matches :: "model_scheduler \<Rightarrow> cred_pred \<Rightarrow> int \<Rightarrow> bool" where
  "matches m predicate p \<longleftrightarrow>
     (\<exists>bucket. map_of (m_readyByPriority m) p = Some bucket \<and> hasMatch bucket predicate)"

lemma bestPriority_None:
  "bestPriority m predicate best ps = None \<longleftrightarrow> best = None \<and> (\<forall>p\<in>set ps. \<not> matches m predicate p)"
  by (induction ps arbitrary: best) (auto simp: matches_def split: option.splits)

lemma bestPriority_upper:
  assumes "bestPriority m predicate best ps = Some r"
  shows "(\<forall>b. best = Some b \<longrightarrow> b \<le> r) \<and> (\<forall>p\<in>set ps. matches m predicate p \<longrightarrow> p \<le> r)"
  using assms
proof (induction ps arbitrary: best)
  case Nil
  then show ?case by simp
next
  case (Cons p ps)
  define best' where "best' = (case map_of (m_readyByPriority m) p of
          None \<Rightarrow> best
        | Some bucket \<Rightarrow>
            if hasMatch bucket predicate then
              (case best of None \<Rightarrow> Some p | Some q \<Rightarrow> if p > q then Some p else Some q)
            else best)"
  from Cons.prems have "bestPriority m predicate best' ps = Some r" by (simp add: best'_def)
  from Cons.IH [OF this] have IH: "\<forall>b. best' = Some b \<longrightarrow> b \<le> r"
    "\<forall>q\<in>set ps. matches m predicate q \<longrightarrow> q \<le> r" by auto
  from IH(1) have "\<forall>b. best = Some b \<longrightarrow> b \<le> r" and "matches m predicate p \<longrightarrow> p \<le> r"
    by (auto simp: best'_def matches_def split: option.splits if_splits)
  with IH(2) show ?case by simp
qed

lemma bestPriority_member:
  "bestPriority m predicate best ps = Some r \<Longrightarrow>
   best = Some r \<or> (r \<in> set ps \<and> matches m predicate r)"
proof (induction ps arbitrary: best)
  case (Cons p ps)
  from Cons.IH [OF Cons.prems [unfolded bestPriority.simps]] show ?case
    by (auto simp: matches_def split: option.splits if_splits)
qed simp

lemma index_bucket:
  assumes "index_ok m" and "map_of (m_readyByPriority m) p = Some b"
  shows "set (map c_ID (rb_creds b)) = ready_ids (m_entries m) p"
proof -
  from assms have b: "map c_ID (rb_creds b) = sorted_list_of_set (ready_ids (m_entries m) p)"
    by (auto simp: index_ok_def split: if_splits dest!: spec [of _ p])
  have "finite (ready_ids (m_entries m) p)"
    by (rule finite_subset [OF _ finite_dom_map_of [of "m_entries m"]]) (auto simp: ready_ids_def)
  with b show ?thesis by simp
qed

lemma matches_not_tried:
  assumes "index_ok m"
  shows "matches m (not_tried tried) p \<longleftrightarrow> (\<exists>k\<in>ready_ids (m_entries m) p. k \<notin> set tried)"
proof
  assume "matches m (not_tried tried) p"
  then obtain b c where "map_of (m_readyByPriority m) p = Some b" "c \<in> set (rb_creds b)" "c_ID c \<notin> set tried"
    by (auto simp: matches_def hasMatch_def not_tried_def list_ex_iff)
  with index_bucket [OF assms] show "\<exists>k\<in>ready_ids (m_entries m) p. k \<notin> set tried" by force
next
  assume "\<exists>k\<in>ready_ids (m_entries m) p. k \<notin> set tried"
  then obtain k where k: "k \<in> ready_ids (m_entries m) p" "k \<notin> set tried" by blast
  then have "ready_ids (m_entries m) p \<noteq> {}" by blast
  with assms obtain b where b: "map_of (m_readyByPriority m) p = Some b"
    by (auto simp: index_ok_def split: if_splits dest!: spec [of _ p])
  from index_bucket [OF assms b] k(1) have "k \<in> c_ID ` set (rb_creds b)" by simp
  then obtain c where "c \<in> set (rb_creds b)" "c_ID c = k" by blast
  with b k(2) show "matches m (not_tried tried) p"
    by (auto simp: matches_def hasMatch_def not_tried_def list_ex_iff)
qed

context bucket_strategy
begin

lemma pickReady_cases:
  fixes m now predicate
  defines "m' \<equiv> promoteExpiredLocked m now"
  obtains (none) "bestPriority m' predicate None (m_priorityOrder m') = None"
      "pickReadyLocked m pick_from_bucket predicate now = (None, m')"
  | (some) p b c b' where "bestPriority m' predicate None (m_priorityOrder m') = Some p"
      "map_of (m_readyByPriority m') p = Some b" "pick_from_bucket b predicate = (Some c, b')"
      "pickReadyLocked m pick_from_bucket predicate now =
         (Some c, m'\<lparr>m_readyByPriority := AList.update p b' (m_readyByPriority m')\<rparr>)"
proof (cases "bestPriority m' predicate None (m_priorityOrder m')")
  case None
  then show ?thesis by (intro none) (simp_all add: pickReadyLocked_def Let_def m'_def)
next
  case (Some p)
  from bestPriority_member [OF Some] obtain b where b: "map_of (m_readyByPriority m') p = Some b"
    and "hasMatch b predicate" by (auto simp: matches_def)
  then obtain c where "c \<in> set (rb_creds b)" "predicate c" by (auto simp: hasMatch_def list_ex_iff)
  then have "fst (pick_from_bucket b predicate) \<noteq> None" by (rule pick_complete)
  then obtain d b' where "pick_from_bucket b predicate = (Some d, b')"
    by (metis not_None_eq prod.collapse)
  with Some b show ?thesis
    by (intro some [of p b d b']) (simp_all add: pickReadyLocked_def Let_def m'_def)
qed

lemma pickReady_inv:
  assumes "shard_inv T k creds m" and "T \<le> now"
  shows "shard_inv now k creds (snd (pickReadyLocked m pick_from_bucket predicate now))"
proof (cases rule: pickReady_cases [of m now predicate])
  case none
  with promote_inv [OF assms] show ?thesis by simp
next
  case (some p b c b')
  let ?m = "promoteExpiredLocked m now"
  have "rb_creds b' = rb_creds b" using pick_frame [of b predicate] some(3) by simp
  with some(2) have "map_option (\<lambda>b. map c_ID (rb_creds b)) (map_of (AList.update p b' (m_readyByPriority ?m)) q) =
      map_option (\<lambda>b. map c_ID (rb_creds b)) (map_of (m_readyByPriority ?m) q)" for q
    by simp
  with promote_inv [OF assms] some(4) show ?thesis
    by (auto simp: shard_inv_def index_ok_def class_ok_def)
qed

lemma pickReady_keeps:
  "m_entries (snd (pickReadyLocked m pick_from_bucket predicate now)) = m_entries (promoteExpiredLocked m now)"
  by (cases rule: pickReady_cases [of m now predicate]) simp_all

lemma pickReady_None:
  assumes "shard_inv T k creds m" and "T \<le> now"
  shows "fst (pickReadyLocked m pick_from_bucket (not_tried tried) now) = None \<longleftrightarrow>
         (\<forall>p. ready_ids (m_entries (promoteExpiredLocked m now)) p \<subseteq> set tried)"
proof -
  let ?m = "promoteExpiredLocked m now"
  have idx: "index_ok ?m" using promote_inv [OF assms] by (simp add: shard_inv_def)
  have "fst (pickReadyLocked m pick_from_bucket (not_tried tried) now) = None \<longleftrightarrow>
        (\<forall>p\<in>set (m_priorityOrder ?m). \<not> matches ?m (not_tried tried) p)"
    by (cases rule: pickReady_cases [of m now "not_tried tried"])
       (simp_all flip: bestPriority_None [of ?m "not_tried tried" None, simplified])
  also have "\<dots> \<longleftrightarrow> (\<forall>p. ready_ids (m_entries ?m) p \<subseteq> set tried)"
    using idx by (auto simp: matches_not_tried [OF idx] index_ok_def)
  finally show ?thesis .
qed

lemma pickReady_Some:
  assumes "shard_inv T k creds m" and "T \<le> now"
    and picked: "fst (pickReadyLocked m pick_from_bucket (not_tried tried) now) = Some c"
  shows "\<exists>p. c_ID c \<in> ready_ids (m_entries (promoteExpiredLocked m now)) p \<and> c_ID c \<notin> set tried \<and>
           (\<forall>q>p. ready_ids (m_entries (promoteExpiredLocked m now)) q \<subseteq> set tried)"
proof -
  let ?m = "promoteExpiredLocked m now"
  have idx: "index_ok ?m" using promote_inv [OF assms(1,2)] by (simp add: shard_inv_def)
  show ?thesis
  proof (cases rule: pickReady_cases [of m now "not_tried tried"])
    case none
    with picked show ?thesis by simp
  next
    case (some p b d b')
    with picked have d: "d = c" by simp
    from pick_sound [OF some(3)] have c: "c \<in> set (rb_creds b)" "c_ID c \<notin> set tried"
      by (auto simp: d not_tried_def)
    with index_bucket [OF idx some(2)] have "c_ID c \<in> ready_ids (m_entries ?m) p" by auto
    moreover have "ready_ids (m_entries ?m) q \<subseteq> set tried" if "q > p" for q
    proof (rule ccontr)
      assume "\<not> ready_ids (m_entries ?m) q \<subseteq> set tried"
      then have "matches ?m (not_tried tried) q" "q \<in> set (m_priorityOrder ?m)"
        using idx by (auto simp: matches_not_tried [OF idx] index_ok_def)
      with bestPriority_upper [OF some(1)] that show False by auto
    qed
    ultimately show ?thesis using c(2) by blast
  qed
qed

end

end
