(* ===== verification/Scheduler_Spec.thy ===== *)
theory Scheduler_Spec
  imports Scheduler_Inv
begin

text \<open>
  The scheduler as a whole: its operations keep the invariant \<open>sched_inv\<close> and act on the map
  \<open>sched_creds\<close> as an update, a deletion or not at all.  The locale \<open>credential_index\<close> states
  that interface; the manager uses the scheduler through it.
\<close>

subsection \<open>Provider schedulers\<close>

lemma shard_inv_cong:
  "shard_inv T k creds m \<Longrightarrow> map_of creds' = map_of creds \<Longrightarrow> shard_inv T k creds' m"
  by (simp add: shard_inv_def)

lemma provider_inv_mono: "provider_inv T key ps \<Longrightarrow> T \<le> T' \<Longrightarrow> provider_inv T' key ps"
  unfolding provider_inv_def using shard_inv_mono by blast

lemma sched_inv_mono: "sched_inv T s \<Longrightarrow> T \<le> T' \<Longrightarrow> sched_inv T' s"
  unfolding sched_inv_def using provider_inv_mono by blast

lemma provider_inv_empty:
  "provider_inv T key \<lparr>p_providerKey = key, p_creds = [], p_modelShards = []\<rparr>"
  by (simp add: provider_inv_def)

lemma ps_upsert_inv:
  assumes "provider_inv T key ps" and "T \<le> now" and "meta_ok key (c_ID (sm_cred meta)) meta"
  shows "provider_inv now key (ps_upsertLocked ps meta now)"
  using assms upsertEntry_inv [of T _ "p_creds ps" _ now meta]
  by (auto simp: provider_inv_def ps_upsertLocked_def gomap_simps)

lemma ps_remove_inv:
  assumes "provider_inv T key ps" and "i \<noteq> []"
  shows "provider_inv T key (ps_removeLocked ps i)"
  using assms removeEntry_inv [of T _ "p_creds ps" _ i]
  by (auto simp: provider_inv_def ps_removeLocked_def gomap_simps split: if_splits)

lemma upsert_all_inv:
  assumes "shard_inv now k C m"
  shows "shard_inv now k (foldl (\<lambda>C meta. AList.update (c_ID (sm_cred meta)) meta C) C metas)
           (foldl (\<lambda>shard meta. upsertEntryLocked shard meta k now) m metas)"
  using assms
proof (induction metas arbitrary: C m)
  case (Cons meta metas)
  from upsertEntry_inv [OF Cons.prems order_refl] show ?case by (simp add: Cons.IH)
qed simp

lemma map_of_update_all:
  assumes "gomap_ok creds" and "\<And>k meta. (k, meta) \<in> set creds \<Longrightarrow> c_ID (sm_cred meta) = k"
  shows "map_of (foldl (\<lambda>C meta. AList.update (c_ID (sm_cred meta)) meta C) C (map snd creds)) i =
         (case map_of creds i of Some meta \<Rightarrow> Some meta | None \<Rightarrow> map_of C i)"
  using assms
proof (induction creds arbitrary: C)
  case (Cons a creds)
  obtain k meta where a: "a = (k, meta)" by fastforce
  with Cons.prems have k: "c_ID (sm_cred meta) = k" "map_of creds k = None"
    by (auto simp: map_of_eq_None_iff)
  have "map_of (foldl (\<lambda>C meta. AList.update (c_ID (sm_cred meta)) meta C) (AList.update k meta C) (map snd creds)) i =
        (case map_of creds i of Some meta \<Rightarrow> Some meta | None \<Rightarrow> map_of (AList.update k meta C) i)"
    using Cons.prems by (intro Cons.IH) auto
  then show ?case by (simp add: a k split: option.splits)
qed simp

lemma ensureModel_inv:
  assumes inv: "provider_inv T key ps" and "T \<le> now"
    and eq: "ensureModelLocked ps mk now = (shard, ps1)"
  shows "shard_inv now (canonicalModelKey mk) (p_creds ps) shard" and "provider_inv now key ps1"
    and "p_creds ps1 = p_creds ps"
proof -
  let ?k = "canonicalModelKey mk"
  have ps1: "ps1 = ps\<lparr>p_modelShards := AList.update ?k shard (p_modelShards ps)\<rparr>"
    using eq by (auto simp: ensureModelLocked_def Let_def)
  then show "p_creds ps1 = p_creds ps" by simp
  have creds: "gomap_ok (p_creds ps)" "\<And>k meta. (k, meta) \<in> set (p_creds ps) \<Longrightarrow> c_ID (sm_cred meta) = k"
    using inv by (auto simp: provider_inv_def meta_ok_def)
  show shard: "shard_inv now ?k (p_creds ps) shard"
  proof (cases "map_of (p_modelShards ps) ?k")
    case None
    with eq have "shard = foldl (\<lambda>shard meta. upsertEntryLocked shard meta ?k now) (new_shard ?k) (map snd (p_creds ps))"
      by (auto simp: ensureModelLocked_def Let_def)
    then show ?thesis
      using shard_inv_cong [OF upsert_all_inv [OF shard_inv_new, of now ?k "map snd (p_creds ps)"], of "p_creds ps"]
        map_of_update_all [OF creds, of "[]"] by (auto simp: fun_eq_iff split: option.splits)
  next
    case (Some m)
    with eq have "shard = promoteExpiredLocked m now" by (auto simp: ensureModelLocked_def Let_def)
    moreover have "shard_inv T ?k (p_creds ps) m" using inv Some by (simp add: provider_inv_def)
    ultimately show ?thesis using promote_inv assms(2) by blast
  qed
  from provider_inv_mono [OF inv assms(2)] shard show "provider_inv now key ps1"
    by (auto simp: ps1 provider_inv_def)
qed

subsection \<open>Scheduler operations\<close>

lemma sched_inv_new: "sched_inv T (newAuthScheduler strategy)"
  by (simp add: sched_inv_def newAuthScheduler_def)

lemma sched_invD:
  assumes "sched_inv T s"
  shows "map_of (s_providers s) key = Some ps \<Longrightarrow> key \<noteq> [] \<and> provider_inv T key ps"
    and "map_of (s_credProviders s) k = Some key \<longleftrightarrow>
         (\<exists>ps. map_of (s_providers s) key = Some ps \<and> map_of (p_creds ps) k \<noteq> None)"
  using assms by (auto simp: sched_inv_def)

lemma sched_metaD:
  assumes "sched_inv T s" and "map_of (s_providers s) key = Some ps" and "map_of (p_creds ps) k = Some meta"
  shows "meta_ok key k meta"
  using sched_invD(1) [OF assms(1,2)] assms(3) unfolding provider_inv_def by blast

lemma sched_creds_eq:
  assumes "sched_inv T s" and "map_of (s_providers s) key = Some ps" and "map_of (p_creds ps) k = Some meta"
  shows "sched_creds s k = Some (sm_cred meta)"
proof -
  have "map_of (s_credProviders s) k = Some key" using assms sched_invD(2) by blast
  with assms(2,3) show ?thesis by (simp add: sched_creds_def)
qed

lemma sched_creds_Some:
  assumes "sched_inv T s"
  shows "sched_creds s k = Some c \<longleftrightarrow>
    (\<exists>key ps meta. map_of (s_providers s) key = Some ps \<and> map_of (p_creds ps) k = Some meta \<and> sm_cred meta = c)"
proof
  assume "sched_creds s k = Some c"
  then show "\<exists>key ps meta. map_of (s_providers s) key = Some ps \<and> map_of (p_creds ps) k = Some meta \<and> sm_cred meta = c"
    by (auto simp: sched_creds_def bind_eq_Some_conv)
qed (use sched_creds_eq [OF assms] in blast)

lemma ps_remove_creds [simp]:
  "map_of (p_creds (ps_removeLocked ps i)) k = (if i \<noteq> [] \<and> k = i then None else map_of (p_creds ps) k)"
  by (simp add: ps_removeLocked_def)

lemma ps_upsert_creds [simp]:
  "map_of (p_creds (ps_upsertLocked ps meta now)) k =
     (if k = c_ID (sm_cred meta) then Some meta else map_of (p_creds ps) k)"
  by (simp add: ps_upsertLocked_def)

lemma removeLocked_inv:
  assumes inv: "sched_inv T s"
  shows "sched_inv T (removeLocked s i)"
    and "i \<noteq> [] \<Longrightarrow> sched_creds (removeLocked s i) = (sched_creds s)(i := None)"
proof -
  have "sched_inv T (removeLocked s i) \<and> (i \<noteq> [] \<longrightarrow> sched_creds (removeLocked s i) = (sched_creds s)(i := None))"
  proof (cases "i = [] \<or> map_of (s_credProviders s) i = None")
    case True
    then have "removeLocked s i = s" by (auto simp: removeLocked_def)
    with True inv show ?thesis by (auto simp: fun_eq_iff sched_creds_def)
  next
    case False
    then obtain key where key: "map_of (s_credProviders s) i = Some key" and i: "i \<noteq> []" by auto
    with sched_invD [OF inv] obtain ps where ps: "map_of (s_providers s) key = Some ps"
      and kn: "key \<noteq> []" and pi: "provider_inv T key ps" by blast
    have eq: "removeLocked s i =
        s\<lparr>s_providers := AList.update key (ps_removeLocked ps i) (s_providers s),
          s_credProviders := AList.delete i (s_credProviders s)\<rparr>"
      using i key kn ps by (simp add: removeLocked_def)
    have only: "map_of (s_providers s) key' = Some ps' \<Longrightarrow> key' \<noteq> key \<Longrightarrow> map_of (p_creds ps') i = None"
      for key' ps' using sched_invD(2) [OF inv] key by (metis option.inject)
    have "sched_inv T (removeLocked s i)"
      unfolding eq sched_inv_def
      using sched_invD [OF inv] ps kn ps_remove_inv [OF pi i] only i by auto
    moreover have "sched_creds (removeLocked s i) = (sched_creds s)(i := None)"
      unfolding eq using ps by (auto simp: fun_eq_iff sched_creds_def bind_eq_None_conv
          split: bind_splits option.splits if_splits)
    ultimately show ?thesis by simp
  qed
  then show "sched_inv T (removeLocked s i)"
    and "i \<noteq> [] \<Longrightarrow> sched_creds (removeLocked s i) = (sched_creds s)(i := None)" by auto
qed

text \<open>Entering a credential into its provider, once it is in no other one.\<close>

lemma enter_provider:
  assumes inv: "sched_inv T s" and T: "T \<le> now" and meta: "meta_ok key i meta" and key: "key \<noteq> []"
    and free: "\<And>key'. map_of (s_credProviders s) i = Some key' \<Longrightarrow> key' = key"
    and r1: "map_of (s_credProviders r) = (map_of (s_credProviders s))(i \<mapsto> key)"
    and r2: "s_providers r = AList.update key (ps_upsertLocked (ensureProviderLocked s key) meta now) (s_providers s)"
  shows "sched_inv now r" and "sched_creds r = (sched_creds s)(i \<mapsto> sm_cred meta)"
proof -
  let ?ps = "ensureProviderLocked s key"
  note D = sched_invD [OF sched_inv_mono [OF inv T]]
  have id: "c_ID (sm_cred meta) = i" using meta by (simp add: meta_ok_def)
  have ps: "provider_inv now key ?ps"
    using D(1) provider_inv_empty by (auto simp: ensureProviderLocked_def split: option.splits)
  have pu: "provider_inv now key (ps_upsertLocked ?ps meta now)"
    by (rule ps_upsert_inv [OF ps]) (simp_all add: id meta)
  have own: "map_of (p_creds ?ps) k \<noteq> None \<longleftrightarrow> map_of (s_credProviders s) k = Some key" for k
    using D(2) by (auto simp: ensureProviderLocked_def split: option.splits)
  have other: "map_of (s_providers s) key' = Some ps' \<Longrightarrow> key' \<noteq> key \<Longrightarrow> map_of (p_creds ps') i = None"
    for key' ps' using D(2) free by (metis not_None_eq)
  show "sched_inv now r"
    unfolding sched_inv_def
  proof (intro conjI allI)
    fix key' ps' show "map_of (s_providers r) key' = Some ps' \<longrightarrow> key' \<noteq> [] \<and> provider_inv now key' ps'"
      using D(1) pu key by (auto simp: r2)
  next
    fix k key'
    show "map_of (s_credProviders r) k = Some key' \<longleftrightarrow>
          (\<exists>ps. map_of (s_providers r) key' = Some ps \<and> map_of (p_creds ps) k \<noteq> None)"
    proof (cases "key' = key")
      case True
      with own [of k] show ?thesis by (simp add: r1 r2 id)
    next
      case False
      with D(2) [of k key'] other [of key'] show ?thesis by (auto simp: r1 r2)
    qed
  qed
  show "sched_creds r = (sched_creds s)(i \<mapsto> sm_cred meta)"
  proof
    fix k
    show "sched_creds r k = ((sched_creds s)(i \<mapsto> sm_cred meta)) k"
    proof (cases "map_of (s_credProviders s) k")
      case None
      then show ?thesis by (simp add: sched_creds_def r1 r2 id)
    next
      case (Some key')
      then obtain ps' where "map_of (s_providers s) key' = Some ps'" using D(2) by blast
      with Some show ?thesis by (auto simp: sched_creds_def r1 r2 id ensureProviderLocked_def)
    qed
  qed
qed

definition schedulable :: "credential \<Rightarrow> bool" where
  "schedulable cred \<longleftrightarrow> c_ID cred \<noteq> [] \<and> provider_key (c_Provider cred) \<noteq> [] \<and> \<not> IsDisabled cred"

lemma sched_creds_Nil: "sched_inv T s \<Longrightarrow> sched_creds s [] = None"
proof (rule ccontr)
  assume inv: "sched_inv T s" and "sched_creds s [] \<noteq> None"
  then obtain key ps meta where "map_of (s_providers s) key = Some ps" "map_of (p_creds ps) [] = Some meta"
    using sched_creds_Some by blast
  with sched_metaD [OF inv] show False by (auto simp: meta_ok_def)
qed

lemma leaveProvider_eq:
  assumes inv: "sched_inv T s" and "i \<noteq> []" and "map_of (s_credProviders s) i = Some prev" and "prev \<noteq> key"
  shows "s_providers (leaveProvider s i key) = s_providers (removeLocked s i)"
    and "s_credProviders (leaveProvider s i key) = s_credProviders s"
    and "map_of (s_credProviders (removeLocked s i)) = (map_of (s_credProviders s))(i := None)"
proof -
  from assms(3) obtain ps where ps: "map_of (s_providers s) prev = Some ps"
    using sched_invD(2) [OF inv] by blast
  moreover from ps have "prev \<noteq> []" using sched_invD(1) [OF inv] by blast
  ultimately show "s_providers (leaveProvider s i key) = s_providers (removeLocked s i)"
    and "s_credProviders (leaveProvider s i key) = s_credProviders s"
    and "map_of (s_credProviders (removeLocked s i)) = (map_of (s_credProviders s))(i := None)"
    using assms by (auto simp: leaveProvider_def removeLocked_def)
qed

lemma upsertLocked_inv:
  assumes inv: "sched_inv T s" and T: "T \<le> now" and trim: "TrimSpace (c_ID cred) = c_ID cred"
  shows "sched_inv now (upsertLocked s cred now)"
    and "sched_creds (upsertLocked s cred now) =
         (sched_creds s)(c_ID cred := (if schedulable cred then Some cred else None))"
proof -
  let ?i = "c_ID cred" and ?key = "provider_key (c_Provider cred)"
  let ?meta = "\<lparr>sm_cred = cred, sm_priority = credentialPriority (Some cred)\<rparr>"
  let ?goal = "sched_inv now (upsertLocked s cred now) \<and>
     sched_creds (upsertLocked s cred now) = (sched_creds s)(?i := (if schedulable cred then Some cred else None))"
  have ?goal
  proof (cases "schedulable cred")
    case False
    then have eq: "upsertLocked s cred now = removeLocked s ?i"
      by (auto simp: upsertLocked_def schedulable_def trim)
    have "sched_creds (removeLocked s ?i) = (sched_creds s)(?i := None)"
    proof (cases "?i = []")
      case True
      then show ?thesis using sched_creds_Nil [OF inv] by (auto simp: removeLocked_def fun_eq_iff)
    qed (use removeLocked_inv(2) [OF inv] in blast)
    with False eq removeLocked_inv(1) [OF sched_inv_mono [OF inv T]] show ?thesis by simp
  next
    case True
    then have k: "?i \<noteq> []" "?key \<noteq> []" "\<not> IsDisabled cred" by (auto simp: schedulable_def)
    have meta: "meta_ok ?key ?i ?meta"
      using k trim by (simp add: meta_ok_def credentialPriority_def)
    have eq: "upsertLocked s cred now =
        (let s1 = leaveProvider s ?i ?key
         in s1\<lparr>s_credProviders := AList.update ?i ?key (s_credProviders s1),
               s_providers := AList.update ?key (ps_upsertLocked (ensureProviderLocked s1 ?key) ?meta now) (s_providers s1)\<rparr>)"
      using k by (simp add: upsertLocked_def trim Let_def)
    show ?thesis
    proof (cases "\<exists>prev. map_of (s_credProviders s) ?i = Some prev \<and> prev \<noteq> ?key")
      case moved: True
      then obtain prev where prev: "map_of (s_credProviders s) ?i = Some prev" "prev \<noteq> ?key" by blast
      note L = leaveProvider_eq [OF inv k(1) prev]
      note R = removeLocked_inv [OF inv, of ?i]
      have "sched_inv now (upsertLocked s cred now)"
        and "sched_creds (upsertLocked s cred now) = (sched_creds (removeLocked s ?i))(?i \<mapsto> sm_cred ?meta)"
        by (rule enter_provider [OF R(1) T meta k(2)];
            simp add: eq Let_def L ensureProviderLocked_def update_conv')+
      with True R(2) [OF k(1)] show ?thesis by simp
    next
      case False
      then have L: "leaveProvider s ?i ?key = s" by (auto simp: leaveProvider_def split: option.splits)
      have "sched_inv now (upsertLocked s cred now)"
        and "sched_creds (upsertLocked s cred now) = (sched_creds s)(?i \<mapsto> sm_cred ?meta)"
        using False by (intro enter_provider [OF inv T meta k(2)]; simp add: eq Let_def L update_conv')+
      with True show ?thesis by simp
    qed
  qed
  then show "sched_inv now (upsertLocked s cred now)"
    and "sched_creds (upsertLocked s cred now) =
         (sched_creds s)(c_ID cred := (if schedulable cred then Some cred else None))" by auto
qed

lemma sched_remove_inv:
  assumes "sched_inv T s"
  shows "sched_inv T (sched_remove s i)"
    and "sched_creds (sched_remove s i) = (sched_creds s)(TrimSpace i := None)"
  using removeLocked_inv [OF assms, of "TrimSpace i"] sched_creds_Nil [OF assms] assms
  by (auto simp: sched_remove_def Let_def fun_eq_iff)

subsection \<open>The scheduler as an index of credentials\<close>

locale credential_index =
  fixes inv :: "gotime \<Rightarrow> 's \<Rightarrow> bool"
    and abs :: "'s \<Rightarrow> string \<rightharpoonup> credential"
    and upsert :: "'s \<Rightarrow> credential \<Rightarrow> gotime \<Rightarrow> 's"
    and remove :: "'s \<Rightarrow> string \<Rightarrow> 's"
  assumes upsert_inv: "inv T s \<Longrightarrow> T \<le> now \<Longrightarrow> TrimSpace (c_ID c) = c_ID c \<Longrightarrow> inv now (upsert s c now)"
    and upsert_abs: "inv T s \<Longrightarrow> T \<le> now \<Longrightarrow> TrimSpace (c_ID c) = c_ID c \<Longrightarrow>
          abs (upsert s c now) = (abs s)(c_ID c := (if schedulable c then Some c else None))"
    and remove_inv: "inv T s \<Longrightarrow> inv T (remove s i)"
    and remove_abs: "inv T s \<Longrightarrow> abs (remove s i) = (abs s)(TrimSpace i := None)"
begin

text \<open>A whole snapshot entered at one instant: the identifiers of the snapshot are mapped as the
  snapshot says, the others keep their credential.\<close>

lemma upsert_all:
  assumes "inv now s" and "\<forall>c\<in>set cs. TrimSpace (c_ID c) = c_ID c" and "distinct (map c_ID cs)"
  shows "inv now (foldl (\<lambda>s c. upsert s c now) s cs) \<and>
         abs (foldl (\<lambda>s c. upsert s c now) s cs) k =
           (case find (\<lambda>c. c_ID c = k) cs of
              Some c \<Rightarrow> if schedulable c then Some c else None
            | None \<Rightarrow> abs s k)"
  using assms
proof (induction cs arbitrary: s)
  case (Cons c cs)
  then have c: "inv now (upsert s c now)" "abs (upsert s c now) = (abs s)(c_ID c := (if schedulable c then Some c else None))"
    by (simp_all add: upsert_inv upsert_abs)
  have "find (\<lambda>d. c_ID d = c_ID c) cs = None"
    using Cons.prems(3) by (auto simp: find_None_iff image_iff)
  then show ?case using Cons.IH [OF c(1)] Cons.prems c(2) by (auto split: option.splits)
qed simp

text \<open>A client that keeps its own map of credentials and passes every change on stays in step
  with the index.\<close>

lemma in_step_upsert:
  assumes "inv T s" and "T \<le> now" and "TrimSpace (c_ID c) = c_ID c"
    and "\<And>k. abs s k = Option.bind (map_of C k) (\<lambda>c. if schedulable c then Some c else None)"
  shows "abs (upsert s c now) k =
         Option.bind (map_of (AList.update (c_ID c) c C) k) (\<lambda>c. if schedulable c then Some c else None)"
  using assms by (simp add: upsert_abs)

lemma in_step_remove:
  assumes "inv T s" and "TrimSpace i = i"
    and "\<And>k. abs s k = Option.bind (map_of C k) (\<lambda>c. if schedulable c then Some c else None)"
  shows "abs (remove s i) k =
         Option.bind (map_of (AList.delete i C) k) (\<lambda>c. if schedulable c then Some c else None)"
  using assms by (simp add: remove_abs)

end

interpretation sched_idx: credential_index sched_inv sched_creds sched_upsert sched_remove
  by unfold_locales (simp_all add: sched_upsert_def upsertLocked_inv sched_remove_inv)

lemma sched_rebuild_spec:
  assumes "\<forall>c\<in>set cs. TrimSpace (c_ID c) = c_ID c" and "distinct (map c_ID cs)"
  shows "sched_inv now (sched_rebuild s cs now) \<and>
         sched_creds (sched_rebuild s cs now) k =
           (case find (\<lambda>c. c_ID c = k) cs of
              Some c \<Rightarrow> if schedulable c then Some c else None
            | None \<Rightarrow> None)"
proof -
  let ?s = "s\<lparr>s_providers := [], s_credProviders := [], s_mixedCursors := []\<rparr>"
  have "sched_inv now ?s" by (simp add: sched_inv_def)
  moreover have "sched_creds ?s k = None" by (simp add: sched_creds_def)
  ultimately show ?thesis
    using sched_idx.upsert_all [of now ?s cs k] assms
    by (simp add: sched_rebuild_def sched_upsert_def split: option.splits)
qed

subsection \<open>Picking\<close>

text \<open>The steps of a pick that finds a scheduler for the provider.\<close>

lemma sched_pick_cases:
  assumes inv: "sched_inv T s" and st: "bucket_strategy (s_strategy s)" and T: "T \<le> now1" "now1 \<le> now2"
  obtains (no_provider) "map_of (s_providers s) (provider_key provider) = None"
      "sched_pick s provider model tried now1 now2 now3 =
         (Inl (CredentialError (cred_err ''credential_not_found'')), s)"
  | (shard) ps m m2 r where "map_of (s_providers s) (provider_key provider) = Some ps"
      "shard_inv now1 (canonicalModelKey (canonicalModelKey model)) (p_creds ps) m"
      "pickReadyLocked m (s_strategy s) (not_tried tried) now2 = (r, m2)"
      "shard_inv now2 (canonicalModelKey (canonicalModelKey model)) (p_creds ps) m2"
      "fst (sched_pick s provider model tried now1 now2 now3) =
         (case r of Some cred \<Rightarrow> Inr cred
          | None \<Rightarrow> Inl (unavailableErrorLocked m2 provider model (not_tried tried) now3))"
      "sched_inv now2 (snd (sched_pick s provider model tried now1 now2 now3))"
      "sched_creds (snd (sched_pick s provider model tried now1 now2 now3)) = sched_creds s"
proof (cases "map_of (s_providers s) (provider_key provider)")
  case None
  then show ?thesis by (intro no_provider) (simp_all add: sched_pick_def Let_def)
next
  case (Some ps)
  let ?k = "canonicalModelKey (canonicalModelKey model)" and ?key = "provider_key provider"
  obtain m ps1 where e: "ensureModelLocked ps (canonicalModelKey model) now1 = (m, ps1)" by fastforce
  obtain r m2 where p: "pickReadyLocked m (s_strategy s) (not_tried tried) now2 = (r, m2)" by fastforce
  have pi: "?key \<noteq> []" "provider_inv T ?key ps" using sched_invD(1) [OF inv Some] by auto
  note E = ensureModel_inv [OF pi(2) T(1) e]
  have m2: "shard_inv now2 ?k (p_creds ps) m2"
    using bucket_strategy.pickReady_inv [OF st E(1) T(2), of "not_tried tried"] p by simp
  let ?ps2 = "ps1\<lparr>p_modelShards := AList.update ?k m2 (p_modelShards ps1)\<rparr>"
  have s2: "sched_pick s provider model tried now1 now2 now3 =
      (case r of Some cred \<Rightarrow> Inr cred | None \<Rightarrow> Inl (unavailableErrorLocked m2 provider model (not_tried tried) now3),
       s\<lparr>s_providers := AList.update ?key ?ps2 (s_providers s)\<rparr>)"
    using Some e p by (simp add: sched_pick_def Let_def)
  have pi2: "provider_inv now2 ?key ?ps2"
    using provider_inv_mono [OF E(2) T(2)] m2 E(3) by (auto simp: provider_inv_def)
  have T2: "T \<le> now2" using T by simp
  have "sched_inv now2 (s\<lparr>s_providers := AList.update ?key ?ps2 (s_providers s)\<rparr>)"
    using sched_invD [OF sched_inv_mono [OF inv T2]] pi(1) pi2 Some E(3) by (auto simp: sched_inv_def)
  moreover have "sched_creds (s\<lparr>s_providers := AList.update ?key ?ps2 (s_providers s)\<rparr>) = sched_creds s"
    using Some E(3) by (auto simp: fun_eq_iff sched_creds_def split: bind_splits)
  ultimately show ?thesis using shard [OF Some E(1) p m2] s2 by simp
qed

text \<open>The scheduler reached by any sequence of its operations, with the instant of the last one.
  Identifiers carry no surrounding white space (the code generates UUIDs).\<close>

inductive sched_reach :: "gotime \<Rightarrow> auth_scheduler \<Rightarrow> bool" where
  init: "bucket_strategy strategy \<Longrightarrow> sched_reach T (newAuthScheduler strategy)"
| upsert: "sched_reach T s \<Longrightarrow> T \<le> now \<Longrightarrow> TrimSpace (c_ID cred) = c_ID cred \<Longrightarrow>
     sched_reach now (sched_upsert s cred now)"
| remove: "sched_reach T s \<Longrightarrow> sched_reach T (sched_remove s credID)"
| pick: "sched_reach T s \<Longrightarrow> T \<le> now1 \<Longrightarrow> now1 \<le> now2 \<Longrightarrow>
     sched_reach now2 (snd (sched_pick s provider model tried now1 now2 now3))"
| set_strategy: "sched_reach T s \<Longrightarrow> bucket_strategy strategy \<Longrightarrow>
     sched_reach T (sched_setStrategy s strategy)"
| rebuild: "sched_reach T s \<Longrightarrow> T \<le> now \<Longrightarrow> \<forall>c\<in>set cs. TrimSpace (c_ID c) = c_ID c \<Longrightarrow>
     distinct (map c_ID cs) \<Longrightarrow> sched_reach now (sched_rebuild s cs now)"

lemma upsert_strategy: "s_strategy (upsertLocked s c now) = s_strategy s"
  by (auto simp: upsertLocked_def removeLocked_def leaveProvider_def Let_def split: option.splits)

lemma pick_strategy: "s_strategy (snd (sched_pick s provider model tried now1 now2 now3)) = s_strategy s"
  by (auto simp: sched_pick_def Let_def split: option.splits prod.splits)

lemma rebuild_strategy: "s_strategy (sched_rebuild s cs now) = s_strategy s"
proof -
  have "s_strategy (foldl (\<lambda>s cred. upsertLocked s cred now) r cs) = s_strategy r" for r
    by (induction cs arbitrary: r) (simp_all add: upsert_strategy)
  then show ?thesis by (simp add: sched_rebuild_def)
qed

lemma sched_reach_inv: "sched_reach T s \<Longrightarrow> sched_inv T s \<and> bucket_strategy (s_strategy s)"
proof (induction rule: sched_reach.induct)
  case (init strategy T)
  then show ?case using sched_inv_new by (simp add: newAuthScheduler_def)
next
  case (upsert T s now cred)
  then show ?case using upsertLocked_inv(1) [of T s now cred] by (simp add: sched_upsert_def upsert_strategy)
next
  case (remove T s credID)
  then have "s_strategy (sched_remove s credID) = s_strategy s"
    by (auto simp: sched_remove_def removeLocked_def Let_def split: option.splits)
  with remove show ?case by (simp add: sched_remove_inv)
next
  case (pick T s now1 now2 provider model tried now3)
  then have h: "sched_inv T s" "bucket_strategy (s_strategy s)" "T \<le> now2" by auto
  have "sched_inv now2 (snd (sched_pick s provider model tried now1 now2 now3))"
  proof (cases rule: sched_pick_cases [OF h(1,2) pick.hyps(2,3), of provider model tried now3])
    case 1
    with sched_inv_mono [OF h(1,3)] show ?thesis by simp
  qed
  with pick show ?case by (simp add: pick_strategy)
next
  case (set_strategy T s strategy)
  then show ?case by (simp add: sched_setStrategy_def sched_inv_def)
next
  case (rebuild T s now cs)
  then show ?case using sched_rebuild_spec by (simp add: rebuild_strategy)
qed

text \<open>A credential is held back at \<open>now\<close> when it was blocked for the model at some instant up
  to now and its retry time, if it has one, has not come yet.\<close>

definition held_back :: "credential \<Rightarrow> string \<Rightarrow> gotime \<Rightarrow> bool" where
  "held_back cred model now \<longleftrightarrow>
     (\<exists>t\<le>now. fst (isCredentialBlockedForModel (Some cred) model t) \<and>
        (let next_at = snd (classify cred model t) in IsZero next_at \<or> next_at > now))"

lemma classify_next:
  "classify c model now = (st, next_at) \<Longrightarrow> st \<in> {SchedCooldown, SchedBlocked} \<Longrightarrow> next_at > now"
  by (auto simp: classify_def isCredentialBlockedForModel_def later_time_def
      split: if_splits option.splits)

lemma classify_disabled: "classify c model now = (SchedDisabled, next_at) \<Longrightarrow> IsZero next_at"
  by (auto simp: classify_def IsZero_def split: prod.splits if_splits)

lemma shard_classD:
  "shard_inv T k creds m \<Longrightarrow> map_of (m_entries m) i = Some e \<Longrightarrow>
   \<exists>t\<le>T. classify (se_cred e) k t = (se_state e, se_nextRetryAt e)"
  unfolding shard_inv_def class_ok_def by blast

lemma promote_next:
  assumes inv: "shard_inv T k creds m" and "T \<le> now"
    and e: "map_of (m_entries (promoteExpiredLocked m now)) i = Some e" and st: "se_state e \<noteq> SchedReady"
  shows "IsZero (se_nextRetryAt e) \<or> se_nextRetryAt e > now"
proof (cases "se_state e = SchedDisabled")
  case True
  from shard_classD [OF promote_inv [OF assms(1,2)] e]
  obtain t where "classify (se_cred e) k t = (se_state e, se_nextRetryAt e)" by blast
  with True show ?thesis using classify_disabled by metis
next
  case False
  with st have bl: "se_state e \<in> {SchedCooldown, SchedBlocked}" by (cases "se_state e") auto
  let ?promoted = "map (\<lambda>(k, e). (k, promote_entry m now k e)) (m_entries m)"
  have blocked: "set (m_blocked m) = blocked_ids (m_entries m)"
    using inv by (simp add: shard_inv_def index_ok_def)
  show ?thesis
  proof (cases "m_blocked m = [] \<or> \<not> list_ex (\<lambda>(k, e). expired m now k e) (m_entries m)")
    case True
    then have e': "map_of (m_entries m) i = Some e" using e by (simp add: promoteExpiredLocked_def)
    with bl blocked have "i \<in> set (m_blocked m)" by (auto simp: blocked_ids_def)
    moreover from this True e' have "\<not> expired m now i e"
      by (auto simp: list_ex_iff dest: map_of_SomeD)
    ultimately show ?thesis by (auto simp: expired_def)
  next
    case False
    then have "m_entries (promoteExpiredLocked m now) = ?promoted" by (auto simp: promoteExpiredLocked_def)
    with e obtain d where d: "map_of (m_entries m) i = Some d" "e = promote_entry m now i d"
      by (auto simp: gomap_simps)
    show ?thesis
    proof (cases "expired m now i d")
      case True
      with d bl show ?thesis
        by (auto simp: promote_entry_def split: prod.splits dest: classify_next)
    next
      case False
      with d bl have "i \<in> set (m_blocked m)" by (auto simp: blocked blocked_ids_def promote_entry_def)
      with False d show ?thesis by (auto simp: expired_def promote_entry_def)
    qed
  qed
qed

lemma shard_entry:
  assumes "shard_inv T k creds m" and "map_of creds i = Some meta"
  shows "\<exists>e. map_of (m_entries m) i = Some e \<and> se_meta e = meta \<and> se_cred e = sm_cred meta"
proof -
  have "map_option se_meta (map_of (m_entries m) i) = Some meta" and ok: "entries_ok (m_entries m)"
    using assms by (auto simp: shard_inv_def)
  then obtain e where e: "map_of (m_entries m) i = Some e" "se_meta e = meta" by auto
  with entries_okD(3) [OF ok e(1)] show ?thesis by auto
qed

lemma shard_not_ready_held_back:
  assumes inv: "shard_inv T k creds m" and T: "T \<le> now"
    and meta: "map_of creds i = Some meta"
    and no: "\<And>p. p = sm_priority meta \<Longrightarrow> i \<notin> ready_ids (m_entries (promoteExpiredLocked m now)) p"
  shows "held_back (sm_cred meta) k now"
proof -
  note inv' = promote_inv [OF inv T]
  from shard_entry [OF inv' meta] obtain e where
    e: "map_of (m_entries (promoteExpiredLocked m now)) i = Some e" "se_meta e = meta" "se_cred e = sm_cred meta"
    by blast
  with no have st: "se_state e \<noteq> SchedReady" by (auto simp: ready_ids_def entry_priority_def)
  from shard_classD [OF inv' e(1)] e(3)
  obtain t where "t \<le> now" and t: "classify (sm_cred meta) k t = (se_state e, se_nextRetryAt e)"
    by auto
  moreover from t st have "fst (isCredentialBlockedForModel (Some (sm_cred meta)) k t)"
    using classify_ready_iff [of "sm_cred meta" k t] by simp
  ultimately show ?thesis
    using promote_next [OF inv T e(1) st] by (auto simp: held_back_def Let_def)
qed

lemma sched_creds_provider:
  assumes "sched_inv T s" and "sched_creds s i = Some d" and "provider_key (c_Provider d) = key"
  obtains ps meta where "map_of (s_providers s) key = Some ps" "map_of (p_creds ps) i = Some meta"
    "sm_cred meta = d"
proof -
  from assms(1,2) obtain key' ps meta where k: "map_of (s_providers s) key' = Some ps"
      "map_of (p_creds ps) i = Some meta" "sm_cred meta = d"
    using sched_creds_Some by blast
  with sched_metaD [OF assms(1) k(1,2)] assms(3) have "key' = key" by (simp add: meta_ok_def)
  with k that show ?thesis by blast
qed

lemma shard_ready_unblocked:
  assumes inv: "shard_inv now k creds m" and i: "i \<in> ready_ids (m_entries m) p"
  shows "\<exists>meta. map_of creds i = Some meta \<and> sm_priority meta = p \<and>
           \<not> fst (isCredentialBlockedForModel (Some (sm_cred meta)) k now)"
proof -
  from i obtain e where e: "map_of (m_entries m) i = Some e" "se_state e = SchedReady" "entry_priority e = p"
    by (auto simp: ready_ids_def)
  from shard_classD [OF inv e(1)] obtain t where "t \<le> now"
    and t: "classify (se_cred e) k t = (SchedReady, se_nextRetryAt e)" by (auto simp: e(2))
  with classify_ready_zero [OF t] classify_later have "fst (classify (se_cred e) k now) = SchedReady"
    by (metis fst_conv)
  then have "\<not> fst (isCredentialBlockedForModel (Some (se_cred e)) k now)"
    using classify_ready_iff by blast
  moreover have "map_option se_meta (map_of (m_entries m) i) = map_of creds i" "sm_cred (se_meta e) = se_cred e"
    using inv entries_okD(3) [OF _ e(1)] by (simp_all add: shard_inv_def)
  then have "map_of creds i = Some (se_meta e)" "sm_cred (se_meta e) = se_cred e"
    using e(1) by simp_all
  ultimately show ?thesis using e(3) by (auto simp: entry_priority_def)
qed

lemma pick_unready_held_back:
  assumes inv: "sched_inv T s" and st: "bucket_strategy (s_strategy s)" and "T \<le> now1" "now1 \<le> now2"
    and ps: "map_of (s_providers s) (provider_key provider) = Some ps"
    and m: "shard_inv now1 k (p_creds ps) m"
    and d: "sched_creds s i = Some d" "provider_key (c_Provider d) = provider_key provider"
    and no: "i \<notin> ready_ids (m_entries (promoteExpiredLocked m now2)) (Priority d)"
  shows "held_back d k now2"
proof -
  obtain ps' meta where p': "map_of (s_providers s) (provider_key provider) = Some ps'"
    and meta': "map_of (p_creds ps') i = Some meta" and d': "sm_cred meta = d"
    by (rule sched_creds_provider [OF inv d])
  with ps have meta: "map_of (p_creds ps) i = Some meta" by simp
  with sched_metaD [OF inv ps meta] no d' have "i \<notin> ready_ids (m_entries (promoteExpiredLocked m now2)) (sm_priority meta)"
    by (simp add: meta_ok_def)
  with shard_not_ready_held_back [OF m assms(4) meta] d' show ?thesis by simp
qed

lemma unavailable_not_found:
  "unavailableErrorLocked m provider model (not_tried tried) now = CredentialError (cred_err ''credential_not_found'') \<longleftrightarrow>
   (\<forall>e\<in>set (map snd (m_entries m)). c_ID (se_cred e) \<in> set tried)"
  by (auto simp: unavailableErrorLocked_def Let_def cred_err_def filter_empty_conv not_tried_def)

text \<open>What a successful pick returns.\<close>

lemma sched_pick_sound:
  assumes h: "sched_inv T s" "bucket_strategy (s_strategy s)" and T: "T \<le> now1" "now1 \<le> now2"
    and picked: "fst (sched_pick s provider model tried now1 now2 now3) = Inr c"
  shows "\<exists>c'. sched_creds s (c_ID c) = Some c' \<and> c_ID c' = c_ID c \<and> c_ID c \<notin> set tried \<and>
           provider_key (c_Provider c') = provider_key provider \<and> \<not> IsDisabled c' \<and>
           \<not> fst (isCredentialBlockedForModel (Some c') (canonicalModelKey (canonicalModelKey model)) now2)"
proof -
  let ?k = "canonicalModelKey (canonicalModelKey model)"
  show ?thesis
  proof (cases rule: sched_pick_cases [OF h T, of provider model tried now3])
    case 1
    with picked show ?thesis by simp
  next
    case (2 ps m m2 r)
    with picked have r: "r = Some c" by (auto split: option.splits)
    with 2(3) bucket_strategy.pickReady_Some [OF h(2) 2(2) T(2), of tried c] obtain p
      where p: "c_ID c \<in> ready_ids (m_entries (promoteExpiredLocked m now2)) p" "c_ID c \<notin> set tried" by auto
    from shard_ready_unblocked [OF promote_inv [OF 2(2) T(2)] p(1)] obtain meta
      where meta: "map_of (p_creds ps) (c_ID c) = Some meta"
        "\<not> fst (isCredentialBlockedForModel (Some (sm_cred meta)) ?k now2)" by blast
    with sched_metaD [OF h(1) 2(1) meta(1)] sched_creds_eq [OF h(1) 2(1) meta(1)] p(2) show ?thesis
      by (auto simp: meta_ok_def)
  qed
qed

end
