(* ===== verification/Scheduler_Props.thy ===== *)
theory Scheduler_Props
  imports Scheduler_Spec
begin

text \<open>
  What the scheduler promises, over every state its operations can reach, and the two places
  where it does less than its comments say.  Each property with a hypothesis is followed by a
  witness on a concrete scheduler.
\<close>

subsection \<open>Concrete schedulers for the witnesses\<close>

definition w_cred :: "string \<Rightarrow> string \<Rightarrow> string \<Rightarrow> credential" where
  "w_cred i prio token =
     zero_credential\<lparr>c_ID := i, c_Provider := ''OpenAI'', c_Status := StatusActive,
       c_Attributes := [(''priority'', prio)], c_Metadata := [(''access_token'', GString token)]\<rparr>"

definition w_cooling :: credential where
  "w_cooling = (w_cred ''c'' ''9'' ''t'')\<lparr>c_Unavailable := True, c_NextRetryAfter := 500,
     c_Quota := zero_quota\<lparr>q_Exceeded := True, q_NextRecoverAt := 500\<rparr>\<rparr>"

definition w_sched :: auth_scheduler where
  "w_sched =
     sched_upsert (sched_upsert (sched_upsert (newAuthScheduler RoundRobinSelector_PickFromBucket)
       (w_cred ''a'' ''1'' ''t'') 10) (w_cred ''b'' ''5'' ''t'') 20) w_cooling 30"

lemma w_sched_reach: "sched_reach 30 w_sched"
  unfolding w_sched_def
  by (intro sched_reach.upsert [of 20] sched_reach.upsert [of 10] sched_reach.upsert [of 0]
        sched_reach.init rr.bucket_strategy_axioms) code_simp+

fun rr_picks :: "nat \<Rightarrow> ready_bucket \<Rightarrow> credential option list" where
  "rr_picks 0 b = []"
| "rr_picks (Suc k) b =
     (case RoundRobinSelector_PickFromBucket b (\<lambda>_. True) of (c, b') \<Rightarrow> c # rr_picks k b')"

subsection \<open>Helper lemmas\<close>

lemma rr_index_True:
  assumes "rb_creds b \<noteq> []"
  shows "rr_index b (\<lambda>_. True) = Some (rb_cursor b mod length (rb_creds b))"
proof -
  have "[0..<length (rb_creds b)] = 0 # [1..<length (rb_creds b)]"
    using assms upt_conv_Cons [of 0 "length (rb_creds b)"] by simp
  then show ?thesis by (simp add: rr_index_def Let_def del: upt_Suc)
qed

lemma sort_key_perm:
  assumes "mset xs = mset ys" and "inj_on f (set xs)"
  shows "sort_key f xs = sort_key f ys"
  using assms by (intro sort_key_inj_key_eq) simp_all

lemma sort_remdups_perm: "mset xs = mset ys \<Longrightarrow> sort (remdups xs) = sort (remdups (ys :: int list))"
  by (metis set_mset_mset sorted_list_of_set_sort_remdups)

lemma shard_entries_provider:
  assumes inv: "sched_inv T s" and ps: "map_of (s_providers s) key = Some ps"
    and shard: "shard_inv T' k (p_creds ps) m"
  shows "(\<exists>e\<in>set (map snd (m_entries m)). c_ID (se_cred e) = i) \<longleftrightarrow>
         (\<exists>d. sched_creds s i = Some d \<and> provider_key (c_Provider d) = key)"
proof
  assume "\<exists>e\<in>set (map snd (m_entries m)). c_ID (se_cred e) = i"
  then obtain k' e where e: "(k', e) \<in> set (m_entries m)" "c_ID (se_cred e) = i" by auto
  have ok: "entries_ok (m_entries m)" and eq: "map_option se_meta (map_of (m_entries m) i) = map_of (p_creds ps) i"
    using shard by (simp_all add: shard_inv_def)
  from ok have "gomap_ok (m_entries m)" by (simp add: entries_ok_def)
  from map_of_is_SomeI [OF this e(1)] have "map_of (m_entries m) k' = Some e" .
  with entries_okD(2,3) [OF ok this] e(2) eq have "map_of (p_creds ps) i = Some (se_meta e)" by auto
  with sched_creds_eq [OF inv ps this] sched_metaD [OF inv ps this]
  show "\<exists>d. sched_creds s i = Some d \<and> provider_key (c_Provider d) = key" by (auto simp: meta_ok_def)
next
  assume "\<exists>d. sched_creds s i = Some d \<and> provider_key (c_Provider d) = key"
  then obtain d where d: "sched_creds s i = Some d" "provider_key (c_Provider d) = key" by blast
  obtain ps' meta where p: "map_of (s_providers s) key = Some ps'" "map_of (p_creds ps') i = Some meta" "sm_cred meta = d"
    by (rule sched_creds_provider [OF inv d])
  with ps have meta: "map_of (p_creds ps) i = Some meta" by simp
  from shard_entry [OF shard this] obtain e where "map_of (m_entries m) i = Some e" "se_cred e = sm_cred meta" by blast
  moreover have "c_ID (sm_cred meta) = i" using sched_metaD [OF inv ps meta] by (simp add: meta_ok_def)
  ultimately show "\<exists>e\<in>set (map snd (m_entries m)). c_ID (se_cred e) = i"
    by (auto dest!: map_of_SomeD simp: image_iff intro!: bexI)
qed

subsection \<open>Properties\<close>

text \<open>C4: in every state the scheduler's operations can reach, the index of every shard (buckets
  by priority, blocked list, priority order) is exactly the index of its entries, every entry is
  classified as of some past instant, shards and registered credentials agree, and a credential
  belongs to one provider only.\<close>

theorem scheduler_invariant: "sched_reach T s \<Longrightarrow> sched_inv T s"
  using sched_reach_inv by blast

theorem scheduler_invariant_witness: "sched_inv 30 w_sched"
  using scheduler_invariant [OF w_sched_reach] .

text \<open>C5: the scheduler refines a finite map from identifiers to credentials.  Entering a
  credential maps its identifier to it, or removes the identifier when the credential is disabled
  or has no provider; removing deletes the identifier; picking leaves the map alone.\<close>

theorem scheduler_refines_map:
  assumes "sched_reach T s" and "T \<le> now1" and "now1 \<le> now2" and "TrimSpace (c_ID cred) = c_ID cred"
  shows "sched_creds (sched_upsert s cred now1) =
           (sched_creds s)(c_ID cred := (if schedulable cred then Some cred else None)) \<and>
         sched_creds (sched_remove s i) = (sched_creds s)(TrimSpace i := None) \<and>
         sched_creds (snd (sched_pick s provider model tried now1 now2 now3)) = sched_creds s"
proof -
  from sched_reach_inv [OF assms(1)] have h: "sched_inv T s" "bucket_strategy (s_strategy s)" by auto
  have "sched_creds (snd (sched_pick s provider model tried now1 now2 now3)) = sched_creds s"
    by (cases rule: sched_pick_cases [OF h assms(2,3), of provider model tried now3]) simp_all
  with sched_idx.upsert_abs [OF h(1) assms(2,4)] sched_idx.remove_abs [OF h(1)] show ?thesis by simp
qed

theorem scheduler_refines_map_witness:
  "sched_creds (sched_upsert w_sched (w_cred ''b'' ''7'' ''u'') 40) =
     (sched_creds w_sched)(''b'' := Some (w_cred ''b'' ''7'' ''u''))"
proof -
  have "TrimSpace (c_ID (w_cred ''b'' ''7'' ''u'')) = c_ID (w_cred ''b'' ''7'' ''u'')" by code_simp
  moreover have "c_ID (w_cred ''b'' ''7'' ''u'') = ''b''" "schedulable (w_cred ''b'' ''7'' ''u'')"
    by code_simp+
  ultimately show ?thesis
    using scheduler_refines_map [OF w_sched_reach, of 40 40 "w_cred ''b'' ''7'' ''u''"] by simp
qed

text \<open>C1: a picked credential is registered for the requested provider, was not tried before, is
  not disabled, and its current version is not blocked for the requested model at the instant of
  the pick.\<close>

theorem pick_sound:
  assumes "sched_reach T s" and "T \<le> now1" and "now1 \<le> now2"
    and picked: "fst (sched_pick s provider model tried now1 now2 now3) = Inr c"
  shows "\<exists>c'. sched_creds s (c_ID c) = Some c' \<and> c_ID c' = c_ID c \<and> c_ID c \<notin> set tried \<and>
           provider_key (c_Provider c') = provider_key provider \<and> \<not> IsDisabled c' \<and>
           \<not> fst (isCredentialBlockedForModel (Some c') (canonicalModelKey (canonicalModelKey model)) now2)"
proof -
  from sched_reach_inv [OF assms(1)] have "sched_inv T s" "bucket_strategy (s_strategy s)" by auto
  from sched_pick_sound [OF this assms(2,3) picked] show ?thesis .
qed

theorem pick_sound_witness:
  "\<exists>c'. sched_creds w_sched ''b'' = Some c' \<and> provider_key (c_Provider c') = ''openai'' \<and> \<not> IsDisabled c'"
proof -
  have p: "fst (sched_pick w_sched '' openai '' ''gpt:free'' [''x''] 40 50 60) = Inr (w_cred ''b'' ''5'' ''t'')"
    by code_simp
  have "c_ID (w_cred ''b'' ''5'' ''t'') = ''b''" "provider_key '' openai '' = ''openai''" by code_simp+
  with pick_sound [OF w_sched_reach _ _ p] show ?thesis by auto
qed

text \<open>C2: a picked credential has the highest priority available: every registered credential of
  the same provider with a higher priority that was not tried is held back (it was blocked for the
  model and its retry time has not come).\<close>

theorem pick_highest_priority:
  assumes "sched_reach T s" and "T \<le> now1" and "now1 \<le> now2"
    and picked: "fst (sched_pick s provider model tried now1 now2 now3) = Inr c"
    and c': "sched_creds s (c_ID c) = Some c'"
    and d: "sched_creds s i = Some d" "provider_key (c_Provider d) = provider_key provider" "i \<notin> set tried"
    and higher: "Priority d > Priority c'"
  shows "held_back d (canonicalModelKey (canonicalModelKey model)) now2"
proof -
  from sched_reach_inv [OF assms(1)] have h: "sched_inv T s" "bucket_strategy (s_strategy s)" by auto
  show ?thesis
  proof (cases rule: sched_pick_cases [OF h assms(2,3), of provider model tried now3])
    case 1
    with picked show ?thesis by simp
  next
    case (2 ps m m2 r)
    with picked have "r = Some c" by (auto split: option.splits)
    with 2(3) bucket_strategy.pickReady_Some [OF h(2) 2(2) assms(3), of tried c] obtain p
      where p: "c_ID c \<in> ready_ids (m_entries (promoteExpiredLocked m now2)) p"
        "\<forall>q>p. ready_ids (m_entries (promoteExpiredLocked m now2)) q \<subseteq> set tried" by auto
    from shard_ready_unblocked [OF promote_inv [OF 2(2) assms(3)] p(1)] obtain meta
      where meta: "map_of (p_creds ps) (c_ID c) = Some meta" "sm_priority meta = p" by blast
    with sched_metaD [OF h(1) 2(1) meta(1)] sched_creds_eq [OF h(1) 2(1) meta(1)] c'
    have "Priority c' = p" by (auto simp: meta_ok_def)
    with p(2) higher d(3) have "i \<notin> ready_ids (m_entries (promoteExpiredLocked m now2)) (Priority d)" by blast
    then show ?thesis by (rule pick_unready_held_back [OF h assms(2,3) 2(1,2) d(1,2)])
  qed
qed

theorem pick_highest_priority_witness: "held_back w_cooling ''gpt'' 50"
proof -
  have p: "fst (sched_pick w_sched ''openai'' ''gpt'' [] 40 50 60) = Inr (w_cred ''b'' ''5'' ''t'')"
    by code_simp
  have "sched_creds w_sched (c_ID (w_cred ''b'' ''5'' ''t'')) = Some (w_cred ''b'' ''5'' ''t'')"
    "sched_creds w_sched ''c'' = Some w_cooling" "provider_key (c_Provider w_cooling) = provider_key ''openai''"
    "Priority w_cooling > Priority (w_cred ''b'' ''5'' ''t'')"
    "canonicalModelKey (canonicalModelKey ''gpt'') = ''gpt''" by code_simp+
  with pick_highest_priority [OF w_sched_reach _ _ p, of "w_cred ''b'' ''5'' ''t''" "''c''" w_cooling]
  show ?thesis by simp
qed

text \<open>C3: a pick fails only when nothing can be picked: if it returns an error, every registered
  credential of the provider that was not tried is held back for the model.\<close>

theorem pick_fails_only_when_held_back:
  assumes "sched_reach T s" and "T \<le> now1" and "now1 \<le> now2"
    and failed: "fst (sched_pick s provider model tried now1 now2 now3) = Inl err"
    and d: "sched_creds s i = Some d" "provider_key (c_Provider d) = provider_key provider" "i \<notin> set tried"
  shows "held_back d (canonicalModelKey (canonicalModelKey model)) now2"
proof -
  from sched_reach_inv [OF assms(1)] have h: "sched_inv T s" "bucket_strategy (s_strategy s)" by auto
  show ?thesis
  proof (cases rule: sched_pick_cases [OF h assms(2,3), of provider model tried now3])
    case 1
    obtain ps meta where "map_of (s_providers s) (provider_key provider) = Some ps"
      by (rule sched_creds_provider [OF h(1) d(1,2)])
    with 1 show ?thesis by simp
  next
    case (2 ps m m2 r)
    with failed have "r = None" by (auto split: option.splits)
    with 2(3) bucket_strategy.pickReady_None [OF h(2) 2(2) assms(3), of tried]
    have "ready_ids (m_entries (promoteExpiredLocked m now2)) p \<subseteq> set tried" for p by auto
    with d(3) have "i \<notin> ready_ids (m_entries (promoteExpiredLocked m now2)) (Priority d)" by blast
    then show ?thesis by (rule pick_unready_held_back [OF h assms(2,3) 2(1,2) d(1,2)])
  qed
qed

theorem pick_fails_only_when_held_back_witness: "held_back w_cooling ''gpt'' 50"
proof -
  have p: "fst (sched_pick w_sched ''openai'' ''gpt'' [''a'', ''b''] 40 50 60) =
      Inl (CooldownError ''gpt'' ''openai'' ''1s'')"
    by code_simp
  have "sched_creds w_sched ''c'' = Some w_cooling" "provider_key (c_Provider w_cooling) = provider_key ''openai''"
    "canonicalModelKey (canonicalModelKey ''gpt'') = ''gpt''" by code_simp+
  with pick_fails_only_when_held_back [OF w_sched_reach _ _ p, of "''c''" w_cooling] show ?thesis by simp
qed

text \<open>Round robin is fair.  On a bucket of ready credentials, consecutive picks take them
  cyclically from the cursor on, so that any \<open>n\<close> consecutive picks on \<open>n\<close> credentials take each
  of them exactly once.\<close>

theorem round_robin_cycles:
  assumes "rb_creds b \<noteq> []"
  shows "rr_picks k b =
         map (\<lambda>i. Some (rb_creds b ! ((rb_cursor b + i) mod length (rb_creds b)))) [0..<k]"
  using assms
proof (induction k arbitrary: b)
  case (Suc k)
  let ?n = "length (rb_creds b)" and ?i = "rb_cursor b mod length (rb_creds b)"
  let ?b' = "b\<lparr>rb_cursor := ?i + 1\<rparr>"
  have "RoundRobinSelector_PickFromBucket b (\<lambda>_. True) = (Some (rb_creds b ! ?i), ?b')"
    using Suc.prems rr_index_True by (simp add: RoundRobinSelector_PickFromBucket_def)
  moreover have "(?i + 1 + j) mod ?n = (rb_cursor b + Suc j) mod ?n" for j
    by (metis add.assoc mod_add_left_eq plus_1_eq_Suc)
  moreover have "[0..<Suc k] = 0 # map Suc [0..<k]" by (simp add: upt_conv_Cons map_Suc_upt del: upt_Suc)
  ultimately show ?case using Suc by (simp add: comp_def del: upt_Suc)
qed simp

theorem round_robin_cycles_witness:
  "rr_picks 3 \<lparr>rb_creds = [w_cred ''a'' ''1'' ''t'', w_cred ''b'' ''1'' ''t''], rb_cursor = 5\<rparr> =
     [Some (w_cred ''b'' ''1'' ''t''), Some (w_cred ''a'' ''1'' ''t''), Some (w_cred ''b'' ''1'' ''t'')]"
  using round_robin_cycles
    [of "\<lparr>rb_creds = [w_cred ''a'' ''1'' ''t'', w_cred ''b'' ''1'' ''t''], rb_cursor = 5\<rparr>" 3]
  by (simp add: upt_rec numeral_2_eq_2 [symmetric] nth_Cons')

text \<open>C6: the index of a shard does not depend on the order in which Go happens to iterate over
  the map of entries: two listings of the same entries are rebuilt into the same buckets, the same
  priority order and the same blocked list.\<close>

theorem rebuild_order_independent:
  assumes "mset (m_entries m) = mset es" and ok: "gomap_ok (m_entries m)"
    and "list_all (\<lambda>(k, e). c_ID (se_cred e) = k) (m_entries m)"
  shows "m_readyByPriority (rebuildIndexesLocked (m\<lparr>m_entries := es\<rparr>)) =
           m_readyByPriority (rebuildIndexesLocked m) \<and>
         m_priorityOrder (rebuildIndexesLocked (m\<lparr>m_entries := es\<rparr>)) =
           m_priorityOrder (rebuildIndexesLocked m) \<and>
         m_blocked (rebuildIndexesLocked (m\<lparr>m_entries := es\<rparr>)) = m_blocked (rebuildIndexesLocked m)"
proof -
  let ?key = "\<lambda>(k :: string, e). (IsZero (se_nextRetryAt e), se_nextRetryAt e, c_ID (se_cred e))"
  let ?ready = "\<lambda>es :: (string, scheduled_cred) gomap. filter (\<lambda>e. se_state e = SchedReady) (map snd es)"
  have ids: "(k, e) \<in> set (m_entries m) \<Longrightarrow> c_ID (se_cred e) = k" for k e
    using assms(3) by (auto simp: list_all_iff)
  have uniq: "p = q" if "p \<in> set (m_entries m)" "q \<in> set (m_entries m)"
      "c_ID (se_cred (snd p)) = c_ID (se_cred (snd q))" for p q
  proof -
    have "fst p = fst q" using that ids by (metis prod.collapse)
    with that ok show ?thesis by (metis eq_key_imp_eq_value prod.collapse)
  qed
  have snd: "mset (map snd (m_entries m)) = mset (map snd es)" using assms(1) by simp
  have "inj_on (\<lambda>e. c_ID (se_cred e)) (set (map snd (m_entries m)))"
    by (rule inj_onI) (use uniq in fastforce)
  then have "inj_on (\<lambda>e. c_ID (se_cred e)) (set (ready_at (m_entries m) p))" for p
    by (rule inj_on_subset) (auto simp: ready_at_def)
  then have "sort_key (\<lambda>e. c_ID (se_cred e)) (ready_at (m_entries m) p) =
        sort_key (\<lambda>e. c_ID (se_cred e)) (ready_at es p)" for p
    using snd by (intro sort_key_perm) (simp_all only: ready_at_def mset_filter)
  moreover have "sort (remdups (map entry_priority (?ready (m_entries m)))) =
        sort (remdups (map entry_priority (?ready es)))"
    using snd by (intro sort_remdups_perm) (simp only: mset_map mset_filter)
  moreover have "sort_key ?key (blocked_entries (m_entries m)) = sort_key ?key (blocked_entries es)"
  proof (rule sort_key_perm)
    show "inj_on ?key (set (blocked_entries (m_entries m)))"
      by (rule inj_onI, rule uniq) (auto simp: blocked_entries_def)
  qed (simp add: assms(1) blocked_entries_def)
  ultimately show ?thesis by (simp add: rebuildIndexesLocked_def Let_def)
qed

theorem rebuild_order_independent_witness:
  "let e = (\<lambda>i. \<lparr>se_meta = \<lparr>sm_cred = w_cred i ''1'' ''t'', sm_priority = 1\<rparr>, se_cred = w_cred i ''1'' ''t'',
                se_state = SchedReady, se_nextRetryAt = 0\<rparr>);
       m = (new_shard ''gpt'')\<lparr>m_entries := [(''a'', e ''a''), (''b'', e ''b'')]\<rparr>
   in m_readyByPriority (rebuildIndexesLocked (m\<lparr>m_entries := [(''b'', e ''b''), (''a'', e ''a'')]\<rparr>)) =
      m_readyByPriority (rebuildIndexesLocked m)"
proof -
  let ?e = "\<lambda>i. \<lparr>se_meta = \<lparr>sm_cred = w_cred i ''1'' ''t'', sm_priority = 1\<rparr>, se_cred = w_cred i ''1'' ''t'',
                se_state = SchedReady, se_nextRetryAt = 0\<rparr>"
  let ?m = "(new_shard ''gpt'')\<lparr>m_entries := [(''a'', ?e ''a''), (''b'', ?e ''b'')]\<rparr>"
  have "mset (m_entries ?m) = mset [(''b'', ?e ''b''), (''a'', ?e ''a'')]" by simp
  then show ?thesis
    using rebuild_order_independent [of ?m "[(''b'', ?e ''b''), (''a'', ?e ''a'')]"]
    by (simp add: w_cred_def)
qed

text \<open>The scheduler keeps a stale credential.  After a credential is entered again with a
  fresh access token and an unchanged state, the scheduler's own map holds the new token, while a
  pick on a shard that exists already returns the old one: the early return of
  \<open>upsertEntryLocked\<close> leaves the previous pointer in the bucket.\<close>

theorem pick_returns_stale_token:
  "let s1 = sched_upsert (newAuthScheduler RoundRobinSelector_PickFromBucket) (w_cred ''a'' ''1'' ''old'') 10;
       s2 = snd (sched_pick s1 ''openai'' ''gpt'' [] 20 20 20);
       s3 = sched_upsert s2 (w_cred ''a'' ''1'' ''new'') 30
   in sched_creds s3 ''a'' = Some (w_cred ''a'' ''1'' ''new'') \<and>
      fst (sched_pick s3 ''openai'' ''gpt'' [] 40 40 40) = Inr (w_cred ''a'' ''1'' ''old'') \<and>
      w_cred ''a'' ''1'' ''old'' \<noteq> w_cred ''a'' ''1'' ''new''"
  by code_simp

text \<open>The error of a failed pick says \<open>credential_not_found\<close> exactly when every credential
  registered for the provider was tried before (or there is none).\<close>

theorem pick_not_found_iff:
  assumes "sched_reach T s" and "T \<le> now1" and "now1 \<le> now2"
  shows "fst (sched_pick s provider model tried now1 now2 now3) =
           Inl (CredentialError (cred_err ''credential_not_found'')) \<longleftrightarrow>
         (\<forall>i d. sched_creds s i = Some d \<and> provider_key (c_Provider d) = provider_key provider \<longrightarrow>
            i \<in> set tried)"
    (is "?err \<longleftrightarrow> ?all")
proof -
  from sched_reach_inv [OF assms(1)] have h: "sched_inv T s" "bucket_strategy (s_strategy s)" by auto
  show ?thesis
  proof (cases rule: sched_pick_cases [OF h assms(2,3), of provider model tried now3])
    case 1
    then have ?all using sched_creds_provider [OF h(1)] by (metis option.distinct(1))
    with 1 show ?thesis by simp
  next
    case (2 ps m m2 r)
    note entries = shard_entries_provider [OF h(1) 2(1) 2(4)]
    have all: "?all \<longleftrightarrow> (\<forall>e\<in>set (map snd (m_entries m2)). c_ID (se_cred e) \<in> set tried)"
    proof
      assume ?all
      then show "\<forall>e\<in>set (map snd (m_entries m2)). c_ID (se_cred e) \<in> set tried" using entries by metis
    next
      assume "\<forall>e\<in>set (map snd (m_entries m2)). c_ID (se_cred e) \<in> set tried"
      then show ?all using entries by metis
    qed
    show ?thesis
    proof (cases r)
      case None
      with 2(5) all unavailable_not_found show ?thesis by simp
    next
      case (Some c)
      with 2(3) bucket_strategy.pickReady_Some [OF h(2) 2(2) assms(3), of tried c] obtain p
        where p: "c_ID c \<in> ready_ids (m_entries (promoteExpiredLocked m now2)) p" "c_ID c \<notin> set tried" by auto
      from shard_ready_unblocked [OF promote_inv [OF 2(2) assms(3)] p(1)] obtain meta
        where meta: "map_of (p_creds ps) (c_ID c) = Some meta" by blast
      with sched_metaD [OF h(1) 2(1) meta(1)] sched_creds_eq [OF h(1) 2(1) meta(1)] p(2)
      have "\<not> ?all" by (auto simp: meta_ok_def)
      with Some 2(5) show ?thesis by simp
    qed
  qed
qed

theorem pick_not_found_iff_witness:
  "fst (sched_pick w_sched ''openai'' ''gpt'' [''c'', ''a''] 40 50 60) \<noteq>
     Inl (CredentialError (cred_err ''credential_not_found''))"
proof -
  have "sched_creds w_sched ''b'' = Some (w_cred ''b'' ''5'' ''t'')"
    "provider_key (c_Provider (w_cred ''b'' ''5'' ''t'')) = provider_key ''openai''" by code_simp+
  with pick_not_found_iff [OF w_sched_reach, of 40 50 "''openai''" "''gpt''" "[''c'', ''a'']" 60]
  show ?thesis by fastforce
qed

end
