(* ===== verification/Go_Http.thy ===== *)
theory Go_Http
  imports Go_Prelude
begin

text \<open>
  What the sources use of net/http: header maps with canonical keys, and the text of a status code.
\<close>

type_synonym http_header = "(string, string list) gomap"

definition upper_char :: "char \<Rightarrow> char" where
  "upper_char c =
     (if 97 \<le> (of_char c :: nat) \<and> (of_char c :: nat) \<le> 122 then char_of ((of_char c :: nat) - 32) else c)"

text \<open>The bytes RFC 7230 allows in a header name.\<close>

definition token_char :: "char \<Rightarrow> bool" where
  "token_char c \<longleftrightarrow>
     c \<in> set ''!#$%&'' \<or> c \<in> set ''*+-.^_`|~'' \<or> c = CHR 0x27 \<or>
     48 \<le> (of_char c :: nat) \<and> (of_char c :: nat) \<le> 57 \<or>
     65 \<le> (of_char c :: nat) \<and> (of_char c :: nat) \<le> 90 \<or>
     97 \<le> (of_char c :: nat) \<and> (of_char c :: nat) \<le> 122"

fun capitalise :: "bool \<Rightarrow> string \<Rightarrow> string" where
  "capitalise upper [] = []"
| "capitalise upper (c # s) =
     (if upper then upper_char c else lower_char c) # capitalise (c = CHR ''-'') s"

definition CanonicalHeaderKey :: "string \<Rightarrow> string" where
  "CanonicalHeaderKey k = (if list_all token_char k then capitalise True k else k)"

definition Header_Get :: "http_header \<Rightarrow> string \<Rightarrow> string" where
  "Header_Get h k =
     (case map_of h (CanonicalHeaderKey k) of Some (v # _) \<Rightarrow> v | _ \<Rightarrow> [])"

definition Header_Set :: "http_header \<Rightarrow> string \<Rightarrow> string \<Rightarrow> http_header" where
  "Header_Set h k v = AList.update (CanonicalHeaderKey k) [v] h"

text \<open>Setting every entry of a map of headers.\<close>

definition Header_SetAll :: "http_header \<Rightarrow> (string, string) gomap \<Rightarrow> http_header" where
  "Header_SetAll h m = foldl (\<lambda>h (k, v). Header_Set h k v) h m"

definition status_texts :: "(int \<times> string) list" where
  "status_texts =
    [(100, ''Continue''), (101, ''Switching Protocols''), (102, ''Processing''),
      (103, ''Early Hints''), (200, ''OK''), (201, ''Created''), (202, ''Accepted''),
      (203, ''Non-Authoritative Information''), (204, ''No Content''), (205, ''Reset Content''),
      (206, ''Partial Content''), (207, ''Multi-Status''), (208, ''Already Reported''),
      (226, ''IM Used''), (300, ''Multiple Choices''), (301, ''Moved Permanently''),
      (302, ''Found''), (303, ''See Other''), (304, ''Not Modified''), (305, ''Use Proxy''),
      (307, ''Temporary Redirect''), (308, ''Permanent Redirect''), (400, ''Bad Request''),
      (401, ''Unauthorized''), (402, ''Payment Required''), (403, ''Forbidden''),
      (404, ''Not Found''), (405, ''Method Not Allowed''), (406, ''Not Acceptable''),
      (407, ''Proxy Authentication Required''), (408, ''Request Timeout''), (409, ''Conflict''),
      (410, ''Gone''), (411, ''Length Required''), (412, ''Precondition Failed''),
      (413, ''Request Entity Too Large''), (414, ''Request URI Too Long''),
      (415, ''Unsupported Media Type''), (416, ''Requested Range Not Satisfiable''),
      (417, ''Expectation Failed''), (418, ''I'' @ [CHR 0x27] @ ''m a teapot''),
      (421, ''Misdirected Request''), (422, ''Unprocessable Entity''), (423, ''Locked''),
      (424, ''Failed Dependency''), (425, ''Too Early''), (426, ''Upgrade Required''),
      (428, ''Precondition Required''), (429, ''Too Many Requests''),
      (431, ''Request Header Fields Too Large''), (451, ''Unavailable For Legal Reasons''),
      (500, ''Internal Server Error''), (501, ''Not Implemented''), (502, ''Bad Gateway''),
      (503, ''Service Unavailable''), (504, ''Gateway Timeout''),
      (505, ''HTTP Version Not Supported''), (506, ''Variant Also Negotiates''),
      (507, ''Insufficient Storage''), (508, ''Loop Detected''), (510, ''Not Extended''),
      (511, ''Network Authentication Required'')]"

definition StatusText :: "int \<Rightarrow> string" where
  "StatusText code = (case map_of status_texts code of Some t \<Rightarrow> t | None \<Rightarrow> [])"

lemma Header_Get_Set [simp]:
  "Header_Get (Header_Set h k v) k' = (if CanonicalHeaderKey k' = CanonicalHeaderKey k then v else Header_Get h k')"
  by (simp add: Header_Get_def Header_Set_def)

lemma Header_Get_SetAll_other:
  "\<forall>(k, v)\<in>set m. CanonicalHeaderKey k \<noteq> CanonicalHeaderKey k' \<Longrightarrow>
   Header_Get (Header_SetAll h m) k' = Header_Get h k'"
  unfolding Header_SetAll_def by (induction m arbitrary: h) auto

lemma Header_Get_SetAll:
  assumes "(k, v) \<in> set m" and "distinct (map (CanonicalHeaderKey \<circ> fst) m)"
  shows "Header_Get (Header_SetAll h m) k = v"
  using assms
proof (induction m arbitrary: h)
  case (Cons a m)
  obtain k' v' where a: "a = (k', v')" by fastforce
  show ?case
  proof (cases "(k, v) = (k', v')")
    case True
    with Cons.prems have "\<forall>(k'', w)\<in>set m. CanonicalHeaderKey k'' \<noteq> CanonicalHeaderKey k"
      by (force simp: a)
    with True a Header_Get_SetAll_other [of m k "Header_Set h k' v'"] show ?thesis
      by (simp add: Header_SetAll_def)
  next
    case False
    with Cons.prems(1) a have "(k, v) \<in> set m" by auto
    with Cons.IH [of "Header_Set h k' v'"] Cons.prems(2) a show ?thesis by (simp add: Header_SetAll_def)
  qed
qed simp

end
