(* ===== verification/Provider_Core.thy ===== *)
theory Provider_Core
  imports Credential Go_Http
begin

text \<open>
  Package llm/provider, files provider.go, registry.go, httputil.go, eino.go and the name check of
  module.go: provider configuration, the registry of factories, credential resolution, the HTTP
  client, errors with a status, and the retry loop.

  A provider instance is a value of the parameter type \<open>'p\<close>.  Messages and options belong to the
  eino library: \<open>'msg\<close> and \<open>'opt\<close> are parameters, and so are \<open>url.Parse\<close> and
  \<open>einomodel.GetCommonOptions\<close>.  A call that talks to the outside takes and returns the state \<open>'w\<close>
  of the world.
\<close>

subsection \<open>Configuration\<close>

type_synonym auth_strategy = string

definition AuthStrategyAPIKeyFirst :: auth_strategy where "AuthStrategyAPIKeyFirst = ''api_key_first''"
definition AuthStrategyCredentialFirst :: auth_strategy where "AuthStrategyCredentialFirst = ''credential_first''"
definition AuthStrategyCredentialOnly :: auth_strategy where "AuthStrategyCredentialOnly = ''credential_only''"
definition AuthStrategyAPIKeyOnly :: auth_strategy where "AuthStrategyAPIKeyOnly = ''api_key_only''"

lemmas auth_strategy_defs = AuthStrategyAPIKeyFirst_def AuthStrategyCredentialFirst_def
  AuthStrategyCredentialOnly_def AuthStrategyAPIKeyOnly_def

record provider_capabilities =
  cap_Streaming :: bool
  cap_Tools :: bool
  cap_Vision :: bool
  cap_Embeddings :: bool
  cap_ContextWindow :: int
  cap_MaxOutputTokens :: int

record model_info =
  mi_ID :: string
  mi_Name :: string
  mi_Description :: string
  mi_Capabilities :: provider_capabilities

record network_config =
  n_TimeoutSeconds :: int
  n_MaxRetries :: int
  n_RetryDelaySeconds :: int
  n_ProxyURL :: string
  n_ExtraHeaders :: "(string, string) gomap"

record provider_config =
  pc_Id :: string
  pc_ProviderName :: string
  pc_APIKey :: string
  pc_BaseURL :: string
  pc_DefaultModel :: string
  pc_Network :: network_config
  pc_Options :: "(string, goval) gomap"
  pc_AuthStrategy :: auth_strategy

definition NetworkConfig_Defaults :: "network_config \<Rightarrow> network_config" where
  "NetworkConfig_Defaults c =
     (let c = (if n_TimeoutSeconds c = 0 then c\<lparr>n_TimeoutSeconds := 120\<rparr> else c);
          c = (if n_MaxRetries c = 0 then c\<lparr>n_MaxRetries := 3\<rparr> else c)
      in if n_RetryDelaySeconds c = 0 then c\<lparr>n_RetryDelaySeconds := 1\<rparr> else c)"

definition NetworkConfig_Timeout :: "network_config \<Rightarrow> duration" where
  "NetworkConfig_Timeout c =
     (if n_TimeoutSeconds c = 0 then 120 * second else wrap64 (n_TimeoutSeconds c * second))"

definition ProviderConfig_Defaults :: "provider_config \<Rightarrow> provider_config" where
  "ProviderConfig_Defaults c =
     (let c = c\<lparr>pc_Network := NetworkConfig_Defaults (pc_Network c)\<rparr>
      in if pc_AuthStrategy c = [] then c\<lparr>pc_AuthStrategy := AuthStrategyAPIKeyFirst\<rparr> else c)"

definition NormalizeConfig :: "provider_config \<Rightarrow> string \<Rightarrow> provider_config" where
  "NormalizeConfig cfg fallbackName =
     ProviderConfig_Defaults
       (if pc_ProviderName cfg = [] then cfg\<lparr>pc_ProviderName := fallbackName\<rparr> else cfg)"

text \<open>A decoded object of the config store: a provider config, a nil pointer to one, or a value of
  another type, which carries the name of the type.\<close>

datatype stored_config = StoredConfig provider_config | StoredConfigNil | StoredConfigOther string

definition NormalizeStoredProviderConfig :: "string \<Rightarrow> stored_config \<Rightarrow> string + provider_config" where
  "NormalizeStoredProviderConfig tag obj =
     (case obj of
        StoredConfig cfg \<Rightarrow> Inr (NormalizeConfig cfg tag)
      | StoredConfigNil \<Rightarrow> Inl ''unexpected stored provider config type *provider.ProviderConfig''
      | StoredConfigOther ty \<Rightarrow> Inl (''unexpected stored provider config type '' @ ty))"

definition DecodeStoredProviderConfig :: "(string \<Rightarrow> string + provider_config) \<Rightarrow> string \<Rightarrow> string + provider_config" where
  "DecodeStoredProviderConfig unmarshal data = (case unmarshal data of Inl err \<Rightarrow> Inl err | Inr cfg \<Rightarrow> Inr cfg)"

definition ValidateProviderName :: "provider_config \<Rightarrow> string \<Rightarrow> string + provider_config" where
  "ValidateProviderName cfg expected =
     (if pc_ProviderName cfg = [] then Inr (cfg\<lparr>pc_ProviderName := expected\<rparr>)
      else if pc_ProviderName cfg \<noteq> expected then
        Inl (''provider_name must be '' @ quoted expected @ '', got '' @ quoted (pc_ProviderName cfg))
      else Inr cfg)"

subsection \<open>Registry\<close>

type_synonym 'p provider_factory = "provider_config \<Rightarrow> string + 'p"
type_synonym 'p factories = "(string, 'p provider_factory) gomap"

definition RegisterProvider :: "'p factories \<Rightarrow> string \<Rightarrow> 'p provider_factory \<Rightarrow> 'p factories" where
  "RegisterProvider fs name factory = AList.update name factory fs"

definition NewProvider :: "'p factories \<Rightarrow> provider_config \<Rightarrow> string + 'p" where
  "NewProvider fs config =
     (case map_of fs (pc_ProviderName config) of
        None \<Rightarrow> Inl (''unknown provider: '' @ pc_ProviderName config)
      | Some factory \<Rightarrow> factory config)"

definition ListProviders :: "'p factories \<Rightarrow> string list" where
  "ListProviders fs = map fst fs"

subsection \<open>Errors\<close>

text \<open>An error that carries a status, a plain one, and one that wraps another (\<open>%w\<close>).\<close>

datatype provider_error =
    PlainError string
  | StatusError int string
  | WrappedError string provider_error

fun error_text :: "provider_error \<Rightarrow> string" where
  "error_text (PlainError msg) = msg"
| "error_text (StatusError code msg) = msg"
| "error_text (WrappedError msg e) = msg @ error_text e"

text \<open>\<open>errors.As\<close> to a \<open>StatusError\<close>.\<close>

fun as_status :: "provider_error \<Rightarrow> int option" where
  "as_status (PlainError msg) = None"
| "as_status (StatusError code msg) = Some code"
| "as_status (WrappedError msg e) = as_status e"

definition NewStatusError :: "int \<Rightarrow> string \<Rightarrow> provider_error" where
  "NewStatusError code message = StatusError code message"

record http_response =
  resp_StatusCode :: int
  resp_Body :: string

definition CheckResponse :: "http_response \<Rightarrow> provider_error option" where
  "CheckResponse resp =
     (if resp_StatusCode resp \<ge> 200 \<and> resp_StatusCode resp < 300 then None
      else Some (NewStatusError (resp_StatusCode resp)
             (''upstream '' @ Itoa (resp_StatusCode resp) @ '': '' @ take 4096 (resp_Body resp))))"

definition WrapEinoError :: "provider_error option \<Rightarrow> provider_error option" where
  "WrapEinoError err =
     (case err of
        None \<Rightarrow> None
      | Some e \<Rightarrow> if as_status e \<noteq> None then Some e else Some (NewStatusError 502 (error_text e)))"

definition isRetryable :: "provider_error \<Rightarrow> bool" where
  "isRetryable err =
     (case as_status err of
        Some code \<Rightarrow> code = 429 \<or> (code \<ge> 500 \<and> code < 600)
      | None \<Rightarrow> True)"

definition wrap_error :: "provider_error \<Rightarrow> provider_error" where
  "wrap_error e = the (WrapEinoError (Some e))"

subsection \<open>Retries\<close>

text \<open>The loop of \<open>RetryGenerate\<close>, with \<open>left\<close> retries left after attempt \<open>i\<close>: the result, the
  durations slept, and the world after the last attempt.\<close>

fun retry_loop ::
    "('w \<Rightarrow> (provider_error + 'a) \<times> 'w) \<Rightarrow> duration \<Rightarrow> nat \<Rightarrow> nat \<Rightarrow> 'w \<Rightarrow>
     (provider_error + 'a) \<times> duration list \<times> 'w" where
  "retry_loop fn delay left i w =
     (case fn w of
        (Inr result, w1) \<Rightarrow> (Inr result, [], w1)
      | (Inl err, w1) \<Rightarrow>
          (let last = wrap_error err
           in if \<not> isRetryable last then (Inl last, [], w1)
              else (case left of
                      0 \<Rightarrow> (Inl last, [], w1)
                    | Suc left \<Rightarrow>
                        (case retry_loop fn delay left (Suc i) w1 of
                           (r, sleeps, w2) \<Rightarrow> (r, wrap64 (delay * (int i + 1)) # sleeps, w2)))))"

declare retry_loop.simps [simp del]

definition retry_max :: "network_config \<Rightarrow> nat" where
  "retry_max config = (if n_MaxRetries config \<le> 0 then 3 else nat (n_MaxRetries config))"

definition retry_delay :: "network_config \<Rightarrow> duration" where
  "retry_delay config =
     (let delay = wrap64 (n_RetryDelaySeconds config * second)
      in if delay \<le> 0 then second else delay)"

definition RetryGenerate ::
    "network_config \<Rightarrow> ('w \<Rightarrow> (provider_error + 'a) \<times> 'w) \<Rightarrow> 'w \<Rightarrow>
     (provider_error + 'a) \<times> duration list \<times> 'w" where
  "RetryGenerate config fn w = retry_loop fn (retry_delay config) (retry_max config) 0 w"

subsection \<open>Credentials of a request\<close>

text \<open>The part of the context that the sources read: the values the manager looks up and the
  credential of the request.\<close>

record req_ctx =
  x_values :: "(string, goval) gomap"
  x_credential :: "credential option"

definition WithCredential :: "req_ctx \<Rightarrow> credential option \<Rightarrow> req_ctx" where
  "WithCredential ctx cred = ctx\<lparr>x_credential := cred\<rparr>"

definition CredentialFromContext :: "req_ctx \<Rightarrow> credential option" where
  "CredentialFromContext ctx = x_credential ctx"

text \<open>\<open>token, _ := cred.Metadata["access_token"].(string)\<close>\<close>

definition access_token :: "credential \<Rightarrow> string" where
  "access_token cred = (case map_of (c_Metadata cred) ''access_token'' of Some (GString s) \<Rightarrow> s | _ \<Rightarrow> [])"

definition override_key :: "credential \<Rightarrow> string \<Rightarrow> string" where
  "override_key cred apiKey =
     (if access_token cred \<noteq> [] then access_token cred
      else if TrimSpace (APIKey cred) \<noteq> [] then TrimSpace (APIKey cred)
      else apiKey)"

definition override_url :: "credential \<Rightarrow> string \<Rightarrow> string" where
  "override_url cred baseURL =
     (if TrimSpace (BaseURL cred) \<noteq> [] then TrimSpace (BaseURL cred) else baseURL)"

definition ResolveCredential :: "req_ctx \<Rightarrow> provider_config \<Rightarrow> string \<times> string \<times> credential option" where
  "ResolveCredential ctx config0 =
     (let config = ProviderConfig_Defaults config0;
          apiKey = pc_APIKey config;
          baseURL = pc_BaseURL config
      in (case CredentialFromContext ctx of
            None \<Rightarrow> (apiKey, baseURL, None)
          | Some c \<Rightarrow>
              if pc_AuthStrategy config = AuthStrategyAPIKeyOnly then (apiKey, baseURL, None)
              else
                (let (apiKey, cred) =
                       (if pc_AuthStrategy config = AuthStrategyAPIKeyFirst then
                          (apiKey, if TrimSpace apiKey = [] then Some c else None)
                        else if pc_AuthStrategy config = AuthStrategyCredentialOnly \<or>
                                pc_AuthStrategy config = AuthStrategyCredentialFirst then
                          ([], Some c)
                        else (apiKey, if TrimSpace apiKey = [] then Some c else None))
                 in (case cred of
                       Some c \<Rightarrow> (override_key c apiKey, override_url c baseURL, Some c)
                     | None \<Rightarrow> (apiKey, baseURL, None)))))"

record ('msg, 'opt) generate_request =
  gq_Model :: string
  gq_Messages :: "'msg list"
  gq_Options :: "'opt list"

record ('msg, 'opt, 'common) chat_request_state =
  cs_APIKey :: string
  cs_BaseURL :: string
  cs_Credential :: "credential option"
  cs_ModelName :: string
  cs_Messages :: "'msg list"
  cs_Options :: "'opt list"
  cs_CommonOptions :: 'common

definition ToEinoOptions :: "('msg, 'opt) generate_request \<Rightarrow> 'opt list" where
  "ToEinoOptions req = [] @ gq_Options req"

definition ResolveChatRequest ::
    "('opt list \<Rightarrow> 'common) \<Rightarrow> req_ctx \<Rightarrow> provider_config \<Rightarrow> ('msg, 'opt) generate_request \<Rightarrow>
     ('msg, 'opt, 'common) chat_request_state" where
  "ResolveChatRequest getCommonOptions ctx config req =
     (case ResolveCredential ctx config of
        (apiKey, baseURL, cred) \<Rightarrow>
          (let modelName = (if gq_Model req = [] then pc_DefaultModel config else gq_Model req);
               opts = ToEinoOptions req
           in \<lparr>cs_APIKey = apiKey, cs_BaseURL = baseURL, cs_Credential = cred, cs_ModelName = modelName,
               cs_Messages = gq_Messages req, cs_Options = opts, cs_CommonOptions = getCommonOptions opts\<rparr>))"

subsection \<open>HTTP client\<close>

record 'u http_client =
  hc_Timeout :: duration
  hc_Proxy :: "'u option"
  hc_Headers :: "(string, string) gomap"

definition merge_headers :: "(string, string) gomap \<Rightarrow> (string, string) gomap \<Rightarrow> (string, string) gomap" where
  "merge_headers base extra = foldl (\<lambda>h (k, v). AList.update k v h) base extra"

definition BuildHTTPClient ::
    "(string \<Rightarrow> 'u option) \<Rightarrow> provider_config \<Rightarrow> (string, string) gomap \<Rightarrow> credential option \<Rightarrow> 'u http_client" where
  "BuildHTTPClient url_Parse config extraHeaders cred =
     (let proxyURL = (case cred of
                        Some c \<Rightarrow> if c_ProxyURL c \<noteq> [] then c_ProxyURL c else n_ProxyURL (pc_Network config)
                      | None \<Rightarrow> n_ProxyURL (pc_Network config))
      in \<lparr>hc_Timeout = NetworkConfig_Timeout (pc_Network config),
          hc_Proxy = (if proxyURL \<noteq> [] then url_Parse proxyURL else None),
          hc_Headers = merge_headers (merge_headers [] (n_ExtraHeaders (pc_Network config))) extraHeaders\<rparr>)"

text \<open>\<open>headerRoundTripper.RoundTrip\<close> on the headers of the request.\<close>

definition RoundTrip_headers :: "'u http_client \<Rightarrow> http_header \<Rightarrow> http_header" where
  "RoundTrip_headers client h = Header_SetAll h (hc_Headers client)"

subsection \<open>Facts\<close>

lemma NetworkConfig_Defaults_idem [simp]: "NetworkConfig_Defaults (NetworkConfig_Defaults c) = NetworkConfig_Defaults c"
  by (simp add: NetworkConfig_Defaults_def Let_def)

lemma ProviderConfig_Defaults_idem [simp]:
  "ProviderConfig_Defaults (ProviderConfig_Defaults c) = ProviderConfig_Defaults c"
  by (simp add: ProviderConfig_Defaults_def Let_def auth_strategy_defs)

lemma wrap_error_status: "as_status (wrap_error e) = Some (case as_status e of Some c \<Rightarrow> c | None \<Rightarrow> 502)"
  by (auto simp: wrap_error_def WrapEinoError_def NewStatusError_def split: option.splits)

lemma retry_max_pos [simp]: "0 < retry_max c"
  by (simp add: retry_max_def)

lemma retry_delay_pos [simp]: "0 < retry_delay c"
  by (simp add: retry_delay_def Let_def second_def)

text \<open>The attempts of a retry loop: the world before attempt \<open>k\<close>.\<close>

definition attempt_world :: "('w \<Rightarrow> 'r \<times> 'w) \<Rightarrow> 'w \<Rightarrow> nat \<Rightarrow> 'w" where
  "attempt_world fn w k = ((\<lambda>w. snd (fn w)) ^^ k) w"

lemma attempt_world_Suc: "attempt_world fn w (Suc k) = attempt_world fn (snd (fn w)) k"
  unfolding attempt_world_def by (simp only: funpow_Suc_right comp_apply)

definition failed_retryably :: "provider_error + 'a \<Rightarrow> bool" where
  "failed_retryably r = (case r of Inl e \<Rightarrow> isRetryable (wrap_error e) | Inr _ \<Rightarrow> False)"

definition final_result :: "provider_error + 'a \<Rightarrow> provider_error + 'a" where
  "final_result r = (case r of Inl e \<Rightarrow> Inl (wrap_error e) | Inr x \<Rightarrow> Inr x)"

lemma retry_loop_spec:
  "\<exists>k\<le>left. retry_loop fn delay left i w =
     (final_result (fst (fn (attempt_world fn w k))),
      map (\<lambda>j. wrap64 (delay * (int (i + j) + 1))) [0..<k], attempt_world fn w (Suc k)) \<and>
   (\<forall>j<k. failed_retryably (fst (fn (attempt_world fn w j)))) \<and>
   (k < left \<longrightarrow> \<not> failed_retryably (fst (fn (attempt_world fn w k))))"
proof (induction left arbitrary: i w)
  case 0
  show ?case
    by (subst retry_loop.simps)
       (auto simp: attempt_world_def final_result_def Let_def split: prod.splits sum.splits)
next
  case (Suc left)
  obtain r w1 where f: "fn w = (r, w1)" by fastforce
  show ?case
  proof (cases "failed_retryably r")
    case False
    then show ?thesis
      using f by (intro exI [of _ 0], subst retry_loop.simps)
        (auto simp: attempt_world_def final_result_def failed_retryably_def Let_def split: sum.splits)
  next
    case True
    from Suc.IH [of "Suc i" w1] obtain k where k: "k \<le> left"
      "retry_loop fn delay left (Suc i) w1 =
        (final_result (fst (fn (attempt_world fn w1 k))),
         map (\<lambda>j. wrap64 (delay * (int (Suc i + j) + 1))) [0..<k], attempt_world fn w1 (Suc k))"
      "\<forall>j<k. failed_retryably (fst (fn (attempt_world fn w1 j)))"
      "k < left \<longrightarrow> \<not> failed_retryably (fst (fn (attempt_world fn w1 k)))" by blast
    have step: "attempt_world fn w (Suc n) = attempt_world fn w1 n" for n using f by (simp add: attempt_world_Suc)
    have w0: "attempt_world fn w 0 = w" by (simp add: attempt_world_def)
    have "retry_loop fn delay (Suc left) i w =
        (final_result (fst (fn (attempt_world fn w (Suc k)))),
         map (\<lambda>j. wrap64 (delay * (int (i + j) + 1))) [0..<Suc k], attempt_world fn w (Suc (Suc k)))"
      using True f k(2) unfolding step
      by (subst retry_loop.simps)
         (auto simp: failed_retryably_def Let_def upt_conv_Cons map_Suc_upt [symmetric] simp del: upt_Suc split: sum.splits)
    moreover have "\<forall>j<Suc k. failed_retryably (fst (fn (attempt_world fn w j)))"
      using True f k(3) step w0 by (auto simp: less_Suc_eq_0_disj)
    ultimately show ?thesis using k(1,4) step by (intro exI [of _ "Suc k"]) auto
  qed
qed

end
