(* ===== verification/Provider_Impl.thy ===== *)
theory Provider_Impl
  imports Provider_Core
begin

text \<open>
  The provider packages llm/provider/openai, anthropic, gemini, ollama and openrouter, and the shared
  base llm/provider/openaibase.  The chat models they build belong to the eino libraries and the
  requests go over the network: \<open>eino_model\<close> is the record of what they call there, and an HTTP
  round trip is the function \<open>client_Do\<close> from a request to its answer.
\<close>

subsection \<open>What the packages call\<close>

record ('u, 'cl) chat_model_config =
  cc_APIKey :: "string option"
  cc_BaseURL :: "string option"
  cc_Model :: string
  cc_MaxTokens :: "int option"
  cc_HTTPClient :: "'u http_client option"
  cc_Client :: "'cl option"

record ('u, 'cl, 'model, 'msg, 'opt, 'stream, 'w) eino_model =
  em_NewChatModel :: "('u, 'cl) chat_model_config \<Rightarrow> 'w \<Rightarrow> (provider_error + 'model) \<times> 'w"
  em_Generate :: "'model \<Rightarrow> 'msg list \<Rightarrow> 'opt list \<Rightarrow> 'w \<Rightarrow> (provider_error + 'msg option) \<times> 'w"
  em_Stream :: "'model \<Rightarrow> 'msg list \<Rightarrow> 'opt list \<Rightarrow> 'w \<Rightarrow> (provider_error + 'stream) \<times> 'w"

record common_options =
  co_MaxTokens :: "int option"

record http_call =
  call_URL :: string
  call_Header :: http_header
  call_Body :: string

type_synonym 'w client_Do = "http_call \<Rightarrow> 'w \<Rightarrow> (provider_error + http_response) \<times> 'w"

definition zero_capabilities :: provider_capabilities where
  "zero_capabilities =
     \<lparr>cap_Streaming = False, cap_Tools = False, cap_Vision = False, cap_Embeddings = False,
      cap_ContextWindow = 0, cap_MaxOutputTokens = 0\<rparr>"

type_synonym ('model, 'msg, 'opt) chat = "'model \<times> 'msg list \<times> 'opt list"

text \<open>The body every \<open>Generate\<close> hands to \<open>RetryGenerate\<close>, and every \<open>Stream\<close>: build the model, call
  it, wrap its error.  The response is the message it returned, if any (\<open>FromEinoMessage\<close>).\<close>

definition FromEinoMessage :: "'msg option \<Rightarrow> 'msg option" where
  "FromEinoMessage msg = (case msg of None \<Rightarrow> None | Some m \<Rightarrow> Some m)"

definition attempt_generate ::
    "('u, 'cl, 'model, 'msg, 'opt, 'stream, 'w) eino_model \<Rightarrow>
     ('w \<Rightarrow> (provider_error + ('model, 'msg, 'opt) chat) \<times> 'w) \<Rightarrow> 'w \<Rightarrow> (provider_error + 'msg option) \<times> 'w" where
  "attempt_generate em newChatModel w =
     (case newChatModel w of
        (Inl err, w1) \<Rightarrow> (Inl err, w1)
      | (Inr (model, messages, opts), w1) \<Rightarrow>
          (case em_Generate em model messages opts w1 of
             (Inl err, w2) \<Rightarrow> (Inl (wrap_error err), w2)
           | (Inr msg, w2) \<Rightarrow> (Inr (FromEinoMessage msg), w2)))"

definition attempt_stream ::
    "('u, 'cl, 'model, 'msg, 'opt, 'stream, 'w) eino_model \<Rightarrow>
     ('w \<Rightarrow> (provider_error + ('model, 'msg, 'opt) chat) \<times> 'w) \<Rightarrow> 'w \<Rightarrow> (provider_error + 'stream) \<times> 'w" where
  "attempt_stream em newChatModel w =
     (case newChatModel w of
        (Inl err, w1) \<Rightarrow> (Inl err, w1)
      | (Inr (model, messages, opts), w1) \<Rightarrow>
          (case em_Stream em model messages opts w1 of
             (Inl err, w2) \<Rightarrow> (Inl (wrap_error err), w2)
           | (Inr stream, w2) \<Rightarrow> (Inr stream, w2)))"

text \<open>Building the model from its configuration and pairing it with the request's messages.\<close>

definition build_chat ::
    "('u, 'cl, 'model, 'msg, 'opt, 'stream, 'w) eino_model \<Rightarrow> ('u, 'cl) chat_model_config \<Rightarrow>
     ('msg, 'opt, common_options) chat_request_state \<Rightarrow> 'w \<Rightarrow>
     (provider_error + ('model, 'msg, 'opt) chat) \<times> 'w" where
  "build_chat em cfg state w =
     (case em_NewChatModel em cfg w of
        (Inl err, w1) \<Rightarrow> (Inl err, w1)
      | (Inr model, w1) \<Rightarrow> (Inr (model, cs_Messages state, cs_Options state), w1))"

text \<open>\<open>Provision\<close> of every package: check the name, build, replace the module by what was built.\<close>

definition provision_with ::
    "string \<Rightarrow> (provider_config \<Rightarrow> string + provider_config) \<Rightarrow> provider_config \<Rightarrow> string + provider_config" where
  "provision_with name new cfg =
     (case ValidateProviderName cfg name of
        Inl err \<Rightarrow> Inl err
      | Inr cfg \<Rightarrow> new cfg)"

definition default_url :: "string \<Rightarrow> provider_config \<Rightarrow> provider_config" where
  "default_url url cfg = (if pc_BaseURL cfg = [] then cfg\<lparr>pc_BaseURL := url\<rparr> else cfg)"

definition network_defaults :: "provider_config \<Rightarrow> provider_config" where
  "network_defaults cfg = cfg\<lparr>pc_Network := NetworkConfig_Defaults (pc_Network cfg)\<rparr>"

subsection \<open>Package openaibase\<close>

definition NewBase :: "(string \<Rightarrow> 'u option) \<Rightarrow> provider_config \<Rightarrow> 'u http_client" where
  "NewBase url_Parse config =
     \<lparr>hc_Timeout = NetworkConfig_Timeout (pc_Network config),
      hc_Proxy = (if n_ProxyURL (pc_Network config) \<noteq> [] then url_Parse (n_ProxyURL (pc_Network config)) else None),
      hc_Headers = []\<rparr>"

definition Base_setHeaders :: "provider_config \<Rightarrow> req_ctx \<Rightarrow> http_header \<Rightarrow> http_header" where
  "Base_setHeaders config ctx h0 =
     (let h = Header_Set h0 ''Content-Type'' ''application/json'';
          token = (case CredentialFromContext ctx of Some cred \<Rightarrow> access_token cred | None \<Rightarrow> [])
      in if token \<noteq> [] then
           Header_SetAll (Header_Set h ''Authorization'' (''Bearer '' @ token)) (n_ExtraHeaders (pc_Network config))
         else
           Header_SetAll
             (if pc_APIKey config \<noteq> [] then Header_Set h ''Authorization'' (''Bearer '' @ pc_APIKey config) else h)
             (n_ExtraHeaders (pc_Network config)))"

text \<open>A request, its answer checked for a 2xx status and decoded.  \<open>decode\<close> is the JSON decoder,
  \<open>url_error\<close> the error of \<open>http.NewRequestWithContext\<close> on a URL, if any.\<close>

definition call_and_decode ::
    "string \<Rightarrow> string \<Rightarrow> string \<Rightarrow> (string \<Rightarrow> string option) \<Rightarrow> 'w client_Do \<Rightarrow> (string \<Rightarrow> string + 'd) \<Rightarrow>
     http_call \<Rightarrow> 'w \<Rightarrow> (provider_error + 'd) \<times> 'w" where
  "call_and_decode unbuilt failed undecoded url_error client_Do decode call w =
     (case url_error (call_URL call) of
        Some err \<Rightarrow> (Inl (WrappedError unbuilt (PlainError err)), w)
      | None \<Rightarrow>
          (case client_Do call w of
             (Inl err, w1) \<Rightarrow> (Inl (WrappedError failed err), w1)
           | (Inr resp, w1) \<Rightarrow>
               (case CheckResponse resp of
                  Some err \<Rightarrow> (Inl err, w1)
                | None \<Rightarrow>
                    (case decode (resp_Body resp) of
                       Inl err \<Rightarrow> (Inl (WrappedError undecoded (PlainError err)), w1)
                     | Inr d \<Rightarrow> (Inr d, w1)))))"

definition Base_ListModels ::
    "(string \<Rightarrow> string option) \<Rightarrow> 'w client_Do \<Rightarrow> (string \<Rightarrow> string + string list) \<Rightarrow> provider_config \<Rightarrow> req_ctx \<Rightarrow> 'w \<Rightarrow>
     (provider_error + model_info list) \<times> 'w" where
  "Base_ListModels url_error client_Do decode_ids config ctx w =
     (case call_and_decode ''openaibase: build request: '' ''openaibase: request failed: '' ''openaibase: decode models: '' url_error client_Do decode_ids
             \<lparr>call_URL = pc_BaseURL config @ ''/models'', call_Header = Base_setHeaders config ctx [], call_Body = []\<rparr> w of
        (Inl err, w1) \<Rightarrow> (Inl err, w1)
      | (Inr ids, w1) \<Rightarrow>
          (Inr (map (\<lambda>i. \<lparr>mi_ID = i, mi_Name = i, mi_Description = [], mi_Capabilities = zero_capabilities\<rparr>) ids), w1))"

record embed_request =
  eq_Model :: string
  eq_Texts :: "string list"

record 'v embed_wire =
  ew_Embeddings :: "'v list"
  ew_Model :: string
  ew_PromptTokens :: int
  ew_CompletionTokens :: int

record 'v embed_response =
  er_Embeddings :: "'v list"
  er_Model :: string
  er_InputTokens :: int
  er_OutputTokens :: int

definition Base_Embed ::
    "(string \<Rightarrow> string option) \<Rightarrow> 'w client_Do \<Rightarrow> (string \<Rightarrow> string list \<Rightarrow> string + string) \<Rightarrow> (string \<Rightarrow> string + 'v embed_wire) \<Rightarrow>
     provider_config \<Rightarrow> req_ctx \<Rightarrow> embed_request \<Rightarrow> 'w \<Rightarrow> (provider_error + 'v embed_response) \<times> 'w" where
  "Base_Embed url_error client_Do marshal decode config ctx req w =
     (let model = (if eq_Model req = [] then pc_DefaultModel config else eq_Model req)
      in (case marshal model (eq_Texts req) of
            Inl err \<Rightarrow> (Inl (WrappedError ''openaibase: marshal embed request: '' (PlainError err)), w)
          | Inr body \<Rightarrow>
              (case call_and_decode ''openaibase: build embed request: '' ''openaibase: embed request failed: ''
                      ''openaibase: decode embed response: '' url_error client_Do decode
                      \<lparr>call_URL = pc_BaseURL config @ ''/embeddings'', call_Header = Base_setHeaders config ctx [],
                       call_Body = body\<rparr> w of
                 (Inl err, w1) \<Rightarrow> (Inl err, w1)
               | (Inr d, w1) \<Rightarrow>
                   (Inr \<lparr>er_Embeddings = ew_Embeddings d, er_Model = ew_Model d,
                         er_InputTokens = ew_PromptTokens d, er_OutputTokens = ew_CompletionTokens d\<rparr>, w1))))"

subsection \<open>Package openai\<close>

definition string_option :: "(string, goval) gomap \<Rightarrow> string \<Rightarrow> string" where
  "string_option m k = (case map_of m k of Some (GString s) \<Rightarrow> s | _ \<Rightarrow> [])"

definition inject_header :: "string \<Rightarrow> string \<Rightarrow> provider_config \<Rightarrow> provider_config" where
  "inject_header opt header cfg =
     (let s = string_option (pc_Options cfg) opt
      in if s \<noteq> [] then
           cfg\<lparr>pc_Network := (pc_Network cfg)\<lparr>n_ExtraHeaders :=
                 AList.update header s (n_ExtraHeaders (pc_Network cfg))\<rparr>\<rparr>
         else cfg)"

definition openai_New :: "provider_config \<Rightarrow> string + provider_config" where
  "openai_New config =
     (let config = default_url ''https://api.openai.com/v1'' config;
          config = config\<lparr>pc_BaseURL := TrimRight (pc_BaseURL config) ''/''\<rparr>;
          config = network_defaults config;
          config = inject_header ''organization'' ''OpenAI-Organization'' config
      in Inr (inject_header ''project'' ''OpenAI-Project'' config))"

definition openai_Provision :: "provider_config \<Rightarrow> string + provider_config" where
  "openai_Provision cfg = provision_with ''openai'' openai_New cfg"

definition openai_newChatModel where
  "openai_newChatModel em url_Parse common config ctx req w =
     (let state = ResolveChatRequest common ctx config req;
          cfg = \<lparr>cc_APIKey = Some (cs_APIKey state), cc_BaseURL = Some (cs_BaseURL state),
                 cc_Model = cs_ModelName state, cc_MaxTokens = None,
                 cc_HTTPClient = Some (BuildHTTPClient url_Parse config [] (cs_Credential state)),
                 cc_Client = None\<rparr>
      in build_chat em cfg state w)"

definition openai_Generate where
  "openai_Generate em url_Parse common config ctx req w =
     RetryGenerate (pc_Network config)
       (attempt_generate em (openai_newChatModel em url_Parse common config ctx req)) w"

definition openai_Stream where
  "openai_Stream em url_Parse common config ctx req w =
     attempt_stream em (openai_newChatModel em url_Parse common config ctx req) w"

definition openai_Capabilities :: provider_capabilities where
  "openai_Capabilities =
     \<lparr>cap_Streaming = True, cap_Tools = True, cap_Vision = True, cap_Embeddings = True,
      cap_ContextWindow = 128000, cap_MaxOutputTokens = 16384\<rparr>"

subsection \<open>Package anthropic\<close>

definition anthropicVersion :: string where
  "anthropicVersion = ''2023-06-01''"

definition anthropic_New :: "provider_config \<Rightarrow> string + provider_config" where
  "anthropic_New config = Inr (network_defaults (default_url ''https://api.anthropic.com'' config))"

definition anthropic_Provision :: "provider_config \<Rightarrow> string + provider_config" where
  "anthropic_Provision cfg = provision_with ''anthropic'' anthropic_New cfg"

definition anthropic_maxTokens :: "common_options \<Rightarrow> int" where
  "anthropic_maxTokens co =
     (let maxTokens = (case co_MaxTokens co of Some n \<Rightarrow> n | None \<Rightarrow> 0)
      in if maxTokens \<le> 0 then 4096 else maxTokens)"

definition anthropic_newChatModel where
  "anthropic_newChatModel em url_Parse common config ctx req w =
     (let state = ResolveChatRequest common ctx config req;
          cfg = \<lparr>cc_APIKey = Some (cs_APIKey state),
                 cc_BaseURL = (if cs_BaseURL state \<noteq> [] then Some (cs_BaseURL state) else None),
                 cc_Model = cs_ModelName state, cc_MaxTokens = Some (anthropic_maxTokens (cs_CommonOptions state)),
                 cc_HTTPClient = Some (BuildHTTPClient url_Parse config [] (cs_Credential state)),
                 cc_Client = None\<rparr>
      in build_chat em cfg state w)"

definition anthropic_Generate where
  "anthropic_Generate em url_Parse common config ctx req w =
     RetryGenerate (pc_Network config)
       (attempt_generate em (anthropic_newChatModel em url_Parse common config ctx req)) w"

definition anthropic_Stream where
  "anthropic_Stream em url_Parse common config ctx req w =
     attempt_stream em (anthropic_newChatModel em url_Parse common config ctx req) w"

definition anthropic_setHeaders :: "provider_config \<Rightarrow> http_header \<Rightarrow> http_header" where
  "anthropic_setHeaders config h =
     Header_SetAll
       (Header_Set (Header_Set (Header_Set h ''Content-Type'' ''application/json'')
          ''x-api-key'' (pc_APIKey config)) ''anthropic-version'' anthropicVersion)
       (n_ExtraHeaders (pc_Network config))"

definition anthropic_ListModels ::
    "(string \<Rightarrow> string option) \<Rightarrow> 'w client_Do \<Rightarrow> (string \<Rightarrow> string + (string \<times> string) list) \<Rightarrow> provider_config \<Rightarrow> 'w \<Rightarrow>
     (provider_error + model_info list) \<times> 'w" where
  "anthropic_ListModels url_error client_Do decode config w =
     (case call_and_decode ''anthropic: build request: '' ''anthropic: request failed: '' ''anthropic: decode models: '' url_error client_Do decode
             \<lparr>call_URL = pc_BaseURL config @ ''/v1/models'', call_Header = anthropic_setHeaders config [], call_Body = []\<rparr> w of
        (Inl err, w1) \<Rightarrow> (Inl err, w1)
      | (Inr ms, w1) \<Rightarrow>
          (Inr (map (\<lambda>(i, name). \<lparr>mi_ID = i, mi_Name = name, mi_Description = [],
                                   mi_Capabilities = zero_capabilities\<rparr>) ms), w1))"

definition anthropic_Capabilities :: provider_capabilities where
  "anthropic_Capabilities =
     zero_capabilities\<lparr>cap_Streaming := True, cap_Tools := True, cap_Vision := True,
       cap_ContextWindow := 200000, cap_MaxOutputTokens := 8192\<rparr>"

subsection \<open>Package gemini\<close>

record 'u genai_config =
  ga_APIKey :: string
  ga_HTTPClient :: "'u http_client"
  ga_BaseURL :: string
  ga_APIVersion :: string
  ga_Timeout :: duration

text \<open>\<open>provider.ProviderConfig{Network: network}\<close>: every other field zero.\<close>

definition network_only :: "network_config \<Rightarrow> provider_config" where
  "network_only network =
     \<lparr>pc_Id = [], pc_ProviderName = [], pc_APIKey = [], pc_BaseURL = [], pc_DefaultModel = [],
      pc_Network = network, pc_Options = [], pc_AuthStrategy = []\<rparr>"

definition buildGenaiClient ::
    "('u genai_config \<Rightarrow> string + 'cl) \<Rightarrow> (string \<Rightarrow> 'u option) \<Rightarrow> string \<Rightarrow> string \<Rightarrow> network_config \<Rightarrow>
     credential option \<Rightarrow> string + 'cl" where
  "buildGenaiClient genai_NewClient url_Parse apiKey baseURL network cred =
     genai_NewClient
       \<lparr>ga_APIKey = apiKey, ga_HTTPClient = BuildHTTPClient url_Parse (network_only network) [] cred,
        ga_BaseURL = baseURL, ga_APIVersion = ''v1beta'', ga_Timeout = NetworkConfig_Timeout network\<rparr>"

definition gemini_New ::
    "('u genai_config \<Rightarrow> string + 'cl) \<Rightarrow> (string \<Rightarrow> 'u option) \<Rightarrow> provider_config \<Rightarrow> string + provider_config \<times> 'cl" where
  "gemini_New genai_NewClient url_Parse config0 =
     (let config = network_defaults (default_url ''https://generativelanguage.googleapis.com'' config0)
      in (case buildGenaiClient genai_NewClient url_Parse (pc_APIKey config) (pc_BaseURL config) (pc_Network config) None of
            Inl err \<Rightarrow> Inl (''gemini: init client: '' @ err)
          | Inr client \<Rightarrow> Inr (config, client)))"

definition gemini_Provision ::
    "('u genai_config \<Rightarrow> string + 'cl) \<Rightarrow> (string \<Rightarrow> 'u option) \<Rightarrow> provider_config \<Rightarrow> string + provider_config \<times> 'cl" where
  "gemini_Provision genai_NewClient url_Parse cfg =
     (case ValidateProviderName cfg ''gemini'' of
        Inl err \<Rightarrow> Inl err
      | Inr cfg \<Rightarrow> gemini_New genai_NewClient url_Parse cfg)"

definition gemini_newChatModel where
  "gemini_newChatModel em genai_NewClient url_Parse common config genaiClient ctx req w =
     (let state = ResolveChatRequest common ctx config req
      in (case (case cs_Credential state of
                  None \<Rightarrow> Inr genaiClient
                | Some cred \<Rightarrow>
                    buildGenaiClient genai_NewClient url_Parse (cs_APIKey state) (cs_BaseURL state) (pc_Network config)
                      (Some cred)) of
            Inl err \<Rightarrow> (Inl (WrappedError ''gemini: build credential client: '' (PlainError err)), w)
          | Inr client \<Rightarrow>
              build_chat em
                \<lparr>cc_APIKey = None, cc_BaseURL = None, cc_Model = cs_ModelName state, cc_MaxTokens = None,
                 cc_HTTPClient = None, cc_Client = Some client\<rparr> state w))"

definition gemini_Generate where
  "gemini_Generate em genai_NewClient url_Parse common config genaiClient ctx req w =
     RetryGenerate (pc_Network config)
       (attempt_generate em (gemini_newChatModel em genai_NewClient url_Parse common config genaiClient ctx req)) w"

definition gemini_Stream where
  "gemini_Stream em genai_NewClient url_Parse common config genaiClient ctx req w =
     attempt_stream em (gemini_newChatModel em genai_NewClient url_Parse common config genaiClient ctx req) w"

record gemini_model_data =
  gm_Name :: string
  gm_DisplayName :: string
  gm_Description :: string
  gm_InputTokenLimit :: int
  gm_OutputTokenLimit :: int

definition gemini_setHeaders :: "provider_config \<Rightarrow> http_header \<Rightarrow> http_header" where
  "gemini_setHeaders config h =
     Header_SetAll (Header_Set h ''Content-Type'' ''application/json'') (n_ExtraHeaders (pc_Network config))"

definition gemini_model_info :: "gemini_model_data \<Rightarrow> model_info" where
  "gemini_model_info m =
     \<lparr>mi_ID = TrimPrefix (gm_Name m) ''models/'', mi_Name = gm_DisplayName m, mi_Description = gm_Description m,
      mi_Capabilities = zero_capabilities\<lparr>cap_ContextWindow := gm_InputTokenLimit m,
        cap_MaxOutputTokens := gm_OutputTokenLimit m\<rparr>\<rparr>"

definition gemini_ListModels ::
    "(string \<Rightarrow> string option) \<Rightarrow> 'w client_Do \<Rightarrow> (string \<Rightarrow> string + gemini_model_data list) \<Rightarrow> provider_config \<Rightarrow> 'w \<Rightarrow>
     (provider_error + model_info list) \<times> 'w" where
  "gemini_ListModels url_error client_Do decode config w =
     (case call_and_decode ''gemini: build request: '' ''gemini: request failed: '' ''gemini: decode models: '' url_error client_Do decode
             \<lparr>call_URL = pc_BaseURL config @ ''/v1beta/models?key='' @ pc_APIKey config,
              call_Header = gemini_setHeaders config [], call_Body = []\<rparr> w of
        (Inl err, w1) \<Rightarrow> (Inl err, w1)
      | (Inr ms, w1) \<Rightarrow> (Inr (map gemini_model_info ms), w1))"

definition gemini_Capabilities :: provider_capabilities where
  "gemini_Capabilities =
     \<lparr>cap_Streaming = True, cap_Tools = True, cap_Vision = True, cap_Embeddings = True,
      cap_ContextWindow = 1000000, cap_MaxOutputTokens = 8192\<rparr>"

subsection \<open>Packages ollama and openrouter\<close>

definition ollama_New :: "provider_config \<Rightarrow> string + provider_config" where
  "ollama_New config = Inr (network_defaults (default_url ''http://localhost:11434/v1'' config))"

definition ollama_Provision :: "provider_config \<Rightarrow> string + provider_config" where
  "ollama_Provision cfg = provision_with ''ollama'' ollama_New cfg"

definition ollama_newChatModel where
  "ollama_newChatModel em url_Parse common config ctx req w =
     (let state = ResolveChatRequest common ctx config req;
          cfg = \<lparr>cc_APIKey = None, cc_BaseURL = Some (TrimSuffix (cs_BaseURL state) ''/v1''),
                 cc_Model = cs_ModelName state, cc_MaxTokens = None,
                 cc_HTTPClient = Some (BuildHTTPClient url_Parse config [] (cs_Credential state)),
                 cc_Client = None\<rparr>
      in build_chat em cfg state w)"

definition ollama_Generate where
  "ollama_Generate em url_Parse common config ctx req w =
     RetryGenerate (pc_Network config)
       (attempt_generate em (ollama_newChatModel em url_Parse common config ctx req)) w"

definition ollama_Stream where
  "ollama_Stream em url_Parse common config ctx req w =
     attempt_stream em (ollama_newChatModel em url_Parse common config ctx req) w"

definition ollama_Capabilities :: provider_capabilities where
  "ollama_Capabilities = zero_capabilities\<lparr>cap_Streaming := True, cap_Tools := True\<rparr>"

definition openrouter_New :: "provider_config \<Rightarrow> string + provider_config" where
  "openrouter_New config = Inr (network_defaults (default_url ''https://openrouter.ai/api/v1'' config))"

definition openrouter_Provision :: "provider_config \<Rightarrow> string + provider_config" where
  "openrouter_Provision cfg = provision_with ''openrouter'' openrouter_New cfg"

definition openrouter_newChatModel where
  "openrouter_newChatModel em url_Parse common config ctx req w =
     (let state = ResolveChatRequest common ctx config req;
          cfg = \<lparr>cc_APIKey = Some (cs_APIKey state), cc_BaseURL = Some (cs_BaseURL state),
                 cc_Model = cs_ModelName state, cc_MaxTokens = None,
                 cc_HTTPClient = Some (BuildHTTPClient url_Parse config [] (cs_Credential state)),
                 cc_Client = None\<rparr>
      in build_chat em cfg state w)"

definition openrouter_Generate where
  "openrouter_Generate em url_Parse common config ctx req w =
     RetryGenerate (pc_Network config)
       (attempt_generate em (openrouter_newChatModel em url_Parse common config ctx req)) w"

definition openrouter_Stream where
  "openrouter_Stream em url_Parse common config ctx req w =
     attempt_stream em (openrouter_newChatModel em url_Parse common config ctx req) w"

definition openrouter_Capabilities :: provider_capabilities where
  "openrouter_Capabilities = zero_capabilities\<lparr>cap_Streaming := True, cap_Tools := True\<rparr>"

end
