(* ===== verification/Cred_Manager.thy ===== *)
theory Cred_Manager
  imports Scheduler_Spec
begin

text \<open>
  Package llm/cliauth/manager, files manager.go, persist_policy.go, authenticator.go and errors.go:
  the credential manager.  It keeps the credentials in memory, persists them through a
  \<open>CredentialStorer\<close>, keeps the scheduler in step, records the outcome of requests and refreshes
  credentials that are about to expire.

  The store is a value of the record \<open>cred_store\<close>: its operations on a state of any type.  A hook is
  observed through the list of the calls made to it, newest first.  An authenticator or refresher is
  the function from a credential to its answer.  Every reading of the clock and every generated
  identifier is an argument (\<open>call_env\<close>).  An operation that releases the manager's lock on the way
  is written as the composition of its locked steps, so that other operations can be put in between.
\<close>

subsection \<open>State\<close>

type_synonym go_ctx = "(string, goval) gomap"

record mark_result =
  r_CredentialID :: string
  r_Provider :: string
  r_Model :: string
  r_Success :: bool
  r_RetryAfter :: "duration option"
  r_Error :: "cred_error option"

datatype hook_event =
    OnCredentialRegistered credential
  | OnCredentialUpdated credential
  | OnResult mark_result

type_synonym refresher = "credential \<Rightarrow> string + credential option"

record authenticator =
  au_Provider :: string
  au_RefreshLead :: refresher

datatype store_item = StoredCredential credential | StoredNil | StoredOther string

record 'st cred_store =
  cs_ListByProviderName :: "'st \<Rightarrow> string \<Rightarrow> string + store_item list"
  cs_Create :: "'st \<Rightarrow> string \<Rightarrow> string \<Rightarrow> credential \<Rightarrow> string option \<times> 'st"
  cs_Update :: "'st \<Rightarrow> string \<Rightarrow> credential \<Rightarrow> string option \<times> 'st"
  cs_Delete :: "'st \<Rightarrow> string \<Rightarrow> string option \<times> 'st"

record 'st cred_manager =
  cm_store :: "'st cred_store option"
  cm_db :: 'st
  cm_strategy :: strategy
  cm_events :: "hook_event list"
  cm_creds :: "(string, credential) gomap"
  cm_authenticators :: "(string, authenticator) gomap"
  cm_refresher :: "refresher option"
  cm_scheduler :: auth_scheduler
  cm_requestRetry :: int
  cm_quotaCooldownDisabled :: bool
  cm_refreshCancel :: bool
  cm_refreshSemaphore :: nat

record call_env =
  e_uuid :: string
  e_now :: gotime
  e_schedNow :: gotime

definition defaultRefreshMaxConcurrent :: nat where
  "defaultRefreshMaxConcurrent = 8"

definition defaultQuotaBackoffBase :: duration where
  "defaultQuotaBackoffBase = second"

definition defaultQuotaBackoffMax :: duration where
  "defaultQuotaBackoffMax = 30 * minute"

definition NewManager :: "'st cred_store option \<Rightarrow> 'st \<Rightarrow> strategy option \<Rightarrow> 'st cred_manager" where
  "NewManager store db strategy =
     (let st = (case strategy of None \<Rightarrow> RoundRobinSelector_PickFromBucket | Some st \<Rightarrow> st)
      in \<lparr>cm_store = store, cm_db = db, cm_strategy = st, cm_events = [], cm_creds = [],
          cm_authenticators = [], cm_refresher = None, cm_scheduler = newAuthScheduler st,
          cm_requestRetry = 0, cm_quotaCooldownDisabled = False, cm_refreshCancel = False,
          cm_refreshSemaphore = 0\<rparr>)"

subsection \<open>Errors and contexts\<close>

definition cooldownError_Error :: "string \<Rightarrow> string \<Rightarrow> string \<Rightarrow> string" where
  "cooldownError_Error model provider resetIn =
     ''all credentials for model '' @ model @ '' are cooling down'' @
     (if provider \<noteq> [] then '' via provider '' @ provider else []) @
     (if resetIn \<noteq> [] then '', retry after '' @ resetIn else [])"

definition pick_error_status :: "pick_error \<Rightarrow> int" where
  "pick_error_status e =
     (case e of CredentialError err \<Rightarrow> Error_StatusCode (Some err) | CooldownError _ _ _ \<Rightarrow> 429)"

definition WithSkipPersist :: "go_ctx \<Rightarrow> go_ctx" where
  "WithSkipPersist ctx = (''skipPersist'', GBool True) # ctx"

definition shouldSkipPersist :: "go_ctx \<Rightarrow> bool" where
  "shouldSkipPersist ctx =
     (case map_of ctx ''skipPersist'' of Some (GBool enabled) \<Rightarrow> enabled | _ \<Rightarrow> False)"

subsection \<open>Registration\<close>

definition auth_key :: "string \<Rightarrow> string" where
  "auth_key name = ToLower (TrimSpace name)"

definition RegisterAuthenticator ::
    "'st cred_manager \<Rightarrow> string \<Rightarrow> authenticator option \<Rightarrow> 'st cred_manager" where
  "RegisterAuthenticator m cliname auth =
     (case auth of
        None \<Rightarrow> m
      | Some auth \<Rightarrow>
          (let cliKey = auth_key cliname; providerKey = auth_key (au_Provider auth)
           in if cliKey = [] then m
              else m\<lparr>cm_authenticators :=
                       (let as = AList.update cliKey auth (cm_authenticators m)
                        in if providerKey \<noteq> [] then AList.update providerKey auth as else as)\<rparr>))"

definition GetAuthenticator :: "'st cred_manager \<Rightarrow> string \<Rightarrow> authenticator option" where
  "GetAuthenticator m cliname = map_of (cm_authenticators m) (auth_key cliname)"

definition SetRefresher :: "'st cred_manager \<Rightarrow> refresher option \<Rightarrow> 'st cred_manager" where
  "SetRefresher m r = m\<lparr>cm_refresher := r\<rparr>"

definition SetRequestRetry :: "'st cred_manager \<Rightarrow> int \<Rightarrow> 'st cred_manager" where
  "SetRequestRetry m n = m\<lparr>cm_requestRetry := n\<rparr>"

definition SetQuotaCooldownDisabled :: "'st cred_manager \<Rightarrow> bool \<Rightarrow> 'st cred_manager" where
  "SetQuotaCooldownDisabled m disable = m\<lparr>cm_quotaCooldownDisabled := disable\<rparr>"

definition store_create :: "'st cred_manager \<Rightarrow> credential \<Rightarrow> string option \<times> 'st cred_manager" where
  "store_create m cred =
     (case cm_store m of
        None \<Rightarrow> (None, m)
      | Some store \<Rightarrow>
          (case cs_Create store (cm_db m) (c_ID cred) (c_Provider cred) cred of
             (err, db) \<Rightarrow>
               (map_option (\<lambda>e. ''manager: create credential '' @ c_ID cred @ '': '' @ e) err,
                m\<lparr>cm_db := db\<rparr>)))"

definition store_update :: "'st cred_manager \<Rightarrow> credential \<Rightarrow> string option \<times> 'st cred_manager" where
  "store_update m cred =
     (case cm_store m of
        None \<Rightarrow> (None, m)
      | Some store \<Rightarrow>
          (case cs_Update store (cm_db m) (c_ID cred) cred of
             (err, db) \<Rightarrow>
               (map_option (\<lambda>e. ''manager: update credential '' @ c_ID cred @ '': '' @ e) err,
                m\<lparr>cm_db := db\<rparr>)))"

text \<open>The two steps both \<open>Register\<close> and \<open>Update\<close> end with: the write to the map under the
  manager's lock, and the upsert into the scheduler after the lock is released.\<close>

definition commit :: "'st cred_manager \<Rightarrow> credential \<Rightarrow> 'st cred_manager" where
  "commit m cred = m\<lparr>cm_creds := AList.update (c_ID cred) cred (cm_creds m)\<rparr>"

definition publish :: "'st cred_manager \<Rightarrow> credential \<Rightarrow> gotime \<Rightarrow> 'st cred_manager" where
  "publish m cred now = m\<lparr>cm_scheduler := sched_upsert (cm_scheduler m) (Clone cred) now\<rparr>"

definition notify :: "'st cred_manager \<Rightarrow> hook_event \<Rightarrow> 'st cred_manager" where
  "notify m ev = m\<lparr>cm_events := ev # cm_events m\<rparr>"

definition prepare_registration :: "call_env \<Rightarrow> credential \<Rightarrow> credential" where
  "prepare_registration env cred =
     (let cred = Clone cred;
          cred = (if TrimSpace (c_ID cred) = [] then cred\<lparr>c_ID := e_uuid env\<rparr> else cred);
          cred = (if IsZero (c_CreatedAt cred) then cred\<lparr>c_CreatedAt := e_now env\<rparr> else cred);
          cred = cred\<lparr>c_UpdatedAt := e_now env\<rparr>
      in if c_Status cred = [] then cred\<lparr>c_Status := StatusActive\<rparr> else cred)"

definition Register ::
    "'st cred_manager \<Rightarrow> go_ctx \<Rightarrow> credential option \<Rightarrow> call_env \<Rightarrow> string option \<times> 'st cred_manager" where
  "Register m ctx c env =
     (case c of
        None \<Rightarrow> (Some ''manager: credential is nil'', m)
      | Some cred \<Rightarrow>
          if TrimSpace (c_Provider cred) = [] then (Some ''manager: credential has no provider'', m)
          else
            (let cred = prepare_registration env cred
             in (case (if shouldSkipPersist ctx then (None, m) else store_create m cred) of
                   (Some err, m1) \<Rightarrow> (Some err, m1)
                 | (None, m1) \<Rightarrow>
                     (None, notify (publish (commit m1 cred) cred (e_schedNow env))
                              (OnCredentialRegistered (Clone cred))))))"

definition Update ::
    "'st cred_manager \<Rightarrow> go_ctx \<Rightarrow> credential option \<Rightarrow> call_env \<Rightarrow> string option \<times> 'st cred_manager" where
  "Update m ctx c env =
     (case c of
        None \<Rightarrow> (Some ''manager: credential is nil'', m)
      | Some cred \<Rightarrow>
          (let cred = (Clone cred)\<lparr>c_UpdatedAt := e_now env\<rparr>
           in (case (if shouldSkipPersist ctx then (None, m) else store_update m cred) of
                 (Some err, m1) \<Rightarrow> (Some err, m1)
               | (None, m1) \<Rightarrow>
                   (None, notify (publish (commit m1 cred) cred (e_schedNow env))
                            (OnCredentialUpdated (Clone cred))))))"

definition Deregister :: "'st cred_manager \<Rightarrow> go_ctx \<Rightarrow> string \<Rightarrow> string option \<times> 'st cred_manager" where
  "Deregister m ctx ident =
     (let ident = TrimSpace ident
      in if ident = [] then (Some ''manager: id is empty'', m)
         else if map_of (cm_creds m) ident = None then (None, m)
         else
           (let m1 = m\<lparr>cm_creds := AList.delete ident (cm_creds m),
                       cm_scheduler := sched_remove (cm_scheduler m) ident\<rparr>
            in if shouldSkipPersist ctx then (None, m1)
               else (case cm_store m1 of
                       None \<Rightarrow> (None, m1)
                     | Some store \<Rightarrow>
                         (case cs_Delete store (cm_db m1) ident of
                            (err, db) \<Rightarrow>
                              (map_option (\<lambda>e. ''manager: delete from store: '' @ e) err,
                               m1\<lparr>cm_db := db\<rparr>)))))"

definition snapshotAuths :: "'st cred_manager \<Rightarrow> credential list" where
  "snapshotAuths m = map (\<lambda>(k, cred). Clone cred) (cm_creds m)"

definition syncScheduler :: "'st cred_manager \<Rightarrow> gotime \<Rightarrow> 'st cred_manager" where
  "syncScheduler m now = m\<lparr>cm_scheduler := sched_rebuild (cm_scheduler m) (snapshotAuths m) now\<rparr>"

definition SetStrategy :: "'st cred_manager \<Rightarrow> strategy option \<Rightarrow> gotime \<Rightarrow> 'st cred_manager" where
  "SetStrategy m strategy now =
     (let st = (case strategy of None \<Rightarrow> RoundRobinSelector_PickFromBucket | Some st \<Rightarrow> st);
          m1 = m\<lparr>cm_strategy := st, cm_scheduler := sched_setStrategy (cm_scheduler m) st\<rparr>
      in syncScheduler m1 now)"

subsection \<open>Loading and lookup\<close>

fun load_items ::
    "'st cred_manager \<Rightarrow> go_ctx \<Rightarrow> store_item list \<Rightarrow> (nat \<Rightarrow> call_env) \<Rightarrow> nat \<Rightarrow> string option \<times> 'st cred_manager" where
  "load_items m ctx [] envs i = (None, m)"
| "load_items m ctx (StoredOther ty # items) envs i =
     (Some (''manager: load from store: unexpected credential type '' @ ty), m)"
| "load_items m ctx (StoredNil # items) envs i =
     (Some ''manager: load from store: unexpected credential type *credential.Credential'', m)"
| "load_items m ctx (StoredCredential cred # items) envs i =
     (let cred = (if c_Status cred = StatusRefreshing then cred\<lparr>c_Status := StatusActive\<rparr> else cred)
      in (case Register m (WithSkipPersist ctx) (Some cred) (envs i) of
            (Some err, m1) \<Rightarrow> (Some (''manager: register credential '' @ c_ID cred @ '': '' @ err), m1)
          | (None, m1) \<Rightarrow> load_items m1 ctx items envs (Suc i)))"

definition Load ::
    "'st cred_manager \<Rightarrow> go_ctx \<Rightarrow> (nat \<Rightarrow> call_env) \<Rightarrow> string option \<times> 'st cred_manager" where
  "Load m ctx envs =
     (case cm_store m of
        None \<Rightarrow> (None, m)
      | Some store \<Rightarrow>
          (case cs_ListByProviderName store (cm_db m) [] of
             Inl err \<Rightarrow> (Some (''manager: load from store: '' @ err), m)
           | Inr items \<Rightarrow> load_items m ctx items envs 0))"

definition Get :: "'st cred_manager \<Rightarrow> string \<Rightarrow> credential option" where
  "Get m ident = map_option Clone (map_of (cm_creds m) ident)"

definition List_creds :: "'st cred_manager \<Rightarrow> string \<Rightarrow> credential list" where
  "List_creds m provider =
     (let provider = ToLower (TrimSpace provider)
      in map Clone (filter (\<lambda>cred. provider = [] \<or> ToLower (c_Provider cred) = provider)
           (map snd (cm_creds m))))"

definition Pick ::
    "'st cred_manager \<Rightarrow> string \<Rightarrow> string \<Rightarrow> string list \<Rightarrow> gotime \<Rightarrow> gotime \<Rightarrow> gotime \<Rightarrow>
     (pick_error + credential) \<times> 'st cred_manager" where
  "Pick m provider model tried now1 now2 now3 =
     (case sched_pick (cm_scheduler m) provider model tried now1 now2 now3 of
        (r, s) \<Rightarrow> (r, m\<lparr>cm_scheduler := s\<rparr>))"

subsection \<open>Feedback\<close>

text \<open>The loop of \<open>computeBackoff\<close>: \<open>n\<close> doublings at most, each in 64-bit arithmetic.\<close>

fun backoff_loop :: "nat \<Rightarrow> duration \<Rightarrow> duration \<Rightarrow> duration" where
  "backoff_loop 0 maxBackoff d = d"
| "backoff_loop (Suc n) maxBackoff d =
     (if d < maxBackoff then backoff_loop n maxBackoff (wrap64 (d * 2)) else d)"

definition computeBackoff :: "int \<Rightarrow> duration \<Rightarrow> duration \<Rightarrow> duration" where
  "computeBackoff level base maxBackoff =
     (if level \<le> 0 then base
      else (let d = backoff_loop (nat level) maxBackoff base
            in if d > maxBackoff then maxBackoff else d))"

definition quotaCooldownDisabledForCred :: "'st cred_manager \<Rightarrow> credential \<Rightarrow> bool" where
  "quotaCooldownDisabledForCred m cred =
     (case DisableCoolingOverride cred of
        Some override \<Rightarrow> override
      | None \<Rightarrow> cm_quotaCooldownDisabled m)"

definition mark_success :: "credential \<Rightarrow> string \<Rightarrow> gotime \<Rightarrow> bool \<times> credential" where
  "mark_success cred model now =
     (let (changed, cred) =
            (if c_Unavailable cred \<or> c_LastError cred \<noteq> None \<or> q_Exceeded (c_Quota cred) then
               (True, cred\<lparr>c_Unavailable := False, c_LastError := None, c_NextRetryAfter := zero_time,
                          c_Quota := zero_quota, c_Status := StatusActive, c_StatusMessage := []\<rparr>)
             else (False, cred))
      in if model \<noteq> [] then
           (case map_of (c_ModelStates cred) model of
              Some (Some state) \<Rightarrow>
                if ms_Unavailable state \<or> ms_LastError state \<noteq> None then
                  (True, cred\<lparr>c_ModelStates := AList.update model
                     (Some (state\<lparr>ms_Unavailable := False, ms_LastError := None,
                        ms_NextRetryAfter := zero_time, ms_Quota := zero_quota,
                        ms_Status := StatusActive, ms_StatusMessage := [], ms_UpdatedAt := now\<rparr>))
                     (c_ModelStates cred)\<rparr>)
                else (changed, cred)
            | _ \<Rightarrow> (changed, cred))
         else (changed, cred))"

definition quota_backoff :: "credential \<Rightarrow> duration option \<Rightarrow> duration" where
  "quota_backoff cred retryAfter =
     (let backoff = computeBackoff (q_BackoffLevel (c_Quota cred)) defaultQuotaBackoffBase defaultQuotaBackoffMax
      in (case retryAfter of
            Some ra \<Rightarrow> if ra > backoff then ra else backoff
          | None \<Rightarrow> backoff))"

definition mark_cred_failure ::
    "'st cred_manager \<Rightarrow> credential \<Rightarrow> mark_result \<Rightarrow> cred_error \<Rightarrow> gotime \<Rightarrow> credential" where
  "mark_cred_failure m cred result rerr now =
     (if err_HTTPStatus rerr = 429 \<and> \<not> quotaCooldownDisabledForCred m cred then
        (let backoff = quota_backoff cred (r_RetryAfter result)
         in cred\<lparr>c_Quota := \<lparr>q_Exceeded = True, q_Reason = err_Message rerr,
                             q_NextRecoverAt = now + backoff,
                             q_BackoffLevel = q_BackoffLevel (c_Quota cred) + 1\<rparr>,
                 c_Unavailable := True, c_NextRetryAfter := now + backoff,
                 c_Status := StatusError, c_StatusMessage := ''quota exceeded''\<rparr>)
      else if err_HTTPStatus rerr = 401 \<or> err_HTTPStatus rerr = 403 then
        cred\<lparr>c_Status := StatusDisabled, c_StatusMessage := err_Message rerr\<rparr>
      else
        (let cred = cred\<lparr>c_LastError := Some rerr\<rparr>;
             cred = (case r_RetryAfter result of
                       Some ra \<Rightarrow> cred\<lparr>c_NextRetryAfter := now + ra, c_Unavailable := True\<rparr>
                     | None \<Rightarrow> cred)
         in cred\<lparr>c_Status := StatusError, c_StatusMessage := err_Message rerr\<rparr>))"

definition mark_model_failure ::
    "'st cred_manager \<Rightarrow> credential \<Rightarrow> mark_result \<Rightarrow> cred_error \<Rightarrow> gotime \<Rightarrow> credential" where
  "mark_model_failure m cred result rerr now =
     (if r_Model result \<noteq> [] then
        (let state = (case map_of (c_ModelStates cred) (r_Model result) of
                        Some (Some state) \<Rightarrow> state
                      | _ \<Rightarrow> zero_model_state);
             state = state\<lparr>ms_UpdatedAt := now\<rparr>;
             state =
               (if err_HTTPStatus rerr = 429 \<and> \<not> quotaCooldownDisabledForCred m cred then
                  state\<lparr>ms_Quota := c_Quota cred, ms_Unavailable := True,
                        ms_NextRetryAfter := c_NextRetryAfter cred, ms_Status := StatusError,
                        ms_StatusMessage := ''quota exceeded''\<rparr>
                else
                  (let state = state\<lparr>ms_LastError := Some rerr, ms_Status := StatusError,
                                     ms_StatusMessage := err_Message rerr\<rparr>
                   in (case r_RetryAfter result of
                         Some ra \<Rightarrow> state\<lparr>ms_Unavailable := True, ms_NextRetryAfter := now + ra\<rparr>
                       | None \<Rightarrow> state)))
         in cred\<lparr>c_ModelStates := AList.update (r_Model result) (Some state) (c_ModelStates cred)\<rparr>)
      else cred)"

definition mark_cred ::
    "'st cred_manager \<Rightarrow> credential \<Rightarrow> mark_result \<Rightarrow> gotime \<Rightarrow> bool \<times> credential" where
  "mark_cred m cred result now =
     (if r_Success result then mark_success cred (r_Model result) now
      else (case r_Error result of
              Some rerr \<Rightarrow>
                (True, mark_model_failure m (mark_cred_failure m cred result rerr now) result rerr now)
            | None \<Rightarrow> (False, cred)))"

text \<open>\<open>now\<close> is the clock of \<open>MarkResult\<close> itself, \<open>env\<close> the readings of the \<open>Update\<close> it calls.\<close>

definition MarkResult ::
    "'st cred_manager \<Rightarrow> go_ctx \<Rightarrow> mark_result \<Rightarrow> gotime \<Rightarrow> call_env \<Rightarrow> 'st cred_manager" where
  "MarkResult m ctx result now env =
     (let credID = TrimSpace (r_CredentialID result)
      in if credID = [] then notify m (OnResult result)
         else (case map_of (cm_creds m) credID of
                 None \<Rightarrow> notify m (OnResult result)
               | Some cred \<Rightarrow>
                   (case mark_cred m (Clone cred) result now of
                      (changed, cred) \<Rightarrow>
                        notify
                          (if changed then snd (Update m ctx (Some (cred\<lparr>c_UpdatedAt := now\<rparr>)) env) else m)
                          (OnResult result))))"

subsection \<open>Refreshing\<close>

definition resolveRefresher :: "'st cred_manager \<Rightarrow> string \<Rightarrow> refresher option" where
  "resolveRefresher m provider =
     (case map_of (cm_authenticators m) (auth_key provider) of
        Some auth \<Rightarrow> Some (au_RefreshLead auth)
      | None \<Rightarrow> cm_refresher m)"

definition needsRefresh :: "time_parser \<Rightarrow> credential \<Rightarrow> gotime \<Rightarrow> bool" where
  "needsRefresh parse cred now =
     (if c_Status cred = StatusRefreshing then False
      else if \<not> IsZero (c_NextRefreshAfter cred) \<and> now < c_NextRefreshAfter cred then False
      else (case ExpirationTime parse cred of
              Some expiry \<Rightarrow> now > expiry - 5 * minute
            | None \<Rightarrow> False))"

definition snapshotForRefresh :: "time_parser \<Rightarrow> 'st cred_manager \<Rightarrow> gotime \<Rightarrow> credential list" where
  "snapshotForRefresh parse m now =
     map Clone (filter (\<lambda>cred. \<not> IsDisabled cred \<and> needsRefresh parse cred now) (map snd (cm_creds m)))"

text \<open>\<open>refreshOne\<close> up to the call of the refresher, and from its answer on.\<close>

definition refreshOne_begin ::
    "'st cred_manager \<Rightarrow> go_ctx \<Rightarrow> credential \<Rightarrow> gotime \<Rightarrow> call_env \<Rightarrow> 'st cred_manager" where
  "refreshOne_begin m ctx cred now env =
     snd (Update m ctx (Some ((Clone cred)\<lparr>c_Status := StatusRefreshing, c_UpdatedAt := now\<rparr>)) env)"

definition refreshOne_finish ::
    "'st cred_manager \<Rightarrow> go_ctx \<Rightarrow> credential \<Rightarrow> string + credential option \<Rightarrow> gotime \<Rightarrow> call_env \<Rightarrow> 'st cred_manager" where
  "refreshOne_finish m ctx cred answer now env =
     (case answer of
        Inl err \<Rightarrow>
          snd (Update m ctx (Some ((Clone cred)\<lparr>c_Status := StatusError, c_StatusMessage := err,
                                               c_NextRefreshAfter := now + 5 * minute\<rparr>)) env)
      | Inr None \<Rightarrow> snd (Update m ctx (Some ((Clone cred)\<lparr>c_Status := StatusActive\<rparr>)) env)
      | Inr (Some updated) \<Rightarrow>
          (let updated = updated\<lparr>c_LastRefreshedAt := now\<rparr>;
               updated = (if c_Status updated = [] \<or> c_Status updated = StatusRefreshing
                          then updated\<lparr>c_Status := StatusActive\<rparr> else updated)
           in snd (Update m ctx (Some updated) env)))"

definition refreshOne ::
    "'st cred_manager \<Rightarrow> go_ctx \<Rightarrow> credential \<Rightarrow> refresher \<Rightarrow> gotime \<Rightarrow> call_env \<Rightarrow> gotime \<Rightarrow> call_env \<Rightarrow> 'st cred_manager" where
  "refreshOne m ctx cred refresher now env1 now2 env2 =
     refreshOne_finish (refreshOne_begin m ctx cred now env1) ctx cred (refresher cred) now2 env2"

text \<open>The loop of \<open>runRefreshCycle\<close>: each candidate with a refresher takes a slot of the semaphore
  and is handed to a goroutine; the loop ends when the semaphore is full.\<close>

fun dispatch_refreshes ::
    "'st cred_manager \<Rightarrow> credential list \<Rightarrow> (credential \<times> refresher) list \<times> 'st cred_manager" where
  "dispatch_refreshes m [] = ([], m)"
| "dispatch_refreshes m (cred # creds) =
     (case resolveRefresher m (c_Provider cred) of
        None \<Rightarrow> dispatch_refreshes m creds
      | Some refresher \<Rightarrow>
          if cm_refreshSemaphore m < defaultRefreshMaxConcurrent then
            (case dispatch_refreshes (m\<lparr>cm_refreshSemaphore := Suc (cm_refreshSemaphore m)\<rparr>) creds of
               (launched, m') \<Rightarrow> ((cred, refresher) # launched, m'))
          else ([], m))"

definition runRefreshCycle ::
    "time_parser \<Rightarrow> 'st cred_manager \<Rightarrow> gotime \<Rightarrow> (credential \<times> refresher) list \<times> 'st cred_manager" where
  "runRefreshCycle parse m now = dispatch_refreshes m (snapshotForRefresh parse m now)"

text \<open>The deferred release of the slot when the goroutine ends.\<close>

definition release_slot :: "'st cred_manager \<Rightarrow> 'st cred_manager" where
  "release_slot m = m\<lparr>cm_refreshSemaphore := cm_refreshSemaphore m - 1\<rparr>"

definition StartRefreshLoop :: "'st cred_manager \<Rightarrow> bool \<times> 'st cred_manager" where
  "StartRefreshLoop m = (if cm_refreshCancel m then (False, m) else (True, m\<lparr>cm_refreshCancel := True\<rparr>))"

definition StopRefreshLoop :: "'st cred_manager \<Rightarrow> bool \<times> 'st cred_manager" where
  "StopRefreshLoop m = (cm_refreshCancel m, m\<lparr>cm_refreshCancel := False\<rparr>)"

end
