(* ===== verification/Manager_Inv.thy ===== *)
theory Manager_Inv
  imports Cred_Manager
begin

text \<open>
  The invariant of the credential manager: its map of credentials and the scheduler are in step,
  and the semaphore of the refresh loop is within its capacity.  \<open>mgr_reach\<close> are the states any
  sequence of operations reaches when no two operations overlap between their locked steps.
\<close>

definition creds_ok :: "(string, credential) gomap \<Rightarrow> bool" where
  "creds_ok C \<longleftrightarrow> gomap_ok C \<and> (\<forall>(k, c)\<in>set C. c_ID c = k \<and> TrimSpace k = k)"

definition in_step :: "auth_scheduler \<Rightarrow> (string, credential) gomap \<Rightarrow> bool" where
  "in_step s C \<longleftrightarrow>
     (\<forall>k. sched_creds s k = Option.bind (map_of C k) (\<lambda>c. if schedulable c then Some c else None))"

definition mgr_inv :: "gotime \<Rightarrow> 'st cred_manager \<Rightarrow> bool" where
  "mgr_inv T m \<longleftrightarrow>
     sched_inv T (cm_scheduler m) \<and> bucket_strategy (s_strategy (cm_scheduler m)) \<and>
     creds_ok (cm_creds m) \<and> in_step (cm_scheduler m) (cm_creds m) \<and>
     cm_refreshSemaphore m \<le> defaultRefreshMaxConcurrent"

lemma mgr_inv_mono: "mgr_inv T m \<Longrightarrow> T \<le> T' \<Longrightarrow> mgr_inv T' m"
  unfolding mgr_inv_def using sched_inv_mono by blast

lemma mgr_invD:
  assumes "mgr_inv T m"
  shows "sched_inv T (cm_scheduler m)" "bucket_strategy (s_strategy (cm_scheduler m))"
    "creds_ok (cm_creds m)" "in_step (cm_scheduler m) (cm_creds m)"
    "cm_refreshSemaphore m \<le> defaultRefreshMaxConcurrent"
  using assms unfolding mgr_inv_def by blast+

lemma creds_okD: "creds_ok C \<Longrightarrow> map_of C k = Some c \<Longrightarrow> c_ID c = k \<and> TrimSpace k = k"
  unfolding creds_ok_def using map_of_SomeD by fast

lemma creds_okI:
  "gomap_ok C \<Longrightarrow> (\<And>k c. map_of C k = Some c \<Longrightarrow> c_ID c = k \<and> TrimSpace k = k) \<Longrightarrow> creds_ok C"
  unfolding creds_ok_def using map_of_is_SomeI by fast

lemma creds_ok_gomap: "creds_ok C \<Longrightarrow> gomap_ok C"
  by (simp add: creds_ok_def)

lemma creds_ok_update:
  assumes "creds_ok C" and "TrimSpace (c_ID c) = c_ID c"
  shows "creds_ok (AList.update (c_ID c) c C)"
proof (rule creds_okI)
  fix k d assume "map_of (AList.update (c_ID c) c C) k = Some d"
  then show "c_ID d = k \<and> TrimSpace k = k"
    using creds_okD [OF assms(1), of k d] assms(2) by (simp split: if_splits)
qed (simp add: creds_ok_gomap assms(1))

lemma creds_ok_delete:
  assumes "creds_ok C"
  shows "creds_ok (AList.delete i C)"
proof (rule creds_okI)
  fix k d assume "map_of (AList.delete i C) k = Some d"
  then show "c_ID d = k \<and> TrimSpace k = k"
    using creds_okD [OF assms, of k d] by (simp split: if_splits)
qed (simp add: creds_ok_gomap assms)

lemma in_stepD:
  "in_step s C \<Longrightarrow> sched_creds s k = Option.bind (map_of C k) (\<lambda>c. if schedulable c then Some c else None)"
  unfolding in_step_def by blast

lemma mgr_in_step_upsert:
  assumes "sched_inv T s" "T \<le> now" "TrimSpace (c_ID c) = c_ID c" "in_step s C"
  shows "in_step (sched_upsert s c now) (AList.update (c_ID c) c C)"
  unfolding in_step_def using sched_idx.in_step_upsert [OF assms(1-3) in_stepD [OF assms(4)]] by blast

lemma mgr_in_step_remove:
  assumes "sched_inv T s" "TrimSpace i = i" "in_step s C"
  shows "in_step (sched_remove s i) (AList.delete i C)"
  unfolding in_step_def using sched_idx.in_step_remove [OF assms(1-2) in_stepD [OF assms(3)]] by blast

text \<open>Fields the invariant does not read.\<close>

lemma mgr_inv_frame [simp]:
  "mgr_inv T (m\<lparr>cm_db := d\<rparr>) = mgr_inv T m"
  "mgr_inv T (m\<lparr>cm_events := ev\<rparr>) = mgr_inv T m"
  "mgr_inv T (m\<lparr>cm_authenticators := a\<rparr>) = mgr_inv T m"
  "mgr_inv T (m\<lparr>cm_refresher := r\<rparr>) = mgr_inv T m"
  "mgr_inv T (m\<lparr>cm_requestRetry := n\<rparr>) = mgr_inv T m"
  "mgr_inv T (m\<lparr>cm_quotaCooldownDisabled := b\<rparr>) = mgr_inv T m"
  "mgr_inv T (m\<lparr>cm_refreshCancel := b\<rparr>) = mgr_inv T m"
  "mgr_inv T (m\<lparr>cm_strategy := st\<rparr>) = mgr_inv T m"
  by (simp_all add: mgr_inv_def)

lemma notify_inv [simp]: "mgr_inv T (notify m ev) = mgr_inv T m"
  by (simp add: notify_def)

lemma notify_fields [simp]:
  "cm_creds (notify m ev) = cm_creds m" "cm_scheduler (notify m ev) = cm_scheduler m"
  "cm_db (notify m ev) = cm_db m" "cm_store (notify m ev) = cm_store m"
  by (simp_all add: notify_def)

subsection \<open>Register, Update, Deregister\<close>

lemma commit_publish_inv:
  assumes inv: "mgr_inv T m" and "T \<le> now" and "TrimSpace (c_ID c) = c_ID c"
  shows "mgr_inv now (publish (commit m c) c now)"
proof -
  note D = mgr_invD [OF inv]
  have "s_strategy (sched_upsert (cm_scheduler m) c now) = s_strategy (cm_scheduler m)"
    by (simp add: sched_upsert_def upsert_strategy)
  then show ?thesis
    using D(2,5) creds_ok_update [OF D(3) assms(3)] mgr_in_step_upsert [OF D(1) assms(2,3) D(4)]
      sched_idx.upsert_inv [OF D(1) assms(2,3)]
    by (simp add: mgr_inv_def publish_def commit_def)
qed

lemma store_frame:
  "store_update m c = (e, m1) \<Longrightarrow> m1 = m\<lparr>cm_db := cm_db m1\<rparr>"
  "store_create m c = (e, m1) \<Longrightarrow> m1 = m\<lparr>cm_db := cm_db m1\<rparr>"
  unfolding store_update_def store_create_def by (auto split: option.splits prod.splits)

text \<open>What an update does: it fails in the store and changes nothing else, or it commits,
  publishes and notifies.\<close>

lemma Update_cases:
  obtains (failed) err d where "Update m ctx (Some c) env = (Some err, m\<lparr>cm_db := d\<rparr>)"
      "\<not> shouldSkipPersist ctx" "cm_store m \<noteq> None"
  | (committed) d where "Update m ctx (Some c) env =
      (None, let c' = c\<lparr>c_UpdatedAt := e_now env\<rparr>
             in notify (publish (commit (m\<lparr>cm_db := d\<rparr>) c') c' (e_schedNow env)) (OnCredentialUpdated c'))"
proof -
  let ?c = "c\<lparr>c_UpdatedAt := e_now env\<rparr>"
  obtain e m1 where u: "(if shouldSkipPersist ctx then (None, m) else store_update m ?c) = (e, m1)" by fastforce
  then have "m1 = m\<lparr>cm_db := cm_db m1\<rparr>"
    using store_frame(1) [of m ?c e m1] by (cases "shouldSkipPersist ctx") auto
  then obtain d where d: "m1 = m\<lparr>cm_db := d\<rparr>" by blast
  show ?thesis
  proof (cases e)
    case None
    with u d show ?thesis by (intro committed [of d]) (simp add: Update_def Let_def)
  next
    case (Some err)
    moreover from Some u have "\<not> shouldSkipPersist ctx" by (auto split: if_splits)
    moreover from Some u have "cm_store m \<noteq> None" by (auto simp: store_update_def split: if_splits option.splits)
    ultimately show ?thesis using u d by (intro failed [of err d]) (simp_all add: Update_def Let_def)
  qed
qed

lemma Register_cases:
  obtains (refused) err where "Register m ctx (Some c) env = (Some err, m)" "TrimSpace (c_Provider c) = []"
  | (failed) err d where "Register m ctx (Some c) env = (Some err, m\<lparr>cm_db := d\<rparr>)"
      "\<not> shouldSkipPersist ctx" "cm_store m \<noteq> None"
  | (committed) d where "Register m ctx (Some c) env =
      (None, let c' = prepare_registration env c
             in notify (publish (commit (m\<lparr>cm_db := d\<rparr>) c') c' (e_schedNow env)) (OnCredentialRegistered c'))"
      "shouldSkipPersist ctx \<Longrightarrow> d = cm_db m"
proof (cases "TrimSpace (c_Provider c) = []")
  case True
  then show ?thesis by (intro refused) (simp_all add: Register_def)
next
  case False
  let ?c = "prepare_registration env c"
  obtain e m1 where u: "(if shouldSkipPersist ctx then (None, m) else store_create m ?c) = (e, m1)" by fastforce
  then have "m1 = m\<lparr>cm_db := cm_db m1\<rparr> \<and> (shouldSkipPersist ctx \<longrightarrow> cm_db m1 = cm_db m)"
    using store_frame(2) [of m ?c e m1] by (cases "shouldSkipPersist ctx") auto
  then obtain d where d: "m1 = m\<lparr>cm_db := d\<rparr>" "shouldSkipPersist ctx \<longrightarrow> d = cm_db m" by blast
  show ?thesis
  proof (cases e)
    case None
    with u d False show ?thesis by (intro committed [of d]) (simp_all add: Register_def Let_def)
  next
    case (Some err)
    moreover from Some u have "\<not> shouldSkipPersist ctx" by (auto split: if_splits)
    moreover from Some u have "cm_store m \<noteq> None" by (auto simp: store_create_def split: if_splits option.splits)
    ultimately show ?thesis using u d False by (intro failed [of err d]) (simp_all add: Register_def Let_def)
  qed
qed

lemma Update_inv:
  assumes "mgr_inv T m" and "T \<le> e_schedNow env" and "TrimSpace (c_ID c) = c_ID c"
  shows "mgr_inv (e_schedNow env) (snd (Update m ctx (Some c) env))"
proof (cases rule: Update_cases [of m ctx c env])
  case (failed err d)
  with mgr_inv_mono [OF assms(1,2)] show ?thesis by simp
next
  case (committed d)
  with commit_publish_inv [of T "m\<lparr>cm_db := d\<rparr>" "e_schedNow env" "c\<lparr>c_UpdatedAt := e_now env\<rparr>"] assms
  show ?thesis by (simp add: Let_def)
qed

lemma prepare_registration_id:
  "c_ID (prepare_registration env c) = (if TrimSpace (c_ID c) = [] then e_uuid env else c_ID c)"
  by (simp add: prepare_registration_def Let_def)

lemma Register_inv:
  assumes "mgr_inv T m" and "T \<le> e_schedNow env" and "TrimSpace (c_ID c) = c_ID c"
    and "TrimSpace (e_uuid env) = e_uuid env"
  shows "mgr_inv (e_schedNow env) (snd (Register m ctx (Some c) env))"
proof (cases rule: Register_cases [of m ctx c env])
  case (refused err)
  with mgr_inv_mono [OF assms(1,2)] show ?thesis by simp
next
  case (failed err d)
  with mgr_inv_mono [OF assms(1,2)] show ?thesis by simp
next
  case (committed d)
  with commit_publish_inv [of T "m\<lparr>cm_db := d\<rparr>" "e_schedNow env" "prepare_registration env c"] assms
  show ?thesis by (simp add: Let_def prepare_registration_id)
qed

lemma Deregister_eq:
  "snd (Deregister m ctx i) =
     (if TrimSpace i = [] \<or> map_of (cm_creds m) (TrimSpace i) = None then m
      else m\<lparr>cm_creds := AList.delete (TrimSpace i) (cm_creds m),
             cm_scheduler := sched_remove (cm_scheduler m) (TrimSpace i),
             cm_db := cm_db (snd (Deregister m ctx i))\<rparr>)"
  by (auto simp: Deregister_def Let_def split: option.splits prod.splits)

lemma Deregister_inv:
  assumes inv: "mgr_inv T m"
  shows "mgr_inv T (snd (Deregister m ctx i))"
proof -
  note D = mgr_invD [OF inv]
  let ?i = "TrimSpace i"
  have "s_strategy (sched_remove (cm_scheduler m) ?i) = s_strategy (cm_scheduler m)"
    by (auto simp: sched_remove_def removeLocked_def Let_def split: option.splits)
  then have "mgr_inv T (m\<lparr>cm_creds := AList.delete ?i (cm_creds m),
      cm_scheduler := sched_remove (cm_scheduler m) ?i, cm_db := d\<rparr>)" for d
    using D(2,5) creds_ok_delete [OF D(3)] mgr_in_step_remove [OF D(1) TrimSpace_idem D(4)]
      sched_idx.remove_inv [OF D(1)]
    by (simp add: mgr_inv_def)
  with inv show ?thesis by (subst Deregister_eq) simp
qed

subsection \<open>The other operations\<close>

lemma mark_cred_id [simp]: "c_ID (snd (mark_cred m cred result now)) = c_ID cred"
  by (auto simp: mark_cred_def mark_success_def mark_model_failure_def mark_cred_failure_def Let_def
      split: option.splits)

lemma MarkResult_inv:
  assumes "mgr_inv T m" and "T \<le> e_schedNow env"
  shows "mgr_inv (e_schedNow env) (MarkResult m ctx result now env)"
proof (cases "TrimSpace (r_CredentialID result) = [] \<or> map_of (cm_creds m) (TrimSpace (r_CredentialID result)) = None")
  case True
  with mgr_inv_mono [OF assms] show ?thesis by (auto simp: MarkResult_def Let_def)
next
  case False
  then obtain c where c: "map_of (cm_creds m) (TrimSpace (r_CredentialID result)) = Some c" by blast
  obtain changed c' where m: "mark_cred m c result now = (changed, c')" by fastforce
  with mark_cred_id [of m c result now] creds_okD [OF mgr_invD(3) [OF assms(1)] c]
  have "TrimSpace (c_ID (c'\<lparr>c_UpdatedAt := now\<rparr>)) = c_ID (c'\<lparr>c_UpdatedAt := now\<rparr>)" by simp
  from Update_inv [OF assms this] mgr_inv_mono [OF assms] False c m show ?thesis
    by (simp add: MarkResult_def Let_def)
qed

lemma Pick_inv:
  assumes inv: "mgr_inv T m" and T: "T \<le> now1" "now1 \<le> now2"
  shows "mgr_inv now2 (snd (Pick m provider model tried now1 now2 now3))"
proof -
  note D = mgr_invD [OF inv]
  let ?s = "snd (sched_pick (cm_scheduler m) provider model tried now1 now2 now3)"
  have "sched_inv now2 ?s \<and> sched_creds ?s = sched_creds (cm_scheduler m)"
  proof (cases rule: sched_pick_cases [OF D(1,2) T, of provider model tried now3])
    case 1
    with sched_inv_mono [OF D(1)] T show ?thesis by simp
  qed simp
  then show ?thesis
    using inv by (simp add: Pick_def mgr_inv_def in_step_def pick_strategy case_prod_unfold)
qed

lemma find_by_id:
  "\<forall>p\<in>set C. c_ID (snd p) = fst p \<Longrightarrow> find (\<lambda>c. c_ID c = k) (map snd C) = map_of C k"
  by (induction C) auto

lemma rebuild_in_step:
  assumes C: "creds_ok C"
  shows "sched_inv now (sched_rebuild s (map snd C) now)" and "in_step (sched_rebuild s (map snd C) now) C"
proof -
  have ids: "\<And>k c. (k, c) \<in> set C \<Longrightarrow> c_ID c = k \<and> TrimSpace k = k" and ok: "gomap_ok C"
    using C by (auto simp: creds_ok_def)
  then have fst: "map c_ID (map snd C) = map fst C" and trim: "\<forall>c\<in>set (map snd C). TrimSpace (c_ID c) = c_ID c"
    by force+
  have find: "find (\<lambda>c. c_ID c = k) (map snd C) = map_of C k" for k
    using ids by (intro find_by_id) auto
  from ok have "distinct (map c_ID (map snd C))" by (simp only: fst)
  from sched_rebuild_spec [OF trim this, of now s, unfolded find]
  show "sched_inv now (sched_rebuild s (map snd C) now)" and "in_step (sched_rebuild s (map snd C) now) C"
    by (auto simp: in_step_def split: option.splits)
qed

lemma SetStrategy_inv:
  assumes inv: "mgr_inv T m" and "case strategy of None \<Rightarrow> True | Some st \<Rightarrow> bucket_strategy st"
  shows "mgr_inv now (SetStrategy m strategy now)"
proof -
  define st where "st = (case strategy of None \<Rightarrow> RoundRobinSelector_PickFromBucket | Some st \<Rightarrow> st)"
  have "bucket_strategy st"
    using assms(2) rr.bucket_strategy_axioms by (auto simp: st_def split: option.splits)
  moreover have "SetStrategy m strategy now =
      m\<lparr>cm_strategy := st,
        cm_scheduler := sched_rebuild (sched_setStrategy (cm_scheduler m) st) (map snd (cm_creds m)) now\<rparr>"
    by (simp add: SetStrategy_def syncScheduler_def snapshotAuths_def st_def Let_def case_prod_unfold)
  ultimately show ?thesis
    using mgr_invD [OF inv] rebuild_in_step by (simp add: mgr_inv_def rebuild_strategy sched_setStrategy_def)
qed

lemma dispatch_frame:
  "dispatch_refreshes m creds = (l, m') \<Longrightarrow>
   m' = m\<lparr>cm_refreshSemaphore := cm_refreshSemaphore m + length l\<rparr> \<and>
   (cm_refreshSemaphore m \<le> defaultRefreshMaxConcurrent \<longrightarrow>
    cm_refreshSemaphore m' \<le> defaultRefreshMaxConcurrent)"
proof (induction m creds arbitrary: l m' rule: dispatch_refreshes.induct)
  case (2 m cred creds)
  then show ?case by (auto split: option.splits if_splits prod.splits)
qed simp

lemma sem_inv: "mgr_inv T m \<Longrightarrow> n \<le> defaultRefreshMaxConcurrent \<Longrightarrow> mgr_inv T (m\<lparr>cm_refreshSemaphore := n\<rparr>)"
  by (simp add: mgr_inv_def)

lemma runRefreshCycle_inv:
  assumes "mgr_inv T m"
  shows "mgr_inv T (snd (runRefreshCycle parse m now))"
proof -
  obtain l m' where d: "dispatch_refreshes m (snapshotForRefresh parse m now) = (l, m')" by fastforce
  have "cm_refreshSemaphore m \<le> defaultRefreshMaxConcurrent" using assms by (simp add: mgr_inv_def)
  with dispatch_frame [OF d] have "m' = m\<lparr>cm_refreshSemaphore := cm_refreshSemaphore m'\<rparr>"
    "cm_refreshSemaphore m' \<le> defaultRefreshMaxConcurrent" by auto
  with sem_inv [OF assms, of "cm_refreshSemaphore m'"] d show ?thesis by (simp add: runRefreshCycle_def)
qed

subsection \<open>Reachable managers\<close>

definition env_ok :: "gotime \<Rightarrow> call_env \<Rightarrow> bool" where
  "env_ok T env \<longleftrightarrow> T \<le> e_schedNow env \<and> TrimSpace (e_uuid env) = e_uuid env"

inductive mgr_reach :: "gotime \<Rightarrow> 'st cred_manager \<Rightarrow> bool" where
  init: "(case strategy of None \<Rightarrow> True | Some st \<Rightarrow> bucket_strategy st) \<Longrightarrow>
     mgr_reach T (NewManager store db strategy)"
| register: "mgr_reach T m \<Longrightarrow> env_ok T env \<Longrightarrow> TrimSpace (c_ID c) = c_ID c \<Longrightarrow>
     mgr_reach (e_schedNow env) (snd (Register m ctx (Some c) env))"
| update: "mgr_reach T m \<Longrightarrow> env_ok T env \<Longrightarrow> TrimSpace (c_ID c) = c_ID c \<Longrightarrow>
     mgr_reach (e_schedNow env) (snd (Update m ctx (Some c) env))"
| deregister: "mgr_reach T m \<Longrightarrow> mgr_reach T (snd (Deregister m ctx i))"
| mark: "mgr_reach T m \<Longrightarrow> env_ok T env \<Longrightarrow>
     mgr_reach (e_schedNow env) (MarkResult m ctx result now env)"
| pick: "mgr_reach T m \<Longrightarrow> T \<le> now1 \<Longrightarrow> now1 \<le> now2 \<Longrightarrow>
     mgr_reach now2 (snd (Pick m provider model tried now1 now2 now3))"
| set_strategy: "mgr_reach T m \<Longrightarrow> (case strategy of None \<Rightarrow> True | Some st \<Rightarrow> bucket_strategy st) \<Longrightarrow>
     mgr_reach now (SetStrategy m strategy now)"
| refresh_begin: "mgr_reach T m \<Longrightarrow> env_ok T env \<Longrightarrow> TrimSpace (c_ID c) = c_ID c \<Longrightarrow>
     mgr_reach (e_schedNow env) (refreshOne_begin m ctx c now env)"
| refresh_finish: "mgr_reach T m \<Longrightarrow> env_ok T env \<Longrightarrow> TrimSpace (c_ID c) = c_ID c \<Longrightarrow>
     (case answer of Inr (Some u) \<Rightarrow> TrimSpace (c_ID u) = c_ID u | _ \<Rightarrow> True) \<Longrightarrow>
     mgr_reach (e_schedNow env) (refreshOne_finish m ctx c answer now env)"
| cycle: "mgr_reach T m \<Longrightarrow> mgr_reach T (snd (runRefreshCycle parse m now))"
| release: "mgr_reach T m \<Longrightarrow> mgr_reach T (release_slot m)"
| start: "mgr_reach T m \<Longrightarrow> mgr_reach T (snd (StartRefreshLoop m))"
| stop: "mgr_reach T m \<Longrightarrow> mgr_reach T (snd (StopRefreshLoop m))"
| authenticator: "mgr_reach T m \<Longrightarrow> mgr_reach T (RegisterAuthenticator m cliname auth)"
| refresher: "mgr_reach T m \<Longrightarrow> mgr_reach T (SetRefresher m r)"
| retry: "mgr_reach T m \<Longrightarrow> mgr_reach T (SetRequestRetry m n)"
| cooldown: "mgr_reach T m \<Longrightarrow> mgr_reach T (SetQuotaCooldownDisabled m b)"

lemma refreshOne_finish_inv:
  assumes "mgr_inv T m" and "T \<le> e_schedNow env" and "TrimSpace (c_ID c) = c_ID c"
    and "case answer of Inr (Some u) \<Rightarrow> TrimSpace (c_ID u) = c_ID u | _ \<Rightarrow> True"
  shows "mgr_inv (e_schedNow env) (refreshOne_finish m ctx c answer now env)"
  using assms Update_inv [OF assms(1,2)]
  by (auto simp: refreshOne_finish_def Let_def split: sum.splits option.splits)

lemma mgr_reach_inv: "mgr_reach T m \<Longrightarrow> mgr_inv T m"
proof (induction rule: mgr_reach.induct)
  case (init strategy T store db)
  then have "bucket_strategy (case strategy of None \<Rightarrow> RoundRobinSelector_PickFromBucket | Some st \<Rightarrow> st)"
    using rr.bucket_strategy_axioms by (auto split: option.splits)
  then show ?case
    using sched_inv_new
    by (simp add: mgr_inv_def NewManager_def Let_def newAuthScheduler_def sched_creds_def in_step_def creds_ok_def)
next
  case (release T m)
  then show ?case by (auto simp: release_slot_def mgr_inv_def)
next
  case (authenticator T m cliname auth)
  then show ?case by (auto simp: RegisterAuthenticator_def Let_def split: option.splits)
qed (auto simp: env_ok_def Register_inv Update_inv Deregister_inv MarkResult_inv Pick_inv
      SetStrategy_inv refreshOne_begin_def refreshOne_finish_inv runRefreshCycle_inv StartRefreshLoop_def
      StopRefreshLoop_def SetRefresher_def SetRequestRetry_def SetQuotaCooldownDisabled_def)

end
