(* ===== verification/Auth_Provider.thy ===== *)
theory Auth_Provider
  imports Manager_Inv Provider_Core
begin

text \<open>
  Package llm/provider, file authmanaged.go: the decorator that picks a managed credential for each
  call, puts it into the context, and reports the outcome to the credential manager.  The decorated
  provider is a value of the record \<open>provider_ops\<close>, the methods of the interface \<open>Provider\<close>.
\<close>

record ('msg, 'opt, 'resp, 'stream, 'w) provider_ops =
  pv_Generate :: "req_ctx \<Rightarrow> ('msg, 'opt) generate_request \<Rightarrow> 'w \<Rightarrow> (provider_error + 'resp) \<times> 'w"
  pv_Stream :: "req_ctx \<Rightarrow> ('msg, 'opt) generate_request \<Rightarrow> 'w \<Rightarrow> (provider_error + 'stream) \<times> 'w"
  pv_ListModels :: "req_ctx \<Rightarrow> 'w \<Rightarrow> (provider_error + model_info list) \<times> 'w"
  pv_Capabilities :: provider_capabilities
  pv_Config :: provider_config

record 'p auth_managed_provider =
  am_base :: 'p
  am_providerName :: string
  am_config :: provider_config

datatype 'p wrapped_provider = Bare 'p | Managed "'p auth_managed_provider"

text \<open>The readings of the clock during one call: three in the pick, one in \<open>MarkResult\<close>, and those
  of the update it makes.\<close>

record amp_env =
  ae_pick1 :: gotime
  ae_pick2 :: gotime
  ae_pick3 :: gotime
  ae_mark :: gotime
  ae_update :: call_env

definition WrapWithAuthManager ::
    "('msg, 'opt, 'resp, 'stream, 'w) provider_ops option \<Rightarrow> string \<Rightarrow> 'st cred_manager option \<Rightarrow>
     ('msg, 'opt, 'resp, 'stream, 'w) provider_ops wrapped_provider option" where
  "WrapWithAuthManager base providerName cliauthMgr =
     (case (base, cliauthMgr) of
        (None, _) \<Rightarrow> None
      | (Some b, None) \<Rightarrow> Some (Bare b)
      | (Some b, Some m) \<Rightarrow>
          (let cfg = pv_Config b;
               cfg = (if pc_ProviderName cfg = [] then cfg\<lparr>pc_ProviderName := providerName\<rparr> else cfg)
           in Some (Managed \<lparr>am_base = b, am_providerName = providerName, am_config = ProviderConfig_Defaults cfg\<rparr>)))"

definition shouldUseCredential :: "provider_config \<Rightarrow> bool" where
  "shouldUseCredential config =
     (if pc_AuthStrategy config = AuthStrategyAPIKeyOnly then False
      else if pc_AuthStrategy config = AuthStrategyAPIKeyFirst then TrimSpace (pc_APIKey config) = []
      else if pc_AuthStrategy config = AuthStrategyCredentialFirst \<or>
              pc_AuthStrategy config = AuthStrategyCredentialOnly then True
      else TrimSpace (pc_APIKey config) = [])"

definition pickCredential ::
    "'p auth_managed_provider \<Rightarrow> 'st cred_manager \<Rightarrow> req_ctx \<Rightarrow> string \<Rightarrow> amp_env \<Rightarrow>
     req_ctx \<times> credential option \<times> 'st cred_manager" where
  "pickCredential p m ctx model env =
     (if \<not> shouldUseCredential (am_config p) then (ctx, None, m)
      else (case Pick m (am_providerName p) model [] (ae_pick1 env) (ae_pick2 env) (ae_pick3 env) of
              (Inl err, m1) \<Rightarrow> (ctx, None, m1)
            | (Inr cred, m1) \<Rightarrow> (WithCredential ctx (Some cred), Some cred, m1)))"

definition result_error :: "provider_error \<Rightarrow> cred_error" where
  "result_error err =
     (let httpStatus = (case as_status err of Some code \<Rightarrow> code | None \<Rightarrow> 502)
      in \<lparr>err_Code = StatusText httpStatus, err_Message = error_text err,
          err_Retryable = (httpStatus = 429 \<or> httpStatus \<ge> 500), err_HTTPStatus = httpStatus\<rparr>)"

definition markResult ::
    "'st cred_manager \<Rightarrow> req_ctx \<Rightarrow> credential option \<Rightarrow> string \<Rightarrow> provider_error option \<Rightarrow> amp_env \<Rightarrow> 'st cred_manager" where
  "markResult m ctx cred model err env =
     (case cred of
        None \<Rightarrow> m
      | Some c \<Rightarrow>
          MarkResult m (x_values ctx)
            \<lparr>r_CredentialID = c_ID c, r_Provider = c_Provider c, r_Model = model, r_Success = (err = None),
             r_RetryAfter = None, r_Error = map_option result_error err\<rparr>
            (ae_mark env) (ae_update env))"

definition error_of :: "provider_error + 'a \<Rightarrow> provider_error option" where
  "error_of r = (case r of Inl e \<Rightarrow> Some e | Inr _ \<Rightarrow> None)"

definition amp_Generate ::
    "('msg, 'opt, 'resp, 'stream, 'w) provider_ops auth_managed_provider \<Rightarrow> 'st cred_manager \<Rightarrow> req_ctx \<Rightarrow>
     ('msg, 'opt) generate_request \<Rightarrow> amp_env \<Rightarrow> 'w \<Rightarrow> (provider_error + 'resp) \<times> 'st cred_manager \<times> 'w" where
  "amp_Generate p m ctx req env w =
     (case pickCredential p m ctx (gq_Model req) env of
        (ctx, cred, m1) \<Rightarrow>
          (case pv_Generate (am_base p) ctx req w of
             (r, w1) \<Rightarrow> (r, markResult m1 ctx cred (gq_Model req) (error_of r) env, w1)))"

definition amp_Stream ::
    "('msg, 'opt, 'resp, 'stream, 'w) provider_ops auth_managed_provider \<Rightarrow> 'st cred_manager \<Rightarrow> req_ctx \<Rightarrow>
     ('msg, 'opt) generate_request \<Rightarrow> amp_env \<Rightarrow> 'w \<Rightarrow> (provider_error + 'stream) \<times> 'st cred_manager \<times> 'w" where
  "amp_Stream p m ctx req env w =
     (case pickCredential p m ctx (gq_Model req) env of
        (ctx, cred, m1) \<Rightarrow>
          (case pv_Stream (am_base p) ctx req w of
             (r, w1) \<Rightarrow> (r, markResult m1 ctx cred (gq_Model req) (error_of r) env, w1)))"

definition amp_ListModels ::
    "('msg, 'opt, 'resp, 'stream, 'w) provider_ops auth_managed_provider \<Rightarrow> req_ctx \<Rightarrow> 'w \<Rightarrow>
     (provider_error + model_info list) \<times> 'w" where
  "amp_ListModels p ctx w = pv_ListModels (am_base p) ctx w"

definition amp_Capabilities ::
    "('msg, 'opt, 'resp, 'stream, 'w) provider_ops auth_managed_provider \<Rightarrow> provider_capabilities" where
  "amp_Capabilities p = pv_Capabilities (am_base p)"

definition amp_Config :: "'p auth_managed_provider \<Rightarrow> provider_config" where
  "amp_Config p = am_config p"

end
