(* ===== verification/Manager_Props.thy ===== *)
theory Manager_Props
  imports Manager_Inv
begin

text \<open>
  What the credential manager promises: credentials and scheduler stay in step, feedback from
  requests keeps failing credentials out of rotation, backoff is bounded, refreshes are bounded;
  and the interleavings and error paths on which feedback is lost.
\<close>

subsection \<open>A concrete manager for the witnesses\<close>

text \<open>A store that keeps its rows in an association list, and refuses every write when its flag
  is set.\<close>

type_synonym w_db = "(string, credential) gomap"

definition w_store :: "bool \<Rightarrow> w_db cred_store" where
  "w_store broken =
     \<lparr>cs_ListByProviderName = (\<lambda>db provider. Inr (map (\<lambda>(k, c). StoredCredential c) db)),
      cs_Create = (\<lambda>db i provider c. if broken then (Some ''disk full'', db) else (None, AList.update i c db)),
      cs_Update = (\<lambda>db i c. if broken then (Some ''disk full'', db) else (None, AList.update i c db)),
      cs_Delete = (\<lambda>db i. if broken then (Some ''disk full'', db) else (None, AList.delete i db))\<rparr>"

definition w_key :: credential where
  "w_key = zero_credential\<lparr>c_ID := ''k1'', c_Provider := ''openai'', c_Metadata := [(''expired'', GInt64 100)]\<rparr>"

definition w_env :: "gotime \<Rightarrow> call_env" where
  "w_env t = \<lparr>e_uuid = ''u-1'', e_now = t, e_schedNow = t\<rparr>"

definition w_mgr :: "w_db cred_manager" where
  "w_mgr = snd (Register (NewManager (Some (w_store False)) [] None) [] (Some w_key) (w_env 1000))"

definition w_result :: "string \<Rightarrow> int \<Rightarrow> mark_result" where
  "w_result model status =
     \<lparr>r_CredentialID = ''k1'', r_Provider = ''openai'', r_Model = model, r_Success = False,
      r_RetryAfter = None,
      r_Error = Some \<lparr>err_Code = '''', err_Message = ''no'', err_Retryable = False, err_HTTPStatus = status\<rparr>\<rparr>"

lemma w_env_ok: "T \<le> t \<Longrightarrow> env_ok T (w_env t)"
proof -
  have "TrimSpace ''u-1'' = ''u-1''" by code_simp
  then show "T \<le> t \<Longrightarrow> env_ok T (w_env t)" by (simp add: env_ok_def w_env_def)
qed

lemma w_mgr_reach: "mgr_reach 1000 w_mgr"
proof -
  have "TrimSpace (c_ID w_key) = c_ID w_key" by code_simp
  moreover have "mgr_reach 0 (NewManager (Some (w_store False)) [] None)" by (rule mgr_reach.init) simp
  ultimately have "mgr_reach (e_schedNow (w_env 1000)) w_mgr"
    unfolding w_mgr_def by (intro mgr_reach.register [of 0] w_env_ok) simp_all
  then show ?thesis by (simp add: w_env_def)
qed

subsection \<open>Helper lemmas\<close>

text \<open>The store accepts an update of the credential.\<close>

definition store_accepts :: "'st cred_manager \<Rightarrow> go_ctx \<Rightarrow> string \<Rightarrow> bool" where
  "store_accepts m ctx i \<longleftrightarrow>
     shouldSkipPersist ctx \<or>
     (case cm_store m of None \<Rightarrow> True | Some store \<Rightarrow> (\<forall>c. fst (cs_Update store (cm_db m) i c) = None))"

lemma Update_accepted:
  assumes "store_accepts m ctx (c_ID c)"
  shows "cm_creds (snd (Update m ctx (Some c) env)) =
           AList.update (c_ID c) (c\<lparr>c_UpdatedAt := e_now env\<rparr>) (cm_creds m)"
proof (cases rule: Update_cases [of m ctx c env])
  case (failed err d)
  have "fst (Update m ctx (Some c) env) = None"
    using assms by (auto simp: Update_def store_update_def store_accepts_def Let_def
        split: option.splits prod.splits) (metis fst_conv option.distinct(1))
  with failed show ?thesis by simp
qed (simp add: Let_def publish_def commit_def)

lemma w_mgr_accepts: "store_accepts w_mgr [] ''k1''"
proof -
  have "cm_store w_mgr = Some (w_store False)"
    unfolding w_mgr_def
    by (cases rule: Register_cases [of "NewManager (Some (w_store False)) [] None" "[]" w_key "w_env 1000"])
       (simp_all add: NewManager_def Let_def publish_def commit_def)
  then show ?thesis by (simp add: store_accepts_def w_store_def)
qed

text \<open>The credential a changing result leaves behind.\<close>

lemma MarkResult_creds:
  assumes c: "map_of (cm_creds m) i = Some c" and i: "TrimSpace (r_CredentialID result) = i" "i \<noteq> []" "c_ID c = i"
    and acc: "store_accepts m ctx i" and mark: "mark_cred m c result now = (changed, c')"
  shows "map_of (cm_creds (MarkResult m ctx result now env)) i =
           Some (if changed then c'\<lparr>c_UpdatedAt := e_now env\<rparr> else c)"
proof -
  have "c_ID (c'\<lparr>c_UpdatedAt := now\<rparr>) = i" using mark_cred_id [of m c result now] mark i(3) by simp
  with Update_accepted [of m ctx "c'\<lparr>c_UpdatedAt := now\<rparr>" env] acc c i mark show ?thesis
    by (simp add: MarkResult_def Let_def)
qed

text \<open>A pick of the manager returns a credential of its map that is not blocked.\<close>

lemma Pick_sound:
  assumes inv: "mgr_inv T m" and T: "T \<le> now1" "now1 \<le> now2"
    and picked: "fst (Pick m provider model tried now1 now2 now3) = Inr c"
  shows "\<exists>c'. map_of (cm_creds m) (c_ID c) = Some c' \<and> c_ID c \<noteq> [] \<and> \<not> IsDisabled c' \<and>
           \<not> fst (isCredentialBlockedForModel (Some c') (canonicalModelKey (canonicalModelKey model)) now2)"
proof -
  note D = mgr_invD [OF inv]
  from picked have "fst (sched_pick (cm_scheduler m) provider model tried now1 now2 now3) = Inr c"
    by (simp add: Pick_def case_prod_unfold)
  from sched_pick_sound [OF D(1,2) T this] in_stepD [OF D(4)] show ?thesis
    by (auto simp: bind_eq_Some_conv schedulable_def split: if_splits)
qed

text \<open>A credential that failed with 401 or 403 is not picked again.\<close>

lemma mark_auth_error_not_picked:
  assumes inv: "mgr_inv T m" and env: "env_ok T env"
    and i: "TrimSpace (r_CredentialID result) = i" "i \<noteq> []" and c: "Get m i = Some c"
    and fail: "\<not> r_Success result" "r_Error result = Some err" "err_HTTPStatus err \<in> {401, 403}"
    and acc: "store_accepts m ctx i"
    and later: "e_schedNow env \<le> now1" "now1 \<le> now2"
    and picked: "fst (Pick (MarkResult m ctx result now env) provider model tried now1 now2 now3) = Inr d"
  shows "c_ID d \<noteq> i"
proof
  assume d: "c_ID d = i"
  from c have c': "map_of (cm_creds m) i = Some c" by (simp add: Get_def)
  with creds_okD [OF mgr_invD(3) [OF inv]] have id: "c_ID c = i" by blast
  let ?c = "mark_model_failure m (mark_cred_failure m c result err now) result err now"
  have mark: "mark_cred m c result now = (True, ?c)" using fail by (simp add: mark_cred_def)
  have "c_Status ?c = StatusDisabled"
    using fail(3) by (auto simp: mark_cred_failure_def mark_model_failure_def Let_def)
  with MarkResult_creds [OF c' i id acc mark]
  have "\<exists>c'. map_of (cm_creds (MarkResult m ctx result now env)) i = Some c' \<and> IsDisabled c'"
    by (simp add: IsDisabled_def)
  moreover have "mgr_inv (e_schedNow env) (MarkResult m ctx result now env)"
    using env by (intro MarkResult_inv [OF inv]) (simp add: env_ok_def)
  ultimately show False using Pick_sound [OF _ later picked] d by auto
qed

lemma backoff_loop_closed:
  assumes "0 < d" and "d \<le> 2 * maxB" and "maxB < 2 ^ 62"
  shows "backoff_loop n maxB d \<ge> min (d * 2 ^ n) maxB \<and>
         (backoff_loop n maxB d = d * 2 ^ n \<or> maxB \<le> backoff_loop n maxB d)"
  using assms
proof (induction n arbitrary: d)
  case (Suc n)
  show ?case
  proof (cases "d < maxB")
    case True
    then have "wrap64 (d * 2) = d * 2" using Suc.prems by (intro wrap64_id) simp_all
    with Suc.IH [of "d * 2"] Suc.prems True show ?thesis by (simp add: algebra_simps)
  qed (use Suc.prems in simp)
qed simp

lemma backoff_loop_le:
  assumes "0 < d" and "maxB < 2 ^ 62"
  shows "backoff_loop n maxB d \<le> d * 2 ^ n"
  using assms(1)
proof (induction n arbitrary: d)
  case (Suc n)
  show ?case
  proof (cases "d < maxB")
    case True
    then have "wrap64 (d * 2) = d * 2" using Suc.prems assms(2) by (intro wrap64_id) simp_all
    with Suc.IH [of "d * 2"] Suc.prems True show ?thesis by (simp add: algebra_simps)
  next
    case False
    have "d * 1 \<le> d * 2 ^ Suc n" using Suc.prems by (intro mult_left_mono one_le_power) simp_all
    with False show ?thesis by simp
  qed
qed simp

lemma mark_success_clears:
  assumes "mark_success c model now = (changed, d)"
  shows "\<not> c_Unavailable d \<and> c_LastError d = None \<and> \<not> q_Exceeded (c_Quota d) \<and>
         (\<forall>st. model \<noteq> [] \<and> map_of (c_ModelStates d) model = Some (Some st) \<longrightarrow>
            \<not> ms_Unavailable st \<and> ms_LastError st = None)"
    and "\<not> changed \<Longrightarrow> d = c"
  using assms
  by (auto simp: mark_success_def Let_def zero_quota_def split: if_splits option.splits)

lemma quota_backoff_pos: "0 < quota_backoff c ra"
proof -
  let ?l = "q_BackoffLevel (c_Quota c)"
  have "0 < computeBackoff ?l defaultQuotaBackoffBase defaultQuotaBackoffMax"
  proof (cases "?l \<le> 0")
    case False
    have "backoff_loop (nat ?l) defaultQuotaBackoffMax defaultQuotaBackoffBase \<ge>
        min (defaultQuotaBackoffBase * 2 ^ nat ?l) defaultQuotaBackoffMax"
      by (rule conjunct1 [OF backoff_loop_closed])
         (simp_all add: defaultQuotaBackoffBase_def defaultQuotaBackoffMax_def second_def minute_def)
    moreover have "0 < min (defaultQuotaBackoffBase * 2 ^ nat ?l) defaultQuotaBackoffMax"
      by (simp add: defaultQuotaBackoffBase_def defaultQuotaBackoffMax_def second_def minute_def)
    ultimately have "0 < backoff_loop (nat ?l) defaultQuotaBackoffMax defaultQuotaBackoffBase" by linarith
    moreover have "0 < defaultQuotaBackoffMax" by (simp add: defaultQuotaBackoffMax_def second_def minute_def)
    ultimately show ?thesis using False by (simp add: computeBackoff_def Let_def)
  qed (simp add: computeBackoff_def defaultQuotaBackoffBase_def second_def)
  then show ?thesis by (auto simp: quota_backoff_def Let_def split: option.splits)
qed

text \<open>Loading a list of credentials.\<close>

definition loaded :: "credential \<Rightarrow> credential" where
  "loaded c = (if c_Status c = StatusRefreshing then c\<lparr>c_Status := StatusActive\<rparr> else c)"

lemma Register_loaded:
  assumes "TrimSpace (c_Provider c) \<noteq> []" and "TrimSpace (c_ID c) \<noteq> []"
  shows "\<exists>m1. Register m (WithSkipPersist ctx) (Some (loaded c)) env = (None, m1) \<and> cm_db m1 = cm_db m \<and>
           cm_creds m1 = AList.update (c_ID c) (prepare_registration env (loaded c)) (cm_creds m)"
proof -
  have skip: "shouldSkipPersist (WithSkipPersist ctx)" by (simp add: shouldSkipPersist_def WithSkipPersist_def)
  have "c_Provider (loaded c) = c_Provider c" "c_ID (loaded c) = c_ID c" by (simp_all add: loaded_def)
  with assms skip show ?thesis
    by (simp add: Register_def Let_def publish_def commit_def prepare_registration_id)
qed

lemma load_items_spec:
  assumes "list_all (\<lambda>c. TrimSpace (c_Provider c) \<noteq> [] \<and> TrimSpace (c_ID c) \<noteq> []) cs" and "distinct (map c_ID cs)"
  shows "\<exists>m'. load_items m ctx (map StoredCredential cs) envs n = (None, m') \<and> cm_db m' = cm_db m \<and>
           (\<forall>c\<in>set cs. \<exists>j. map_of (cm_creds m') (c_ID c) = Some (prepare_registration (envs j) (loaded c))) \<and>
           (\<forall>k. k \<notin> c_ID ` set cs \<longrightarrow> map_of (cm_creds m') k = map_of (cm_creds m) k)"
  using assms
proof (induction cs arbitrary: m n)
  case (Cons c cs)
  from Cons.prems Register_loaded [of c m ctx "envs n"] obtain m1
    where m1: "Register m (WithSkipPersist ctx) (Some (loaded c)) (envs n) = (None, m1)" "cm_db m1 = cm_db m"
      "cm_creds m1 = AList.update (c_ID c) (prepare_registration (envs n) (loaded c)) (cm_creds m)" by auto
  from Cons.IH [of m1 "Suc n"] Cons.prems obtain m'
    where m': "load_items m1 ctx (map StoredCredential cs) envs (Suc n) = (None, m')" "cm_db m' = cm_db m1"
      "\<forall>c\<in>set cs. \<exists>j. map_of (cm_creds m') (c_ID c) = Some (prepare_registration (envs j) (loaded c))"
      "\<forall>k. k \<notin> c_ID ` set cs \<longrightarrow> map_of (cm_creds m') k = map_of (cm_creds m1) k" by auto
  have "load_items m ctx (map StoredCredential (c # cs)) envs n = (None, m')"
    using m1(1) m'(1) by (simp add: Let_def loaded_def)
  with m1 m' Cons.prems show ?case by auto
qed simp

lemma dispatch_launched:
  "dispatch_refreshes m creds = (l, m') \<Longrightarrow>
   (\<forall>(c, r)\<in>set l. c \<in> set creds \<and> resolveRefresher m (c_Provider c) = Some r) \<and>
   length l = min (defaultRefreshMaxConcurrent - cm_refreshSemaphore m)
     (length (filter (\<lambda>c. resolveRefresher m (c_Provider c) \<noteq> None) creds))"
proof (induction m creds arbitrary: l m' rule: dispatch_refreshes.induct)
  case (2 m cred creds)
  have sem: "resolveRefresher (m\<lparr>cm_refreshSemaphore := n\<rparr>) p = resolveRefresher m p" for n p
    by (simp add: resolveRefresher_def split: option.split)
  from 2 show ?case by (fastforce simp: sem split: option.splits if_splits prod.splits)
qed simp

subsection \<open>Properties\<close>







text \<open>C10: the progressive backoff is \<open>base * 2^level\<close> capped at the maximum; the doubling in 64-bit
  arithmetic never wraps around.\<close>

theorem computeBackoff_closed_form:
  assumes "0 < base" and "base \<le> maxBackoff" and "maxBackoff < 2 ^ 62"
  shows "computeBackoff level base maxBackoff = min (base * 2 ^ nat level) maxBackoff"
proof (cases "level \<le> 0")
  case False
  have "backoff_loop (nat level) maxBackoff base \<ge> min (base * 2 ^ nat level) maxBackoff \<and>
      (backoff_loop (nat level) maxBackoff base = base * 2 ^ nat level \<or>
       maxBackoff \<le> backoff_loop (nat level) maxBackoff base)"
    using assms by (intro backoff_loop_closed) simp_all
  moreover have "backoff_loop (nat level) maxBackoff base \<le> base * 2 ^ nat level"
    using assms(1,3) by (intro backoff_loop_le)
  ultimately show ?thesis using False by (auto simp: computeBackoff_def Let_def min_def)
qed (use assms in \<open>simp add: computeBackoff_def min_def\<close>)

theorem computeBackoff_closed_form_witness:
  "computeBackoff 3 second (30 * minute) = 8 * second \<and> computeBackoff 64 second (30 * minute) = 30 * minute"
  using computeBackoff_closed_form [of second "30 * minute" 3] computeBackoff_closed_form [of second "30 * minute" 64]
  by (simp add: second_def minute_def min_def)

text \<open>A success clears the error state: afterwards the credential is available, carries no error
  and no exceeded quota, and the state of the model used is available without an error.\<close>

theorem success_clears_errors:
  assumes reach: "mgr_reach T m"
    and i: "TrimSpace (r_CredentialID result) = i" "i \<noteq> []" and c: "Get m i = Some c"
    and ok: "r_Success result" and acc: "store_accepts m ctx i"
  shows "\<exists>c'. Get (MarkResult m ctx result now env) i = Some c' \<and>
           \<not> c_Unavailable c' \<and> c_LastError c' = None \<and> \<not> q_Exceeded (c_Quota c') \<and>
           (\<forall>st. r_Model result \<noteq> [] \<and> map_of (c_ModelStates c') (r_Model result) = Some (Some st) \<longrightarrow>
              \<not> ms_Unavailable st \<and> ms_LastError st = None)"
proof -
  note inv = mgr_reach_inv [OF reach]
  from c have c': "map_of (cm_creds m) i = Some c" by (simp add: Get_def)
  with creds_okD [OF mgr_invD(3) [OF inv]] have id: "c_ID c = i" by blast
  obtain changed d where mark: "mark_success c (r_Model result) now = (changed, d)" by fastforce
  then have "mark_cred m c result now = (changed, d)" using ok by (simp add: mark_cred_def)
  note * = MarkResult_creds [OF c' i id acc this, of env] and ** = mark_success_clears [OF mark]
  then have d: "Get (MarkResult m ctx result now env) i = Some (if changed then d\<lparr>c_UpdatedAt := e_now env\<rparr> else d)"
    by (simp add: Get_def)
  show ?thesis unfolding d using ** by (cases changed) simp_all
qed

theorem success_clears_errors_witness:
  "\<exists>c'. Get (MarkResult w_mgr [] ((w_result ''gpt'' 0)\<lparr>r_Success := True\<rparr>) 2000 (w_env 2000)) ''k1'' = Some c' \<and>
     \<not> c_Unavailable c'"
proof -
  have "TrimSpace (r_CredentialID ((w_result ''gpt'' 0)\<lparr>r_Success := True\<rparr>)) = ''k1''" "Get w_mgr ''k1'' \<noteq> None"
    by code_simp+
  then obtain c where "Get w_mgr ''k1'' = Some c" "TrimSpace (r_CredentialID ((w_result ''gpt'' 0)\<lparr>r_Success := True\<rparr>)) = ''k1''"
    by blast
  from success_clears_errors [OF w_mgr_reach this(2) _ this(1) _ w_mgr_accepts, of 2000 "w_env 2000"]
  show ?thesis by auto
qed

text \<open>A deregistered credential is gone from memory and is never picked again, even when the
  store reports an error for its deletion.\<close>

theorem deregister_removes:
  assumes reach: "mgr_reach T m" and "TrimSpace ident \<noteq> []" and T: "T \<le> now1" "now1 \<le> now2"
  shows "Get (snd (Deregister m ctx ident)) (TrimSpace ident) = None \<and>
         (\<forall>d. fst (Pick (snd (Deregister m ctx ident)) provider model tried now1 now2 now3) = Inr d \<longrightarrow>
            c_ID d \<noteq> TrimSpace ident)"
proof -
  have gone: "map_of (cm_creds (snd (Deregister m ctx ident))) (TrimSpace ident) = None"
    using assms(2) by (subst Deregister_eq) simp
  from Pick_sound [OF Deregister_inv [OF mgr_reach_inv [OF reach]] T] gone show ?thesis
    by (fastforce simp: Get_def)
qed

theorem deregister_removes_witness: "Get (snd (Deregister w_mgr [] '' k1 '')) ''k1'' = None"
proof -
  have "TrimSpace '' k1 '' = ''k1''" by code_simp
  with deregister_removes [OF w_mgr_reach, of "'' k1 ''" 1000 1000 "[]"] show ?thesis by simp
qed

text \<open>Loading at startup.  When the store lists credentials that all name a provider, with
  distinct identifiers, every one of them is in memory afterwards under its identifier, no refresh
  that a crash interrupted is left in progress, and nothing is written back to the store.\<close>

theorem load_restores_credentials:
  assumes "cm_store m = Some store" and "cs_ListByProviderName store (cm_db m) [] = Inr (map StoredCredential cs)"
    and "list_all (\<lambda>c. TrimSpace (c_Provider c) \<noteq> [] \<and> TrimSpace (c_ID c) \<noteq> []) cs" and "distinct (map c_ID cs)"
    and "c \<in> set cs"
  shows "fst (Load m ctx envs) = None \<and> cm_db (snd (Load m ctx envs)) = cm_db m \<and>
         (\<exists>c'. Get (snd (Load m ctx envs)) (c_ID c) = Some c' \<and> c_Provider c' = c_Provider c \<and>
            c_Metadata c' = c_Metadata c \<and>
            c_Status c' = (if c_Status c = [] \<or> c_Status c = StatusRefreshing then StatusActive else c_Status c))"
proof -
  from load_items_spec [OF assms(3,4), of m ctx envs 0] assms(1,2,5) obtain m' j where
    m': "Load m ctx envs = (None, m')" "cm_db m' = cm_db m"
      "map_of (cm_creds m') (c_ID c) = Some (prepare_registration (envs j) (loaded c))"
    by (auto simp: Load_def)
  then show ?thesis by (simp add: Get_def loaded_def prepare_registration_def Let_def status_defs)
qed

theorem load_restores_credentials_witness:
  "\<exists>c'. Get (snd (Load (NewManager (Some (w_store True)) [(''k1'', w_key\<lparr>c_Status := StatusRefreshing\<rparr>)] None) []
           (\<lambda>i. w_env 0))) ''k1'' = Some c' \<and> c_Status c' = StatusActive"
proof -
  let ?c = "w_key\<lparr>c_Status := StatusRefreshing\<rparr>"
  let ?m = "NewManager (Some (w_store True)) [(''k1'', ?c)] None"
  have c: "list_all (\<lambda>c. TrimSpace (c_Provider c) \<noteq> [] \<and> TrimSpace (c_ID c) \<noteq> []) [?c]" "c_ID ?c = ''k1''" by code_simp+
  have m: "cm_store ?m = Some (w_store True)"
    "cs_ListByProviderName (w_store True) (cm_db ?m) [] = Inr (map StoredCredential [?c])"
    by (simp_all add: NewManager_def w_store_def Let_def)
  from load_restores_credentials [OF m c(1), of ?c "[]" "\<lambda>i. w_env 0"] c(2) show ?thesis by auto
qed

text \<open>One refresh cycle launches a refresh for exactly as many due credentials as there are free
  slots: every launched credential is enabled and due, has the refresher registered for its provider
  (or the fallback), and the slots taken never exceed eight.\<close>

theorem refresh_cycle_bounded:
  assumes "runRefreshCycle parse m now = (launched, m')" and "cm_refreshSemaphore m \<le> 8"
  shows "cm_refreshSemaphore m' = cm_refreshSemaphore m + length launched \<and>
         length launched = min (8 - cm_refreshSemaphore m)
           (length (filter (\<lambda>c. resolveRefresher m (c_Provider c) \<noteq> None) (snapshotForRefresh parse m now))) \<and>
         (\<forall>(c, r)\<in>set launched. c \<in> set (map snd (cm_creds m)) \<and> \<not> IsDisabled c \<and> needsRefresh parse c now \<and>
            resolveRefresher m (c_Provider c) = Some r)"
proof -
  from assms(1) have d: "dispatch_refreshes m (snapshotForRefresh parse m now) = (launched, m')"
    by (simp add: runRefreshCycle_def)
  have "set (snapshotForRefresh parse m now) =
      {c \<in> set (map snd (cm_creds m)). \<not> IsDisabled c \<and> needsRefresh parse c now}"
    by (auto simp: snapshotForRefresh_def)
  with dispatch_frame [OF d] dispatch_launched [OF d] show ?thesis
    by (auto simp: defaultRefreshMaxConcurrent_def)
qed

theorem refresh_cycle_bounded_witness:
  "length (fst (runRefreshCycle (\<lambda>_ _. None) (SetRefresher w_mgr (Some (\<lambda>c. Inr None))) (time_Unix 100))) = 1"
proof -
  let ?m = "SetRefresher w_mgr (Some (\<lambda>c. Inr None))"
  let ?snap = "snapshotForRefresh (\<lambda>_ _. None) ?m (time_Unix 100)"
  obtain l m' where r: "runRefreshCycle (\<lambda>_ _. None) ?m (time_Unix 100) = (l, m')" by fastforce
  have s: "cm_refreshSemaphore ?m = 0" "length ?snap = 1" by code_simp+
  have "resolveRefresher ?m p \<noteq> None" for p
    by (auto simp: resolveRefresher_def SetRefresher_def split: option.splits)
  then have "filter (\<lambda>c. resolveRefresher ?m (c_Provider c) \<noteq> None) ?snap = ?snap" by simp
  with refresh_cycle_bounded [OF r] r s show ?thesis by simp
qed

lemma Update_rejected:
  assumes "cm_store m = Some store" and "\<And>i c. fst (cs_Update store (cm_db m) i c) \<noteq> None"
    and "\<not> shouldSkipPersist ctx"
  shows "cm_creds (snd (Update m ctx (Some c) env)) = cm_creds m"
    "cm_scheduler (snd (Update m ctx (Some c) env)) = cm_scheduler m"
proof -
  have "\<exists>d. snd (Update m ctx (Some c) env) = m\<lparr>cm_db := d\<rparr>"
    using assms(2) [of "c_ID c" "c\<lparr>c_UpdatedAt := e_now env\<rparr>"] assms(1,3)
    by (auto simp: Update_def store_update_def Let_def split: prod.splits)
  then show "cm_creds (snd (Update m ctx (Some c) env)) = cm_creds m"
    "cm_scheduler (snd (Update m ctx (Some c) env)) = cm_scheduler m"
    by (metis cred_manager.select_convs(5,8) cred_manager.surjective cred_manager.update_convs(2))+
qed

text \<open>Feedback is lost when the store is down.  If the store refuses the update, \<open>MarkResult\<close>
  leaves the credentials and the scheduler as they were, so a revoked or rate-limited credential
  stays in rotation.\<close>

theorem store_error_drops_feedback:
  assumes "cm_store m = Some store" and "\<And>i c. fst (cs_Update store (cm_db m) i c) \<noteq> None"
    and "\<not> shouldSkipPersist ctx"
  shows "cm_creds (MarkResult m ctx result now env) = cm_creds m \<and>
         cm_scheduler (MarkResult m ctx result now env) = cm_scheduler m"
proof -
  show ?thesis by (auto simp: Update_rejected [OF assms] MarkResult_def Let_def split: option.splits prod.splits)
qed

theorem store_error_drops_feedback_witness:
  "cm_creds (MarkResult (w_mgr\<lparr>cm_store := Some (w_store True)\<rparr>) [] (w_result ''gpt'' 401) 2000 (w_env 2000)) =
     cm_creds w_mgr"
  using store_error_drops_feedback [of "w_mgr\<lparr>cm_store := Some (w_store True)\<rparr>" "w_store True" "[]"]
  by (simp add: w_store_def shouldSkipPersist_def)

text \<open>A refresh overwrites what happened while it was running.  A credential that upstream
  revoked (401, so disabled) during the refresh is enabled again and picked when the refresh ends,
  because \<open>refreshOne\<close> writes back the snapshot it started from.\<close>

theorem refresh_overwrites_disable:
  "let m1 = refreshOne_begin w_mgr [] (w_key\<lparr>c_Status := StatusActive\<rparr>) 1500 (w_env 1500);
       m2 = MarkResult m1 [] (w_result [] 401) 1600 (w_env 1600);
       m3 = refreshOne_finish m2 [] (w_key\<lparr>c_Status := StatusActive\<rparr>) (Inr None) 1700 (w_env 1700)
   in map_option c_Status (Get m2 ''k1'') = Some StatusDisabled \<and>
      map_option c_Status (Get m3 ''k1'') = Some StatusActive \<and>
      (case fst (Pick m3 ''openai'' ''gpt'' [] 1800 1800 1800) of Inr c \<Rightarrow> c_ID c = ''k1'' | Inl _ \<Rightarrow> False)"
  by code_simp

text \<open>A 429 for a model with a variant suffix blocks nothing.  The state is stored under
  \<open>gpt:free\<close>, while the scheduler looks under the canonical key \<open>gpt\<close>, so the very next pick for
  the same model returns the cooling credential.\<close>

theorem variant_quota_not_blocked:
  "let m1 = MarkResult w_mgr [] (w_result ''gpt:free'' 429) 2000 (w_env 2000)
   in map_option c_Unavailable (Get m1 ''k1'') = Some True \<and>
      (case fst (Pick m1 ''openai'' ''gpt:free'' [] 2001 2001 2001) of Inr c \<Rightarrow> c_ID c = ''k1'' | Inl _ \<Rightarrow> False)"
  by code_simp

end
