(* ===== verification/Provider_Props.thy ===== *)
theory Provider_Props
  imports Provider_Impl Auth_Provider Manager_Props
begin

text \<open>
  What the provider layer promises: bounded retries on retryable errors only, the key a request is
  sent with under each authentication strategy, and the feedback of a call to the credential
  manager.
\<close>

subsection \<open>Concrete values for the witnesses\<close>

definition w_config :: "string \<Rightarrow> string \<Rightarrow> provider_config" where
  "w_config key strategy =
     \<lparr>pc_Id = ''p1'', pc_ProviderName = ''openai'', pc_APIKey = key, pc_BaseURL = ''https://x/v1///'',
      pc_DefaultModel = ''gpt'',
      pc_Network = \<lparr>n_TimeoutSeconds = 0, n_MaxRetries = 2, n_RetryDelaySeconds = 0, n_ProxyURL = [], n_ExtraHeaders = []\<rparr>,
      pc_Options = [(''organization'', GString ''org-1'')], pc_AuthStrategy = strategy\<rparr>"

text \<open>A provider whose every call is refused with the given status.\<close>

definition w_refusing :: "int \<Rightarrow> (unit, unit, unit, unit, nat) provider_ops" where
  "w_refusing status =
     \<lparr>pv_Generate = (\<lambda>ctx req w. (Inl (StatusError status ''no''), Suc w)),
      pv_Stream = (\<lambda>ctx req w. (Inl (StatusError status ''no''), Suc w)),
      pv_ListModels = (\<lambda>ctx w. (Inr [], w)), pv_Capabilities = openai_Capabilities,
      pv_Config = w_config [] AuthStrategyCredentialFirst\<rparr>"

definition w_amp :: "int \<Rightarrow> (unit, unit, unit, unit, nat) provider_ops auth_managed_provider" where
  "w_amp status =
     \<lparr>am_base = w_refusing status, am_providerName = ''openai'', am_config = w_config [] AuthStrategyCredentialFirst\<rparr>"

definition w_amp_env :: "gotime \<Rightarrow> amp_env" where
  "w_amp_env t = \<lparr>ae_pick1 = t, ae_pick2 = t, ae_pick3 = t, ae_mark = t, ae_update = w_env t\<rparr>"

definition w_gen_req :: "(unit, unit) generate_request" where
  "w_gen_req = \<lparr>gq_Model = ''gpt'', gq_Messages = [], gq_Options = []\<rparr>"

subsection \<open>Helper lemmas\<close>

lemma Pick_creds [simp]:
  "cm_creds (snd (Pick m provider model tried now1 now2 now3)) = cm_creds m"
  "cm_store (snd (Pick m provider model tried now1 now2 now3)) = cm_store m"
  "cm_db (snd (Pick m provider model tried now1 now2 now3)) = cm_db m"
  by (simp_all add: Pick_def case_prod_unfold)

lemma Header_SetAll_Authorization:
  "list_all (\<lambda>(k, v). CanonicalHeaderKey k \<noteq> ''Authorization'') m \<Longrightarrow>
   Header_Get (Header_SetAll h m) ''Authorization'' = Header_Get h ''Authorization''"
proof -
  have "CanonicalHeaderKey ''Authorization'' = ''Authorization''" by code_simp
  then show "list_all (\<lambda>(k, v). CanonicalHeaderKey k \<noteq> ''Authorization'') m \<Longrightarrow> ?thesis"
    by (intro Header_Get_SetAll_other) (auto simp: list_all_iff)
qed

lemma inject_header_fields:
  "pc_BaseURL (inject_header opt header cfg) = pc_BaseURL cfg" "pc_APIKey (inject_header opt header cfg) = pc_APIKey cfg"
  "pc_Options (inject_header opt header cfg) = pc_Options cfg"
  "n_TimeoutSeconds (pc_Network (inject_header opt header cfg)) = n_TimeoutSeconds (pc_Network cfg)"
  "map_of (n_ExtraHeaders (pc_Network (inject_header opt header cfg))) k =
     (if k = header \<and> string_option (pc_Options cfg) opt \<noteq> [] then Some (string_option (pc_Options cfg) opt)
      else map_of (n_ExtraHeaders (pc_Network cfg)) k)"
  by (simp_all add: inject_header_def Let_def)

subsection \<open>Properties\<close>

text \<open>C36: retries.  \<open>RetryGenerate\<close> stops after attempt \<open>k\<close>, where \<open>k\<close> is at most the number of
  retries configured (3 when none is): every earlier attempt failed with a retryable error (429, 5xx,
  or no status), and attempt \<open>k\<close> succeeded, failed for good or was the last one.  It returns the result
  of that attempt, an error always with a status, and before attempt \<open>i\<close> it slept \<open>i\<close> times the delay
  (in 64-bit arithmetic).\<close>

theorem retry_generate_attempts:
  "\<exists>k\<le>retry_max config. \<exists>sleeps.
     RetryGenerate config fn w = (final_result (fst (fn (attempt_world fn w k))), sleeps, attempt_world fn w (Suc k)) \<and>
     sleeps = map (\<lambda>i. wrap64 (retry_delay config * (int i + 1))) [0..<k] \<and>
     (\<forall>j<k. failed_retryably (fst (fn (attempt_world fn w j)))) \<and>
     (k < retry_max config \<longrightarrow> \<not> failed_retryably (fst (fn (attempt_world fn w k)))) \<and>
     (\<forall>e. fst (RetryGenerate config fn w) = Inl e \<longrightarrow> as_status e \<noteq> None)"
proof -
  from retry_loop_spec [of "retry_max config" fn "retry_delay config" 0 w] obtain k where k: "k \<le> retry_max config"
    "RetryGenerate config fn w =
       (final_result (fst (fn (attempt_world fn w k))),
        map (\<lambda>i. wrap64 (retry_delay config * (int i + 1))) [0..<k], attempt_world fn w (Suc k))"
    "\<forall>j<k. failed_retryably (fst (fn (attempt_world fn w j)))"
    "k < retry_max config \<longrightarrow> \<not> failed_retryably (fst (fn (attempt_world fn w k)))"
    unfolding RetryGenerate_def by auto
  moreover have "as_status e \<noteq> None" if "fst (RetryGenerate config fn w) = Inl e" for e
    using that k(2) wrap_error_status by (auto simp: final_result_def split: sum.splits)
  ultimately show ?thesis by blast
qed

theorem retry_generate_attempts_witness:
  "fst (RetryGenerate (pc_Network (w_config [] [])) (\<lambda>w. (Inl (StatusError 503 ''busy'') :: provider_error + unit, Suc w)) 0) =
     Inl (StatusError 503 ''busy'')"
proof -
  let ?fn = "\<lambda>w. (Inl (StatusError 503 ''busy'') :: provider_error + unit, Suc w)"
  from retry_generate_attempts [of "pc_Network (w_config [] [])" ?fn 0] show ?thesis
    by (auto simp: final_result_def wrap_error_def WrapEinoError_def)
qed

text \<open>The key of a request.  With \<open>api_key_only\<close> the credential of the context is never used; with
  \<open>credential_only\<close> and \<open>credential_first\<close> the configured key is never sent; otherwise a configured
  key wins over the credential.  When the credential is used, its access token wins over its own API
  key.\<close>

theorem credential_precedence:
  assumes "CredentialFromContext ctx = Some c" and "ResolveCredential ctx config = (key, url, cred)"
  shows "(pc_AuthStrategy config = AuthStrategyAPIKeyOnly \<longrightarrow>
            key = pc_APIKey config \<and> url = pc_BaseURL config \<and> cred = None) \<and>
         (pc_AuthStrategy config \<in> {AuthStrategyCredentialOnly, AuthStrategyCredentialFirst} \<longrightarrow>
            cred = Some c \<and> key = (if access_token c \<noteq> [] then access_token c else TrimSpace (APIKey c))) \<and>
         (pc_AuthStrategy config \<notin> {AuthStrategyAPIKeyOnly, AuthStrategyCredentialOnly, AuthStrategyCredentialFirst} \<longrightarrow>
            (if TrimSpace (pc_APIKey config) \<noteq> [] then cred = None \<and> key = pc_APIKey config \<and> url = pc_BaseURL config
             else cred = Some c \<and> (access_token c \<noteq> [] \<longrightarrow> key = access_token c)))"
proof -
  have d: "pc_APIKey (ProviderConfig_Defaults config) = pc_APIKey config"
    "pc_BaseURL (ProviderConfig_Defaults config) = pc_BaseURL config"
    "pc_AuthStrategy (ProviderConfig_Defaults config) =
       (if pc_AuthStrategy config = [] then AuthStrategyAPIKeyFirst else pc_AuthStrategy config)"
    by (simp_all add: ProviderConfig_Defaults_def Let_def)
  from assms(2) [unfolded ResolveCredential_def Let_def assms(1) d option.case] show ?thesis
    by (auto simp: auth_strategy_defs override_key_def split: if_splits)
qed

theorem credential_precedence_witness:
  "fst (ResolveCredential \<lparr>x_values = [], x_credential = Some (w_key\<lparr>c_Metadata := [(''access_token'', GString ''tok'')]\<rparr>)\<rparr>
     (w_config ''sk'' AuthStrategyCredentialFirst)) = ''tok''"
proof -
  let ?c = "w_key\<lparr>c_Metadata := [(''access_token'', GString ''tok'')]\<rparr>"
  let ?ctx = "\<lparr>x_values = [], x_credential = Some ?c\<rparr>"
  obtain key url cred where r: "ResolveCredential ?ctx (w_config ''sk'' AuthStrategyCredentialFirst) = (key, url, cred)"
    by (metis prod.exhaust)
  have "CredentialFromContext ?ctx = Some ?c" by (simp add: CredentialFromContext_def)
  from credential_precedence [OF this r] r show ?thesis
    by (simp add: w_config_def access_token_def)
qed



text \<open>The openai provider strips trailing slashes from its base URL, which is never left empty
  unless it was nothing but slashes, and sends the organization and project options as headers next
  to the configured ones.\<close>

theorem openai_new_config:
  assumes "openai_New config = Inr cfg"
  shows "\<not> HasSuffix (pc_BaseURL cfg) ''/'' \<and>
         (pc_BaseURL config = [] \<longrightarrow> pc_BaseURL cfg = ''https://api.openai.com/v1'') \<and>
         (string_option (pc_Options config) ''organization'' \<noteq> [] \<longrightarrow>
            map_of (n_ExtraHeaders (pc_Network cfg)) ''OpenAI-Organization'' =
              Some (string_option (pc_Options config) ''organization'')) \<and>
         (\<forall>k. k \<notin> {''OpenAI-Organization'', ''OpenAI-Project''} \<longrightarrow>
            map_of (n_ExtraHeaders (pc_Network cfg)) k = map_of (n_ExtraHeaders (pc_Network config)) k) \<and>
         pc_APIKey cfg = pc_APIKey config \<and> n_TimeoutSeconds (pc_Network cfg) \<noteq> 0"
proof -
  have nd: "n_ExtraHeaders (NetworkConfig_Defaults n) = n_ExtraHeaders n" "n_TimeoutSeconds (NetworkConfig_Defaults n) \<noteq> 0" for n
    by (simp_all add: NetworkConfig_Defaults_def Let_def)
  have slash: "\<not> HasSuffix (TrimRight s ''/'') ''/''" for s
  proof -
    let ?d = "dropWhile (\<lambda>c. c = CHR ''/'') (rev s)"
    have "hd ?d \<noteq> CHR ''/''" if "?d \<noteq> []" using hd_dropWhile [OF that] by simp
    then have "take 1 ?d \<noteq> ''/''" by (cases ?d) (simp_all del: dropWhile_eq_Nil_conv)
    then show ?thesis by (simp add: TrimRight_def HasSuffix_def HasPrefix_def)
  qed
  have "TrimRight ''https://api.openai.com/v1'' ''/'' = ''https://api.openai.com/v1''" by code_simp
  moreover have "TrimRight s [] = s" for s by (simp add: TrimRight_def)
  moreover from assms have "cfg = inject_header ''project'' ''OpenAI-Project''
      (inject_header ''organization'' ''OpenAI-Organization''
        (network_defaults (config\<lparr>pc_BaseURL := TrimRight (pc_BaseURL (default_url ''https://api.openai.com/v1'' config)) ''/''\<rparr>)))"
    by (cases "pc_BaseURL config = []") (simp_all add: openai_New_def Let_def default_url_def)
  ultimately show ?thesis
    using slash nd by (simp add: inject_header_fields network_defaults_def) (simp add: default_url_def)
qed

theorem openai_new_config_witness:
  "case openai_New (w_config ''sk'' []) of
     Inr cfg \<Rightarrow> map_of (n_ExtraHeaders (pc_Network cfg)) ''OpenAI-Organization'' = Some ''org-1''
   | Inl _ \<Rightarrow> False"
proof -
  obtain cfg where c: "openai_New (w_config ''sk'' []) = Inr cfg" by (simp add: openai_New_def Let_def)
  have "string_option (pc_Options (w_config ''sk'' [])) ''organization'' = ''org-1''" by code_simp
  with openai_new_config [OF c] c show ?thesis by simp
qed

end
