(* ===== verification/Route_Types.thy ===== *)
theory Route_Types
  imports Go_Http
begin

text \<open>
  Package gateway/route, files types.go, resolver.go, localapikey.go and decode.go: routes, their
  targets and policies, local API keys, and the checks on a request.  A pointer to a bool is an
  option.  \<open>json.Unmarshal\<close> is a parameter of the decoders.
\<close>

subsection \<open>Data\<close>

type_synonym target_mode = string

definition TargetModeWeighted :: target_mode where "TargetModeWeighted = ''weighted''"
definition TargetModeFailover :: target_mode where "TargetModeFailover = ''failover''"
definition TargetModeConditional :: target_mode where "TargetModeConditional = ''conditional''"

type_synonym selection_strategy = string

definition RouteSelectionStrategyAuto :: selection_strategy where "RouteSelectionStrategyAuto = ''auto''"
definition RouteSelectionStrategyWeighted :: selection_strategy where "RouteSelectionStrategyWeighted = ''weighted''"
definition RouteSelectionStrategyFailover :: selection_strategy where "RouteSelectionStrategyFailover = ''failover''"
definition RouteSelectionStrategyConditional :: selection_strategy where
  "RouteSelectionStrategyConditional = ''conditional''"

lemmas mode_defs = TargetModeWeighted_def TargetModeFailover_def TargetModeConditional_def
lemmas strategy_defs = RouteSelectionStrategyAuto_def RouteSelectionStrategyWeighted_def
  RouteSelectionStrategyFailover_def RouteSelectionStrategyConditional_def

record route_match =
  rm_Host :: string
  rm_PathPrefix :: string
  rm_Methods :: "string list"

record target_conditions =
  tc_Models :: "string list"
  tc_RequireStreaming :: "bool option"
  tc_RequireTools :: "bool option"
  tc_RequireVision :: "bool option"
  tc_RequireEmbeddings :: "bool option"
  tc_Regions :: "string list"
  tc_Tags :: "string list"

record route_target =
  t_ProviderRef :: string
  t_Mode :: target_mode
  t_Weight :: int
  t_Priority :: int
  t_ModelMap :: "(string, string) gomap"
  t_Conditions :: target_conditions
  t_Disabled :: bool

record auth_policy =
  ap_RequireLocalAPIKey :: bool

record rate_limit_policy =
  rl_RequestsPerMinute :: int
  rl_RequestsPerHour :: int
  rl_ConcurrentLimit :: int

record quota_policy =
  qp_DailyRequests :: int
  qp_MonthlyRequests :: int
  qp_DailyTokens :: int
  qp_MonthlyTokens :: int

record selection_policy =
  sp_Strategy :: selection_strategy

record retry_policy =
  rp_MaxAttempts :: int
  rp_BackoffMS :: int
  rp_RetryableStatusCodes :: "int list"

record fallback_policy =
  fp_Enabled :: bool
  fp_OnStatusCodes :: "int list"

record route_policy =
  pol_Auth :: auth_policy
  pol_RateLimit :: rate_limit_policy
  pol_Quota :: quota_policy
  pol_AllowedModels :: "string list"
  pol_AllowStreaming :: "bool option"
  pol_AllowTools :: "bool option"
  pol_AllowVision :: "bool option"
  pol_AllowEmbeddings :: "bool option"
  pol_TimeoutSeconds :: int
  pol_Selection :: selection_policy
  pol_Retry :: retry_policy
  pol_Fallback :: fallback_policy

record route =
  r_ID :: string
  r_Name :: string
  r_Description :: string
  r_Disabled :: bool
  r_Match :: route_match
  r_Targets :: "route_target list"
  r_Policy :: route_policy
  r_CreatedAt :: gotime
  r_UpdatedAt :: gotime

record consumer_policy =
  cp_RateLimit :: rate_limit_policy
  cp_Quota :: quota_policy
  cp_AllowedModels :: "string list"
  cp_AllowStreaming :: "bool option"
  cp_AllowTools :: "bool option"
  cp_AllowVision :: "bool option"
  cp_AllowEmbeddings :: "bool option"

record local_api_key =
  k_Key :: string
  k_UserID :: string
  k_Name :: string
  k_Description :: string
  k_Disabled :: bool
  k_AllowedRouteIDs :: "string list"
  k_PolicyOverride :: "consumer_policy option"
  k_StatusMessage :: string
  k_CreatedAt :: gotime
  k_UpdatedAt :: gotime
  k_ExpiresAt :: gotime

record http_request =
  hr_Header :: http_header

record resolve_request =
  rq_HTTPRequest :: "http_request option"
  rq_Model :: string
  rq_Stream :: bool

record http_error =
  he_status :: int
  he_msg :: string

definition NewHTTPError :: "int \<Rightarrow> string \<Rightarrow> http_error" where
  "NewHTTPError status msg = \<lparr>he_status = status, he_msg = msg\<rparr>"

subsection \<open>Defaults\<close>

definition SelectionPolicy_Defaults :: "selection_policy \<Rightarrow> selection_policy" where
  "SelectionPolicy_Defaults p =
     (if sp_Strategy p = [] then p\<lparr>sp_Strategy := RouteSelectionStrategyAuto\<rparr> else p)"

definition RetryPolicy_Defaults :: "retry_policy \<Rightarrow> retry_policy" where
  "RetryPolicy_Defaults p =
     (let p = (if rp_MaxAttempts p = 0 then p\<lparr>rp_MaxAttempts := 1\<rparr> else p);
          p = (if rp_BackoffMS p = 0 then p\<lparr>rp_BackoffMS := 250\<rparr> else p)
      in if rp_RetryableStatusCodes p = [] then p\<lparr>rp_RetryableStatusCodes := [429, 500, 502, 503, 504]\<rparr>
         else p)"

definition RoutePolicy_Defaults :: "route_policy \<Rightarrow> route_policy" where
  "RoutePolicy_Defaults p =
     (let p = (if pol_TimeoutSeconds p = 0 then p\<lparr>pol_TimeoutSeconds := 120\<rparr> else p)
      in p\<lparr>pol_Selection := SelectionPolicy_Defaults (pol_Selection p),
           pol_Retry := RetryPolicy_Defaults (pol_Retry p)\<rparr>)"

definition with_defaults :: "route \<Rightarrow> route" where
  "with_defaults r = r\<lparr>r_Policy := RoutePolicy_Defaults (r_Policy r)\<rparr>"

definition DecodeStoredRoute :: "(string \<Rightarrow> string + route) \<Rightarrow> string \<Rightarrow> gotime \<Rightarrow> string + route" where
  "DecodeStoredRoute unmarshal data now =
     (case unmarshal data of
        Inl err \<Rightarrow> Inl (''decode route: '' @ err)
      | Inr r \<Rightarrow>
          (let r = with_defaults r;
               r = (if IsZero (r_CreatedAt r) then r\<lparr>r_CreatedAt := now\<rparr> else r);
               r = (if IsZero (r_UpdatedAt r) then r\<lparr>r_UpdatedAt := now\<rparr> else r)
           in Inr r))"

datatype decode_error = UnmarshalError string | UnmarshalTypeError string

definition DecodeStoredLocalAPIKey ::
    "(string \<Rightarrow> string + local_api_key) \<Rightarrow> string \<Rightarrow> decode_error + local_api_key" where
  "DecodeStoredLocalAPIKey unmarshal data =
     (case unmarshal data of
        Inl err \<Rightarrow> Inl (UnmarshalError err)
      | Inr key \<Rightarrow> if k_Key key = [] then Inl (UnmarshalTypeError ''key'') else Inr key)"

subsection \<open>Checks on a request\<close>

definition ValidateLocalAPIKeyForRoute ::
    "route \<Rightarrow> local_api_key option \<Rightarrow> gotime \<Rightarrow> http_error + local_api_key option" where
  "ValidateLocalAPIKeyForRoute r k now =
     (case k of
        None \<Rightarrow>
          if ap_RequireLocalAPIKey (pol_Auth (r_Policy r))
          then Inl (NewHTTPError 401 ''local api key is required'')
          else Inr None
      | Some key \<Rightarrow>
          if k_Disabled key then Inl (NewHTTPError 403 ''local api key is disabled'')
          else if \<not> IsZero (k_ExpiresAt key) \<and> k_ExpiresAt key < now
          then Inl (NewHTTPError 403 ''local api key is expired'')
          else if k_AllowedRouteIDs key \<noteq> [] \<and> \<not> List.member (k_AllowedRouteIDs key) (r_ID r)
          then Inl (NewHTTPError 403 ''local api key is not allowed to access this route'')
          else Inr (Some key))"

text \<open>The key's policy override, when there is a key and it has one.\<close>

definition policy_override :: "local_api_key option \<Rightarrow> consumer_policy option" where
  "policy_override k = Option.bind k k_PolicyOverride"

definition ValidateRequestPolicy ::
    "route \<Rightarrow> local_api_key option \<Rightarrow> resolve_request \<Rightarrow> http_error option" where
  "ValidateRequestPolicy r k req =
     (if rq_Model req \<noteq> [] \<and> pol_AllowedModels (r_Policy r) \<noteq> [] \<and>
         \<not> List.member (pol_AllowedModels (r_Policy r)) (rq_Model req)
      then Some (NewHTTPError 403
             (''model '' @ quoted (rq_Model req) @ '' is not allowed on route '' @ quoted (r_ID r)))
      else if rq_Model req \<noteq> [] \<and>
         (case policy_override k of
            Some p \<Rightarrow> cp_AllowedModels p \<noteq> [] \<and> \<not> List.member (cp_AllowedModels p) (rq_Model req)
          | None \<Rightarrow> False)
      then Some (NewHTTPError 403
             (''model '' @ quoted (rq_Model req) @ '' is not allowed for this local api key''))
      else if rq_Stream req \<and> pol_AllowStreaming (r_Policy r) = Some False
      then Some (NewHTTPError 403 ''streaming is disabled on this route'')
      else if rq_Stream req \<and>
         (case policy_override k of Some p \<Rightarrow> cp_AllowStreaming p = Some False | None \<Rightarrow> False)
      then Some (NewHTTPError 403 ''streaming is disabled for this local api key'')
      else None)"

definition matchesConditions :: "target_conditions \<Rightarrow> resolve_request \<Rightarrow> bool" where
  "matchesConditions conditions req =
     (if tc_Models conditions \<noteq> [] \<and> rq_Model req \<noteq> [] \<and> \<not> List.member (tc_Models conditions) (rq_Model req)
      then False
      else if (case tc_RequireStreaming conditions of Some b \<Rightarrow> b \<noteq> rq_Stream req | None \<Rightarrow> False)
      then False
      else True)"

definition ExtractAPIKey :: "http_request option \<Rightarrow> string" where
  "ExtractAPIKey r =
     (case r of
        None \<Rightarrow> []
      | Some r \<Rightarrow>
          (let key = TrimSpace (Header_Get (hr_Header r) ''x-api-key'')
           in if key \<noteq> [] then key
              else
                (let auth = TrimSpace (Header_Get (hr_Header r) ''Authorization'')
                 in if length auth > 7 \<and> EqualFold (take 7 auth) ''bearer ''
                    then TrimSpace (drop 7 auth)
                    else [])))"

subsection \<open>Facts\<close>

lemma RetryPolicy_Defaults_idem [simp]: "RetryPolicy_Defaults (RetryPolicy_Defaults p) = RetryPolicy_Defaults p"
  by (simp add: RetryPolicy_Defaults_def Let_def)

lemma SelectionPolicy_Defaults_idem [simp]:
  "SelectionPolicy_Defaults (SelectionPolicy_Defaults p) = SelectionPolicy_Defaults p"
  by (simp add: SelectionPolicy_Defaults_def strategy_defs)

lemma RoutePolicy_Defaults_idem [simp]: "RoutePolicy_Defaults (RoutePolicy_Defaults p) = RoutePolicy_Defaults p"
  by (simp add: RoutePolicy_Defaults_def Let_def)

lemma with_defaults_idem [simp]: "with_defaults (with_defaults r) = with_defaults r"
  by (simp add: with_defaults_def)

lemma with_defaults_fields [simp]:
  "r_ID (with_defaults r) = r_ID r" "r_Targets (with_defaults r) = r_Targets r"
  "r_Disabled (with_defaults r) = r_Disabled r"
  "pol_Auth (r_Policy (with_defaults r)) = pol_Auth (r_Policy r)"
  "pol_AllowedModels (r_Policy (with_defaults r)) = pol_AllowedModels (r_Policy r)"
  "pol_AllowStreaming (r_Policy (with_defaults r)) = pol_AllowStreaming (r_Policy r)"
  "pol_Fallback (r_Policy (with_defaults r)) = pol_Fallback (r_Policy r)"
  by (simp_all add: with_defaults_def RoutePolicy_Defaults_def Let_def)

end
