(* ===== verification/Route_Select.thy ===== *)
theory Route_Select
  imports Route_Types
begin

text \<open>
  Package gateway/route, file selector.go: choosing the target of a route.  \<open>rand.Intn\<close> is the
  parameter \<open>intn\<close>.  The contract of a \<open>RouteSelector\<close> is the locale \<open>route_selector\<close>; the gateway
  relies on it alone.
\<close>

type_synonym intn = "int \<Rightarrow> int"
type_synonym selector = "route \<Rightarrow> resolve_request \<Rightarrow> http_error + route_target"

subsection \<open>The model\<close>

definition eligible :: "route_target \<Rightarrow> resolve_request \<Rightarrow> bool" where
  "eligible target req \<longleftrightarrow>
     \<not> (t_Disabled target \<or> t_ProviderRef target = []) \<and> matchesConditions (t_Conditions target) req"

definition selectionOrder ::
    "selection_strategy \<Rightarrow> bool \<Rightarrow> route_target list \<Rightarrow> route_target list \<Rightarrow> route_target list \<Rightarrow>
     route_target list \<Rightarrow> route_target list list" where
  "selectionOrder strategy allowFallback weighted conditional failover other =
     (if strategy = RouteSelectionStrategyWeighted then
        (if allowFallback then [weighted, conditional, failover, other] else [weighted])
      else if strategy = RouteSelectionStrategyConditional then
        (if allowFallback then [conditional, weighted, failover, other] else [conditional])
      else if strategy = RouteSelectionStrategyFailover then
        (if allowFallback then [failover, weighted, conditional, other] else [failover])
      else if strategy = RouteSelectionStrategyAuto \<or> strategy = [] then
        (if allowFallback then [conditional, weighted, failover, other] else [conditional, weighted])
      else
        (if allowFallback then [conditional, weighted, failover, other] else [conditional, weighted]))"

definition primaryMode :: "route_target \<Rightarrow> target_mode" where
  "primaryMode target = (if t_Mode target = [] then TargetModeWeighted else t_Mode target)"

definition target_weight :: "route_target \<Rightarrow> int" where
  "target_weight target = (if t_Weight target \<le> 0 then 1 else t_Weight target)"

definition total_weight :: "route_target list \<Rightarrow> int" where
  "total_weight targets = foldl (\<lambda>total target. wrap64 (total + target_weight target)) 0 targets"

fun weighted_walk :: "int \<Rightarrow> route_target list \<Rightarrow> route_target option" where
  "weighted_walk pick [] = None"
| "weighted_walk pick (target # targets) =
     (if pick < target_weight target then Some target
      else weighted_walk (pick - target_weight target) targets)"

definition chooseWeighted :: "intn \<Rightarrow> route_target list \<Rightarrow> route_target" where
  "chooseWeighted intn targets =
     (if length targets = 1 then hd targets
      else
        (let total = total_weight targets
         in if total \<le> 0 then hd targets
            else (case weighted_walk (intn total) targets of
                    Some target \<Rightarrow> target
                  | None \<Rightarrow> hd targets)))"

fun bestFailover :: "route_target \<Rightarrow> route_target list \<Rightarrow> route_target" where
  "bestFailover best [] = best"
| "bestFailover best (item # items) =
     bestFailover (if t_Priority item < t_Priority best then item else best) items"

fun select_group :: "intn \<Rightarrow> route_target list list \<Rightarrow> route_target option" where
  "select_group intn [] = None"
| "select_group intn ([] # groups) = select_group intn groups"
| "select_group intn ((g # gs) # groups) =
     (if primaryMode g = TargetModeFailover then Some (bestFailover g gs)
      else Some (chooseWeighted intn (g # gs)))"

definition no_eligible :: "route \<Rightarrow> http_error" where
  "no_eligible r = NewHTTPError 502 (''route '' @ quoted (r_ID r) @ '' has no eligible targets'')"

definition SelectTarget :: "intn \<Rightarrow> selector" where
  "SelectTarget intn r req =
     (let candidates = filter (\<lambda>target. eligible target req) (r_Targets r)
      in if candidates = [] then Inl (no_eligible r)
         else
           (let failover = filter (\<lambda>t. t_Mode t = TargetModeFailover) candidates;
                conditional = filter (\<lambda>t. t_Mode t = TargetModeConditional) candidates;
                weighted = filter (\<lambda>t. t_Mode t = TargetModeWeighted \<or> t_Mode t = []) candidates;
                other = filter (\<lambda>t. t_Mode t \<noteq> TargetModeFailover \<and> t_Mode t \<noteq> TargetModeConditional \<and>
                                   t_Mode t \<noteq> TargetModeWeighted \<and> t_Mode t \<noteq> []) candidates;
                r = with_defaults r
            in (case select_group intn
                       (selectionOrder (sp_Strategy (pol_Selection (r_Policy r))) (fp_Enabled (pol_Fallback (r_Policy r)))
                          weighted conditional failover other) of
                  Some target \<Rightarrow> Inr target
                | None \<Rightarrow> Inl (no_eligible r))))"

subsection \<open>The contract of a selector\<close>

locale route_selector =
  fixes select :: selector
  assumes select_eligible: "select r req = Inr t \<Longrightarrow> t \<in> set (r_Targets r) \<and> eligible t req"
begin

lemma select_provider: "select r req = Inr t \<Longrightarrow> t_ProviderRef t \<noteq> [] \<and> \<not> t_Disabled t"
  using select_eligible by (auto simp: eligible_def)

lemma select_none: "list_all (\<lambda>t. \<not> eligible t req) (r_Targets r) \<Longrightarrow> \<exists>e. select r req = Inl e"
  using select_eligible by (cases "select r req") (auto simp: list_all_iff)

end

subsection \<open>Ranks\<close>

text \<open>The class of a target's mode, and the place of each class under a strategy: smaller is
  tried first, \<open>None\<close> is never tried.\<close>

datatype mode_class = WeightedClass | ConditionalClass | FailoverClass | OtherClass

definition classOf :: "route_target \<Rightarrow> mode_class" where
  "classOf t =
     (if t_Mode t = TargetModeFailover then FailoverClass
      else if t_Mode t = TargetModeConditional then ConditionalClass
      else if t_Mode t = TargetModeWeighted \<or> t_Mode t = [] then WeightedClass
      else OtherClass)"

definition class_order :: "selection_strategy \<Rightarrow> bool \<Rightarrow> mode_class list" where
  "class_order strategy fallback =
     (if strategy = RouteSelectionStrategyWeighted then
        WeightedClass # (if fallback then [ConditionalClass, FailoverClass, OtherClass] else [])
      else if strategy = RouteSelectionStrategyConditional then
        ConditionalClass # (if fallback then [WeightedClass, FailoverClass, OtherClass] else [])
      else if strategy = RouteSelectionStrategyFailover then
        FailoverClass # (if fallback then [WeightedClass, ConditionalClass, OtherClass] else [])
      else [ConditionalClass, WeightedClass] @ (if fallback then [FailoverClass, OtherClass] else []))"

lemma class_filters:
  "filter (\<lambda>t. t_Mode t = TargetModeFailover) ts = filter (\<lambda>t. classOf t = FailoverClass) ts"
  "filter (\<lambda>t. t_Mode t = TargetModeConditional) ts = filter (\<lambda>t. classOf t = ConditionalClass) ts"
  "filter (\<lambda>t. t_Mode t = TargetModeWeighted \<or> t_Mode t = []) ts = filter (\<lambda>t. classOf t = WeightedClass) ts"
  "filter (\<lambda>t. t_Mode t \<noteq> TargetModeFailover \<and> t_Mode t \<noteq> TargetModeConditional \<and>
               t_Mode t \<noteq> TargetModeWeighted \<and> t_Mode t \<noteq> []) ts =
     filter (\<lambda>t. classOf t = OtherClass) ts"
  by (auto simp: classOf_def mode_defs intro!: filter_cong)

lemma selectionOrder_classes:
  "selectionOrder strategy fallback (f WeightedClass) (f ConditionalClass) (f FailoverClass) (f OtherClass) =
   map f (class_order strategy fallback)"
  by (simp add: selectionOrder_def class_order_def)

text \<open>The choice as a search through the classes in order.\<close>

definition members :: "route \<Rightarrow> resolve_request \<Rightarrow> mode_class \<Rightarrow> route_target list" where
  "members r req c = filter (\<lambda>t. classOf t = c) (filter (\<lambda>t. eligible t req) (r_Targets r))"

definition route_order :: "route \<Rightarrow> mode_class list" where
  "route_order r =
     class_order (sp_Strategy (pol_Selection (r_Policy r))) (fp_Enabled (pol_Fallback (r_Policy r)))"

lemma class_order_defaults: "route_order (with_defaults r) = route_order r"
  by (simp add: route_order_def class_order_def with_defaults_def RoutePolicy_Defaults_def
      SelectionPolicy_Defaults_def strategy_defs Let_def)

lemma select_group_None: "select_group intn gs = None \<longleftrightarrow> (\<forall>g\<in>set gs. g = [])"
  by (induction gs rule: select_group.induct) auto

lemma no_eligible_defaults [simp]: "no_eligible (with_defaults r) = no_eligible r"
  by (simp add: no_eligible_def)

lemma SelectTarget_classes:
  "SelectTarget intn r req =
     (case select_group intn (map (members r req) (route_order r)) of
        Some t \<Rightarrow> Inr t
      | None \<Rightarrow> Inl (no_eligible r))"
proof (cases "filter (\<lambda>t. eligible t req) (r_Targets r) = []")
  case True
  then have "members r req c = []" for c by (simp only: members_def filter.simps)
  then have "select_group intn (map (members r req) (route_order r)) = None"
    by (simp add: select_group_None)
  with True show ?thesis by (simp add: SelectTarget_def)
next
  case False
  have "selectionOrder s b (members r req WeightedClass) (members r req ConditionalClass)
      (members r req FailoverClass) (members r req OtherClass) = map (members r req) (class_order s b)" for s b
    by (rule selectionOrder_classes)
  then have "SelectTarget intn r req =
      (case select_group intn (map (members r req) (route_order (with_defaults r))) of
         Some t \<Rightarrow> Inr t | None \<Rightarrow> Inl (no_eligible (with_defaults r)))"
    using False
    by (simp only: SelectTarget_def Let_def class_filters members_def [symmetric] route_order_def if_False)
  then show ?thesis by (simp add: class_order_defaults split: option.split)
qed

lemma weighted_walk_mem: "weighted_walk p ts = Some t \<Longrightarrow> t \<in> set ts"
  by (induction p ts rule: weighted_walk.induct) (auto split: if_splits)

lemma chooseWeighted_mem: "ts \<noteq> [] \<Longrightarrow> chooseWeighted intn ts \<in> set ts"
  by (auto simp: chooseWeighted_def Let_def dest: weighted_walk_mem split: option.splits)

lemma bestFailover_mem: "bestFailover b ts \<in> insert b (set ts)"
proof (induction ts arbitrary: b)
  case (Cons a ts)
  from Cons.IH [of "if t_Priority a < t_Priority b then a else b"] show ?case by (auto split: if_splits)
qed simp

lemma bestFailover_le: "t_Priority (bestFailover b ts) \<le> t_Priority b"
proof (induction ts arbitrary: b)
  case (Cons a ts)
  from Cons.IH [of "if t_Priority a < t_Priority b then a else b"] show ?case by (simp split: if_splits)
qed simp

lemma bestFailover_min: "t \<in> insert b (set ts) \<Longrightarrow> t_Priority (bestFailover b ts) \<le> t_Priority t"
proof (induction ts arbitrary: b)
  case (Cons a ts)
  let ?b = "if t_Priority a < t_Priority b then a else b"
  show ?case
  proof (cases "t \<in> set ts")
    case True
    with Cons.IH [of ?b] show ?thesis by simp
  next
    case False
    with Cons.prems bestFailover_le [of ?b ts] show ?thesis by (auto split: if_splits)
  qed
qed simp

text \<open>The group a choice comes from: the first one with a member.\<close>

lemma select_group_Some:
  assumes "select_group intn (map f cs) = Some t"
  shows "\<exists>ds c es. cs = ds @ c # es \<and> (\<forall>d\<in>set ds. f d = []) \<and> f c \<noteq> [] \<and>
    t = (if primaryMode (hd (f c)) = TargetModeFailover then bestFailover (hd (f c)) (tl (f c))
         else chooseWeighted intn (f c))"
  using assms
proof (induction cs)
  case (Cons c cs)
  show ?case
  proof (cases "f c")
    case Nil
    with Cons obtain ds c' es where "cs = ds @ c' # es" "\<forall>d\<in>set ds. f d = []" "f c' \<noteq> []"
      "t = (if primaryMode (hd (f c')) = TargetModeFailover then bestFailover (hd (f c')) (tl (f c'))
            else chooseWeighted intn (f c'))" by auto
    with Nil show ?thesis by (intro exI [of _ "c # ds"] exI [of _ c'] exI [of _ es]) simp
  next
    case (Cons g gs)
    with Cons.prems show ?thesis by (intro exI [of _ "[]"] exI [of _ c] exI [of _ cs]) (auto split: if_splits)
  qed
qed simp

lemma select_group_mem: "select_group intn (map f cs) = Some t \<Longrightarrow> \<exists>c\<in>set cs. t \<in> set (f c)"
proof -
  assume "select_group intn (map f cs) = Some t"
  from select_group_Some [OF this] obtain c where c: "c \<in> set cs" "f c \<noteq> []"
    "t = (if primaryMode (hd (f c)) = TargetModeFailover then bestFailover (hd (f c)) (tl (f c))
          else chooseWeighted intn (f c))" by (metis in_set_conv_decomp)
  moreover have "insert (hd (f c)) (set (tl (f c))) = set (f c)" using c(2) by (cases "f c") auto
  ultimately have "t \<in> set (f c)"
    using chooseWeighted_mem [OF c(2)] bestFailover_mem [of "hd (f c)" "tl (f c)"] by simp
  with c(1) show ?thesis ..
qed

interpretation default_selector: route_selector "SelectTarget intn" for intn
proof unfold_locales
  fix r req t assume "SelectTarget intn r req = Inr t"
  then have "select_group intn (map (members r req) (route_order r)) = Some t"
    by (auto simp: SelectTarget_classes split: option.splits)
  from select_group_mem [OF this] show "t \<in> set (r_Targets r) \<and> eligible t req"
    by (auto simp: members_def)
qed

end
