(* ===== verification/Provider_Resolver.thy ===== *)
theory Provider_Resolver
  imports Provider_Core
begin

text \<open>
  Package gateway, file providerresolver.go: resolving a provider reference to a provider.  A
  resolver is a function of the reference and of the state it can change; its answer is an error, or
  a provider (possibly nil) with its name.  The config store is read through \<open>rw_Get\<close>; \<open>json.Marshal\<close>
  is the parameter \<open>marshal\<close>.
\<close>

type_synonym ('p, 'w) resolver = "string \<Rightarrow> 'w \<Rightarrow> (string + 'p option \<times> string) \<times> 'w"

definition not_configured :: "string \<Rightarrow> string" where
  "not_configured ref = ''provider '' @ quoted ref @ '' is not configured''"

definition NewStaticProviderResolver :: "(string \<Rightarrow> 'p option) option \<Rightarrow> ('p, 'w) resolver option" where
  "NewStaticProviderResolver lookup =
     (case lookup of
        None \<Rightarrow> None
      | Some lookup \<Rightarrow>
          Some (\<lambda>ref w. (case lookup ref of
                          None \<Rightarrow> Inl (not_configured ref)
                        | Some prov \<Rightarrow> Inr (Some prov, ref), w)))"

fun chain_loop :: "('p, 'w) resolver list \<Rightarrow> string option \<Rightarrow> ('p, 'w) resolver" where
  "chain_loop [] lastErr ref w =
     (case lastErr of Some err \<Rightarrow> Inl err | None \<Rightarrow> Inl (not_configured ref), w)"
| "chain_loop (resolver # resolvers) lastErr ref w =
     (case resolver ref w of
        (Inr (Some prov, name), w1) \<Rightarrow> (Inr (Some prov, name), w1)
      | (Inr (None, name), w1) \<Rightarrow> chain_loop resolvers lastErr ref w1
      | (Inl err, w1) \<Rightarrow> chain_loop resolvers (Some err) ref w1)"

definition ChainProviderResolvers :: "('p, 'w) resolver option list \<Rightarrow> ('p, 'w) resolver option" where
  "ChainProviderResolvers resolvers =
     (case List.map_filter (\<lambda>r. r) resolvers of
        [] \<Rightarrow> None
      | [r] \<Rightarrow> Some r
      | filtered \<Rightarrow> Some (chain_loop filtered None))"

record 'p cached_entry =
  ce_cfgJSON :: string
  ce_provider :: 'p
  ce_name :: string

record 'p resolver_world =
  rw_Get :: "string \<Rightarrow> string + string \<times> stored_config"
  rw_cache :: "(string, 'p cached_entry) gomap"

definition newCachedDynamicResolver :: "(string \<Rightarrow> string + string \<times> stored_config) \<Rightarrow> 'p resolver_world" where
  "newCachedDynamicResolver store = \<lparr>rw_Get = store, rw_cache = []\<rparr>"

definition build_provider :: "'p factories \<Rightarrow> string \<Rightarrow> string \<Rightarrow> stored_config \<Rightarrow> string + 'p \<times> string" where
  "build_provider fs ref tag obj =
     (case NormalizeStoredProviderConfig tag obj of
        Inl err \<Rightarrow> Inl (''normalize provider config '' @ quoted ref @ '': '' @ err)
      | Inr resolvedCfg \<Rightarrow>
          (case NewProvider fs resolvedCfg of
             Inl err \<Rightarrow> Inl err
           | Inr prov \<Rightarrow> Inr (prov, pc_ProviderName resolvedCfg)))"

definition cachedDynamicResolver ::
    "(stored_config \<Rightarrow> string + string) \<Rightarrow> 'p factories \<Rightarrow> ('p, 'p resolver_world) resolver" where
  "cachedDynamicResolver marshal fs ref w =
     (case rw_Get w ref of
        Inl err \<Rightarrow> (Inl err, w)
      | Inr (tag, obj) \<Rightarrow>
          (case marshal obj of
             Inl err \<Rightarrow> (Inl (''fingerprint provider config '' @ quoted ref @ '': '' @ err), w)
           | Inr fingerprint \<Rightarrow>
               (case map_of (rw_cache w) ref of
                  Some entry \<Rightarrow>
                    if ce_cfgJSON entry = fingerprint then (Inr (Some (ce_provider entry), ce_name entry), w)
                    else
                      (case build_provider fs ref tag obj of
                         Inl err \<Rightarrow> (Inl err, w)
                       | Inr (prov, name) \<Rightarrow>
                           (Inr (Some prov, name),
                            w\<lparr>rw_cache := AList.update ref
                               \<lparr>ce_cfgJSON = fingerprint, ce_provider = prov, ce_name = name\<rparr> (rw_cache w)\<rparr>))
                | None \<Rightarrow>
                    (case build_provider fs ref tag obj of
                       Inl err \<Rightarrow> (Inl err, w)
                     | Inr (prov, name) \<Rightarrow>
                         (Inr (Some prov, name),
                          w\<lparr>rw_cache := AList.update ref
                             \<lparr>ce_cfgJSON = fingerprint, ce_provider = prov, ce_name = name\<rparr> (rw_cache w)\<rparr>)))))"

subsection \<open>The resolver without its cache\<close>

text \<open>What the dynamic resolver would answer if it built the provider on every request.\<close>

definition direct_resolver ::
    "(stored_config \<Rightarrow> string + string) \<Rightarrow> 'p factories \<Rightarrow> string \<Rightarrow> 'p resolver_world \<Rightarrow> string + 'p option \<times> string" where
  "direct_resolver marshal fs ref w =
     (case rw_Get w ref of
        Inl err \<Rightarrow> Inl err
      | Inr (tag, obj) \<Rightarrow>
          (case marshal obj of
             Inl err \<Rightarrow> Inl (''fingerprint provider config '' @ quoted ref @ '': '' @ err)
           | Inr fingerprint \<Rightarrow>
               (case build_provider fs ref tag obj of
                  Inl err \<Rightarrow> Inl err
                | Inr (prov, name) \<Rightarrow> Inr (Some prov, name))))"

text \<open>Every cache entry was built from a stored config that names its provider and has the entry's
  fingerprint.\<close>

definition cache_inv :: "(stored_config \<Rightarrow> string + string) \<Rightarrow> 'p factories \<Rightarrow> 'p resolver_world \<Rightarrow> bool" where
  "cache_inv marshal fs w \<longleftrightarrow>
     (\<forall>ref e. map_of (rw_cache w) ref = Some e \<longrightarrow>
        (\<exists>tag obj. marshal obj = Inr (ce_cfgJSON e) \<and> build_provider fs ref tag obj = Inr (ce_provider e, ce_name e)))"

lemma cache_inv_init: "cache_inv marshal fs (newCachedDynamicResolver store)"
  by (simp add: cache_inv_def newCachedDynamicResolver_def)

lemma cachedDynamicResolver_inv:
  assumes "cache_inv marshal fs w"
  shows "cache_inv marshal fs (snd (cachedDynamicResolver marshal fs ref w))"
proof -
  have "cache_inv marshal fs (w\<lparr>rw_cache := AList.update ref \<lparr>ce_cfgJSON = fp, ce_provider = p, ce_name = n\<rparr> (rw_cache w)\<rparr>)"
    if "marshal obj = Inr fp" "build_provider fs ref tag obj = Inr (p, n)" for obj fp tag p n
    using assms that by (auto simp: cache_inv_def)
  with assms show ?thesis
    by (auto simp: cachedDynamicResolver_def split: sum.splits prod.splits option.splits)
qed

text \<open>The tag matters only for a config that does not name its provider.\<close>

definition names_provider :: "stored_config \<Rightarrow> bool" where
  "names_provider obj = (case obj of StoredConfig cfg \<Rightarrow> pc_ProviderName cfg \<noteq> [] | _ \<Rightarrow> False)"

lemma build_provider_tag:
  "names_provider obj \<Longrightarrow> build_provider fs ref tag obj = build_provider fs ref tag' obj"
  by (cases obj) (simp_all add: names_provider_def build_provider_def NormalizeStoredProviderConfig_def NormalizeConfig_def)

lemma cached_is_direct:
  assumes inv: "cache_inv marshal fs w"
    and inj: "\<And>tag obj obj'. rw_Get w ref = Inr (tag, obj) \<Longrightarrow> marshal obj' = marshal obj \<Longrightarrow> obj' = obj"
    and named: "\<And>tag obj. rw_Get w ref = Inr (tag, obj) \<Longrightarrow> names_provider obj"
  shows "fst (cachedDynamicResolver marshal fs ref w) = direct_resolver marshal fs ref w"
proof (cases "rw_Get w ref")
  case (Inl err)
  then show ?thesis by (simp add: cachedDynamicResolver_def direct_resolver_def)
next
  case (Inr p)
  obtain tag obj where p: "p = (tag, obj)" by fastforce
  show ?thesis
  proof (cases "\<exists>e fp. map_of (rw_cache w) ref = Some e \<and> marshal obj = Inr fp \<and> ce_cfgJSON e = fp")
    case False
    with Inr p show ?thesis
      by (auto simp: cachedDynamicResolver_def direct_resolver_def split: sum.splits option.splits prod.splits)
  next
    case True
    then obtain e where e: "map_of (rw_cache w) ref = Some e" "marshal obj = Inr (ce_cfgJSON e)" by blast
    from inv e(1) obtain tag' obj' where o: "marshal obj' = Inr (ce_cfgJSON e)"
      "build_provider fs ref tag' obj' = Inr (ce_provider e, ce_name e)" unfolding cache_inv_def by blast
    have get: "rw_Get w ref = Inr (tag, obj)" using Inr p by blast
    have "marshal obj' = marshal obj" unfolding o(1) e(2) ..
    then have "obj' = obj" by (rule inj [OF get])
    with o(2) have "build_provider fs ref tag' obj = Inr (ce_provider e, ce_name e)" by blast
    then have "build_provider fs ref tag obj = Inr (ce_provider e, ce_name e)"
      unfolding build_provider_tag [OF named [OF get], of fs ref tag tag'] .
    with Inr p e show ?thesis by (simp add: cachedDynamicResolver_def direct_resolver_def)
  qed
qed

lemma chain_loop_first:
  "fst (chain_loop rs e ref w) = Inr (prov, name) \<Longrightarrow> prov \<noteq> None"
proof (induction rs e ref w rule: chain_loop.induct)
  case (2 resolver resolvers lastErr ref w)
  then show ?case by (auto split: prod.splits sum.splits option.splits)
qed (auto split: option.splits)

end
