(* ===== verification/Agent_Gateway.thy ===== *)
theory Agent_Gateway
  imports Route_Select Provider_Resolver Auth_Provider
begin

text \<open>
  Package gateway, file agentgateway.go: the gateway resolves a request to a route, a local API key,
  a target and a provider.  The route loader and the key store read the state \<open>'w\<close> of the world; the
  provider resolver may also change it.  The clock read by the key check is the argument \<open>now\<close>.
\<close>

datatype key_item = StoredKey local_api_key | StoredKeyNil | StoredKeyOther

record ('p, 'st, 'w) agent_gateway =
  g_routes :: "(string, route) gomap"
  g_configured :: bool
  g_RouteLoader :: "(string \<Rightarrow> 'w \<Rightarrow> string + route option) option"
  g_ProviderResolver :: "('p, 'w) resolver option"
  g_LocalAPIKeyStore :: "(string \<Rightarrow> 'w \<Rightarrow> string + key_item) option"
  g_cliauthManager :: "'st cred_manager option"
  g_Selector :: "selector option"

record 'q resolved_route =
  rr_Route :: route
  rr_LocalAPIKey :: "local_api_key option"
  rr_ProviderName :: string
  rr_Provider :: 'q

definition NewAgentGateway :: "('p, 'st, 'w) agent_gateway" where
  "NewAgentGateway =
     \<lparr>g_routes = [], g_configured = False, g_RouteLoader = None, g_ProviderResolver = None,
      g_LocalAPIKeyStore = None, g_cliauthManager = None, g_Selector = None\<rparr>"

definition Reset :: "('p, 'st, 'w) agent_gateway \<Rightarrow> ('p, 'st, 'w) agent_gateway" where
  "Reset g =
     g\<lparr>g_routes := [], g_configured := False, g_RouteLoader := None, g_ProviderResolver := None,
       g_LocalAPIKeyStore := None, g_cliauthManager := None, g_Selector := None\<rparr>"

definition Configure where
  "Configure g routeLoader providerResolver localAPIKeyStore cliauthMgr selector =
     g\<lparr>g_RouteLoader := routeLoader, g_ProviderResolver := providerResolver,
       g_LocalAPIKeyStore := localAPIKeyStore, g_cliauthManager := cliauthMgr, g_Selector := selector,
       g_configured := True\<rparr>"

definition SetRoutes :: "('p, 'st, 'w) agent_gateway \<Rightarrow> route list \<Rightarrow> ('p, 'st, 'w) agent_gateway" where
  "SetRoutes g routes =
     g\<lparr>g_routes := foldl (\<lambda>m r. if r_ID r = [] then m else AList.update (r_ID r) (with_defaults r) m) [] routes\<rparr>"

definition EnsureRoute :: "('p, 'st, 'w) agent_gateway \<Rightarrow> route \<Rightarrow> ('p, 'st, 'w) agent_gateway" where
  "EnsureRoute g r =
     (if r_ID r = [] then g
      else g\<lparr>g_routes := AList.update (r_ID r) (with_defaults r) (g_routes g)\<rparr>)"

definition Routes :: "('p, 'st, 'w) agent_gateway \<Rightarrow> route list" where
  "Routes g = map snd (g_routes g)"

definition Route :: "('p, 'st, 'w) agent_gateway \<Rightarrow> string \<Rightarrow> route option" where
  "Route g routeID = map_of (g_routes g) routeID"

fun validate_targets :: "('p, 'w) resolver \<Rightarrow> route_target list \<Rightarrow> 'w \<Rightarrow> string option \<times> 'w" where
  "validate_targets resolver [] w = (None, w)"
| "validate_targets resolver (target # targets) w =
     (case resolver (t_ProviderRef target) w of
        (Inl err, w1) \<Rightarrow> (Some (not_configured (t_ProviderRef target)), w1)
      | (Inr _, w1) \<Rightarrow> validate_targets resolver targets w1)"

definition route_not_configured :: "string \<Rightarrow> string" where
  "route_not_configured routeID = ''route '' @ quoted routeID @ '' is not configured''"

definition ValidateRoute :: "('p, 'st, 'w) agent_gateway \<Rightarrow> string \<Rightarrow> 'w \<Rightarrow> string option \<times> 'w" where
  "ValidateRoute g routeID w =
     (if routeID = [] then (Some ''route_id is required'', w)
      else
        (case (case Route g routeID of
                 Some r \<Rightarrow> Some r
               | None \<Rightarrow>
                   (case g_RouteLoader g of
                      None \<Rightarrow> None
                    | Some routeLoader \<Rightarrow> (case routeLoader routeID w of Inl _ \<Rightarrow> None | Inr loaded \<Rightarrow> loaded))) of
           None \<Rightarrow> (Some (route_not_configured routeID), w)
         | Some r \<Rightarrow>
             (case g_ProviderResolver g of
                None \<Rightarrow> (Some ''provider resolver is not configured'', w)
              | Some resolver \<Rightarrow> validate_targets resolver (r_Targets r) w)))"

definition resolveRoute ::
    "('p, 'st, 'w) agent_gateway \<Rightarrow> string \<Rightarrow> 'w \<Rightarrow> (http_error + route) \<times> ('p, 'st, 'w) agent_gateway" where
  "resolveRoute g routeID w =
     (if routeID = [] then (Inl (NewHTTPError 503 ''route id is not configured''), g)
      else
        (let static =
               (case Route g routeID of
                  None \<Rightarrow> Inl (NewHTTPError 503 (route_not_configured routeID))
                | Some r \<Rightarrow> Inr (with_defaults r))
         in (case g_RouteLoader g of
               None \<Rightarrow> (static, g)
             | Some loader \<Rightarrow>
                 (case loader routeID w of
                    Inl err \<Rightarrow> (Inl (NewHTTPError 503 (''route '' @ quoted routeID @ '' is unavailable'')), g)
                  | Inr (Some latest) \<Rightarrow> (Inr (with_defaults latest), EnsureRoute g (with_defaults latest))
                  | Inr None \<Rightarrow> (static, g)))))"

definition resolveLocalAPIKey ::
    "('p, 'st, 'w) agent_gateway \<Rightarrow> http_request option \<Rightarrow> route \<Rightarrow> gotime \<Rightarrow> 'w \<Rightarrow> http_error + local_api_key option" where
  "resolveLocalAPIKey g httpReq r now w =
     (let rawKey = ExtractAPIKey httpReq
      in if rawKey = [] then
           (if ap_RequireLocalAPIKey (pol_Auth (r_Policy r))
            then Inl (NewHTTPError 401 ''local api key is required'')
            else Inr None)
         else
           (case g_LocalAPIKeyStore g of
              None \<Rightarrow> Inl (NewHTTPError 503 ''local api key store is not configured'')
            | Some store \<Rightarrow>
                (case store rawKey w of
                   Inl err \<Rightarrow> Inl (NewHTTPError 401 ''invalid local api key'')
                 | Inr (StoredKey key) \<Rightarrow> ValidateLocalAPIKeyForRoute r (Some key) now
                 | Inr _ \<Rightarrow> Inl (NewHTTPError 401 ''invalid local api key''))))"

definition gateway_selector :: "intn \<Rightarrow> ('p, 'st, 'w) agent_gateway \<Rightarrow> selector" where
  "gateway_selector intn g = (case g_Selector g of None \<Rightarrow> SelectTarget intn | Some s \<Rightarrow> s)"

definition wrapProvider where
  "wrapProvider g prov providerName = WrapWithAuthManager (Some prov) providerName (g_cliauthManager g)"

definition target_unresolved :: "string \<Rightarrow> http_error" where
  "target_unresolved ref =
     NewHTTPError 502 (''route target provider '' @ quoted ref @ '' is not configured'')"

definition ResolveProvider where
  "ResolveProvider intn g routeID req now w =
     (case resolveRoute g routeID w of
        (Inl err, g1) \<Rightarrow> (Inl err, g1, w)
      | (Inr r, g1) \<Rightarrow>
          (case resolveLocalAPIKey g1 (rq_HTTPRequest req) r now w of
             Inl err \<Rightarrow> (Inl err, g1, w)
           | Inr localKey \<Rightarrow>
               (case ValidateRequestPolicy r localKey req of
                  Some err \<Rightarrow> (Inl err, g1, w)
                | None \<Rightarrow>
                    (case gateway_selector intn g1 r req of
                       Inl err \<Rightarrow> (Inl err, g1, w)
                     | Inr target \<Rightarrow>
                         (case g_ProviderResolver g1 of
                            None \<Rightarrow> (Inl (NewHTTPError 503 ''provider resolver is not configured''), g1, w)
                          | Some resolver \<Rightarrow>
                              (case resolver (t_ProviderRef target) w of
                                 (Inr (Some prov, name), w1) \<Rightarrow>
                                   (let providerName = (if name = [] then t_ProviderRef target else name)
                                    in (Inr \<lparr>rr_Route = r, rr_LocalAPIKey = localKey, rr_ProviderName = providerName,
                                             rr_Provider = wrapProvider g1 prov providerName\<rparr>, g1, w1))
                               | (_, w1) \<Rightarrow> (Inl (target_unresolved (t_ProviderRef target)), g1, w1)))))))"

subsection \<open>Facts\<close>

lemma resolveRoute_frame:
  "resolveRoute g routeID w = (r, g1) \<Longrightarrow>
   g_RouteLoader g1 = g_RouteLoader g \<and> g_ProviderResolver g1 = g_ProviderResolver g \<and>
   g_LocalAPIKeyStore g1 = g_LocalAPIKeyStore g \<and> g_cliauthManager g1 = g_cliauthManager g \<and>
   g_Selector g1 = g_Selector g"
  by (auto simp: resolveRoute_def EnsureRoute_def Let_def split: if_splits option.splits sum.splits)

lemma resolveRoute_defaults: "resolveRoute g routeID w = (Inr r, g1) \<Longrightarrow> with_defaults r = r"
  by (auto simp: resolveRoute_def Let_def split: if_splits option.splits sum.splits)

text \<open>The stages of a successful resolution.\<close>

lemma ResolveProvider_stages:
  assumes "ResolveProvider intn g routeID req now w = (Inr rr, g1, w1)"
  obtains target prov name resolver where
    "resolveRoute g routeID w = (Inr (rr_Route rr), g1)"
    "resolveLocalAPIKey g (rq_HTTPRequest req) (rr_Route rr) now w = Inr (rr_LocalAPIKey rr)"
    "ValidateRequestPolicy (rr_Route rr) (rr_LocalAPIKey rr) req = None"
    "gateway_selector intn g (rr_Route rr) req = Inr target"
    "g_ProviderResolver g = Some resolver" "resolver (t_ProviderRef target) w = (Inr (Some prov, name), w1)"
    "rr_ProviderName rr = (if name = [] then t_ProviderRef target else name)"
    "rr_Provider rr = wrapProvider g prov (rr_ProviderName rr)"
proof -
  from assms obtain r where r: "resolveRoute g routeID w = (Inr r, g1)"
    by (auto simp: ResolveProvider_def Let_def split: prod.splits sum.splits option.splits)
  note F = resolveRoute_frame [OF r]
  have same: "resolveLocalAPIKey g1 = resolveLocalAPIKey g" "gateway_selector intn g1 = gateway_selector intn g"
    using F by (simp_all add: fun_eq_iff resolveLocalAPIKey_def gateway_selector_def Let_def)
  from assms r F same show ?thesis
    by (auto simp: ResolveProvider_def wrapProvider_def Let_def
        split: prod.splits sum.splits option.splits if_splits intro!: that)
qed

text \<open>What holds of the target for any selector that keeps the contract.\<close>

context route_selector
begin

lemma resolved_target_eligible:
  assumes "ResolveProvider intn g routeID req now w = (Inr rr, g1, w1)" and "gateway_selector intn g = select"
  shows "\<exists>t\<in>set (r_Targets (rr_Route rr)). eligible t req \<and>
           (\<exists>resolver prov name. g_ProviderResolver g = Some resolver \<and>
              resolver (t_ProviderRef t) w = (Inr (Some prov, name), w1) \<and>
              rr_ProviderName rr = (if name = [] then t_ProviderRef t else name) \<and>
              rr_Provider rr = wrapProvider g prov (rr_ProviderName rr))"
  using assms(1)
proof (rule ResolveProvider_stages)
  fix target prov name resolver
  assume s: "gateway_selector intn g (rr_Route rr) req = Inr target"
    and rest: "g_ProviderResolver g = Some resolver" "resolver (t_ProviderRef target) w = (Inr (Some prov, name), w1)"
      "rr_ProviderName rr = (if name = [] then t_ProviderRef target else name)"
      "rr_Provider rr = wrapProvider g prov (rr_ProviderName rr)"
  from s assms(2) have "select (rr_Route rr) req = Inr target" by simp
  with select_eligible rest show ?thesis by blast
qed

end

text \<open>The gateway without a selector of its own uses the default one.\<close>

lemma gateway_selector_contract:
  "(\<And>s. g_Selector g = Some s \<Longrightarrow> route_selector s) \<Longrightarrow> route_selector (gateway_selector intn g)"
  using default_selector.route_selector_axioms by (auto simp: gateway_selector_def split: option.splits)

lemma find_distinct: "distinct (map f xs) \<Longrightarrow> x \<in> set xs \<Longrightarrow> find (\<lambda>y. f y = f x) xs = Some x"
  by (induction xs) (auto simp: rev_image_eqI)

text \<open>Setting the routes replaces them all: afterwards the gateway knows exactly the identifiers
  given (never the empty one), each with the last route given for it and with its defaults filled
  in.\<close>

lemma set_routes_lookup:
  "Route (SetRoutes g routes) routeID =
     (if routeID = [] then None else map_option with_defaults (find (\<lambda>r. r_ID r = routeID) (rev routes)))"
proof -
  let ?f = "\<lambda>m r. if r_ID r = [] then m else AList.update (r_ID r) (with_defaults r) m"
  have "map_of (foldl ?f [] routes) routeID =
      (if routeID = [] then None else map_option with_defaults (find (\<lambda>r. r_ID r = routeID) (rev routes)))"
    by (induction routes rule: rev_induct) auto
  then show ?thesis by (simp add: Route_def SetRoutes_def)
qed

end
