(* ===== verification/Gateway_App.thy ===== *)
theory Gateway_App
  imports Agent_Gateway
begin

text \<open>
  Package gateway, file app.go: the Caddy app wires the gateway together.  Caddy's module loader and
  the config store are outside: what they return is an argument (\<open>loaded_module\<close> for a loaded module,
  \<open>config_store\<close> for the stores a config store hands out).
\<close>

subsection \<open>Modules and stores\<close>

datatype ('p, 'a) loaded_module = ProviderModule 'p | AuthenticatorModule 'a | OtherModule

datatype route_item = StoredRoute route | StoredRouteNil | StoredRouteOther string

record 'w config_store =
  st_LocalAPIKeyStore :: "string + (string \<Rightarrow> 'w \<Rightarrow> string + key_item)"
  st_ProviderConfigStore :: bool
  st_RouteStore :: "string + (string \<Rightarrow> 'w \<Rightarrow> string + route_item)"

subsection \<open>Provisioning\<close>

fun provisionProviders :: "(string \<times> ('p, 'a) loaded_module) list \<Rightarrow> (string, 'p) gomap \<Rightarrow> string + (string, 'p) gomap" where
  "provisionProviders [] providers = Inr providers"
| "provisionProviders ((name, md) # loaded) providers =
     (case md of
        ProviderModule prov \<Rightarrow> provisionProviders loaded (AList.update name prov providers)
      | _ \<Rightarrow> Inl (''provider module '' @ quoted name @ '' does not implement provider.Provider''))"

fun registerLoadedAuthenticators ::
    "'st cred_manager \<Rightarrow> (string \<times> ('p, authenticator) loaded_module) list \<Rightarrow> string option \<times> 'st cred_manager" where
  "registerLoadedAuthenticators m [] = (None, m)"
| "registerLoadedAuthenticators m ((name, md) # loaded) =
     (case md of
        AuthenticatorModule auth \<Rightarrow> registerLoadedAuthenticators (RegisterAuthenticator m name (Some auth)) loaded
      | _ \<Rightarrow> (Some (''authenticator module '' @ quoted name @ '' does not implement manager.Authenticator''), m))"

definition App_Provider :: "(string, 'p) gomap \<Rightarrow> string \<Rightarrow> 'p option" where
  "App_Provider providers name = map_of providers name"

definition routeLoader ::
    "(string \<Rightarrow> 'w \<Rightarrow> string + route_item) \<Rightarrow> string \<Rightarrow> 'w \<Rightarrow> string + route option" where
  "routeLoader get routeID w =
     (case get routeID w of
        Inl err \<Rightarrow> Inl err
      | Inr (StoredRoute r) \<Rightarrow> Inr (Some r)
      | Inr StoredRouteNil \<Rightarrow> Inl (''route '' @ quoted routeID @ '' has unexpected type *route.Route'')
      | Inr (StoredRouteOther ty) \<Rightarrow> Inl (''route '' @ quoted routeID @ '' has unexpected type '' @ ty))"

text \<open>The error of \<open>GetProviderConfigStore\<close> is not looked at, only whether it returned a store.\<close>

definition buildGatewayDependencies ::
    "(stored_config \<Rightarrow> string + string) \<Rightarrow> 'p factories \<Rightarrow> 'p resolver_world config_store option \<Rightarrow> (string, 'p) gomap \<Rightarrow>
     string + (string \<Rightarrow> 'p resolver_world \<Rightarrow> string + route option) option \<times> ('p, 'p resolver_world) resolver option \<times>
       (string \<Rightarrow> 'p resolver_world \<Rightarrow> string + key_item) option" where
  "buildGatewayDependencies marshal fs configStore providers =
     (let staticResolver = NewStaticProviderResolver (Some (App_Provider providers))
      in (case configStore of
            None \<Rightarrow> Inr (None, staticResolver, None)
          | Some cs \<Rightarrow>
              (case st_LocalAPIKeyStore cs of
                 Inl err \<Rightarrow> Inl (''get local api key store: '' @ err)
               | Inr localAPIKeyStore \<Rightarrow>
                   (let dynamicResolver =
                          (if st_ProviderConfigStore cs then Some (cachedDynamicResolver marshal fs) else None)
                    in (case st_RouteStore cs of
                          Inl err \<Rightarrow> Inl (''get route store: '' @ err)
                        | Inr routeStore \<Rightarrow>
                            Inr (Some (routeLoader routeStore), ChainProviderResolvers [dynamicResolver, staticResolver],
                                 Some localAPIKeyStore))))))"

definition App_Start :: "'st cred_manager \<Rightarrow> 'st cred_manager" where
  "App_Start m = snd (StartRefreshLoop m)"

definition App_Stop :: "'st cred_manager \<Rightarrow> 'st cred_manager" where
  "App_Stop m = snd (StopRefreshLoop m)"

end
