(* ===== verification/Route_Props.thy ===== *)
theory Route_Props
  imports Route_Select
begin

text \<open>
  What route resolution promises about the target it chooses, the requests it lets through and the
  key it reads from a request.
\<close>

subsection \<open>A concrete route for the witnesses\<close>

definition w_target :: "string \<Rightarrow> string \<Rightarrow> int \<Rightarrow> int \<Rightarrow> route_target" where
  "w_target ref mode weight prio =
     \<lparr>t_ProviderRef = ref, t_Mode = mode, t_Weight = weight, t_Priority = prio, t_ModelMap = [],
      t_Conditions = \<lparr>tc_Models = [], tc_RequireStreaming = None, tc_RequireTools = None, tc_RequireVision = None,
        tc_RequireEmbeddings = None, tc_Regions = [], tc_Tags = []\<rparr>, t_Disabled = False\<rparr>"

definition w_route :: "string \<Rightarrow> route_target list \<Rightarrow> route" where
  "w_route strategy targets =
     \<lparr>r_ID = ''r1'', r_Name = [], r_Description = [], r_Disabled = False,
      r_Match = \<lparr>rm_Host = [], rm_PathPrefix = [], rm_Methods = []\<rparr>, r_Targets = targets,
      r_Policy = \<lparr>pol_Auth = \<lparr>ap_RequireLocalAPIKey = True\<rparr>,
        pol_RateLimit = \<lparr>rl_RequestsPerMinute = 0, rl_RequestsPerHour = 0, rl_ConcurrentLimit = 0\<rparr>,
        pol_Quota = \<lparr>qp_DailyRequests = 0, qp_MonthlyRequests = 0, qp_DailyTokens = 0, qp_MonthlyTokens = 0\<rparr>,
        pol_AllowedModels = [''gpt''], pol_AllowStreaming = Some False, pol_AllowTools = None,
        pol_AllowVision = None, pol_AllowEmbeddings = None, pol_TimeoutSeconds = 0,
        pol_Selection = \<lparr>sp_Strategy = strategy\<rparr>,
        pol_Retry = \<lparr>rp_MaxAttempts = 0, rp_BackoffMS = 0, rp_RetryableStatusCodes = []\<rparr>,
        pol_Fallback = \<lparr>fp_Enabled = True, fp_OnStatusCodes = []\<rparr>\<rparr>,
      r_CreatedAt = 0, r_UpdatedAt = 0\<rparr>"

definition w_req :: "string \<Rightarrow> resolve_request" where
  "w_req model = \<lparr>rq_HTTPRequest = None, rq_Model = model, rq_Stream = False\<rparr>"

subsection \<open>Helper lemmas\<close>

lemma target_weight_pos [simp]: "0 < target_weight t"
  by (simp add: target_weight_def)

lemma weight_sum_nonneg: "0 \<le> sum_list (map target_weight ts)"
  by (rule sum_list_nonneg) (auto simp: less_imp_le)

lemma total_weight_exact:
  "sum_list (map target_weight ts) < 2 ^ 63 \<Longrightarrow> total_weight ts = sum_list (map target_weight ts)"
proof -
  have "0 \<le> n \<Longrightarrow> n + sum_list (map target_weight ts) < 2 ^ 63 \<Longrightarrow>
      foldl (\<lambda>total target. wrap64 (total + target_weight target)) n ts = n + sum_list (map target_weight ts)" for n
  proof (induction ts arbitrary: n)
    case (Cons t ts)
    have "0 \<le> n + target_weight t" using Cons.prems(1) less_imp_le [OF target_weight_pos [of t]] by linarith
    moreover have "n + target_weight t < 2 ^ 63" using Cons.prems(2) weight_sum_nonneg [of ts] by simp
    ultimately have "wrap64 (n + target_weight t) = n + target_weight t" by (intro wrap64_id) simp_all
    with Cons show ?case by (simp add: add.assoc less_imp_le)
  qed simp
  from this [of 0] show "sum_list (map target_weight ts) < 2 ^ 63 \<Longrightarrow> ?thesis" by (simp add: total_weight_def)
qed

lemma weighted_walk_total: "0 \<le> p \<Longrightarrow> p < sum_list (map target_weight ts) \<Longrightarrow> weighted_walk p ts \<noteq> None"
  by (induction p ts rule: weighted_walk.induct) auto

text \<open>The picks that lead to a target form an interval as long as its weight.\<close>

lemma weighted_walk_count:
  assumes "distinct ts" and "t \<in> set ts"
  shows "\<exists>s\<ge>0. {p. 0 \<le> p \<and> p < sum_list (map target_weight ts) \<and> weighted_walk p ts = Some t} =
               {s..<s + target_weight t}"
  using assms
proof (induction ts)
  case (Cons a ts)
  let ?W = "sum_list (map target_weight ts)"
  have nn: "0 \<le> ?W" "0 < target_weight a" using weight_sum_nonneg by simp_all
  show ?case
  proof (cases "t = a")
    case True
    with Cons.prems have "t \<notin> set ts" by simp
    then have "weighted_walk p ts \<noteq> Some t" for p using weighted_walk_mem by metis
    with True nn have "{p. 0 \<le> p \<and> p < target_weight a + ?W \<and> weighted_walk p (a # ts) = Some t} = {0..<0 + target_weight t}"
      by auto
    then show ?thesis by (intro exI [of _ 0]) simp
  next
    case False
    with Cons obtain s where s: "0 \<le> s"
      "{p. 0 \<le> p \<and> p < ?W \<and> weighted_walk p ts = Some t} = {s..<s + target_weight t}" by auto
    have mem: "0 \<le> p \<and> p < ?W \<and> weighted_walk p ts = Some t \<longleftrightarrow> s \<le> p \<and> p < s + target_weight t" for p
      using s(2) by (metis (mono_tags, lifting) atLeastLessThan_iff mem_Collect_eq)
    have "{p. 0 \<le> p \<and> p < target_weight a + ?W \<and> weighted_walk p (a # ts) = Some t} =
        {target_weight a + s..<target_weight a + s + target_weight t}"
    proof (rule set_eqI)
      fix p
      have "0 \<le> p" if "target_weight a + s \<le> p" using that nn(2) s(1) by linarith
      with mem [of "p - target_weight a"] False nn s(1)
      show "p \<in> {p. 0 \<le> p \<and> p < target_weight a + ?W \<and> weighted_walk p (a # ts) = Some t} \<longleftrightarrow>
          p \<in> {target_weight a + s..<target_weight a + s + target_weight t}"
        by (cases "p < target_weight a") auto
    qed
    moreover have "0 \<le> target_weight a + s" using nn(2) s(1) by linarith
    ultimately show ?thesis by (intro exI [of _ "target_weight a + s"]) simp
  qed
qed simp

text \<open>The group a chosen target comes from.\<close>

lemma SelectTarget_group:
  assumes "SelectTarget intn r req = Inr t"
  shows "\<exists>ds es. route_order r = ds @ classOf t # es \<and> (\<forall>d\<in>set ds. members r req d = []) \<and>
           t \<in> set (members r req (classOf t)) \<and>
           (classOf t = FailoverClass \<longrightarrow> (\<forall>u\<in>set (members r req FailoverClass). t_Priority t \<le> t_Priority u))"
proof -
  from assms have "select_group intn (map (members r req) (route_order r)) = Some t"
    by (auto simp: SelectTarget_classes split: option.splits)
  from select_group_Some [OF this] obtain ds c es where o: "route_order r = ds @ c # es"
      "\<forall>d\<in>set ds. members r req d = []" "members r req c \<noteq> []"
    and t: "t = (if primaryMode (hd (members r req c)) = TargetModeFailover
                 then bestFailover (hd (members r req c)) (tl (members r req c))
                 else chooseWeighted intn (members r req c))" by blast
  have split: "insert (hd (members r req c)) (set (tl (members r req c))) = set (members r req c)"
    using o(3) by (cases "members r req c") auto
  then have mem: "t \<in> set (members r req c)"
    using t chooseWeighted_mem [OF o(3)] bestFailover_mem [of "hd (members r req c)" "tl (members r req c)"] by simp
  then have c: "classOf t = c" by (simp add: members_def)
  have "t_Priority t \<le> t_Priority u" if f: "c = FailoverClass" and u: "u \<in> set (members r req c)" for u
  proof -
    have "classOf (hd (members r req c)) = c"
      using hd_in_set [OF o(3)] unfolding members_def by simp
    then have "t_Mode (hd (members r req c)) = TargetModeFailover"
      unfolding f classOf_def by (meson mode_class.distinct)
    then have "t = bestFailover (hd (members r req c)) (tl (members r req c))"
      using t by (simp add: primaryMode_def mode_defs)
    with bestFailover_min split u show ?thesis by metis
  qed
  then have "c = FailoverClass \<longrightarrow> (\<forall>u\<in>set (members r req FailoverClass). t_Priority t \<le> t_Priority u)" by blast
  with o(1,2) mem c show ?thesis by blast
qed

subsection \<open>Properties\<close>

text \<open>C34: the chosen target is one of the route's, enabled, with a provider and with its conditions
  met, and no eligible target belongs to a mode that the route's strategy prefers to the mode of the
  chosen one; this holds for every answer of the random generator.\<close>

theorem select_target_preferred:
  assumes "SelectTarget intn r req = Inr t"
  shows "t \<in> set (r_Targets r) \<and> eligible t req \<and>
         (\<exists>preferred rest. route_order r = preferred @ classOf t # rest \<and>
            (\<forall>u\<in>set (r_Targets r). eligible u req \<longrightarrow> classOf u \<notin> set preferred))"
proof -
  from SelectTarget_group [OF assms] obtain ds es where o: "route_order r = ds @ classOf t # es"
    "\<forall>d\<in>set ds. members r req d = []" by blast
  then have "\<forall>u\<in>set (r_Targets r). eligible u req \<longrightarrow> classOf u \<notin> set ds"
    by (auto simp: members_def filter_empty_conv)
  with o(1) default_selector.select_eligible [OF assms] show ?thesis by blast
qed

theorem select_target_preferred_witness:
  "let r = w_route [] [w_target ''a'' ''failover'' 0 1, w_target ''b'' [] 3 0]
   in eligible (w_target ''b'' [] 3 0) (w_req ''gpt'')"
proof -
  have s: "SelectTarget (\<lambda>n. 0) (w_route [] [w_target ''a'' ''failover'' 0 1, w_target ''b'' [] 3 0]) (w_req ''gpt'') =
      Inr (w_target ''b'' [] 3 0)" by code_simp
  from select_target_preferred [OF s] show ?thesis by simp
qed

text \<open>Selection fails, with a 502, exactly when no eligible target belongs to a mode the route's
  strategy admits; with fallback enabled every mode is admitted.\<close>

theorem select_target_fails_iff:
  "SelectTarget intn r req = Inl err \<longleftrightarrow>
     err = no_eligible r \<and> he_status err = 502 \<and>
     (\<forall>u\<in>set (r_Targets r). eligible u req \<longrightarrow> classOf u \<notin> set (route_order r))"
proof -
  have "select_group intn (map (members r req) (route_order r)) = None \<longleftrightarrow>
      (\<forall>u\<in>set (r_Targets r). eligible u req \<longrightarrow> classOf u \<notin> set (route_order r))"
    by (auto simp: select_group_None members_def filter_empty_conv)
  then show ?thesis
    by (auto simp: SelectTarget_classes no_eligible_def NewHTTPError_def split: option.splits)
qed

theorem select_target_fails_iff_witness:
  "SelectTarget (\<lambda>n. 0) (w_route ''auto'' []) (w_req ''gpt'') = Inl (no_eligible (w_route ''auto'' []))"
  using select_target_fails_iff [of "\<lambda>n. 0" "w_route ''auto'' []" "w_req ''gpt''" "no_eligible (w_route ''auto'' [])"]
  by (simp add: w_route_def no_eligible_def NewHTTPError_def)

text \<open>A failover target is chosen by priority: no eligible failover target of the route has a
  smaller priority number than the chosen one.\<close>

theorem failover_lowest_priority:
  assumes "SelectTarget intn r req = Inr t" and "t_Mode t = TargetModeFailover"
    and "u \<in> set (r_Targets r)" and "eligible u req" and "t_Mode u = TargetModeFailover"
  shows "t_Priority t \<le> t_Priority u"
proof -
  have "classOf t = FailoverClass" "u \<in> set (members r req FailoverClass)"
    using assms by (simp_all add: members_def classOf_def)
  with SelectTarget_group [OF assms(1)] show ?thesis by blast
qed

theorem failover_lowest_priority_witness:
  "t_Priority (w_target ''b'' ''failover'' 0 1) \<le> t_Priority (w_target ''a'' ''failover'' 0 2)"
proof -
  have s: "SelectTarget (\<lambda>n. 0)
      (w_route ''failover'' [w_target ''a'' ''failover'' 0 2, w_target ''b'' ''failover'' 0 1]) (w_req ''gpt'') =
      Inr (w_target ''b'' ''failover'' 0 1)" by code_simp
  have "w_target ''a'' ''failover'' 0 2 \<in>
      set (r_Targets (w_route ''failover'' [w_target ''a'' ''failover'' 0 2, w_target ''b'' ''failover'' 0 1]))"
    by (simp add: w_route_def)
  moreover have "eligible (w_target ''a'' ''failover'' 0 2) (w_req ''gpt'')" by code_simp
  ultimately show ?thesis
    using failover_lowest_priority [OF s] by (simp add: w_target_def mode_defs)
qed

text \<open>C35: weighted choice is proportional to the weights.  Among several distinct targets whose
  weights add up to less than \<open>2^63\<close>, exactly \<open>weight\<close> of the equally likely random picks below the
  total lead to a target (a weight of zero or less counts as one).\<close>

theorem weighted_choice_proportional:
  assumes "distinct ts" and "2 \<le> length ts" and "sum_list (map target_weight ts) < 2 ^ 63" and "t \<in> set ts"
  shows "card {p. 0 \<le> p \<and> p < total_weight ts \<and> chooseWeighted (\<lambda>_. p) ts = t} = nat (target_weight t)"
proof -
  let ?W = "sum_list (map target_weight ts)"
  have total: "total_weight ts = ?W" using assms(3) by (rule total_weight_exact)
  have "weighted_walk p ts \<noteq> None" if "0 \<le> p" "p < ?W" for p
    using that by (rule weighted_walk_total)
  then have "0 \<le> p \<and> p < ?W \<Longrightarrow> chooseWeighted (\<lambda>_. p) ts = t \<longleftrightarrow> weighted_walk p ts = Some t" for p
    using assms(2) by (fastforce simp: chooseWeighted_def Let_def total split: option.splits)
  then have "{p. 0 \<le> p \<and> p < total_weight ts \<and> chooseWeighted (\<lambda>_. p) ts = t} =
      {p. 0 \<le> p \<and> p < ?W \<and> weighted_walk p ts = Some t}" unfolding total by blast
  moreover obtain s where "{p. 0 \<le> p \<and> p < ?W \<and> weighted_walk p ts = Some t} = {s..<s + target_weight t}"
    using weighted_walk_count [OF assms(1,4)] by blast
  ultimately show ?thesis by simp
qed

theorem weighted_choice_proportional_witness:
  "card {p. 0 \<le> p \<and> p < total_weight [w_target ''a'' [] 3 0, w_target ''b'' [] 1 0] \<and>
       chooseWeighted (\<lambda>_. p) [w_target ''a'' [] 3 0, w_target ''b'' [] 1 0] = w_target ''a'' [] 3 0} = 3"
  using weighted_choice_proportional [of "[w_target ''a'' [] 3 0, w_target ''b'' [] 1 0]" "w_target ''a'' [] 3 0"]
  by (simp add: w_target_def target_weight_def)

text \<open>A request passes the policy exactly when its model, if it names one, is on the route's
  list of models and on the key's (an empty list allows every model), and, if it streams, neither
  the route nor the key forbids streaming; every refusal is a 403.\<close>

theorem request_policy_iff:
  "(ValidateRequestPolicy r k req = None \<longleftrightarrow>
      (rq_Model req \<noteq> [] \<longrightarrow>
         (pol_AllowedModels (r_Policy r) = [] \<or> rq_Model req \<in> set (pol_AllowedModels (r_Policy r))) \<and>
         (\<forall>p. policy_override k = Some p \<longrightarrow>
            cp_AllowedModels p = [] \<or> rq_Model req \<in> set (cp_AllowedModels p))) \<and>
      (rq_Stream req \<longrightarrow>
         pol_AllowStreaming (r_Policy r) \<noteq> Some False \<and>
         (\<forall>p. policy_override k = Some p \<longrightarrow> cp_AllowStreaming p \<noteq> Some False))) \<and>
   (\<forall>e. ValidateRequestPolicy r k req = Some e \<longrightarrow> he_status e = 403)"
  by (auto simp: ValidateRequestPolicy_def NewHTTPError_def split: option.splits)

theorem request_policy_iff_witness:
  "ValidateRequestPolicy (w_route [] []) None (w_req ''gpt'') = None \<and>
   ValidateRequestPolicy (w_route [] []) None (w_req ''o1'') \<noteq> None"
  using request_policy_iff [of "w_route [] []" None "w_req ''gpt''"] request_policy_iff [of "w_route [] []" None "w_req ''o1''"]
  by (auto simp: w_route_def w_req_def policy_override_def)

text \<open>A local API key gives access to a route exactly when it is enabled, not expired and either
  unrestricted or listed for the route; without a key the route must not require one (401).\<close>

theorem local_key_access_iff:
  "(ValidateLocalAPIKeyForRoute r (Some key) now = Inr (Some key) \<longleftrightarrow>
      \<not> k_Disabled key \<and> (IsZero (k_ExpiresAt key) \<or> now \<le> k_ExpiresAt key) \<and>
      (k_AllowedRouteIDs key = [] \<or> r_ID r \<in> set (k_AllowedRouteIDs key))) \<and>
   (\<forall>e. ValidateLocalAPIKeyForRoute r (Some key) now = Inl e \<longrightarrow> he_status e = 403) \<and>
   (if ap_RequireLocalAPIKey (pol_Auth (r_Policy r))
    then \<exists>e. ValidateLocalAPIKeyForRoute r None now = Inl e \<and> he_status e = 401
    else ValidateLocalAPIKeyForRoute r None now = Inr None)"
  by (auto simp: ValidateLocalAPIKeyForRoute_def NewHTTPError_def)

theorem local_key_access_iff_witness:
  "let key = \<lparr>k_Key = ''sk'', k_UserID = [], k_Name = [], k_Description = [], k_Disabled = False,
              k_AllowedRouteIDs = [''r1''], k_PolicyOverride = None, k_StatusMessage = [], k_CreatedAt = 0,
              k_UpdatedAt = 0, k_ExpiresAt = 50\<rparr>
   in ValidateLocalAPIKeyForRoute (w_route [] []) (Some key) 40 = Inr (Some key) \<and>
      ValidateLocalAPIKeyForRoute (w_route [] []) (Some key) 60 \<noteq> Inr (Some key)"
  using local_key_access_iff [of "w_route [] []" _ 40] local_key_access_iff [of "w_route [] []" _ 60]
  by (simp add: w_route_def Let_def IsZero_def zero_time_def)

text \<open>Reading the key of a request.  The value of x-api-key wins when it is not blank; otherwise
  a bearer token is read from Authorization, whatever the case of the scheme; the key never carries
  surrounding white space.\<close>

theorem extract_api_key:
  assumes "tok \<noteq> []" and "plain_char (hd tok)" and "plain_char (last tok)" and "ToLower scheme = ''bearer''"
    and "plain_char (hd scheme)"
  shows "ExtractAPIKey (Some \<lparr>hr_Header = Header_Set h ''x-api-key'' tok\<rparr>) = tok \<and>
         (TrimSpace (Header_Get h ''x-api-key'') = [] \<longrightarrow>
            ExtractAPIKey (Some \<lparr>hr_Header = Header_Set h ''Authorization'' (scheme @ '' '' @ tok)\<rparr>) = tok) \<and>
         TrimSpace (ExtractAPIKey req) = ExtractAPIKey req"
proof -
  have len: "length scheme = 6" using arg_cong [OF assms(4), of length] by (simp add: ToLower_def)
  have keys: "CanonicalHeaderKey ''x-api-key'' \<noteq> CanonicalHeaderKey ''Authorization''" by code_simp
  have tok: "TrimSpace tok = tok" using assms(1-3) by (rule TrimSpace_plain)
  have auth: "TrimSpace (scheme @ '' '' @ tok) = scheme @ '' '' @ tok"
    using assms len by (intro TrimSpace_plain) (auto simp: hd_append)
  have "EqualFold (scheme @ '' '') ''bearer ''"
    using assms(4) by (simp add: EqualFold_def ToLower_def lower_char_def)
  then have "ExtractAPIKey (Some \<lparr>hr_Header = Header_Set h ''Authorization'' (scheme @ '' '' @ tok)\<rparr>) = tok"
    if "TrimSpace (Header_Get h ''x-api-key'') = []"
    using that keys auth tok assms(1) len by (simp add: ExtractAPIKey_def Let_def)
  moreover have "TrimSpace (ExtractAPIKey req) = ExtractAPIKey req"
    by (simp add: ExtractAPIKey_def Let_def split: option.splits)
  ultimately show ?thesis using tok assms(1) by (simp add: ExtractAPIKey_def Let_def)
qed

theorem extract_api_key_witness:
  "ExtractAPIKey (Some \<lparr>hr_Header = Header_Set [] ''Authorization'' ''BeAReR sk-1''\<rparr>) = ''sk-1''"
proof -
  have "''sk-1'' \<noteq> []" "plain_char (hd ''sk-1'')" "plain_char (last ''sk-1'')" "ToLower ''BeAReR'' = ''bearer''"
    "plain_char (hd ''BeAReR'')" by code_simp+
  from extract_api_key [OF this, of "[]"] show ?thesis by (simp add: Header_Get_def)
qed

end
