(* ===== verification/Gateway_Props.thy ===== *)
theory Gateway_Props
  imports Gateway_App Route_Props Manager_Props
begin

text \<open>
  What the gateway promises about the requests it resolves, across routes, keys, policies, targets
  and providers; and where it serves less or more than the configuration says.
\<close>

subsection \<open>A concrete gateway for the witnesses\<close>

definition w_ops :: "(unit, unit, unit, unit, unit) provider_ops" where
  "w_ops =
     \<lparr>pv_Generate = (\<lambda>ctx req w. (Inr (), w)), pv_Stream = (\<lambda>ctx req w. (Inr (), w)),
      pv_ListModels = (\<lambda>ctx w. (Inr [], w)),
      pv_Capabilities = \<lparr>cap_Streaming = True, cap_Tools = False, cap_Vision = False, cap_Embeddings = False,
        cap_ContextWindow = 0, cap_MaxOutputTokens = 0\<rparr>,
      pv_Config = \<lparr>pc_Id = [], pc_ProviderName = [], pc_APIKey = [], pc_BaseURL = [], pc_DefaultModel = [],
        pc_Network = \<lparr>n_TimeoutSeconds = 0, n_MaxRetries = 0, n_RetryDelaySeconds = 0, n_ProxyURL = [], n_ExtraHeaders = []\<rparr>,
        pc_Options = [], pc_AuthStrategy = []\<rparr>\<rparr>"

definition w_local_key :: local_api_key where
  "w_local_key =
     \<lparr>k_Key = ''sk-1'', k_UserID = [], k_Name = [], k_Description = [], k_Disabled = False,
      k_AllowedRouteIDs = [], k_PolicyOverride = None, k_StatusMessage = [], k_CreatedAt = 0,
      k_UpdatedAt = 0, k_ExpiresAt = 0\<rparr>"

definition w_gateway :: "route \<Rightarrow> ((unit, unit, unit, unit, unit) provider_ops, unit, unit) agent_gateway" where
  "w_gateway r =
     SetRoutes
       (Configure NewAgentGateway None
          (NewStaticProviderResolver (Some (\<lambda>ref. if ref = ''a'' then Some w_ops else None)))
          (Some (\<lambda>k w. if k = ''sk-1'' then Inr (StoredKey w_local_key) else Inl ''not found'')) None None) [r]"

definition w_http :: resolve_request where
  "w_http =
     \<lparr>rq_HTTPRequest = Some \<lparr>hr_Header = Header_Set [] ''Authorization'' ''Bearer sk-1''\<rparr>, rq_Model = ''gpt'', rq_Stream = False\<rparr>"

lemma w_http_key: "ExtractAPIKey (rq_HTTPRequest w_http) = ''sk-1''"
  by code_simp

text \<open>Whether a resolution succeeded, as a value that can be computed.\<close>

definition resolved :: "('e + 'a) \<times> 'g \<times> 'w \<Rightarrow> bool" where
  "resolved r = (case r of (Inr _, _) \<Rightarrow> True | (Inl _, _) \<Rightarrow> False)"

lemma w_gateway_resolved:
  "resolved (ResolveProvider (\<lambda>n. 0) (w_gateway (w_route [] [w_target ''a'' [] 0 0])) ''r1'' w_http 5 ())"
  by code_simp

subsection \<open>Helper lemmas\<close>

lemma resolveLocalAPIKey_Some:
  assumes "resolveLocalAPIKey g httpReq r now w = Inr (Some key)"
  shows "\<exists>store. g_LocalAPIKeyStore g = Some store \<and> ExtractAPIKey httpReq \<noteq> [] \<and>
           store (ExtractAPIKey httpReq) w = Inr (StoredKey key) \<and>
           ValidateLocalAPIKeyForRoute r (Some key) now = Inr (Some key)"
  using assms
  by (auto simp: resolveLocalAPIKey_def ValidateLocalAPIKeyForRoute_def Let_def
      split: if_splits option.splits sum.splits key_item.splits)

lemma resolveLocalAPIKey_None:
  "resolveLocalAPIKey g httpReq r now w = Inr None \<Longrightarrow>
   ExtractAPIKey httpReq = [] \<and> \<not> ap_RequireLocalAPIKey (pol_Auth (r_Policy r))"
  by (auto simp: resolveLocalAPIKey_def ValidateLocalAPIKeyForRoute_def Let_def
      split: if_splits option.splits sum.splits key_item.splits)

lemma Chain_many:
  assumes "List.map_filter (\<lambda>r. r) rs = fs" and "2 \<le> length fs"
  shows "ChainProviderResolvers rs = Some (chain_loop fs None)"
  using assms by (cases fs; cases "tl fs") (auto simp: ChainProviderResolvers_def)

subsection \<open>Properties\<close>

text \<open>C13: end to end.  When the gateway resolves a request, the key it presented is the one stored
  under the value in its headers and valid for the route (enabled, not expired, allowed there), or
  the route needs none and the request has none; the request passes the route's and the key's policy;
  and the provider is the one the resolver has for an eligible target of the route, under the
  resolver's name for it.\<close>

theorem resolve_provider_sound:
  assumes "ResolveProvider intn g routeID req now w = (Inr rr, g1, w1)"
    and "\<And>s. g_Selector g = Some s \<Longrightarrow> route_selector s"
  shows "(case rr_LocalAPIKey rr of
            Some key \<Rightarrow> (\<exists>store. g_LocalAPIKeyStore g = Some store \<and>
              store (ExtractAPIKey (rq_HTTPRequest req)) w = Inr (StoredKey key)) \<and>
              ValidateLocalAPIKeyForRoute (rr_Route rr) (Some key) now = Inr (Some key)
          | None \<Rightarrow> ExtractAPIKey (rq_HTTPRequest req) = [] \<and>
              \<not> ap_RequireLocalAPIKey (pol_Auth (r_Policy (rr_Route rr)))) \<and>
         ValidateRequestPolicy (rr_Route rr) (rr_LocalAPIKey rr) req = None \<and>
         (\<exists>t\<in>set (r_Targets (rr_Route rr)). eligible t req \<and>
            (\<exists>resolver prov name. g_ProviderResolver g = Some resolver \<and>
               resolver (t_ProviderRef t) w = (Inr (Some prov, name), w1) \<and>
               rr_ProviderName rr = (if name = [] then t_ProviderRef t else name) \<and>
               rr_Provider rr = wrapProvider g prov (rr_ProviderName rr)))"
proof -
  have contract: "route_selector (gateway_selector intn g)" using assms(2) by (rule gateway_selector_contract)
  from assms(1) have "resolveLocalAPIKey g (rq_HTTPRequest req) (rr_Route rr) now w = Inr (rr_LocalAPIKey rr) \<and>
      ValidateRequestPolicy (rr_Route rr) (rr_LocalAPIKey rr) req = None"
    by (rule ResolveProvider_stages) blast
  then show ?thesis
    using route_selector.resolved_target_eligible [OF contract assms(1) refl]
      resolveLocalAPIKey_Some [of g "rq_HTTPRequest req" "rr_Route rr" now w]
      resolveLocalAPIKey_None [of g "rq_HTTPRequest req" "rr_Route rr" now w]
    by (auto split: option.splits)
qed

theorem resolve_provider_sound_witness:
  "\<exists>rr g1. ResolveProvider (\<lambda>n. 0) (w_gateway (w_route [] [w_target ''a'' [] 0 0])) ''r1'' w_http 5 () = (Inr rr, g1, ()) \<and>
     ValidateRequestPolicy (rr_Route rr) (rr_LocalAPIKey rr) w_http = None"
proof -
  let ?g = "w_gateway (w_route [] [w_target ''a'' [] 0 0])"
  from w_gateway_resolved obtain rr g1 where r: "ResolveProvider (\<lambda>n. 0) ?g ''r1'' w_http 5 () = (Inr rr, g1, ())"
    by (auto simp: resolved_def split: prod.splits sum.splits)
  have "g_Selector ?g = None" by (simp add: w_gateway_def SetRoutes_def Configure_def)
  with resolve_provider_sound [OF r] r show ?thesis by auto
qed

text \<open>A protected route is never served without a key: when the resolved route requires a local
  API key and the request carries none, the answer is a 401, whatever its policy, targets and
  providers.\<close>

theorem protected_route_needs_key:
  assumes "resolveRoute g routeID w = (Inr r, g1)" and "ap_RequireLocalAPIKey (pol_Auth (r_Policy r))"
    and "ExtractAPIKey (rq_HTTPRequest req) = []"
  shows "ResolveProvider intn g routeID req now w = (Inl (NewHTTPError 401 ''local api key is required''), g1, w)"
  using assms by (simp add: ResolveProvider_def resolveLocalAPIKey_def)

theorem protected_route_needs_key_witness:
  "fst (ResolveProvider (\<lambda>n. 0) (w_gateway (w_route [] [])) ''r1'' (w_req ''gpt'') 5 ()) =
     Inl (NewHTTPError 401 ''local api key is required'')"
proof -
  let ?g = "w_gateway (w_route [] [])"
  have r: "resolveRoute ?g ''r1'' () = (Inr (with_defaults (w_route [] [])), ?g)"
    by (simp add: resolveRoute_def w_gateway_def SetRoutes_def Configure_def NewAgentGateway_def Route_def w_route_def Let_def)
  have "ap_RequireLocalAPIKey (pol_Auth (r_Policy (with_defaults (w_route [] []))))" by (simp add: w_route_def)
  from protected_route_needs_key [OF r this, of "w_req ''gpt''" "\<lambda>n. 0" 5] show ?thesis
    by (simp add: w_req_def ExtractAPIKey_def)
qed

text \<open>The chain of resolvers.  The first resolver that finds a provider decides the answer; the
  chain fails only when every resolver failed or found none, each asked once and in order.\<close>

theorem chain_first_success:
  assumes "\<And>r. r \<in> set before \<Longrightarrow> \<exists>e. r ref w = (Inl e, w)"
    and "resolver ref w = (Inr (Some prov, name), w1)" and "before \<noteq> [] \<or> after \<noteq> []"
  shows "(case ChainProviderResolvers (map Some before @ [None, Some resolver] @ map Some after) of
            Some chain \<Rightarrow> chain ref w = (Inr (Some prov, name), w1)
          | None \<Rightarrow> False)"
proof -
  have loop: "chain_loop (before @ resolver # after) lastErr ref w = (Inr (Some prov, name), w1)" for lastErr
    using assms(1)
  proof (induction before arbitrary: lastErr)
    case (Cons b before)
    then obtain e where "b ref w = (Inl e, w)" by fastforce
    with Cons show ?case by simp
  qed (simp add: assms(2))
  have "List.map_filter (\<lambda>r. r) (map Some before @ [None, Some resolver] @ map Some after) = before @ resolver # after"
    by (simp add: List.map_filter_def comp_def filter_empty_conv)
  moreover have "2 \<le> length (before @ resolver # after)" using assms(3) by (cases before; cases after) auto
  ultimately have "ChainProviderResolvers (map Some before @ [None, Some resolver] @ map Some after) =
      Some (chain_loop (before @ resolver # after) None)" by (rule Chain_many)
  then show ?thesis by (simp only: option.case loop)
qed

theorem chain_first_success_witness:
  "case ChainProviderResolvers [Some (\<lambda>ref w. (Inl ''no'', w)), None, Some (\<lambda>ref w. (Inr (Some True, ref), w))] of
     Some chain \<Rightarrow> chain ''x'' () = (Inr (Some True, ''x''), ())
   | None \<Rightarrow> False"
  using chain_first_success [of "[\<lambda>ref w. (Inl ''no'', w)]" "''x''" "()" "\<lambda>ref w. (Inr (Some True, ref), w)" True "''x''" "()" "[]"]
  by simp

text \<open>C33: the cache of the dynamic resolver is transparent.  When JSON serialisation tells the
  stored config apart from every other one and the stored config names its provider, a request
  through the cache gets the provider and the name it would get if the provider were built from the
  store's current config, and the cache stays valid.\<close>

theorem provider_cache_transparent:
  assumes "cache_inv marshal fs w"
    and "\<And>tag obj obj'. rw_Get w ref = Inr (tag, obj) \<Longrightarrow> marshal obj' = marshal obj \<Longrightarrow> obj' = obj"
    and "\<And>tag obj. rw_Get w ref = Inr (tag, obj) \<Longrightarrow> names_provider obj"
  shows "fst (cachedDynamicResolver marshal fs ref w) = direct_resolver marshal fs ref w \<and>
         cache_inv marshal fs (snd (cachedDynamicResolver marshal fs ref w)) \<and>
         rw_Get (snd (cachedDynamicResolver marshal fs ref w)) = rw_Get w"
proof (intro conjI)
  show "fst (cachedDynamicResolver marshal fs ref w) = direct_resolver marshal fs ref w"
    using assms by (rule cached_is_direct)
  show "cache_inv marshal fs (snd (cachedDynamicResolver marshal fs ref w))"
    using assms(1) by (rule cachedDynamicResolver_inv)
  show "rw_Get (snd (cachedDynamicResolver marshal fs ref w)) = rw_Get w"
    by (auto simp: cachedDynamicResolver_def split: sum.splits prod.splits option.splits)
qed

theorem provider_cache_transparent_witness:
  "let obj = StoredConfig ((pv_Config w_ops)\<lparr>pc_ProviderName := ''openai''\<rparr>);
       marshal = (\<lambda>o'. Inr (if o' = obj then ''A'' else ''B''));
       fs = [(''openai'', \<lambda>cfg. Inr (pc_ProviderName cfg))];
       w = newCachedDynamicResolver (\<lambda>ref. Inr (''openai'', obj))
   in fst (cachedDynamicResolver marshal fs ''x'' (snd (cachedDynamicResolver marshal fs ''x'' w))) =
      Inr (Some ''openai'', ''openai'')"
proof -
  let ?obj = "StoredConfig ((pv_Config w_ops)\<lparr>pc_ProviderName := ''openai''\<rparr>)"
  let ?marshal = "\<lambda>o'. Inr (if o' = ?obj then ''A'' else ''B'') :: string + string"
  let ?fs = "[(''openai'', \<lambda>cfg. Inr (pc_ProviderName cfg))] :: string factories"
  let ?w = "newCachedDynamicResolver (\<lambda>ref. Inr (''openai'', ?obj)) :: string resolver_world"
  let ?w1 = "snd (cachedDynamicResolver ?marshal ?fs ''x'' ?w)"
  have get: "rw_Get ?w ''x'' = Inr (''openai'', ?obj)" by (simp add: newCachedDynamicResolver_def)
  have sep: "obj' = obj" if "Inr (''openai'', ?obj) = (Inr (tag, obj) :: string + string \<times> stored_config)"
    "?marshal obj' = ?marshal obj" for tag obj obj' using that by (auto split: if_splits)
  have named: "names_provider obj" if "Inr (''openai'', ?obj) = (Inr (tag, obj) :: string + string \<times> stored_config)" for tag obj
    using that by (auto simp: names_provider_def)
  note step = provider_cache_transparent [of ?marshal ?fs _ "''x''"]
  have w: "cache_inv ?marshal ?fs ?w1 \<and> rw_Get ?w1 = rw_Get ?w"
    by (rule step [THEN conjunct2]) (rule cache_inv_init, rule sep, simp only: get, assumption, rule named, simp only: get)
  have w1: "rw_Get ?w1 ''x'' = Inr (''openai'', ?obj)" by (simp only: w get)
  have "fst (cachedDynamicResolver ?marshal ?fs ''x'' ?w1) = direct_resolver ?marshal ?fs ''x'' ?w1"
    by (rule step [THEN conjunct1]) (rule w [THEN conjunct1], rule sep, simp only: w1, assumption, rule named, simp only: w1)
  moreover have "direct_resolver ?marshal ?fs ''x'' ?w1 = Inr (Some ''openai'', ''openai'')"
    by (simp add: direct_resolver_def w1 build_provider_def NormalizeStoredProviderConfig_def NormalizeConfig_def
        ProviderConfig_Defaults_def NewProvider_def Let_def)
  ultimately show ?thesis by (simp only: Let_def)
qed

text \<open>With a config store configured, routes that only the Caddyfile defines cannot be served.
  The loader the app installs reports an error for a route the store does not have, and the gateway
  then answers 503 without looking at the configured routes.\<close>

theorem static_route_unavailable:
  assumes "st_LocalAPIKeyStore cs = Inr keys" and "st_RouteStore cs = Inr getRoute"
    and "buildGatewayDependencies marshal fs (Some cs) providers = Inr (loader, resolver, keyStore)"
    and "getRoute routeID w = Inl notFound" and "routeID \<noteq> []"
  shows "\<exists>err. fst (ResolveProvider intn (SetRoutes (Configure NewAgentGateway loader resolver keyStore mgr None) routes)
                 routeID req now w) = Inl err \<and> he_status err = 503"
proof -
  from assms(1-3) have "loader = Some (routeLoader getRoute)"
    by (auto simp: buildGatewayDependencies_def Let_def)
  with assms(4,5) show ?thesis
    by (simp add: ResolveProvider_def resolveRoute_def SetRoutes_def Configure_def routeLoader_def NewHTTPError_def Let_def)
qed

theorem static_route_unavailable_witness:
  "let cs = \<lparr>st_LocalAPIKeyStore = Inr (\<lambda>k w. Inl ''none''), st_ProviderConfigStore = False,
             st_RouteStore = Inr (\<lambda>i w. Inl ''record not found'')\<rparr>
   in \<exists>loader resolver keyStore err.
        buildGatewayDependencies (\<lambda>c. Inl ''no'') [] (Some cs) [(''a'', w_ops)] = Inr (loader, resolver, keyStore) \<and>
        fst (ResolveProvider (\<lambda>n. 0) (SetRoutes (Configure NewAgentGateway loader resolver keyStore
               (None :: unit cred_manager option) None) [w_route [] [w_target ''a'' [] 0 0]])
               ''r1'' w_http 5 (newCachedDynamicResolver (\<lambda>ref. Inl ''none''))) = Inl err \<and> he_status err = 503"
proof -
  let ?cs = "\<lparr>st_LocalAPIKeyStore = Inr (\<lambda>k w. Inl ''none''), st_ProviderConfigStore = False,
             st_RouteStore = Inr (\<lambda>i w. Inl ''record not found'')\<rparr>
    :: (unit, unit, unit, unit, unit) provider_ops resolver_world config_store"
  obtain loader resolver keyStore where
    b: "buildGatewayDependencies (\<lambda>c. Inl ''no'') [] (Some ?cs) [(''a'', w_ops)] = Inr (loader, resolver, keyStore)"
    by (simp add: buildGatewayDependencies_def Let_def)
  with static_route_unavailable [OF _ _ b, of "\<lambda>k w. Inl ''none''" "\<lambda>i w. Inl ''record not found''" "''r1''"
      "newCachedDynamicResolver (\<lambda>ref. Inl ''none'')" "''record not found''" "\<lambda>n. 0" "None :: unit cred_manager option"
      "[w_route [] [w_target ''a'' [] 0 0]]" w_http 5]
  show ?thesis by (simp add: Let_def)
qed

text \<open>The flag \<open>disabled\<close> of a route has no effect: a disabled route is resolved like an enabled
  one.\<close>

theorem disabled_route_still_served:
  "resolved (ResolveProvider (\<lambda>n. 0) (w_gateway ((w_route [] [w_target ''a'' [] 0 0])\<lparr>r_Disabled := True\<rparr>)) ''r1'' w_http 5 ())"
  by code_simp

end
