(* ===== verification/Go_Json.thy ===== *)
theory Go_Json
  imports Go_Prelude
begin

text \<open>
  What the sources use of encoding/json when they write a response: JSON values and the text
  \<open>json.Marshal\<close> and \<open>json.Encoder\<close> produce for them.  A struct is an object with its fields in the
  order of the declaration, a Go map an object with its keys in order (\<open>json_map\<close>).  Strings are
  valid UTF-8; quotes, backslashes, control characters, the characters special to HTML and the line
  separators U+2028 and U+2029 are escaped.
\<close>

datatype json =
    JNull
  | JBool bool
  | JInt int
  | JStr string
  | JArr "json list"
  | JObj "(string \<times> json) list"

definition json_map :: "(string \<times> json) list \<Rightarrow> json" where
  "json_map m = JObj (sort_key fst m)"

definition unicode_escape :: "nat \<Rightarrow> string" where
  "unicode_escape n =
     [CHR 0x5C, CHR ''u'', CHR ''0'', CHR ''0'', hex_digit (n div 16), hex_digit (n mod 16)]"

definition json_char :: "char \<Rightarrow> string" where
  "json_char c =
     (case map_of [(CHR 0x22, CHR 0x22), (CHR 0x5C, CHR 0x5C), (CHR 0x08, CHR ''b''), (CHR 0x0C, CHR ''f''),
                   (CHR 0x0A, CHR ''n''), (CHR 0x0D, CHR ''r''), (CHR 0x09, CHR ''t'')] c of
        Some e \<Rightarrow> [CHR 0x5C, e]
      | None \<Rightarrow>
          if (of_char c :: nat) < 32 \<or> c = CHR ''<'' \<or> c = CHR ''>'' \<or> c = CHR ''&''
          then unicode_escape (of_char c)
          else [c])"

function json_chars :: "string \<Rightarrow> string" where
  "json_chars s =
     (case s of
        [] \<Rightarrow> []
      | c # r \<Rightarrow>
          if HasPrefix s [CHR 0xE2, CHR 0x80, CHR 0xA8] then [CHR 0x5C] @ ''u2028'' @ json_chars (drop 2 r)
          else if HasPrefix s [CHR 0xE2, CHR 0x80, CHR 0xA9] then [CHR 0x5C] @ ''u2029'' @ json_chars (drop 2 r)
          else json_char c @ json_chars r)"
  by pat_completeness auto
termination by (relation "measure length") auto

declare json_chars.simps [simp del]

definition json_string :: "string \<Rightarrow> string" where
  "json_string s = [CHR 0x22] @ json_chars s @ [CHR 0x22]"

fun joined :: "string \<Rightarrow> string list \<Rightarrow> string" where
  "joined sep [] = []"
| "joined sep [s] = s"
| "joined sep (s # t # r) = s @ sep @ joined sep (t # r)"

fun json_text :: "json \<Rightarrow> string" where
  "json_text JNull = ''null''"
| "json_text (JBool b) = (if b then ''true'' else ''false'')"
| "json_text (JInt n) = Itoa n"
| "json_text (JStr s) = json_string s"
| "json_text (JArr vs) = ''['' @ joined '','' (map json_text vs) @ '']''"
| "json_text (JObj fs) = ''{'' @ joined '','' (map (\<lambda>(k, v). json_string k @ '':'' @ json_text v) fs) @ ''}''"

text \<open>The field of a struct with the option omitempty.\<close>

definition omit_empty :: "string \<Rightarrow> string \<Rightarrow> (string \<times> json) list" where
  "omit_empty k s = (if s = [] then [] else [(k, JStr s)])"

subsection \<open>The text has no control characters\<close>

definition printable :: "string \<Rightarrow> bool" where
  "printable s \<longleftrightarrow> (\<forall>c\<in>set s. 32 \<le> (of_char c :: nat))"

lemma printable_simps [simp]:
  "printable []" "printable (s @ t) \<longleftrightarrow> printable s \<and> printable t"
  "printable (c # s) \<longleftrightarrow> 32 \<le> (of_char c :: nat) \<and> printable s"
  by (auto simp: printable_def)

lemma hex_digit_printable: "n < 16 \<Longrightarrow> 32 \<le> (of_char (hex_digit n) :: nat)"
  by (simp add: hex_digit_def)

lemma json_char_printable: "printable (json_char c)"
proof -
  have "(of_char c :: nat) < 256" by simp
  then have "of_char c div 16 < (16 :: nat)" by linarith
  moreover have "of_char c mod 16 < (16 :: nat)" by simp
  ultimately show ?thesis
    by (auto simp: json_char_def unicode_escape_def hex_digit_printable split: option.splits if_splits)
qed

lemma json_chars_printable: "printable (json_chars s)"
  by (induction s rule: json_chars.induct) (subst json_chars.simps, simp add: json_char_printable split: list.split)

lemma json_string_printable: "printable (json_string s)"
  by (simp add: json_string_def json_chars_printable)

lemma nat_digits_printable: "printable (nat_digits n)"
proof (induction n rule: nat_digits.induct)
  case (1 n)
  have d: "32 \<le> (of_char (char_of (48 + k :: nat) :: char) :: nat)" if "k < 10" for k :: nat
    using that by simp
  show ?case
  proof (cases "n < 10")
    case True
    then show ?thesis by (subst nat_digits.simps) (simp add: d)
  next
    case False
    then show ?thesis using 1 by (subst nat_digits.simps) (simp add: d)
  qed
qed

lemma joined_printable: "printable sep \<Longrightarrow> (\<And>s. s \<in> set ss \<Longrightarrow> printable s) \<Longrightarrow> printable (joined sep ss)"
  by (induction sep ss rule: joined.induct) auto

lemma json_text_printable: "printable (json_text v)"
proof (induction v rule: json_text.induct)
  case (3 n)
  show ?case by (simp add: Itoa_def nat_digits_printable)
next
  case (5 vs)
  then show ?case by (auto intro!: joined_printable)
next
  case (6 fs)
  then show ?case by (auto intro!: joined_printable simp: json_string_printable)
qed (simp_all add: json_string_printable)

corollary json_text_no_newline: "CHR 0x0A \<notin> set (json_text v)"
  using json_text_printable [of v] by (auto simp: printable_def)

end
