(* ===== verification/Http_Utils.thy ===== *)
theory Http_Utils
  imports Go_Json Go_Http Route_Types
begin

text \<open>
  Package internal/utils, file http.go, over a model of \<open>http.ResponseWriter\<close>: the header map the
  handler edits, the status line with the headers that were sent with it, the body, and how much of
  the body has been flushed.  As in net/http only the first \<open>WriteHeader\<close> counts, and \<open>Write\<close> and
  \<open>Flush\<close> send the status 200 when none was sent.  A logger is the list of its entries, newest
  first; \<open>None\<close> is the nil logger.
\<close>

subsection \<open>net/http on the server side\<close>

record response_writer =
  ow_Header :: http_header
  ow_Status :: "int option"
  ow_Sent :: http_header
  ow_Body :: string
  ow_Flushed :: nat

definition new_response :: response_writer where
  "new_response = \<lparr>ow_Header = [], ow_Status = None, ow_Sent = [], ow_Body = [], ow_Flushed = 0\<rparr>"

definition rw_SetHeader :: "response_writer \<Rightarrow> string \<Rightarrow> string \<Rightarrow> response_writer" where
  "rw_SetHeader w k v = w\<lparr>ow_Header := Header_Set (ow_Header w) k v\<rparr>"

definition rw_WriteHeader :: "response_writer \<Rightarrow> int \<Rightarrow> response_writer" where
  "rw_WriteHeader w status =
     (case ow_Status w of
        None \<Rightarrow> w\<lparr>ow_Status := Some status, ow_Sent := ow_Header w\<rparr>
      | Some _ \<Rightarrow> w)"

definition rw_Write :: "response_writer \<Rightarrow> string \<Rightarrow> response_writer" where
  "rw_Write w p = (let w = rw_WriteHeader w 200 in w\<lparr>ow_Body := ow_Body w @ p\<rparr>)"

definition rw_Flush :: "response_writer \<Rightarrow> response_writer" where
  "rw_Flush w = (let w = rw_WriteHeader w 200 in w\<lparr>ow_Flushed := length (ow_Body w)\<rparr>)"

text \<open>A request as the handlers see it: \<open>ar_Body\<close> is the result of reading the body.\<close>

record api_request =
  ar_Method :: string
  ar_Path :: string
  ar_HTTP :: http_request
  ar_Body :: "string + string"

subsection \<open>Writing and logging\<close>

record log_entry =
  le_Message :: string
  le_Method :: string
  le_Path :: string
  le_Status :: int
  le_Cause :: "string option"
  le_Fields :: "(string \<times> string) list"

type_synonym logger = "log_entry list option"

definition WriteJSON :: "response_writer \<Rightarrow> int \<Rightarrow> json \<Rightarrow> response_writer" where
  "WriteJSON w status v =
     rw_Write (rw_WriteHeader (rw_SetHeader w ''Content-Type'' ''application/json'') status)
       (json_text v @ [CHR 0x0A])"

definition WriteError :: "response_writer \<Rightarrow> int \<Rightarrow> string \<Rightarrow> response_writer" where
  "WriteError w status message = WriteJSON w status (json_map [(''error'', JStr message)])"

definition LogHTTPError ::
    "logger \<Rightarrow> string \<Rightarrow> api_request \<Rightarrow> int \<Rightarrow> string option \<Rightarrow> (string \<times> string) list \<Rightarrow> logger" where
  "LogHTTPError logger message r status cause fs =
     (case logger of
        None \<Rightarrow> None
      | Some entries \<Rightarrow>
          Some (\<lparr>le_Message = message, le_Method = ar_Method r, le_Path = ar_Path r, le_Status = status,
                 le_Cause = cause, le_Fields = fs\<rparr> # entries))"

definition WriteLoggedError ::
    "logger \<Rightarrow> response_writer \<Rightarrow> api_request \<Rightarrow> int \<Rightarrow> string \<Rightarrow> string \<Rightarrow> (string \<times> string) list \<Rightarrow>
     logger \<times> response_writer" where
  "WriteLoggedError logger w r status clientMessage cause fs =
     (LogHTTPError logger ''http request failed'' r status (Some cause) fs,
      WriteError w status clientMessage)"

text \<open>\<open>DecodeJSON\<close> with the decoder of the destination type as a parameter.\<close>

definition DecodeJSON :: "(string \<Rightarrow> string + 'a) \<Rightarrow> api_request \<Rightarrow> string + 'a" where
  "DecodeJSON decode r = (case ar_Body r of Inl err \<Rightarrow> Inl err | Inr body \<Rightarrow> decode body)"

subsection \<open>The logging response writer\<close>

record logging_writer =
  lw_inner :: response_writer
  lw_status :: int
  lw_wroteHeader :: bool
  lw_body :: string

definition NewLoggingResponseWriter :: "response_writer \<Rightarrow> logging_writer" where
  "NewLoggingResponseWriter w = \<lparr>lw_inner = w, lw_status = 0, lw_wroteHeader = False, lw_body = []\<rparr>"

definition lw_WriteHeader :: "logging_writer \<Rightarrow> int \<Rightarrow> logging_writer" where
  "lw_WriteHeader w status =
     (if lw_wroteHeader w then w
      else w\<lparr>lw_status := status, lw_wroteHeader := True, lw_inner := rw_WriteHeader (lw_inner w) status\<rparr>)"

definition lw_Write :: "logging_writer \<Rightarrow> string \<Rightarrow> logging_writer" where
  "lw_Write w p =
     (let w = (if \<not> lw_wroteHeader w then lw_WriteHeader w 200 else w);
          w = (if length (lw_body w) < 4096 then
                 (let remaining = 4096 - length (lw_body w)
                  in if length p > remaining then w\<lparr>lw_body := lw_body w @ take remaining p\<rparr>
                     else w\<lparr>lw_body := lw_body w @ p\<rparr>)
               else w)
      in w\<lparr>lw_inner := rw_Write (lw_inner w) p\<rparr>)"

definition lw_StatusCode :: "logging_writer \<Rightarrow> int" where
  "lw_StatusCode w = (if lw_status w = 0 then 200 else lw_status w)"

definition lw_BodyBytes :: "logging_writer \<Rightarrow> string" where
  "lw_BodyBytes w = lw_body w"

text \<open>The parameter decodes the field \<open>error\<close> of a JSON object; \<open>Inl\<close> is a decoding error.\<close>

definition ExtractErrorMessage :: "(string \<Rightarrow> string + string) \<Rightarrow> string \<Rightarrow> string" where
  "ExtractErrorMessage unmarshal body =
     (if body = [] then []
      else (case unmarshal body of
              Inr message \<Rightarrow> if message \<noteq> [] then message else []
            | Inl _ \<Rightarrow> []))"

definition LogHTTPResponseError ::
    "(string \<Rightarrow> string + string) \<Rightarrow> logger \<Rightarrow> string \<Rightarrow> api_request \<Rightarrow> logging_writer option \<Rightarrow>
     (string \<times> string) list \<Rightarrow> logger" where
  "LogHTTPResponseError unmarshal logger message r lw fs =
     (case (logger, lw) of
        (Some _, Some w) \<Rightarrow>
          (let status = lw_StatusCode w
           in if status < 400 then logger
              else (let errorMessage = ExtractErrorMessage unmarshal (lw_BodyBytes w);
                        fs = (if errorMessage \<noteq> [] then fs @ [(''error_message'', errorMessage)] else fs)
                    in LogHTTPError logger message r status None fs))
      | _ \<Rightarrow> logger)"

subsection \<open>Facts\<close>

lemma rw_simps [simp]:
  "ow_Body (rw_WriteHeader w s) = ow_Body w" "ow_Body (rw_SetHeader w k v) = ow_Body w"
  "ow_Body (rw_Write w p) = ow_Body w @ p" "ow_Body (rw_Flush w) = ow_Body w"
  "ow_Status (rw_SetHeader w k v) = ow_Status w"
  "ow_Status (rw_WriteHeader w s) = Some (case ow_Status w of None \<Rightarrow> s | Some s' \<Rightarrow> s')"
  "ow_Status (rw_Write w p) = Some (case ow_Status w of None \<Rightarrow> 200 | Some s' \<Rightarrow> s')"
  "ow_Status (rw_Flush w) = Some (case ow_Status w of None \<Rightarrow> 200 | Some s' \<Rightarrow> s')"
  "ow_Flushed (rw_Flush w) = length (ow_Body w)"
  "ow_Flushed (rw_WriteHeader w s) = ow_Flushed w" "ow_Flushed (rw_Write w p) = ow_Flushed w"
  "ow_Flushed (rw_SetHeader w k v) = ow_Flushed w"
  by (auto simp: rw_WriteHeader_def rw_Write_def rw_Flush_def rw_SetHeader_def Let_def split: option.splits)

lemma rw_sent [simp]:
  "ow_Status w = Some s \<Longrightarrow> ow_Sent (rw_Write w p) = ow_Sent w"
  "ow_Status w = Some s \<Longrightarrow> ow_Sent (rw_Flush w) = ow_Sent w"
  "ow_Status w = None \<Longrightarrow> ow_Sent (rw_WriteHeader w s) = ow_Header w"
  by (auto simp: rw_Write_def rw_Flush_def rw_WriteHeader_def Let_def)

lemma WriteJSON_status [simp]:
  "ow_Status (WriteJSON w status v) = Some (case ow_Status w of None \<Rightarrow> status | Some s \<Rightarrow> s)"
  "ow_Body (WriteJSON w status v) = ow_Body w @ json_text v @ [CHR 0x0A]"
  by (simp_all add: WriteJSON_def)

lemma WriteError_status [simp]:
  "ow_Status (WriteError w status msg) = Some (case ow_Status w of None \<Rightarrow> status | Some s \<Rightarrow> s)"
  by (simp add: WriteError_def)

subsection \<open>The logging writer refines the writer it wraps\<close>

datatype writer_call = CallWriteHeader int | CallWrite string

fun rw_call :: "response_writer \<Rightarrow> writer_call \<Rightarrow> response_writer" where
  "rw_call w (CallWriteHeader status) = rw_WriteHeader w status"
| "rw_call w (CallWrite p) = rw_Write w p"

fun lw_call :: "logging_writer \<Rightarrow> writer_call \<Rightarrow> logging_writer" where
  "lw_call w (CallWriteHeader status) = lw_WriteHeader w status"
| "lw_call w (CallWrite p) = lw_Write w p"

definition lw_inv :: "logging_writer \<Rightarrow> bool" where
  "lw_inv w \<longleftrightarrow>
     lw_body w = take 4096 (ow_Body (lw_inner w)) \<and>
     ow_Status (lw_inner w) = (if lw_wroteHeader w then Some (lw_status w) else None) \<and>
     (lw_wroteHeader w \<or> lw_status w = 0)"

lemma lw_inv_new: "ow_Status w = None \<Longrightarrow> ow_Body w = [] \<Longrightarrow> lw_inv (NewLoggingResponseWriter w)"
  by (simp add: lw_inv_def NewLoggingResponseWriter_def)

lemma lw_WriteHeader_refines:
  assumes "lw_inv w"
  shows "lw_inv (lw_WriteHeader w status) \<and> lw_inner (lw_WriteHeader w status) = rw_WriteHeader (lw_inner w) status"
  using assms by (auto simp: lw_inv_def lw_WriteHeader_def rw_WriteHeader_def split: option.splits if_splits)

lemma take_append_upto: "take n (xs @ ys) = take n xs @ take (n - length (take n xs)) ys"
  by (cases "length xs \<le> n") simp_all

lemma lw_Write_refines:
  assumes "lw_inv w"
  shows "lw_inv (lw_Write w p) \<and> lw_inner (lw_Write w p) = rw_Write (lw_inner w) p"
proof -
  define v where "v = (if \<not> lw_wroteHeader w then lw_WriteHeader w 200 else w)"
  have v: "lw_inv v" "lw_inner v = rw_WriteHeader (lw_inner w) 200" "lw_wroteHeader v"
    using assms lw_WriteHeader_refines [OF assms, of 200]
    by (auto simp: v_def lw_inv_def lw_WriteHeader_def rw_WriteHeader_def)
  define b where "b = lw_body v @ take (4096 - length (lw_body v)) p"
  have "lw_Write w p = v\<lparr>lw_body := b, lw_inner := rw_Write (lw_inner v) p\<rparr>"
    by (auto simp: lw_Write_def v_def [symmetric] b_def Let_def)
  moreover have "rw_Write (lw_inner v) p = rw_Write (lw_inner w) p"
    unfolding v(2) by (simp add: rw_Write_def rw_WriteHeader_def Let_def split: option.splits)
  moreover have "b = take 4096 (ow_Body (lw_inner v) @ p)"
    using v(1) take_append_upto [of 4096 "ow_Body (lw_inner v)" p] by (simp add: b_def lw_inv_def)
  ultimately show ?thesis using v by (simp add: lw_inv_def split: option.splits)
qed

lemma lw_calls_refine:
  "lw_inv w \<Longrightarrow>
   lw_inv (foldl lw_call w calls) \<and> lw_inner (foldl lw_call w calls) = foldl rw_call (lw_inner w) calls"
proof (induction calls arbitrary: w)
  case (Cons c calls)
  have "lw_inv (lw_call w c) \<and> lw_inner (lw_call w c) = rw_call (lw_inner w) c"
    using Cons.prems lw_WriteHeader_refines lw_Write_refines by (cases c) auto
  with Cons.IH show ?case by auto
qed simp



end
