(* ===== verification/Llm_Api.thy ===== *)
theory Llm_Api
  imports Http_Utils Agent_Gateway
begin

text \<open>
  Packages api, api/llmapi/openai and api/llmapi/anthropic: the handlers of the two chat protocols,
  with the converters between their wire formats and the internal request and response.

  Messages, options and streams belong to the eino library: a message is the record of the fields the
  sources read, an option is the value it was built from, and a stream is the list of what \<open>Recv\<close>
  returns until the end.  A tool call is opaque: \<open>Inr\<close> is the JSON value it is written as, \<open>Inl\<close> the
  error of a value that cannot be written.  Numbers of type float64 and float32 are the type
  parameters \<open>'f\<close> and \<open>'g\<close>.  The decoder of a request body is a parameter.
\<close>

subsection \<open>eino messages\<close>

type_synonym tool_call = "string + json"

record response_meta =
  rm_FinishReason :: string
  rm_Usage :: "(int \<times> int) option"

record eino_message =
  mg_Role :: string
  mg_Content :: string
  mg_ToolCalls :: "tool_call list"
  mg_ResponseMeta :: "response_meta option"

datatype 'g eino_option = WithTemperature 'g | WithTopP 'g | WithMaxTokens int | WithStop "string list"

datatype stream_event = Chunk eino_message | RecvError string

definition FinishReason :: "eino_message option \<Rightarrow> string" where
  "FinishReason msg =
     (case msg of
        None \<Rightarrow> []
      | Some m \<Rightarrow> (case mg_ResponseMeta m of None \<Rightarrow> [] | Some meta \<Rightarrow> rm_FinishReason meta))"

record usage =
  us_InputTokens :: int
  us_OutputTokens :: int

definition UsageFromMessage :: "eino_message option \<Rightarrow> usage" where
  "UsageFromMessage msg =
     (case msg of
        None \<Rightarrow> \<lparr>us_InputTokens = 0, us_OutputTokens = 0\<rparr>
      | Some m \<Rightarrow>
          (case mg_ResponseMeta m of
             None \<Rightarrow> \<lparr>us_InputTokens = 0, us_OutputTokens = 0\<rparr>
           | Some meta \<Rightarrow>
               (case rm_Usage meta of
                  None \<Rightarrow> \<lparr>us_InputTokens = 0, us_OutputTokens = 0\<rparr>
                | Some (prompt, completion) \<Rightarrow> \<lparr>us_InputTokens = prompt, us_OutputTokens = completion\<rparr>)))"

definition chat_options ::
    "('f :: zero \<Rightarrow> 'g) \<Rightarrow> 'f \<Rightarrow> 'f \<Rightarrow> int \<Rightarrow> string list \<Rightarrow> 'g eino_option list" where
  "chat_options float32 temperature topP maxTokens stop =
     (if temperature \<noteq> 0 then [WithTemperature (float32 temperature)] else []) @
     (if topP \<noteq> 0 then [WithTopP (float32 topP)] else []) @
     (if maxTokens > 0 then [WithMaxTokens maxTokens] else []) @
     (if stop \<noteq> [] then [WithStop stop] else [])"

subsection \<open>OpenAI: the converter\<close>

record chat_message =
  cmsg_Role :: string
  cmsg_Content :: string

record 'f chat_completion_request =
  ccr_Model :: string
  ccr_Messages :: "chat_message list"
  ccr_MaxTokens :: int
  ccr_Temperature :: 'f
  ccr_TopP :: 'f
  ccr_Stream :: bool
  ccr_Stop :: "string list"

record choice =
  ch_Index :: int
  ch_Message :: chat_message
  ch_FinishReason :: string

record openai_usage =
  ou_PromptTokens :: int
  ou_CompletionTokens :: int
  ou_TotalTokens :: int

record chat_completion_response =
  ccp_ID :: string
  ccp_Object :: string
  ccp_Created :: int
  ccp_Model :: string
  ccp_Choices :: "choice list"
  ccp_Usage :: openai_usage

definition openai_ToInternal ::
    "('f :: zero \<Rightarrow> 'g) \<Rightarrow> 'f chat_completion_request \<Rightarrow> (eino_message, 'g eino_option) generate_request" where
  "openai_ToInternal float32 req =
     \<lparr>gq_Model = ccr_Model req,
      gq_Messages = map (\<lambda>m. \<lparr>mg_Role = cmsg_Role m, mg_Content = cmsg_Content m, mg_ToolCalls = [],
                              mg_ResponseMeta = None\<rparr>) (ccr_Messages req),
      gq_Options = chat_options float32 (ccr_Temperature req) (ccr_TopP req) (ccr_MaxTokens req) (ccr_Stop req)\<rparr>"

definition messageText :: "eino_message option \<Rightarrow> string" where
  "messageText msg = (case msg of None \<Rightarrow> [] | Some m \<Rightarrow> mg_Content m)"

definition openai_FromInternal :: "eino_message option \<Rightarrow> string \<Rightarrow> chat_completion_response" where
  "openai_FromInternal resp model =
     (let content = messageText resp; usage = UsageFromMessage resp
      in \<lparr>ccp_ID = [], ccp_Object = ''chat.completion'', ccp_Created = 0, ccp_Model = model,
          ccp_Choices = [\<lparr>ch_Index = 0, ch_Message = \<lparr>cmsg_Role = ''assistant'', cmsg_Content = content\<rparr>,
                          ch_FinishReason = FinishReason resp\<rparr>],
          ccp_Usage = \<lparr>ou_PromptTokens = us_InputTokens usage, ou_CompletionTokens = us_OutputTokens usage,
                       ou_TotalTokens = wrap64 (us_InputTokens usage + us_OutputTokens usage)\<rparr>\<rparr>)"

definition chat_completion_json :: "chat_completion_response \<Rightarrow> json" where
  "chat_completion_json r =
     JObj [(''id'', JStr (ccp_ID r)), (''object'', JStr (ccp_Object r)), (''created'', JInt (ccp_Created r)),
           (''model'', JStr (ccp_Model r)),
           (''choices'', JArr (map (\<lambda>c. JObj
              [(''index'', JInt (ch_Index c)),
               (''message'', JObj [(''role'', JStr (cmsg_Role (ch_Message c))),
                                   (''content'', JStr (cmsg_Content (ch_Message c)))]),
               (''finish_reason'', JStr (ch_FinishReason c))]) (ccp_Choices r))),
           (''usage'', JObj [(''prompt_tokens'', JInt (ou_PromptTokens (ccp_Usage r))),
                             (''completion_tokens'', JInt (ou_CompletionTokens (ccp_Usage r))),
                             (''total_tokens'', JInt (ou_TotalTokens (ccp_Usage r)))])]"

subsection \<open>OpenAI: stream chunks\<close>

record chunk_delta =
  cd_Role :: string
  cd_Content :: string
  cd_ToolCalls :: "tool_call list"

record chunk_choice =
  cx_Index :: int
  cx_Delta :: chunk_delta
  cx_FinishReason :: string

record chat_completion_chunk =
  cck_ID :: string
  cck_Object :: string
  cck_Created :: int
  cck_Model :: string
  cck_Choices :: "chunk_choice list"

definition toStreamChunk :: "int \<Rightarrow> string \<Rightarrow> eino_message \<Rightarrow> chat_completion_chunk" where
  "toStreamChunk unix model msg =
     \<lparr>cck_ID = [], cck_Object = ''chat.completion.chunk'', cck_Created = unix, cck_Model = model,
      cck_Choices =
        [\<lparr>cx_Index = 0,
          cx_Delta = \<lparr>cd_Role = mg_Role msg, cd_Content = mg_Content msg,
                      cd_ToolCalls = (if mg_ToolCalls msg \<noteq> [] then mg_ToolCalls msg else [])\<rparr>,
          cx_FinishReason = (case mg_ResponseMeta msg of Some meta \<Rightarrow> rm_FinishReason meta | None \<Rightarrow> [])\<rparr>]\<rparr>"

fun collect_json :: "tool_call list \<Rightarrow> string + json list" where
  "collect_json [] = Inr []"
| "collect_json (Inl err # calls) = Inl err"
| "collect_json (Inr v # calls) = (case collect_json calls of Inl err \<Rightarrow> Inl err | Inr vs \<Rightarrow> Inr (v # vs))"

definition delta_json :: "chunk_delta \<Rightarrow> string + json" where
  "delta_json d =
     (case collect_json (cd_ToolCalls d) of
        Inl err \<Rightarrow> Inl err
      | Inr vs \<Rightarrow>
          Inr (JObj (omit_empty ''role'' (cd_Role d) @ omit_empty ''content'' (cd_Content d) @
                     (if vs = [] then [] else [(''tool_calls'', JArr vs)]))))"

definition choice_json :: "chunk_choice \<Rightarrow> string + json" where
  "choice_json c =
     (case delta_json (cx_Delta c) of
        Inl err \<Rightarrow> Inl err
      | Inr d \<Rightarrow> Inr (JObj ([(''index'', JInt (cx_Index c)), (''delta'', d)] @
                           omit_empty ''finish_reason'' (cx_FinishReason c))))"

text \<open>\<open>json.Marshal\<close> of a chunk.\<close>

definition chunk_json :: "chat_completion_chunk \<Rightarrow> string + json" where
  "chunk_json c =
     (case collect_json (map choice_json (cck_Choices c)) of
        Inl err \<Rightarrow> Inl err
      | Inr cs \<Rightarrow>
          Inr (JObj [(''id'', JStr (cck_ID c)), (''object'', JStr (cck_Object c)), (''created'', JInt (cck_Created c)),
                     (''model'', JStr (cck_Model c)), (''choices'', JArr cs)]))"

subsection \<open>Anthropic: the converter\<close>

record content_block =
  cb_Type :: string
  cb_Text :: string

record message_item =
  mi_Role :: string
  mi_Content :: "content_block list"

record 'f messages_request =
  mr_Model :: string
  mr_MaxTokens :: int
  mr_Messages :: "message_item list"
  mr_System :: string
  mr_Temperature :: 'f
  mr_TopP :: 'f
  mr_Stream :: bool
  mr_StopSequences :: "string list"

record messages_response =
  mp_ID :: string
  mp_Type :: string
  mp_Role :: string
  mp_Content :: "content_block list option"
  mp_Model :: string
  mp_StopReason :: string
  mp_Usage :: usage

fun content_loop :: "nat \<Rightarrow> string \<Rightarrow> content_block list \<Rightarrow> string" where
  "content_loop i out [] = out"
| "content_loop i out (b # blocks) =
     (let out = (if i > 0 \<and> out \<noteq> [] \<and> cb_Text b \<noteq> [] then out @ [CHR 0x0A] else out)
      in content_loop (Suc i) (out @ cb_Text b) blocks)"

definition contentText :: "content_block list \<Rightarrow> string" where
  "contentText blocks = content_loop 0 [] blocks"

definition anthropic_ToInternal ::
    "('f :: zero \<Rightarrow> 'g) \<Rightarrow> 'f messages_request \<Rightarrow> (eino_message, 'g eino_option) generate_request" where
  "anthropic_ToInternal float32 req =
     \<lparr>gq_Model = mr_Model req,
      gq_Messages =
        (if mr_System req \<noteq> [] then
           [\<lparr>mg_Role = ''system'', mg_Content = mr_System req, mg_ToolCalls = [], mg_ResponseMeta = None\<rparr>]
         else []) @
        map (\<lambda>m. \<lparr>mg_Role = mi_Role m, mg_Content = contentText (mi_Content m), mg_ToolCalls = [],
                   mg_ResponseMeta = None\<rparr>) (mr_Messages req),
      gq_Options =
        chat_options float32 (mr_Temperature req) (mr_TopP req) (mr_MaxTokens req) (mr_StopSequences req)\<rparr>"

definition contentFromMessage :: "eino_message option \<Rightarrow> content_block list option" where
  "contentFromMessage msg =
     (case msg of
        None \<Rightarrow> None
      | Some m \<Rightarrow>
          Some ((if mg_Content m \<noteq> [] then [\<lparr>cb_Type = ''text'', cb_Text = mg_Content m\<rparr>] else []) @
                map (\<lambda>_. \<lparr>cb_Type = ''tool_use'', cb_Text = []\<rparr>) (mg_ToolCalls m)))"

definition anthropic_FromInternal :: "eino_message option \<Rightarrow> string \<Rightarrow> messages_response" where
  "anthropic_FromInternal resp model =
     \<lparr>mp_ID = [], mp_Type = ''message'', mp_Role = ''assistant'', mp_Content = contentFromMessage resp,
      mp_Model = model, mp_StopReason = FinishReason resp, mp_Usage = UsageFromMessage resp\<rparr>"

definition messages_json :: "messages_response \<Rightarrow> json" where
  "messages_json r =
     JObj ([(''id'', JStr (mp_ID r)), (''type'', JStr (mp_Type r)), (''role'', JStr (mp_Role r)),
            (''content'',
             (case mp_Content r of
                None \<Rightarrow> JNull
              | Some blocks \<Rightarrow>
                  JArr (map (\<lambda>b. JObj ([(''type'', JStr (cb_Type b))] @ omit_empty ''text'' (cb_Text b))) blocks))),
            (''model'', JStr (mp_Model r))] @
           omit_empty ''stop_reason'' (mp_StopReason r) @
           [(''usage'', JObj [(''input_tokens'', JInt (us_InputTokens (mp_Usage r))),
                              (''output_tokens'', JInt (us_OutputTokens (mp_Usage r)))])])"

end
