(* ===== verification/Llm_Handler.thy ===== *)
theory Llm_Handler
  imports Llm_Api
begin

text \<open>
  The HTTP handlers of the packages api/llmapi/openai and api/llmapi/anthropic.  A handler changes the
  gateway, the state of the world its resolvers and providers use, the log and the response: the
  record \<open>llm_state\<close>.  The record \<open>llm_env\<close> holds what a call reads from outside: the conversion of
  floating point numbers, the random source, the clock (\<open>en_unix i\<close> for the i-th chunk, \<open>en_nano\<close> for
  the message id), the context and whether the response writer is a flusher.
\<close>

type_synonym ('g, 'w) chat_provider =
  "(eino_message, 'g eino_option, eino_message option, stream_event list, 'w) provider_ops"

record ('g, 'st, 'w) llm_state =
  ls_gateway :: "(('g, 'w) chat_provider, 'st, 'w) agent_gateway"
  ls_world :: 'w
  ls_log :: logger
  ls_out :: response_writer

record ('f, 'g) llm_env =
  en_float32 :: "'f \<Rightarrow> 'g"
  en_intn :: intn
  en_now :: gotime
  en_amp :: amp_env
  en_ctx :: req_ctx
  en_unix :: "nat \<Rightarrow> int"
  en_nano :: int
  en_canFlush :: bool

text \<open>\<open>api.StatusCode\<close>: the argument is the status code found in the chain of the error, if any.\<close>

definition api_StatusCode :: "int option \<Rightarrow> int" where
  "api_StatusCode sc = (case sc of Some code \<Rightarrow> code | None \<Rightarrow> 502)"

definition fail_with ::
    "api_request \<Rightarrow> int \<Rightarrow> string \<Rightarrow> string \<Rightarrow> (string \<times> string) list \<Rightarrow> ('g, 'st, 'w) llm_state \<Rightarrow> ('g, 'st, 'w) llm_state" where
  "fail_with r status message cause fs s =
     (case WriteLoggedError (ls_log s) (ls_out s) r status message cause fs of
        (lg, out) \<Rightarrow> s\<lparr>ls_log := lg, ls_out := out\<rparr>)"

definition log_failure ::
    "api_request \<Rightarrow> string \<Rightarrow> (string \<times> string) list \<Rightarrow> ('g, 'st, 'w) llm_state \<Rightarrow> ('g, 'st, 'w) llm_state" where
  "log_failure r cause fs s =
     s\<lparr>ls_log := LogHTTPError (ls_log s) ''http request failed'' r 200 (Some cause) fs\<rparr>"

definition base_fields :: "string \<Rightarrow> string \<Rightarrow> (string \<times> string) list" where
  "base_fields protocol routeID = [(''protocol'', protocol), (''route_id'', routeID)]"

definition model_fields :: "string \<Rightarrow> string \<Rightarrow> string \<Rightarrow> (string \<times> string) list" where
  "model_fields protocol routeID model = base_fields protocol routeID @ [(''model'', model)]"

definition emit :: "string \<Rightarrow> ('g, 'st, 'w) llm_state \<Rightarrow> ('g, 'st, 'w) llm_state" where
  "emit p s = s\<lparr>ls_out := rw_Write (ls_out s) p\<rparr>"

definition flush_if :: "bool \<Rightarrow> ('g, 'st, 'w) llm_state \<Rightarrow> ('g, 'st, 'w) llm_state" where
  "flush_if canFlush s = (if canFlush then s\<lparr>ls_out := rw_Flush (ls_out s)\<rparr> else s)"

definition start_event_stream :: "('g, 'st, 'w) llm_state \<Rightarrow> ('g, 'st, 'w) llm_state" where
  "start_event_stream s =
     s\<lparr>ls_out :=
         rw_WriteHeader
           (rw_SetHeader (rw_SetHeader (rw_SetHeader (ls_out s)
              ''Content-Type'' ''text/event-stream'') ''Cache-Control'' ''no-cache'') ''Connection'' ''keep-alive'')
           200\<rparr>"

subsection \<open>Calling the resolved provider\<close>

text \<open>The provider is either the bare one or the decorated one, whose manager is the gateway's.
  A nil provider never comes out of \<open>ResolveProvider\<close>.\<close>

definition call_Generate where
  "call_Generate env prov req s =
     (case prov of
        Some (Bare p) \<Rightarrow>
          (case pv_Generate p (en_ctx env) req (ls_world s) of (r, w) \<Rightarrow> (r, s\<lparr>ls_world := w\<rparr>))
      | Some (Managed p) \<Rightarrow>
          (case g_cliauthManager (ls_gateway s) of
             None \<Rightarrow> (case pv_Generate (am_base p) (en_ctx env) req (ls_world s) of (r, w) \<Rightarrow> (r, s\<lparr>ls_world := w\<rparr>))
           | Some m \<Rightarrow>
               (case amp_Generate p m (en_ctx env) req (en_amp env) (ls_world s) of
                  (r, m1, w) \<Rightarrow>
                    (r, s\<lparr>ls_gateway := (ls_gateway s)\<lparr>g_cliauthManager := Some m1\<rparr>, ls_world := w\<rparr>)))
      | None \<Rightarrow> (Inl (NewStatusError 502 ''nil provider''), s))"

definition call_Stream where
  "call_Stream env prov req s =
     (case prov of
        Some (Bare p) \<Rightarrow>
          (case pv_Stream p (en_ctx env) req (ls_world s) of (r, w) \<Rightarrow> (r, s\<lparr>ls_world := w\<rparr>))
      | Some (Managed p) \<Rightarrow>
          (case g_cliauthManager (ls_gateway s) of
             None \<Rightarrow> (case pv_Stream (am_base p) (en_ctx env) req (ls_world s) of (r, w) \<Rightarrow> (r, s\<lparr>ls_world := w\<rparr>))
           | Some m \<Rightarrow>
               (case amp_Stream p m (en_ctx env) req (en_amp env) (ls_world s) of
                  (r, m1, w) \<Rightarrow>
                    (r, s\<lparr>ls_gateway := (ls_gateway s)\<lparr>g_cliauthManager := Some m1\<rparr>, ls_world := w\<rparr>)))
      | None \<Rightarrow> (Inl (NewStatusError 502 ''nil provider''), s))"

definition resolve_for where
  "resolve_for env routeID r model stream s =
     (case ResolveProvider (en_intn env) (ls_gateway s) routeID
             \<lparr>rq_HTTPRequest = Some (ar_HTTP r), rq_Model = model, rq_Stream = stream\<rparr> (en_now env) (ls_world s) of
        (res, g, w) \<Rightarrow> (res, s\<lparr>ls_gateway := g, ls_world := w\<rparr>))"

subsection \<open>OpenAI\<close>

definition sse_data :: "string \<Rightarrow> string" where
  "sse_data payload = ''data: '' @ payload @ [CHR 0x0A, CHR 0x0A]"

fun openai_stream_loop ::
    "('f, 'g) llm_env \<Rightarrow> string \<Rightarrow> api_request \<Rightarrow> string \<Rightarrow> nat \<Rightarrow> stream_event list \<Rightarrow>
     ('g, 'st, 'w) llm_state \<Rightarrow> ('g, 'st, 'w) llm_state" where
  "openai_stream_loop env routeID r model i [] s = s"
| "openai_stream_loop env routeID r model i (RecvError err # stream) s =
     log_failure r (''receive stream chunk: '' @ err) (model_fields ''openai'' routeID model) s"
| "openai_stream_loop env routeID r model i (Chunk chunk # stream) s =
     (case chunk_json (toStreamChunk (en_unix env i) model chunk) of
        Inl err \<Rightarrow> log_failure r (''marshal stream chunk: '' @ err) (model_fields ''openai'' routeID model) s
      | Inr v \<Rightarrow>
          openai_stream_loop env routeID r model (Suc i) stream
            (flush_if (en_canFlush env) (emit (sse_data (json_text v)) s)))"

definition openai_serveStream where
  "openai_serveStream env routeID r prov genReq s =
     (case call_Stream env prov genReq s of
        (Inl err, s1) \<Rightarrow>
          fail_with r 502 (error_text err) (''start stream: '' @ error_text err)
            (model_fields ''openai'' routeID (gq_Model genReq)) s1
      | (Inr stream, s1) \<Rightarrow>
          flush_if (en_canFlush env)
            (emit (sse_data ''[DONE]'')
              (openai_stream_loop env routeID r (gq_Model genReq) 0 stream (start_event_stream s1))))"

definition openai_ServeLLMApi where
  "openai_ServeLLMApi unmarshal env routeID r s =
     (if ar_Method r \<noteq> ''POST'' then
        fail_with r 405 ''method not allowed'' (''method '' @ ar_Method r @ '' not allowed'')
          (base_fields ''openai'' routeID) s
      else
        (case ar_Body r of
           Inl err \<Rightarrow>
             fail_with r 400 ''failed to read request body'' (''read request body: '' @ err)
               (base_fields ''openai'' routeID) s
         | Inr body \<Rightarrow>
             (case unmarshal body of
                Inl err \<Rightarrow>
                  fail_with r 400 (''invalid request: '' @ err) (''decode request body: '' @ err)
                    (base_fields ''openai'' routeID) s
              | Inr req \<Rightarrow>
                  (let genReq = openai_ToInternal (en_float32 env) req
                   in (case resolve_for env routeID r (gq_Model genReq) (ccr_Stream req) s of
                         (Inl err, s1) \<Rightarrow>
                           fail_with r (api_StatusCode (Some (he_status err))) (he_msg err)
                             (''resolve provider: '' @ he_msg err)
                             (model_fields ''openai'' routeID (gq_Model genReq)) s1
                       | (Inr resolved, s1) \<Rightarrow>
                           if ccr_Stream req then
                             openai_serveStream env routeID r (rr_Provider resolved) genReq s1
                           else
                             (case call_Generate env (rr_Provider resolved) genReq s1 of
                                (Inl err, s2) \<Rightarrow>
                                  fail_with r 502 (error_text err) (''generate response: '' @ error_text err)
                                    (model_fields ''openai'' routeID (gq_Model genReq)) s2
                              | (Inr resp, s2) \<Rightarrow>
                                  s2\<lparr>ls_out := WriteJSON (ls_out s2) 200
                                       (chat_completion_json (openai_FromInternal resp (gq_Model genReq)))\<rparr>))))))"

text \<open>\<open>ServeHTTP\<close>: requests for other paths go to the next handler.\<close>

definition openai_ServeHTTP where
  "openai_ServeHTTP unmarshal env routeID r nxt s =
     (if \<not> HasPrefix (ar_Path r) ''/v1/chat/completions'' \<and> \<not> HasPrefix (ar_Path r) ''/v1/models'' \<and>
         \<not> HasPrefix (ar_Path r) ''/v1/embeddings''
      then nxt s
      else openai_ServeLLMApi unmarshal env routeID r s)"

subsection \<open>Anthropic\<close>

definition sse_event :: "string \<Rightarrow> json \<Rightarrow> string" where
  "sse_event event data =
     ''event: '' @ event @ [CHR 0x0A] @ ''data: '' @ json_text data @ [CHR 0x0A, CHR 0x0A]"

definition writeSSEEvent :: "string \<Rightarrow> json \<Rightarrow> ('g, 'st, 'w) llm_state \<Rightarrow> ('g, 'st, 'w) llm_state" where
  "writeSSEEvent event data s = emit (sse_event event data) s"

definition extractText :: "eino_message option \<Rightarrow> string" where
  "extractText msg = (case msg of None \<Rightarrow> [] | Some m \<Rightarrow> mg_Content m)"

definition message_start_json :: "string \<Rightarrow> string \<Rightarrow> json" where
  "message_start_json msgID model =
     json_map
       [(''type'', JStr ''message_start''),
        (''message'', json_map
           [(''id'', JStr msgID), (''type'', JStr ''message''), (''role'', JStr ''assistant''),
            (''model'', JStr model), (''content'', JArr []), (''stop_reason'', JNull),
            (''usage'', json_map [(''input_tokens'', JInt 0), (''output_tokens'', JInt 0)])])]"

definition block_start_json :: json where
  "block_start_json =
     json_map [(''type'', JStr ''content_block_start''), (''index'', JInt 0),
               (''content_block'', json_map [(''type'', JStr ''text''), (''text'', JStr [])])]"

definition delta_event_json :: "string \<Rightarrow> json" where
  "delta_event_json txt =
     json_map [(''type'', JStr ''content_block_delta''), (''index'', JInt 0),
               (''delta'', json_map [(''type'', JStr ''text_delta''), (''text'', JStr txt)])]"

definition block_stop_json :: json where
  "block_stop_json = json_map [(''type'', JStr ''content_block_stop''), (''index'', JInt 0)]"

definition message_delta_json :: json where
  "message_delta_json =
     json_map [(''type'', JStr ''message_delta''),
               (''delta'', json_map [(''stop_reason'', JStr ''end_turn''), (''stop_sequence'', JNull)]),
               (''usage'', json_map [(''output_tokens'', JInt 0)])]"

definition message_stop_json :: json where
  "message_stop_json = json_map [(''type'', JStr ''message_stop'')]"

fun anthropic_stream_loop ::
    "('f, 'g) llm_env \<Rightarrow> string \<Rightarrow> api_request \<Rightarrow> string \<Rightarrow> stream_event list \<Rightarrow>
     ('g, 'st, 'w) llm_state \<Rightarrow> ('g, 'st, 'w) llm_state" where
  "anthropic_stream_loop env routeID r model [] s = s"
| "anthropic_stream_loop env routeID r model (RecvError err # stream) s =
     log_failure r (''receive stream chunk: '' @ err) (model_fields ''anthropic'' routeID model) s"
| "anthropic_stream_loop env routeID r model (Chunk chunk # stream) s =
     (let txt = extractText (Some chunk)
      in anthropic_stream_loop env routeID r model stream
           (if txt \<noteq> [] then
              flush_if (en_canFlush env) (writeSSEEvent ''content_block_delta'' (delta_event_json txt) s)
            else s))"

definition anthropic_serveStream where
  "anthropic_serveStream env routeID r prov genReq model s =
     (case call_Stream env prov genReq s of
        (Inl err, s1) \<Rightarrow>
          fail_with r 502 (error_text err) (''start stream: '' @ error_text err)
            (model_fields ''anthropic'' routeID (gq_Model genReq)) s1
      | (Inr stream, s1) \<Rightarrow>
          (let s2 = start_event_stream s1;
               msgID = ''msg_'' @ Itoa (en_nano env);
               s3 = writeSSEEvent ''message_start'' (message_start_json msgID model) s2;
               s4 = flush_if (en_canFlush env) (writeSSEEvent ''content_block_start'' block_start_json s3);
               s5 = anthropic_stream_loop env routeID r (gq_Model genReq) stream s4;
               s6 = writeSSEEvent ''content_block_stop'' block_stop_json s5;
               s7 = writeSSEEvent ''message_delta'' message_delta_json s6
           in flush_if (en_canFlush env) (writeSSEEvent ''message_stop'' message_stop_json s7)))"

definition handleCountTokens :: "('g, 'st, 'w) llm_state \<Rightarrow> ('g, 'st, 'w) llm_state" where
  "handleCountTokens s = s\<lparr>ls_out := WriteError (ls_out s) 501 ''count_tokens is not supported''\<rparr>"

definition handleMessages where
  "handleMessages unmarshal env routeID r s =
     (case ar_Body r of
        Inl err \<Rightarrow>
          fail_with r 400 ''failed to read request body'' (''read request body: '' @ err)
            (base_fields ''anthropic'' routeID) s
      | Inr body \<Rightarrow>
          (case unmarshal body of
             Inl err \<Rightarrow>
               fail_with r 400 (''invalid request: '' @ err) (''decode request body: '' @ err)
                 (base_fields ''anthropic'' routeID) s
           | Inr req \<Rightarrow>
               (let genReq = anthropic_ToInternal (en_float32 env) req
                in (case resolve_for env routeID r (gq_Model genReq) (mr_Stream req) s of
                      (Inl err, s1) \<Rightarrow>
                        fail_with r (api_StatusCode (Some (he_status err))) (he_msg err)
                          (''resolve provider: '' @ he_msg err)
                          (model_fields ''anthropic'' routeID (gq_Model genReq)) s1
                    | (Inr resolved, s1) \<Rightarrow>
                        if mr_Stream req then
                          anthropic_serveStream env routeID r (rr_Provider resolved) genReq (mr_Model req) s1
                        else
                          (case call_Generate env (rr_Provider resolved) genReq s1 of
                             (Inl err, s2) \<Rightarrow>
                               fail_with r 502 (error_text err) (''generate response: '' @ error_text err)
                                 (model_fields ''anthropic'' routeID (gq_Model genReq)) s2
                           | (Inr resp, s2) \<Rightarrow>
                               s2\<lparr>ls_out := WriteJSON (ls_out s2) 200
                                    (messages_json (anthropic_FromInternal resp (mr_Model req)))\<rparr>)))))"

definition anthropic_ServeLLMApi where
  "anthropic_ServeLLMApi unmarshal env routeID r s =
     (if ar_Method r \<noteq> ''POST'' then
        fail_with r 405 ''method not allowed'' (''method '' @ ar_Method r @ '' not allowed'')
          (base_fields ''anthropic'' routeID) s
      else if HasSuffix (ar_Path r) ''/count_tokens'' then handleCountTokens s
      else handleMessages unmarshal env routeID r s)"

definition anthropic_ServeHTTP where
  "anthropic_ServeHTTP unmarshal env routeID r nxt s =
     (if \<not> HasPrefix (ar_Path r) ''/v1/messages'' then nxt s
      else anthropic_ServeLLMApi unmarshal env routeID r s)"

end
