(* ===== verification/Llm_Props.thy ===== *)
theory Llm_Props
  imports Llm_Handler Route_Props Provider_Props
begin

text \<open>
  Properties of the chat handlers: the event streams they write are well-formed server-sent events
  whatever the upstream does, and a request without the key its route requires is answered with 401
  before any provider is called.
\<close>

subsection \<open>Reading server-sent events\<close>

text \<open>The client's side: a blank line ends an event.\<close>

fun sse_frames :: "string \<Rightarrow> string \<Rightarrow> string list" where
  "sse_frames acc [] = (if acc = [] then [] else [rev acc])"
| "sse_frames acc (c # s) =
     (if c = CHR 0x0A \<and> s \<noteq> [] \<and> hd s = CHR 0x0A then rev acc # sse_frames [] (tl s)
      else sse_frames (c # acc) s)"

definition no_blank_line :: "string \<Rightarrow> bool" where
  "no_blank_line f \<longleftrightarrow> (\<forall>u v. f \<noteq> u @ [CHR 0x0A, CHR 0x0A] @ v) \<and> (f = [] \<or> last f \<noteq> CHR 0x0A)"

lemma no_blank_line_plain: "CHR 0x0A \<notin> set f \<Longrightarrow> no_blank_line f"
  using last_in_set by (fastforce simp: no_blank_line_def)

lemma no_blank_line_two:
  assumes "CHR 0x0A \<notin> set f" and "CHR 0x0A \<notin> set g" and "g \<noteq> []"
  shows "no_blank_line (f @ [CHR 0x0A] @ g)"
proof -
  have "f @ [CHR 0x0A] @ g \<noteq> u @ [CHR 0x0A, CHR 0x0A] @ v" for u v
  proof
    assume *: "f @ [CHR 0x0A] @ g = u @ [CHR 0x0A, CHR 0x0A] @ v"
    have "count_list (f @ [CHR 0x0A] @ g) (CHR 0x0A) = 1" using assms by (simp add: count_list_0_iff)
    moreover have "count_list (u @ [CHR 0x0A, CHR 0x0A] @ v) (CHR 0x0A) \<ge> 2" by simp
    ultimately show False unfolding * by linarith
  qed
  moreover have "last (f @ [CHR 0x0A] @ g) \<noteq> CHR 0x0A"
    using assms by (metis append_is_Nil_conv last_appendR last_in_set)
  ultimately show ?thesis by (simp add: no_blank_line_def)
qed

lemma sse_frames_frame:
  assumes "no_blank_line (rev acc @ f)"
  shows "sse_frames acc (f @ [CHR 0x0A, CHR 0x0A] @ rest) = (rev acc @ f) # sse_frames [] rest"
  using assms
proof (induction f arbitrary: acc)
  case Nil
  then show ?case by simp
next
  case (Cons c f)
  have "\<not> (c = CHR 0x0A \<and> hd (f @ [CHR 0x0A, CHR 0x0A] @ rest) = CHR 0x0A)"
  proof
    assume c: "c = CHR 0x0A \<and> hd (f @ [CHR 0x0A, CHR 0x0A] @ rest) = CHR 0x0A"
    show False
    proof (cases f)
      case Nil
      with Cons.prems c show False by (simp add: no_blank_line_def)
    next
      case (Cons d f')
      with c have "rev acc @ c # f = rev acc @ [CHR 0x0A, CHR 0x0A] @ f'" by simp
      with \<open>no_blank_line (rev acc @ c # f)\<close> show False unfolding no_blank_line_def by blast
    qed
  qed
  moreover have "no_blank_line (rev (c # acc) @ f)" using Cons.prems by simp
  ultimately show ?case using Cons.IH [of "c # acc"] by auto
qed

text \<open>A protocol on top of server-sent events: what is written between the blank lines.\<close>

locale event_protocol =
  fixes frame :: "'e \<Rightarrow> string"
  assumes frame_lines: "no_blank_line (frame e)"
begin

definition written :: "'e list \<Rightarrow> string" where
  "written es = concat (map (\<lambda>e. frame e @ [CHR 0x0A, CHR 0x0A]) es)"

lemma written_simps [simp]:
  "written [] = []" "written (e # es) = frame e @ [CHR 0x0A, CHR 0x0A] @ written es"
  "written (es @ es') = written es @ written es'"
  by (simp_all add: written_def)

theorem frames_of_written: "sse_frames [] (written es) = map frame es"
proof (induction es)
  case (Cons e es)
  then show ?case using sse_frames_frame [of "[]" "frame e" "written es"] frame_lines by simp
qed simp

end

subsection \<open>The two protocols\<close>

definition openai_frame :: "json option \<Rightarrow> string" where
  "openai_frame e = ''data: '' @ (case e of None \<Rightarrow> ''[DONE]'' | Some v \<Rightarrow> json_text v)"

datatype anthropic_event =
    MessageStart string string
  | BlockStart
  | BlockDelta string
  | BlockStop
  | MessageDelta
  | MessageStop

fun event_name :: "anthropic_event \<Rightarrow> string" where
  "event_name (MessageStart i m) = ''message_start''"
| "event_name BlockStart = ''content_block_start''"
| "event_name (BlockDelta t) = ''content_block_delta''"
| "event_name BlockStop = ''content_block_stop''"
| "event_name MessageDelta = ''message_delta''"
| "event_name MessageStop = ''message_stop''"

fun event_json :: "anthropic_event \<Rightarrow> json" where
  "event_json (MessageStart i m) = message_start_json i m"
| "event_json BlockStart = block_start_json"
| "event_json (BlockDelta t) = delta_event_json t"
| "event_json BlockStop = block_stop_json"
| "event_json MessageDelta = message_delta_json"
| "event_json MessageStop = message_stop_json"

definition anthropic_frame :: "anthropic_event \<Rightarrow> string" where
  "anthropic_frame e = ''event: '' @ event_name e @ [CHR 0x0A] @ ''data: '' @ json_text (event_json e)"

interpretation openai_events: event_protocol openai_frame
proof
  fix e
  show "no_blank_line (openai_frame e)"
    by (rule no_blank_line_plain) (simp add: openai_frame_def json_text_no_newline split: option.split)
qed

interpretation anthropic_events: event_protocol anthropic_frame
proof
  fix e
  have "CHR 0x0A \<notin> set (''event: '' @ event_name e)" by (cases e) simp_all
  moreover have "CHR 0x0A \<notin> set (''data: '' @ json_text (event_json e))" by (simp add: json_text_no_newline)
  ultimately show "no_blank_line (anthropic_frame e)"
    using no_blank_line_two [of "''event: '' @ event_name e" "''data: '' @ json_text (event_json e)"]
    by (simp add: anthropic_frame_def)
qed

text \<open>What a stream carries: the chunks before the first failure.\<close>

fun openai_payloads :: "('f, 'g) llm_env \<Rightarrow> string \<Rightarrow> nat \<Rightarrow> stream_event list \<Rightarrow> json list" where
  "openai_payloads env model i (Chunk chunk # stream) =
     (case chunk_json (toStreamChunk (en_unix env i) model chunk) of
        Inl _ \<Rightarrow> []
      | Inr v \<Rightarrow> v # openai_payloads env model (Suc i) stream)"
| "openai_payloads env model i _ = []"

fun received_texts :: "stream_event list \<Rightarrow> string list" where
  "received_texts (Chunk chunk # stream) = mg_Content chunk # received_texts stream"
| "received_texts _ = []"

subsection \<open>The response along a stream\<close>

lemma out_steps [simp]:
  "ls_out (emit p s) = rw_Write (ls_out s) p"
  "ls_out (flush_if b s) = (if b then rw_Flush (ls_out s) else ls_out s)"
  "ls_out (log_failure r c fs s) = ls_out s"
  "ls_out (writeSSEEvent e d s) = rw_Write (ls_out s) (sse_event e d)"
  by (simp_all add: emit_def flush_if_def log_failure_def writeSSEEvent_def)

lemma sse_data_frame: "sse_data (json_text v) = openai_events.written [Some v]"
  "sse_data ''[DONE]'' = openai_events.written [None]"
  by (simp_all add: sse_data_def openai_frame_def)

lemma sse_event_frame: "sse_event (event_name e) (event_json e) = anthropic_events.written [e]"
  by (simp add: sse_event_def anthropic_frame_def)

lemma openai_loop_out:
  "ow_Status (ls_out s) = Some st \<Longrightarrow>
   ow_Body (ls_out (openai_stream_loop env routeID r model i stream s)) =
     ow_Body (ls_out s) @ openai_events.written (map Some (openai_payloads env model i stream)) \<and>
   ow_Status (ls_out (openai_stream_loop env routeID r model i stream s)) = Some st \<and>
   ow_Sent (ls_out (openai_stream_loop env routeID r model i stream s)) = ow_Sent (ls_out s)"
proof (induction env routeID r model i stream s rule: openai_stream_loop.induct)
  case (3 env routeID r model i chunk stream s)
  show ?case
  proof (cases "chunk_json (toStreamChunk (en_unix env i) model chunk)")
    case (Inl err)
    then show ?thesis using 3(2) by simp
  next
    case (Inr v)
    let ?s = "flush_if (en_canFlush env) (emit (sse_data (json_text v)) s)"
    have "ow_Status (ls_out ?s) = Some st" using 3(2) by simp
    from 3(1) [OF Inr this] 3(2) Inr show ?thesis by (simp add: sse_data_frame)
  qed
qed simp_all

lemma anthropic_loop_out:
  "ow_Status (ls_out s) = Some st \<Longrightarrow>
   ow_Body (ls_out (anthropic_stream_loop env routeID r model stream s)) =
     ow_Body (ls_out s) @
       anthropic_events.written (map BlockDelta (filter (\<lambda>t. t \<noteq> []) (received_texts stream))) \<and>
   ow_Status (ls_out (anthropic_stream_loop env routeID r model stream s)) = Some st \<and>
   ow_Sent (ls_out (anthropic_stream_loop env routeID r model stream s)) = ow_Sent (ls_out s)"
proof (induction env routeID r model stream s rule: anthropic_stream_loop.induct)
  case (3 env routeID r model chunk stream s)
  let ?t = "mg_Content chunk"
  let ?s = "if ?t \<noteq> [] then
      flush_if (en_canFlush env) (writeSSEEvent ''content_block_delta'' (delta_event_json ?t) s) else s"
  have e: "sse_event ''content_block_delta'' (delta_event_json ?t) = anthropic_events.written [BlockDelta ?t]"
    using sse_event_frame [of "BlockDelta ?t"] by simp
  have "ow_Status (ls_out ?s) = Some st" using 3(2) by simp
  with 3(1) [OF refl, unfolded extractText_def option.case] 3(2) e
  show ?case by (auto simp: extractText_def)
qed simp_all

lemma start_event_stream_out [simp]:
  assumes "ow_Status (ls_out s) = None"
  shows "ow_Body (ls_out (start_event_stream s)) = ow_Body (ls_out s)"
    "ow_Status (ls_out (start_event_stream s)) = Some 200"
    "Header_Get (ow_Sent (ls_out (start_event_stream s))) ''Content-Type'' = ''text/event-stream''"
proof -
  have "CanonicalHeaderKey ''Content-Type'' = ''Content-Type''"
    "CanonicalHeaderKey ''Cache-Control'' = ''Cache-Control''"
    "CanonicalHeaderKey ''Connection'' = ''Connection''" by code_simp+
  then show "ow_Body (ls_out (start_event_stream s)) = ow_Body (ls_out s)"
    "ow_Status (ls_out (start_event_stream s)) = Some 200"
    "Header_Get (ow_Sent (ls_out (start_event_stream s))) ''Content-Type'' = ''text/event-stream''"
    using assms by (simp_all add: start_event_stream_def rw_SetHeader_def Header_Set_def Header_Get_def)
qed

subsection \<open>Event streams\<close>

text \<open>The OpenAI stream.  When the provider starts a stream, the response is a 200 event stream
  which a client reads as exactly one event per chunk received before the first failure, in order,
  followed by the event \<open>[DONE]\<close>, even when the upstream breaks off; on a flushing connection
  nothing is left in the buffer.\<close>

theorem openai_stream_framing:
  fixes routeID :: string and r :: api_request
  assumes "call_Stream env prov genReq s = (Inr stream, s1)" and "ls_out s1 = new_response"
  defines "out \<equiv> ls_out (openai_serveStream env routeID r prov genReq s)"
  shows "sse_frames [] (ow_Body out) =
           map (\<lambda>v. ''data: '' @ json_text v) (openai_payloads env (gq_Model genReq) 0 stream) @ [''data: [DONE]''] \<and>
         ow_Status out = Some 200 \<and>
         Header_Get (ow_Sent out) ''Content-Type'' = ''text/event-stream'' \<and>
         (en_canFlush env \<longrightarrow> ow_Flushed out = length (ow_Body out))"
proof -
  let ?vs = "openai_payloads env (gq_Model genReq) 0 stream"
  let ?l = "openai_stream_loop env routeID r (gq_Model genReq) 0 stream (start_event_stream s1)"
  have st: "ow_Status (ls_out s1) = None" "ow_Body (ls_out s1) = []" by (simp_all add: assms(2) new_response_def)
  note loop = openai_loop_out [OF start_event_stream_out(2) [OF st(1)], of env routeID r "gq_Model genReq" 0 stream]
  have out: "out = (if en_canFlush env then rw_Flush (rw_Write (ls_out ?l) (sse_data ''[DONE]''))
                    else rw_Write (ls_out ?l) (sse_data ''[DONE]''))"
    using assms(1) by (simp add: out_def openai_serveStream_def)
  then have body: "ow_Body out = openai_events.written (map Some ?vs @ [None])"
    using loop st by (simp add: sse_data_frame)
  have "sse_frames [] (ow_Body out) = map openai_frame (map Some ?vs @ [None])"
    unfolding body by (rule openai_events.frames_of_written)
  then have "sse_frames [] (ow_Body out) = map (\<lambda>v. ''data: '' @ json_text v) ?vs @ [''data: [DONE]'']"
    by (simp add: openai_frame_def)
  moreover have "ow_Status out = Some 200" "ow_Sent out = ow_Sent (ls_out (start_event_stream s1))"
    using loop out by simp_all
  ultimately show ?thesis using start_event_stream_out(3) [OF st(1)] out by simp
qed

text \<open>C32: the Anthropic stream.  Whatever the upstream sends, the client reads the event sequence of the
  protocol: \<open>message_start\<close>, \<open>content_block_start\<close>, one \<open>content_block_delta\<close> per non-empty text received
  before the first failure, then \<open>content_block_stop\<close>, \<open>message_delta\<close> and \<open>message_stop\<close>; the texts of
  the deltas together are the text received.\<close>

theorem anthropic_stream_events:
  fixes routeID model :: string and r :: api_request
  assumes "call_Stream env prov genReq s = (Inr stream, s1)" and "ls_out s1 = new_response"
  defines "out \<equiv> ls_out (anthropic_serveStream env routeID r prov genReq model s)"
    and "deltas \<equiv> filter (\<lambda>t. t \<noteq> []) (received_texts stream)"
  shows "sse_frames [] (ow_Body out) =
           map anthropic_frame
             ([MessageStart (''msg_'' @ Itoa (en_nano env)) model, BlockStart] @ map BlockDelta deltas @
              [BlockStop, MessageDelta, MessageStop]) \<and>
         concat deltas = concat (received_texts stream) \<and> ow_Status out = Some 200"
proof -
  let ?st = "start_event_stream s1"
  let ?start = "MessageStart (''msg_'' @ Itoa (en_nano env)) model"
  define s4 where "s4 = flush_if (en_canFlush env) (writeSSEEvent ''content_block_start'' block_start_json
    (writeSSEEvent ''message_start'' (message_start_json (''msg_'' @ Itoa (en_nano env)) model) ?st))"
  define s5 where "s5 = anthropic_stream_loop env routeID r (gq_Model genReq) stream s4"
  have none: "ow_Status (ls_out s1) = None" "ow_Body (ls_out s1) = []" by (simp_all add: assms(2) new_response_def)
  note fr = sse_event_frame [of ?start] sse_event_frame [of BlockStart] sse_event_frame [of BlockStop]
    sse_event_frame [of MessageDelta] sse_event_frame [of MessageStop]
  have s4: "ow_Status (ls_out s4) = Some 200" "ow_Body (ls_out s4) = anthropic_events.written [?start, BlockStart]"
    using none fr by (simp_all add: s4_def)
  have s5: "ow_Body (ls_out s5) = anthropic_events.written ([?start, BlockStart] @ map BlockDelta deltas)"
    "ow_Status (ls_out s5) = Some 200"
    using anthropic_loop_out [OF s4(1), of env routeID r "gq_Model genReq" stream] s4(2)
    by (simp_all add: s5_def deltas_def)
  have out: "out = ls_out (flush_if (en_canFlush env) (writeSSEEvent ''message_stop'' message_stop_json
      (writeSSEEvent ''message_delta'' message_delta_json (writeSSEEvent ''content_block_stop'' block_stop_json s5))))"
    using assms(1) by (simp add: out_def anthropic_serveStream_def Let_def s4_def s5_def)
  have body: "ow_Body out = anthropic_events.written
      ([?start, BlockStart] @ map BlockDelta deltas @ [BlockStop, MessageDelta, MessageStop])"
    using s5 fr by (simp add: out)
  have "concat (filter (\<lambda>t. t \<noteq> []) ts) = concat ts" for ts :: "string list" by (induction ts) auto
  then have "concat deltas = concat (received_texts stream)" by (simp add: deltas_def)
  moreover have "ow_Status out = Some 200" using s5 by (simp add: out)
  ultimately show ?thesis unfolding body by (simp add: anthropic_events.frames_of_written del: anthropic_events.written_simps)
qed

subsection \<open>Requests without a key\<close>

lemma resolve_for_protected:
  assumes "resolveRoute (ls_gateway s) routeID (ls_world s) = (Inr rt, g1)"
    and "ap_RequireLocalAPIKey (pol_Auth (r_Policy rt))" and "ExtractAPIKey (Some (ar_HTTP r)) = []"
  shows "resolve_for env routeID r model stream s =
           (Inl (NewHTTPError 401 ''local api key is required''), s\<lparr>ls_gateway := g1\<rparr>)"
  using assms by (simp add: resolve_for_def ResolveProvider_def resolveLocalAPIKey_def)

lemma fail_with_simps [simp]:
  "ls_gateway (fail_with r status msg cause fs s) = ls_gateway s"
  "ls_world (fail_with r status msg cause fs s) = ls_world s"
  "ls_out (fail_with r status msg cause fs s) = WriteError (ls_out s) status msg"
  by (simp_all add: fail_with_def WriteLoggedError_def)

text \<open>C14: no key, no upstream call.  On a route that requires a local API key, a request without one
  is answered with 401 by both protocols, whatever its body asks for: no provider is called (the
  state of the world is as before) and the credential manager is untouched.\<close>

theorem llm_requires_key:
  assumes "ls_out s = new_response" and "ar_Method r = ''POST''" and "ar_Body r = Inr body"
    and "resolveRoute (ls_gateway s) routeID (ls_world s) = (Inr rt, g1)"
    and "ap_RequireLocalAPIKey (pol_Auth (r_Policy rt))" and "ExtractAPIKey (Some (ar_HTTP r)) = []"
    and "unmarshal body = Inr req" and "unmarshal' body = Inr req'"
    and "\<not> HasSuffix (ar_Path r) ''/count_tokens''"
  shows "(let s' = openai_ServeLLMApi unmarshal env routeID r s
          in ow_Status (ls_out s') = Some 401 \<and> ls_world s' = ls_world s \<and>
             g_cliauthManager (ls_gateway s') = g_cliauthManager (ls_gateway s)) \<and>
         (let s' = anthropic_ServeLLMApi unmarshal' env routeID r s
          in ow_Status (ls_out s') = Some 401 \<and> ls_world s' = ls_world s \<and>
             g_cliauthManager (ls_gateway s') = g_cliauthManager (ls_gateway s))"
proof -
  have "g_cliauthManager g1 = g_cliauthManager (ls_gateway s)" using resolveRoute_frame [OF assms(4)] by simp
  then show ?thesis
    using assms(1-3,7-9)
    by (simp add: resolve_for_protected [OF assms(4-6)] openai_ServeLLMApi_def anthropic_ServeLLMApi_def handleMessages_def Let_def
        new_response_def api_StatusCode_def NewHTTPError_def)
qed

subsection \<open>Conversions\<close>

lemma content_loop_joined:
  "content_loop i out blocks =
     joined [CHR 0x0A] (filter (\<lambda>t. t \<noteq> []) (out # map cb_Text blocks))" if "i = 0 \<Longrightarrow> out = []"
  using that
proof (induction i out blocks rule: content_loop.induct)
  case (2 i out b blocks)
  show ?case
  proof (cases "out = [] \<or> cb_Text b = []")
    case True
    with 2 show ?thesis by (auto simp: Let_def)
  next
    case False
    with 2 have "i > 0" by auto
    with False 2(1) [OF refl] show ?thesis
      by (cases "filter (\<lambda>t. t \<noteq> []) (map cb_Text blocks)") (simp_all add: Let_def)
  qed
qed simp

text \<open>The text of a message with several content blocks is the texts of its non-empty blocks, one
  per line, in order.\<close>

theorem content_text_joins_blocks:
  "contentText blocks = joined [CHR 0x0A] (filter (\<lambda>t. t \<noteq> []) (map cb_Text blocks))"
  unfolding contentText_def by (subst content_loop_joined) simp_all

subsection \<open>Scenarios\<close>

definition w_chunk :: "string \<Rightarrow> eino_message" where
  "w_chunk t = \<lparr>mg_Role = ''assistant'', mg_Content = t, mg_ToolCalls = [], mg_ResponseMeta = None\<rparr>"

definition w_chat :: "(int, unit) chat_provider" where
  "w_chat =
     \<lparr>pv_Generate = (\<lambda>ctx req w. (Inr (Some (w_chunk ''hi'')), w)),
      pv_Stream = (\<lambda>ctx req w. (Inr [Chunk (w_chunk ''a''), Chunk (w_chunk []), RecvError ''reset''], w)),
      pv_ListModels = (\<lambda>ctx w. (Inr [], w)), pv_Capabilities = openai_Capabilities,
      pv_Config = w_config [] []\<rparr>"

definition w_llm_env :: "(int, int) llm_env" where
  "w_llm_env =
     \<lparr>en_float32 = id, en_intn = (\<lambda>n. 0), en_now = 5, en_amp = w_amp_env 5,
      en_ctx = \<lparr>x_values = [], x_credential = None\<rparr>, en_unix = int, en_nano = 7, en_canFlush = True\<rparr>"

definition w_llm_state :: "(int, unit, unit) llm_state" where
  "w_llm_state =
     \<lparr>ls_gateway = SetRoutes NewAgentGateway [w_route [] []], ls_world = (), ls_log = Some [], ls_out = new_response\<rparr>"

definition w_chat_req :: "(eino_message, int eino_option) generate_request" where
  "w_chat_req = \<lparr>gq_Model = ''gpt'', gq_Messages = [], gq_Options = []\<rparr>"

definition w_post :: api_request where
  "w_post = \<lparr>ar_Method = ''POST'', ar_Path = ''/v1/messages'', ar_HTTP = \<lparr>hr_Header = []\<rparr>, ar_Body = Inr []\<rparr>"

lemma w_stream:
  "call_Stream w_llm_env (Some (Bare w_chat)) w_chat_req w_llm_state =
     (Inr [Chunk (w_chunk ''a''), Chunk (w_chunk []), RecvError ''reset''], w_llm_state)"
  by (simp add: call_Stream_def w_chat_def w_llm_state_def)

theorem openai_stream_framing_witness:
  "length (sse_frames [] (ow_Body (ls_out
     (openai_serveStream w_llm_env ''r1'' w_post (Some (Bare w_chat)) w_chat_req w_llm_state)))) = 3"
proof -
  have "ls_out w_llm_state = new_response" by (simp add: w_llm_state_def)
  from openai_stream_framing [OF w_stream this, of "''r1''" w_post]
  show ?thesis by (simp add: chunk_json_def toStreamChunk_def choice_json_def delta_json_def w_chunk_def)
qed

theorem anthropic_stream_events_witness:
  "sse_frames [] (ow_Body (ls_out
     (anthropic_serveStream w_llm_env ''r1'' w_post (Some (Bare w_chat)) w_chat_req ''claude'' w_llm_state))) =
   map anthropic_frame [MessageStart ''msg_7'' ''claude'', BlockStart, BlockDelta ''a'', BlockStop, MessageDelta, MessageStop]"
proof -
  have "ls_out w_llm_state = new_response" by (simp add: w_llm_state_def)
  moreover have "''msg_'' @ Itoa (en_nano w_llm_env) = ''msg_7''" by code_simp
  ultimately show ?thesis
    using anthropic_stream_events [OF w_stream, of "''r1''" w_post "''claude''"] by (simp add: w_chunk_def)
qed

theorem llm_requires_key_witness:
  "ow_Status (ls_out (openai_ServeLLMApi
     (\<lambda>_. Inr \<lparr>ccr_Model = ''gpt'', ccr_Messages = [], ccr_MaxTokens = 0, ccr_Temperature = (0 :: int), ccr_TopP = 0,
               ccr_Stream = True, ccr_Stop = []\<rparr>) w_llm_env ''r1'' w_post w_llm_state)) = Some 401"
proof -
  have "resolveRoute (ls_gateway w_llm_state) ''r1'' (ls_world w_llm_state) =
      (Inr (with_defaults (w_route [] [])), ls_gateway w_llm_state)"
    by (simp add: resolveRoute_def w_llm_state_def SetRoutes_def NewAgentGateway_def Route_def w_route_def Let_def)
  moreover have "ap_RequireLocalAPIKey (pol_Auth (r_Policy (with_defaults (w_route [] []))))"
    by (simp add: w_route_def)
  moreover have "ExtractAPIKey (Some (ar_HTTP w_post)) = []" "\<not> HasSuffix (ar_Path w_post) ''/count_tokens''"
    by code_simp+
  ultimately show ?thesis
    using llm_requires_key [of w_llm_state w_post "[]" "''r1''" "with_defaults (w_route [] [])" "ls_gateway w_llm_state"
      "\<lambda>_. Inr \<lparr>ccr_Model = ''gpt'', ccr_Messages = [], ccr_MaxTokens = 0, ccr_Temperature = (0 :: int), ccr_TopP = 0,
               ccr_Stream = True, ccr_Stop = []\<rparr>" _
      "\<lambda>_. Inr \<lparr>mr_Model = ''m'', mr_MaxTokens = 0, mr_Messages = [], mr_System = [], mr_Temperature = (0 :: int),
               mr_TopP = 0, mr_Stream = True, mr_StopSequences = []\<rparr>" _ w_llm_env]
    by (simp add: w_llm_state_def w_post_def Let_def)
qed

end
