(* ===== verification/Json_Store.thy ===== *)
theory Json_Store
  imports Go_Prelude
begin

text \<open>
  Package configstore/sqlite: files jsonstore.go, credential.go, provider.go, localapikey.go, route.go
  and the accessors of configstore.go.  Every store is a table of rows (identifier, tag, JSON text)
  reached through gorm.  gorm is a parameter, the record \<open>gorm\<close> of the calls the sources make, on a
  database state of any type; what the stores rely on is the locale \<open>gorm_table\<close>.  JSON encoding of
  the objects is the parameter \<open>marshal\<close>, the decoder is the one the store was built with.
\<close>

subsection \<open>gorm\<close>

record json_record =
  jr_ID :: string
  jr_Tag :: string
  jr_Data :: string

text \<open>A table with the names of its three columns.\<close>

record table_ref =
  tr_table :: string
  tr_idField :: string
  tr_tagField :: string
  tr_dataField :: string

datatype row_filter = AllRows | TagEquals string | TagLike string

record 'db gorm =
  gm_AutoMigrate :: "'db \<Rightarrow> string \<Rightarrow> string option \<times> 'db"
  gm_Find :: "'db \<Rightarrow> table_ref \<Rightarrow> row_filter \<Rightarrow> string + json_record list"
  gm_First :: "'db \<Rightarrow> table_ref \<Rightarrow> string \<Rightarrow> string + json_record"
  gm_Create :: "'db \<Rightarrow> table_ref \<Rightarrow> json_record \<Rightarrow> string option \<times> 'db"
  gm_CreateOnConflict :: "'db \<Rightarrow> table_ref \<Rightarrow> json_record \<Rightarrow> string option \<times> 'db"
  gm_UpdateData :: "'db \<Rightarrow> table_ref \<Rightarrow> string \<Rightarrow> string \<Rightarrow> (string + nat) \<times> 'db"
  gm_Delete :: "'db \<Rightarrow> table_ref \<Rightarrow> string \<Rightarrow> string option \<times> 'db"

definition ErrRecordNotFound :: string where
  "ErrRecordNotFound = ''record not found''"

subsection \<open>The JSON store\<close>

record 'a sqlite_json_store =
  js_ref :: table_ref
  js_kind :: string
  js_decode :: "string \<Rightarrow> string + 'a"

definition newSQLiteJSONStoreWithColumns ::
    "string \<Rightarrow> string \<Rightarrow> string \<Rightarrow> string \<Rightarrow> string \<Rightarrow> (string \<Rightarrow> string + 'a) \<Rightarrow> 'a sqlite_json_store" where
  "newSQLiteJSONStoreWithColumns table kind idField tagField dataField decode =
     \<lparr>js_ref = \<lparr>tr_table = table, tr_idField = idField, tr_tagField = tagField, tr_dataField = dataField\<rparr>,
      js_kind = kind, js_decode = decode\<rparr>"

definition newSQLiteJSONStore ::
    "string \<Rightarrow> string \<Rightarrow> (string \<Rightarrow> string + 'a) \<Rightarrow> 'a sqlite_json_store" where
  "newSQLiteJSONStore table kind decode = newSQLiteJSONStoreWithColumns table kind ''id'' ''tag'' ''data'' decode"

fun decode_rows :: "(string \<Rightarrow> string + 'a) \<Rightarrow> json_record list \<Rightarrow> string + 'a list" where
  "decode_rows decode [] = Inr []"
| "decode_rows decode (row # rows) =
     (case decode (jr_Data row) of
        Inl err \<Rightarrow> Inl err
      | Inr obj \<Rightarrow> (case decode_rows decode rows of Inl err \<Rightarrow> Inl err | Inr out \<Rightarrow> Inr (obj # out)))"

definition js_ListByTagPrefix ::
    "'db gorm \<Rightarrow> 'a sqlite_json_store \<Rightarrow> 'db \<Rightarrow> string \<Rightarrow> string + 'a list" where
  "js_ListByTagPrefix gm s db tagPrefix =
     (case gm_Find gm db (js_ref s) (if tagPrefix \<noteq> [] then TagLike (tagPrefix @ ''%'') else AllRows) of
        Inl err \<Rightarrow> Inl err
      | Inr rows \<Rightarrow> decode_rows (js_decode s) rows)"

definition js_ListByTag ::
    "'db gorm \<Rightarrow> 'a sqlite_json_store \<Rightarrow> 'db \<Rightarrow> string \<Rightarrow> string + 'a list" where
  "js_ListByTag gm s db tag =
     (case gm_Find gm db (js_ref s) (if tag \<noteq> [] then TagEquals tag else AllRows) of
        Inl err \<Rightarrow> Inl err
      | Inr rows \<Rightarrow> decode_rows (js_decode s) rows)"

definition js_newRecord ::
    "('a \<Rightarrow> string + string) \<Rightarrow> 'a sqlite_json_store \<Rightarrow> string \<Rightarrow> string \<Rightarrow> 'a option \<Rightarrow> string + json_record" where
  "js_newRecord marshal s ident tag obj =
     (if ident = [] then Inl (js_kind s @ '' id is empty'')
      else (case obj of
              None \<Rightarrow> Inl (js_kind s @ '' config is nil'')
            | Some x \<Rightarrow>
                (case marshal x of
                   Inl err \<Rightarrow> Inl (js_kind s @ '' marshal: '' @ err)
                 | Inr data \<Rightarrow> Inr \<lparr>jr_ID = ident, jr_Tag = tag, jr_Data = data\<rparr>)))"

definition js_Upsert ::
    "('a \<Rightarrow> string + string) \<Rightarrow> 'db gorm \<Rightarrow> 'a sqlite_json_store \<Rightarrow> 'db \<Rightarrow> string \<Rightarrow> string \<Rightarrow> 'a option \<Rightarrow>
     (string + string) \<times> 'db" where
  "js_Upsert marshal gm s db ident tag obj =
     (case js_newRecord marshal s ident tag obj of
        Inl err \<Rightarrow> (Inl err, db)
      | Inr row \<Rightarrow>
          (case gm_CreateOnConflict gm db (js_ref s) row of
             (Some err, db1) \<Rightarrow> (Inl err, db1)
           | (None, db1) \<Rightarrow> (Inr (jr_ID row), db1)))"

definition js_Create ::
    "('a \<Rightarrow> string + string) \<Rightarrow> 'db gorm \<Rightarrow> 'a sqlite_json_store \<Rightarrow> 'db \<Rightarrow> string \<Rightarrow> string \<Rightarrow> 'a option \<Rightarrow>
     (string + string) \<times> 'db" where
  "js_Create marshal gm s db ident tag obj =
     (case js_newRecord marshal s ident tag obj of
        Inl err \<Rightarrow> (Inl err, db)
      | Inr row \<Rightarrow>
          (case gm_Create gm db (js_ref s) row of
             (Some err, db1) \<Rightarrow> (Inl err, db1)
           | (None, db1) \<Rightarrow> (Inr (jr_ID row), db1)))"

definition js_Update ::
    "('a \<Rightarrow> string + string) \<Rightarrow> 'db gorm \<Rightarrow> 'a sqlite_json_store \<Rightarrow> 'db \<Rightarrow> string \<Rightarrow> 'a option \<Rightarrow>
     string option \<times> 'db" where
  "js_Update marshal gm s db ident obj =
     (if ident = [] then (Some (js_kind s @ '' id is empty''), db)
      else (case obj of
              None \<Rightarrow> (Some (js_kind s @ '' config is nil''), db)
            | Some x \<Rightarrow>
                (case marshal x of
                   Inl err \<Rightarrow> (Some (js_kind s @ '' marshal: '' @ err), db)
                 | Inr data \<Rightarrow>
                     (case gm_UpdateData gm db (js_ref s) ident data of
                        (Inl err, db1) \<Rightarrow> (Some err, db1)
                      | (Inr rowsAffected, db1) \<Rightarrow>
                          (if rowsAffected = 0 then Some ErrRecordNotFound else None, db1)))))"

definition js_Delete :: "'db gorm \<Rightarrow> 'a sqlite_json_store \<Rightarrow> 'db \<Rightarrow> string \<Rightarrow> string option \<times> 'db" where
  "js_Delete gm s db ident = gm_Delete gm db (js_ref s) ident"

definition js_Get :: "'db gorm \<Rightarrow> 'a sqlite_json_store \<Rightarrow> 'db \<Rightarrow> string \<Rightarrow> string + string \<times> 'a" where
  "js_Get gm s db ident =
     (case gm_First gm db (js_ref s) ident of
        Inl err \<Rightarrow> Inl err
      | Inr row \<Rightarrow>
          (case js_decode s (jr_Data row) of
             Inl err \<Rightarrow> Inl err
           | Inr obj \<Rightarrow> Inr (jr_Tag row, obj)))"

subsection \<open>The four stores\<close>

definition migrated ::
    "'db gorm \<Rightarrow> 'db \<Rightarrow> string \<Rightarrow> string \<Rightarrow> 'a sqlite_json_store \<Rightarrow> (string + 'a sqlite_json_store) \<times> 'db" where
  "migrated gm db table kind s =
     (case gm_AutoMigrate gm db table of
        (Some err, db1) \<Rightarrow> (Inl (kind @ '' store migrate: '' @ err), db1)
      | (None, db1) \<Rightarrow> (Inr s, db1))"

definition NewCredentialStore where
  "NewCredentialStore gm db decode =
     migrated gm db ''cliauth_credentials'' ''credential''
       (newSQLiteJSONStore ''cliauth_credentials'' ''credential'' decode)"

definition NewProviderConfigStore where
  "NewProviderConfigStore gm db decode =
     migrated gm db ''providers'' ''provider config''
       (newSQLiteJSONStoreWithColumns ''providers'' ''provider config'' ''id'' ''tag'' ''config'' decode)"

definition NewLocalAPIKeyStore where
  "NewLocalAPIKeyStore gm db decode =
     migrated gm db ''local_api_keys'' ''local api key''
       (newSQLiteJSONStoreWithColumns ''local_api_keys'' ''local api key'' ''key'' ''user_id'' ''config'' decode)"

definition NewRouteStore where
  "NewRouteStore gm db decode =
     migrated gm db ''routes'' ''route''
       (newSQLiteJSONStoreWithColumns ''routes'' ''route'' ''id'' ''tag'' ''config'' decode)"

definition CredentialStore_ListByProviderName where
  "CredentialStore_ListByProviderName gm s db providerName = js_ListByTagPrefix gm s db providerName"

definition CredentialStore_Create where
  "CredentialStore_Create marshal gm s db ident providerName obj = js_Create marshal gm s db ident providerName obj"

definition CredentialStore_Update where
  "CredentialStore_Update marshal gm s db ident obj = js_Update marshal gm s db ident obj"

definition CredentialStore_Get where
  "CredentialStore_Get gm s db ident = js_Get gm s db ident"

definition ProviderConfigStore_ListByName where
  "ProviderConfigStore_ListByName gm s db name = js_ListByTag gm s db name"

definition ProviderConfigStore_Create where
  "ProviderConfigStore_Create marshal gm s db ident name obj = js_Create marshal gm s db ident name obj"

definition ProviderConfigStore_Update where
  "ProviderConfigStore_Update marshal gm s db ident obj = js_Update marshal gm s db ident obj"

definition ProviderConfigStore_Delete where
  "ProviderConfigStore_Delete gm s db ident = js_Delete gm s db ident"

definition ProviderConfigStore_Get where
  "ProviderConfigStore_Get gm s db ident = js_Get gm s db ident"

definition LocalAPIKeyStore_ListByUserID where
  "LocalAPIKeyStore_ListByUserID gm s db userID = js_ListByTagPrefix gm s db userID"

definition error_only :: "(string + 'a) \<times> 'db \<Rightarrow> string option \<times> 'db" where
  "error_only r = (case r of (Inl err, db) \<Rightarrow> (Some err, db) | (Inr _, db) \<Rightarrow> (None, db))"

definition LocalAPIKeyStore_Create where
  "LocalAPIKeyStore_Create marshal gm s db key userID obj = error_only (js_Create marshal gm s db key userID obj)"

definition LocalAPIKeyStore_Update where
  "LocalAPIKeyStore_Update marshal gm s db key obj = js_Update marshal gm s db key obj"

definition LocalAPIKeyStore_Delete where
  "LocalAPIKeyStore_Delete gm s db key = js_Delete gm s db key"

definition LocalAPIKeyStore_Get where
  "LocalAPIKeyStore_Get gm s db key = map_sum id snd (js_Get gm s db key)"

definition RouteStore_ListByTag where
  "RouteStore_ListByTag gm s db tag = js_ListByTag gm s db tag"

definition RouteStore_ListByTagPrefix where
  "RouteStore_ListByTagPrefix gm s db tagPrefix = js_ListByTagPrefix gm s db tagPrefix"

definition RouteStore_Create where
  "RouteStore_Create marshal gm s db ident tag obj = error_only (js_Create marshal gm s db ident tag obj)"

definition RouteStore_Update where
  "RouteStore_Update marshal gm s db ident obj = js_Update marshal gm s db ident obj"

definition RouteStore_Delete where
  "RouteStore_Delete gm s db ident = js_Delete gm s db ident"

definition RouteStore_Get where
  "RouteStore_Get gm s db ident = map_sum id snd (js_Get gm s db ident)"

subsection \<open>The config store\<close>

text \<open>\<open>SQLiteConfigStore\<close> after \<open>Provision\<close> has opened the database: it keeps the stores it has
  handed out; only the provider store is built anew on every call.\<close>

record ('c, 'p, 'k, 'r) sqlite_config_store =
  sc_credentialStore :: "'c sqlite_json_store option"
  sc_providerStore :: "'p sqlite_json_store option"
  sc_localAPIKeyStore :: "'k sqlite_json_store option"
  sc_routeStore :: "'r sqlite_json_store option"

definition GetCredentialStore where
  "GetCredentialStore gm s db decode =
     (case sc_credentialStore s of
        Some store \<Rightarrow> (Inr store, s, db)
      | None \<Rightarrow>
          (case NewCredentialStore gm db decode of
             (Inl err, db1) \<Rightarrow> (Inl (''init credential store: '' @ err), s, db1)
           | (Inr store, db1) \<Rightarrow> (Inr store, s\<lparr>sc_credentialStore := Some store\<rparr>, db1)))"

definition GetProviderConfigStore where
  "GetProviderConfigStore gm s db decode =
     (case NewProviderConfigStore gm db decode of
        (Inl err, db1) \<Rightarrow> (Inl (''init provider config store: '' @ err), s, db1)
      | (Inr store, db1) \<Rightarrow> (Inr store, s\<lparr>sc_providerStore := Some store\<rparr>, db1))"

definition GetLocalAPIKeyStore where
  "GetLocalAPIKeyStore gm s db decode =
     (case sc_localAPIKeyStore s of
        Some store \<Rightarrow> (Inr store, s, db)
      | None \<Rightarrow>
          (case NewLocalAPIKeyStore gm db decode of
             (Inl err, db1) \<Rightarrow> (Inl (''init local api key store: '' @ err), s, db1)
           | (Inr store, db1) \<Rightarrow> (Inr store, s\<lparr>sc_localAPIKeyStore := Some store\<rparr>, db1)))"

definition GetRouteStore where
  "GetRouteStore gm s db decode =
     (case sc_routeStore s of
        Some store \<Rightarrow> (Inr store, s, db)
      | None \<Rightarrow>
          (case NewRouteStore gm db decode of
             (Inl err, db1) \<Rightarrow> (Inl (''init route store: '' @ err), s, db1)
           | (Inr store, db1) \<Rightarrow> (Inr store, s\<lparr>sc_routeStore := Some store\<rparr>, db1)))"

end
