(* ===== verification/Store_Spec.thy ===== *)
theory Store_Spec
  imports Json_Store
begin

text \<open>
  What the stores of configstore/sqlite promise.  The locale \<open>gorm_table\<close> says what they rely on: a
  table maps identifiers to rows; reads return what is there; a write that reports an error changes
  nothing; \<open>Create\<close> refuses an identifier that exists.  The locale \<open>object_store\<close> is the contract the
  rest of the gateway uses; the JSON store keeps it for every object that survives its JSON encoding.
  The contract is shown satisfiable on a table kept in memory.
\<close>

subsection \<open>LIKE of SQLite\<close>

text \<open>\<open>%\<close> matches any sequence, \<open>_\<close> any one character, letters match in either case.\<close>

fun sql_like :: "string \<Rightarrow> string \<Rightarrow> bool" where
  "sql_like [] s = (s = [])"
| "sql_like (p # ps) s =
     (if p = CHR ''%'' then sql_like ps s \<or> (case s of [] \<Rightarrow> False | _ # r \<Rightarrow> sql_like (p # ps) r)
      else (case s of
              [] \<Rightarrow> False
            | c # r \<Rightarrow> (p = CHR ''_'' \<or> lower_char p = lower_char c) \<and> sql_like ps r))"

declare sql_like.simps(2) [simp del]

lemma sql_like_percent: "sql_like ''%'' s"
  by (induction s) (simp_all add: sql_like.simps(2))

text \<open>The pattern of a tag prefix accepts every tag that starts with it.\<close>

lemma sql_like_prefix: "sql_like (p @ ''%'') (p @ r)"
proof (induction p)
  case Nil
  show ?case using sql_like_percent by simp
next
  case (Cons c p)
  then show ?case by (simp add: sql_like.simps(2))
qed

fun row_matches :: "row_filter \<Rightarrow> string \<Rightarrow> bool" where
  "row_matches AllRows tag = True"
| "row_matches (TagEquals t) tag = (tag = t)"
| "row_matches (TagLike p) tag = sql_like p tag"

definition found :: "row_filter \<Rightarrow> (string \<rightharpoonup> string \<times> string) \<Rightarrow> json_record list \<Rightarrow> bool" where
  "found flt m rs \<longleftrightarrow>
     sorted_wrt (<) (map jr_ID rs) \<and>
     (\<forall>row. row \<in> set rs \<longleftrightarrow> m (jr_ID row) = Some (jr_Tag row, jr_Data row) \<and> row_matches flt (jr_Tag row))"

subsection \<open>What the stores rely on\<close>

locale gorm_table =
  fixes gm :: "'db gorm" and ref :: table_ref
    and inv :: "'db \<Rightarrow> bool" and rows :: "'db \<Rightarrow> string \<rightharpoonup> string \<times> string"
  assumes Find: "inv db \<Longrightarrow> \<exists>rs. gm_Find gm db ref flt = Inr rs \<and> found flt (rows db) rs"
    and First: "inv db \<Longrightarrow> gm_First gm db ref i =
      (case rows db i of None \<Rightarrow> Inl ErrRecordNotFound | Some (t, d) \<Rightarrow> Inr \<lparr>jr_ID = i, jr_Tag = t, jr_Data = d\<rparr>)"
    and Create: "inv db \<Longrightarrow> gm_Create gm db ref row = (err, db') \<Longrightarrow>
      inv db' \<and> (if err = None then rows db (jr_ID row) = None \<and> rows db' = (rows db)(jr_ID row \<mapsto> (jr_Tag row, jr_Data row))
                 else rows db' = rows db)"
    and CreateOnConflict: "inv db \<Longrightarrow> gm_CreateOnConflict gm db ref row = (err, db') \<Longrightarrow>
      inv db' \<and> rows db' = (if err = None then (rows db)(jr_ID row \<mapsto> (jr_Tag row, jr_Data row)) else rows db)"
    and UpdateData: "inv db \<Longrightarrow> gm_UpdateData gm db ref i d = (res, db') \<Longrightarrow>
      inv db' \<and> (case (res, rows db i) of
                    (Inl _, _) \<Rightarrow> rows db' = rows db
                  | (Inr n, None) \<Rightarrow> n = 0 \<and> rows db' = rows db
                  | (Inr n, Some (t, _)) \<Rightarrow> n = 1 \<and> rows db' = (rows db)(i \<mapsto> (t, d)))"
    and Delete: "inv db \<Longrightarrow> gm_Delete gm db ref i = (err, db') \<Longrightarrow>
      inv db' \<and> rows db' = (if err = None then (rows db)(i := None) else rows db)"

subsection \<open>What the stores promise\<close>

locale object_store =
  fixes get :: "'db \<Rightarrow> string \<Rightarrow> string + string \<times> 'a"
    and create :: "'db \<Rightarrow> string \<Rightarrow> string \<Rightarrow> 'a option \<Rightarrow> (string + string) \<times> 'db"
    and update :: "'db \<Rightarrow> string \<Rightarrow> 'a option \<Rightarrow> string option \<times> 'db"
    and delete :: "'db \<Rightarrow> string \<Rightarrow> string option \<times> 'db"
    and inv :: "'db \<Rightarrow> bool" and faithful :: "'a \<Rightarrow> bool" and contents :: "'db \<Rightarrow> string \<rightharpoonup> string \<times> 'a"
  assumes get: "inv db \<Longrightarrow> contents db i = Some v \<Longrightarrow> get db i = Inr v"
    and get_missing: "inv db \<Longrightarrow> contents db i = None \<Longrightarrow> \<exists>err. get db i = Inl err"
    and create: "inv db \<Longrightarrow> faithful x \<Longrightarrow> create db i t (Some x) = (res, db') \<Longrightarrow>
      inv db' \<and> (case res of
        Inr i' \<Rightarrow> i' = i \<and> contents db i = None \<and> contents db' = (contents db)(i \<mapsto> (t, x))
      | Inl _ \<Rightarrow> contents db' = contents db)"
    and update: "inv db \<Longrightarrow> faithful x \<Longrightarrow> update db i (Some x) = (err, db') \<Longrightarrow>
      inv db' \<and> (case (err, contents db i) of
        (None, Some (t, _)) \<Rightarrow> contents db' = (contents db)(i \<mapsto> (t, x))
      | (None, None) \<Rightarrow> \<exists>t. contents db' = (contents db)(i \<mapsto> (t, x))
      | (Some _, _) \<Rightarrow> contents db' = contents db)"
    and delete: "inv db \<Longrightarrow> delete db i = (err, db') \<Longrightarrow>
      inv db' \<and> contents db' = (if err = None then (contents db)(i := None) else contents db)"
begin

lemma get_create:
  assumes "inv db" and "faithful x" and "create db i t (Some x) = (Inr i', db')"
  shows "get db' i = Inr (t, x) \<and> (j \<noteq> i \<longrightarrow> contents db' j = contents db j)"
  using create [OF assms] get by auto

lemma get_update:
  assumes "inv db" and "faithful x" and "contents db i = Some (t, y)" and "update db i (Some x) = (None, db')"
  shows "get db' i = Inr (t, x) \<and> (j \<noteq> i \<longrightarrow> contents db' j = contents db j)"
  using update [OF assms(1,2,4)] assms(3) get by auto

lemma get_delete:
  assumes "inv db" and "delete db i = (None, db')"
  shows "(\<exists>err. get db' i = Inl err) \<and> (j \<noteq> i \<longrightarrow> contents db' j = contents db j)"
  using delete [OF assms] get_missing by auto

lemma create_twice:
  assumes "inv db" and "faithful x" and "contents db i = Some v" and "create db i t (Some x) = (res, db')"
  shows "\<exists>err. res = Inl err \<and> contents db' = contents db"
  using create [OF assms(1,2,4)] assms(3) by (cases res) auto

end

subsection \<open>The JSON store keeps the promise\<close>

definition decoded :: "(string \<Rightarrow> string + 'a) \<Rightarrow> string \<times> string \<Rightarrow> (string \<times> 'a) option" where
  "decoded decode r = (case decode (snd r) of Inl _ \<Rightarrow> None | Inr x \<Rightarrow> Some (fst r, x))"

definition survives_json :: "('a \<Rightarrow> string + string) \<Rightarrow> (string \<Rightarrow> string + 'a) \<Rightarrow> 'a \<Rightarrow> bool" where
  "survives_json marshal decode x \<longleftrightarrow> (case marshal x of Inl _ \<Rightarrow> True | Inr d \<Rightarrow> decode d = Inr x)"

text \<open>Every row of the table decodes.\<close>

definition rows_decode :: "(string \<Rightarrow> string + 'a) \<Rightarrow> (string \<rightharpoonup> string \<times> string) \<Rightarrow> bool" where
  "rows_decode decode m \<longleftrightarrow> (\<forall>i r. m i = Some r \<longrightarrow> decoded decode r \<noteq> None)"

definition objects :: "(string \<Rightarrow> string + 'a) \<Rightarrow> (string \<rightharpoonup> string \<times> string) \<Rightarrow> string \<rightharpoonup> string \<times> 'a" where
  "objects decode m i = Option.bind (m i) (decoded decode)"

lemma objects_upd:
  "decode d = Inr x \<Longrightarrow> objects decode (m(i \<mapsto> (t, d))) = (objects decode m)(i \<mapsto> (t, x))"
  "objects decode (m(i := None)) = (objects decode m)(i := None)"
  by (auto simp: fun_eq_iff objects_def decoded_def)

lemma rows_decode_upd:
  "rows_decode decode m \<Longrightarrow> decode d = Inr x \<Longrightarrow> rows_decode decode (m(i \<mapsto> (t, d)))"
  "rows_decode decode m \<Longrightarrow> rows_decode decode (m(i := None))"
  by (auto simp: rows_decode_def decoded_def)

lemma rows_decode_objects:
  "rows_decode decode m \<Longrightarrow> objects decode m i = None \<longleftrightarrow> m i = None"
  by (cases "m i") (auto simp: rows_decode_def objects_def)

lemma rows_decodeD: "rows_decode decode m \<Longrightarrow> m i = Some (t, d) \<Longrightarrow> \<exists>x. decode d = Inr x"
  by (cases "decode d") (force simp: rows_decode_def decoded_def)+

context gorm_table
begin

lemma json_store_is_object_store:
  assumes ref: "js_ref s = ref"
  shows "object_store (js_Get gm s) (js_Create marshal gm s) (js_Update marshal gm s) (js_Delete gm s)
           (\<lambda>db. inv db \<and> rows_decode (js_decode s) (rows db)) (survives_json marshal (js_decode s))
           (\<lambda>db. objects (js_decode s) (rows db))"
proof (unfold_locales, goal_cases)
  case (1 db i v)
  then show ?case
    by (cases "rows db i") (auto simp: js_Get_def ref First objects_def decoded_def split: sum.splits)
next
  case (2 db i)
  then have "rows db i = None" by (simp add: rows_decode_objects)
  with 2 show ?case by (simp add: js_Get_def ref First)
next
  case (3 db x i t res db')
  show ?case
  proof (cases "js_newRecord marshal s i t (Some x)")
    case (Inl err)
    with 3 show ?thesis by (auto simp: js_Create_def)
  next
    case (Inr row)
    then have row: "jr_ID row = i" "jr_Tag row = t" "marshal x = Inr (jr_Data row)"
      by (auto simp: js_newRecord_def split: if_splits sum.splits)
    with 3 have d: "js_decode s (jr_Data row) = Inr x" by (simp add: survives_json_def)
    obtain err db1 where c: "gm_Create gm db ref row = (err, db1)" by fastforce
    with 3 Inr row have "db' = db1" "res = (case err of None \<Rightarrow> Inr i | Some e \<Rightarrow> Inl e)"
      by (auto simp: js_Create_def ref split: option.splits)
    with Create [OF conjunct1 [OF 3(1)] c] row d 3(1) show ?thesis
      by (auto simp: objects_upd rows_decode_upd rows_decode_objects split: option.splits)
  qed
next
  case (4 db x i err db')
  show ?case
  proof (cases "i = [] \<or> (\<exists>e. marshal x = Inl e)")
    case True
    with 4(3) have "db' = db \<and> err \<noteq> None" by (auto simp: js_Update_def split: if_splits)
    with 4(1) show ?thesis by auto
  next
    case False
    then obtain d where m: "marshal x = Inr d" by (cases "marshal x") auto
    with 4 have d: "js_decode s d = Inr x" by (simp add: survives_json_def)
    obtain res db1 where u: "gm_UpdateData gm db ref i d = (res, db1)" by fastforce
    with 4 False m have e: "db' = db1"
      "err = (case res of Inl e \<Rightarrow> Some e | Inr n \<Rightarrow> if n = 0 then Some ErrRecordNotFound else None)"
      by (auto simp: js_Update_def ref split: sum.splits)
    show ?thesis
    proof (cases "rows db i")
      case None
      with UpdateData [OF conjunct1 [OF 4(1)] u] e 4(1) show ?thesis
        by (auto split: sum.splits option.splits)
    next
      case (Some r)
      obtain t d' where r: "r = (t, d')" by (cases r)
      with 4(1) Some obtain y where "js_decode s d' = Inr y" using rows_decodeD by blast
      then have "objects (js_decode s) (rows db) i = Some (t, y)" by (simp add: objects_def decoded_def Some r)
      with UpdateData [OF conjunct1 [OF 4(1)] u] e 4(1) Some r d show ?thesis
        by (auto simp: objects_upd rows_decode_upd split: sum.splits)
    qed
  qed
next
  case (5 db i err db')
  with Delete [of db i err db'] show ?case
    by (auto simp: js_Delete_def ref objects_upd rows_decode_upd)
qed

end

text \<open>A store on its table.\<close>

locale json_table = gorm_table gm ref inv rows
  for gm :: "'db gorm" and ref :: table_ref and inv :: "'db \<Rightarrow> bool" and rows :: "'db \<Rightarrow> string \<rightharpoonup> string \<times> string" +
  fixes s :: "'a sqlite_json_store" and marshal :: "'a \<Rightarrow> string + string"
  assumes store_ref: "js_ref s = ref"

sublocale json_table \<subseteq> object_store "js_Get gm s" "js_Create marshal gm s" "js_Update marshal gm s" "js_Delete gm s"
    "\<lambda>db. inv db \<and> rows_decode (js_decode s) (rows db)" "survives_json marshal (js_decode s)"
    "\<lambda>db. objects (js_decode s) (rows db)"
  by (rule json_store_is_object_store [OF store_ref])

context json_table
begin

lemma decode_rows_all:
  "rows_decode (js_decode s) m \<Longrightarrow> (\<And>row. row \<in> set rs \<Longrightarrow> m (jr_ID row) = Some (jr_Tag row, jr_Data row)) \<Longrightarrow>
   \<exists>xs. decode_rows (js_decode s) rs = Inr xs \<and>
     list_all2 (\<lambda>row x. objects (js_decode s) m (jr_ID row) = Some (jr_Tag row, x)) rs xs"
proof (induction rs)
  case (Cons row rs)
  then have "m (jr_ID row) = Some (jr_Tag row, jr_Data row)" by simp
  with Cons.prems(1) obtain x where "js_decode s (jr_Data row) = Inr x" using rows_decodeD by blast
  moreover from Cons obtain xs where "decode_rows (js_decode s) rs = Inr xs"
    "list_all2 (\<lambda>row x. objects (js_decode s) m (jr_ID row) = Some (jr_Tag row, x)) rs xs" by auto
  ultimately show ?case
    using \<open>m (jr_ID row) = _\<close> by (intro exI [of _ "x # xs"]) (simp add: objects_def decoded_def)
qed simp

lemma listed:
  assumes "inv db" and "rows_decode (js_decode s) (rows db)"
  shows "\<exists>rs xs. gm_Find gm db ref flt = Inr rs \<and> found flt (rows db) rs \<and> decode_rows (js_decode s) rs = Inr xs \<and>
           list_all2 (\<lambda>row x. objects (js_decode s) (rows db) (jr_ID row) = Some (jr_Tag row, x)) rs xs"
proof -
  from Find [OF assms(1)] obtain rs where rs: "gm_Find gm db ref flt = Inr rs" "found flt (rows db) rs" by blast
  moreover have "row \<in> set rs \<Longrightarrow> rows db (jr_ID row) = Some (jr_Tag row, jr_Data row)" for row
    using rs(2) by (simp add: found_def)
  ultimately show ?thesis using decode_rows_all [OF assms(2), of rs] by blast
qed

text \<open>A listing by tag prefix is exactly the objects whose tag matches the pattern.\<close>

lemma list_by_prefix:
  assumes "inv db" and "rows_decode (js_decode s) (rows db)"
  shows "\<exists>xs. js_ListByTagPrefix gm s db p = Inr xs \<and>
           (\<forall>x. x \<in> set xs \<longleftrightarrow>
              (\<exists>i t. objects (js_decode s) (rows db) i = Some (t, x) \<and> (p = [] \<or> sql_like (p @ ''%'') t)))"
proof -
  let ?flt = "if p \<noteq> [] then TagLike (p @ ''%'') else AllRows"
  from listed [OF assms, of ?flt] obtain rs xs where
    rs: "gm_Find gm db ref ?flt = Inr rs" "found ?flt (rows db) rs" "decode_rows (js_decode s) rs = Inr xs"
      "list_all2 (\<lambda>row x. objects (js_decode s) (rows db) (jr_ID row) = Some (jr_Tag row, x)) rs xs" by blast
  have "x \<in> set xs \<longleftrightarrow> (\<exists>i t. objects (js_decode s) (rows db) i = Some (t, x) \<and> row_matches ?flt t)" for x
  proof
    assume "x \<in> set xs"
    from list_all2_mem(2) [OF rs(4) this]
    obtain row where "row \<in> set rs" "objects (js_decode s) (rows db) (jr_ID row) = Some (jr_Tag row, x)" by blast
    moreover from this(1) rs(2) have "row_matches ?flt (jr_Tag row)" unfolding found_def by blast
    ultimately show "\<exists>i t. objects (js_decode s) (rows db) i = Some (t, x) \<and> row_matches ?flt t" by blast
  next
    assume "\<exists>i t. objects (js_decode s) (rows db) i = Some (t, x) \<and> row_matches ?flt t"
    then obtain i t where o: "objects (js_decode s) (rows db) i = Some (t, x)" "row_matches ?flt t" by blast
    then obtain d where "rows db i = Some (t, d)"
      by (cases "rows db i") (auto simp: objects_def decoded_def split: sum.splits)
    with o(2) rs(2) have "\<lparr>jr_ID = i, jr_Tag = t, jr_Data = d\<rparr> \<in> set rs" by (simp add: found_def)
    from list_all2_mem(1) [OF rs(4) this] o(1) show "x \<in> set xs" by auto
  qed
  with rs(1,3) show ?thesis
    by (intro exI [of _ xs]) (auto simp: js_ListByTagPrefix_def store_ref)
qed

end

subsection \<open>A table in memory\<close>

type_synonym mem_table = "(string, string \<times> string) gomap"

definition mem_gorm :: "mem_table gorm" where
  "mem_gorm =
     \<lparr>gm_AutoMigrate = (\<lambda>db table. (None, db)),
      gm_Find = (\<lambda>db ref flt. Inr (map (\<lambda>(i, t, d). \<lparr>jr_ID = i, jr_Tag = t, jr_Data = d\<rparr>)
                    (filter (\<lambda>(i, t, d). row_matches flt t) (sort_key fst db)))),
      gm_First = (\<lambda>db ref i. case map_of db i of
                    None \<Rightarrow> Inl ErrRecordNotFound
                  | Some (t, d) \<Rightarrow> Inr \<lparr>jr_ID = i, jr_Tag = t, jr_Data = d\<rparr>),
      gm_Create = (\<lambda>db ref row.
         if map_of db (jr_ID row) \<noteq> None then (Some ''UNIQUE constraint failed'', db)
         else (None, AList.update (jr_ID row) (jr_Tag row, jr_Data row) db)),
      gm_CreateOnConflict = (\<lambda>db ref row. (None, AList.update (jr_ID row) (jr_Tag row, jr_Data row) db)),
      gm_UpdateData = (\<lambda>db ref i d. case map_of db i of
                    None \<Rightarrow> (Inr 0, db)
                  | Some (t, _) \<Rightarrow> (Inr 1, AList.update i (t, d) db)),
      gm_Delete = (\<lambda>db ref i. (None, AList.delete i db))\<rparr>"

lemma mem_rows: "map_of (AList.update i v db) = (map_of db)(i \<mapsto> v)" "map_of (AList.delete i db) = (map_of db)(i := None)"
  by (auto simp: fun_eq_iff)

interpretation mem: gorm_table mem_gorm ref gomap_ok map_of for ref
proof (unfold_locales, goal_cases)
  case (1 db flt)
  let ?rs = "map (\<lambda>(i, t, d). \<lparr>jr_ID = i, jr_Tag = t, jr_Data = d\<rparr>) (filter (\<lambda>(i, t, d). row_matches flt t) (sort_key fst db))"
  have "distinct (map fst (sort_key fst db))" using 1 by (metis distinct_map distinct_sort set_sort)
  moreover have "sorted (map fst (sort_key fst db))" by simp
  ultimately have "sorted_wrt (<) (map fst (sort_key fst db))" using strict_sorted_iff by blast
  then have "sorted_wrt (<) (map fst (filter (\<lambda>(i, t, d). row_matches flt t) (sort_key fst db)))"
    by (simp add: sorted_wrt_map sorted_wrt_filter)
  then have "sorted_wrt (<) (map jr_ID ?rs)"
    by (simp add: comp_def case_prod_unfold sorted_wrt_map)
  moreover have "row \<in> set ?rs \<longleftrightarrow> map_of db (jr_ID row) = Some (jr_Tag row, jr_Data row) \<and> row_matches flt (jr_Tag row)" for row
    using gomap_ok_mem [OF 1, of "jr_ID row" "(jr_Tag row, jr_Data row)"]
    by (force simp: image_iff)
  ultimately have "found flt (map_of db) ?rs" unfolding found_def by blast
  then show ?case by (simp add: mem_gorm_def)
next
  case (3 db row err db')
  then show ?case by (cases "map_of db (jr_ID row)") (auto simp: mem_gorm_def mem_rows simp del: map_of_eq_Some_iff)
qed (auto simp: mem_gorm_def mem_rows simp del: map_of_eq_Some_iff split: option.splits if_splits prod.splits)

end
