(* ===== verification/Store_Props.thy ===== *)
theory Store_Props
  imports Store_Spec Manager_Props
begin

text \<open>
  The credential manager on the SQLite store: memory and table stay in step, and a restart finds every
  credential again.  The store the manager calls (\<open>CredentialStorer\<close>) is \<open>sqlite_cred_store\<close>, the
  operations of credential.go on a gorm database.
\<close>

definition sqlite_cred_store ::
    "(credential \<Rightarrow> string + string) \<Rightarrow> 'db gorm \<Rightarrow> credential sqlite_json_store \<Rightarrow> 'db cred_store" where
  "sqlite_cred_store marshal gm s =
     \<lparr>cs_ListByProviderName = (\<lambda>db providerName.
        map_sum id (map StoredCredential) (CredentialStore_ListByProviderName gm s db providerName)),
      cs_Create = (\<lambda>db ident providerName cred.
        error_only (CredentialStore_Create marshal gm s db ident providerName (Some cred))),
      cs_Update = (\<lambda>db ident cred. CredentialStore_Update marshal gm s db ident (Some cred)),
      cs_Delete = (\<lambda>db ident. js_Delete gm s db ident)\<rparr>"

text \<open>Metadata that comes back from JSON as it was: no integers (they come back as float64).\<close>

definition json_safe :: "credential \<Rightarrow> bool" where
  "json_safe c \<longleftrightarrow>
     list_all (\<lambda>(k, v). case v of GNil \<Rightarrow> True | GBool _ \<Rightarrow> True | GString _ \<Rightarrow> True | GFloat64 _ \<Rightarrow> True | _ \<Rightarrow> False)
       (c_Metadata c)"

definition store_in_sync ::
    "(credential \<Rightarrow> string + string) \<Rightarrow> 'db gorm \<Rightarrow> ('db \<Rightarrow> bool) \<Rightarrow> ('db \<Rightarrow> string \<rightharpoonup> string \<times> string) \<Rightarrow>
     credential sqlite_json_store \<Rightarrow> 'db cred_manager \<Rightarrow> bool" where
  "store_in_sync marshal gm dbok rows s m \<longleftrightarrow>
     cm_store m = Some (sqlite_cred_store marshal gm s) \<and>
     (dbok (cm_db m) \<and> rows_decode (js_decode s) (rows (cm_db m))) \<and>
     (\<forall>i. map_option snd (objects (js_decode s) (rows (cm_db m)) i) = map_of (cm_creds m) i) \<and>
     (\<forall>i c. map_of (cm_creds m) i = Some c \<longrightarrow>
        c_ID c = i \<and> TrimSpace i \<noteq> [] \<and> TrimSpace (c_Provider c) \<noteq> [] \<and> json_safe c)"

subsection \<open>Each operation keeps them in step\<close>

lemma json_safe_cong: "c_Metadata c = c_Metadata d \<Longrightarrow> json_safe c = json_safe d"
  by (simp add: json_safe_def)

lemma mark_cred_frame:
  "c_Metadata (snd (mark_cred m c r now)) = c_Metadata c \<and> c_Provider (snd (mark_cred m c r now)) = c_Provider c"
  by (auto simp: mark_cred_def mark_success_def mark_model_failure_def mark_cred_failure_def Let_def split: option.splits)

lemma prepare_registration_frame:
  "c_Metadata (prepare_registration env c) = c_Metadata c \<and> c_Provider (prepare_registration env c) = c_Provider c \<and>
   c_ID (prepare_registration env c) = (if TrimSpace (c_ID c) = [] then e_uuid env else c_ID c)"
  by (simp add: prepare_registration_def Let_def)

lemma sync_commit:
  assumes "store_in_sync marshal gm dbok rows s m"
    and "dbok db'" and "rows_decode (js_decode s) (rows db')"
    and "objects (js_decode s) (rows db') = (objects (js_decode s) (rows (cm_db m)))(c_ID c \<mapsto> (t, c))"
    and "TrimSpace (c_ID c) \<noteq> []" and "TrimSpace (c_Provider c) \<noteq> []" and "json_safe c"
  shows "store_in_sync marshal gm dbok rows s (notify (publish (commit (m\<lparr>cm_db := db'\<rparr>) c) c now) ev)"
  using assms by (auto simp: store_in_sync_def notify_def publish_def commit_def)

lemma sync_error:
  assumes "store_in_sync marshal gm dbok rows s m"
    and "dbok db'" and "rows_decode (js_decode s) (rows db')"
    and "objects (js_decode s) (rows db') = objects (js_decode s) (rows (cm_db m))"
  shows "store_in_sync marshal gm dbok rows s (m\<lparr>cm_db := db'\<rparr>)"
  using assms by (auto simp: store_in_sync_def)

lemma sync_notify [simp]:
  "store_in_sync marshal gm dbok rows s (notify m ev) = store_in_sync marshal gm dbok rows s m"
  by (simp add: store_in_sync_def notify_def)

lemma json_table_object_store:
  "json_table gm ref dbok rows s \<Longrightarrow>
   object_store (js_Get gm s) (js_Create marshal gm s) (js_Update marshal gm s) (js_Delete gm s)
     (\<lambda>db. dbok db \<and> rows_decode (js_decode s) (rows db)) (survives_json marshal (js_decode s))
     (\<lambda>db. objects (js_decode s) (rows db))"
  by (rule gorm_table.json_store_is_object_store [of gm ref dbok rows])
     (auto simp: json_table_def json_table_axioms_def)

lemmas store_create_law = object_store.create [OF json_table_object_store]
lemmas store_update_law = object_store.update [OF json_table_object_store]
lemmas store_delete_law = object_store.delete [OF json_table_object_store]

lemma syncD:
  assumes "store_in_sync marshal gm dbok rows s m"
  shows "cm_store m = Some (sqlite_cred_store marshal gm s)"
    and "dbok (cm_db m) \<and> rows_decode (js_decode s) (rows (cm_db m))"
    and "map_option snd (objects (js_decode s) (rows (cm_db m)) i) = map_of (cm_creds m) i"
    and "map_of (cm_creds m) i = Some c \<Longrightarrow>
       c_ID c = i \<and> TrimSpace i \<noteq> [] \<and> TrimSpace (c_Provider c) \<noteq> [] \<and> json_safe c"
  using assms unfolding store_in_sync_def by blast+

lemma Register_sync:
  assumes table: "json_table gm ref dbok rows s" and safe: "\<And>x. json_safe x \<Longrightarrow> survives_json marshal (js_decode s) x"
    and sync: "store_in_sync marshal gm dbok rows s m" and "\<not> shouldSkipPersist ctx"
    and "json_safe c" and "TrimSpace (e_uuid env) \<noteq> []"
  shows "store_in_sync marshal gm dbok rows s (snd (Register m ctx (Some c) env))"
proof (cases "TrimSpace (c_Provider c) = []")
  case True
  then show ?thesis using sync by (simp add: Register_def)
next
  case False
  let ?c = "prepare_registration env c"
  note F = prepare_registration_frame [of env c]
  have ok: "json_safe ?c" "TrimSpace (c_ID ?c) \<noteq> []" "TrimSpace (c_Provider ?c) \<noteq> []"
    using assms(5,6) False F json_safe_cong [of ?c c] by auto
  obtain res db' where c: "js_Create marshal gm s (cm_db m) (c_ID ?c) (c_Provider ?c) (Some ?c) = (res, db')" by fastforce
  note law = store_create_law [OF table syncD(2) [OF sync] safe [OF ok(1)] c]
  have "Register m ctx (Some c) env =
      (case res of
         Inl e \<Rightarrow> (Some (''manager: create credential '' @ c_ID ?c @ '': '' @ e), m\<lparr>cm_db := db'\<rparr>)
       | Inr _ \<Rightarrow> (None, notify (publish (commit (m\<lparr>cm_db := db'\<rparr>) ?c) ?c (e_schedNow env)) (OnCredentialRegistered ?c)))"
    using assms(4) False c syncD(1) [OF sync]
    by (cases res) (simp_all add: Register_def store_create_def sqlite_cred_store_def CredentialStore_Create_def
        error_only_def Let_def)
  with law sync_commit [OF sync, of db' ?c] sync_error [OF sync, of db'] ok show ?thesis by (cases res) auto
qed

lemma Update_sync:
  assumes table: "json_table gm ref dbok rows s" and safe: "\<And>x. json_safe x \<Longrightarrow> survives_json marshal (js_decode s) x"
    and sync: "store_in_sync marshal gm dbok rows s m" and "\<not> shouldSkipPersist ctx"
    and "json_safe c" and "TrimSpace (c_Provider c) \<noteq> []" and "TrimSpace (c_ID c) \<noteq> []"
  shows "store_in_sync marshal gm dbok rows s (snd (Update m ctx (Some c) env))"
proof -
  let ?c = "c\<lparr>c_UpdatedAt := e_now env\<rparr>"
  have ok: "json_safe ?c" "TrimSpace (c_ID ?c) \<noteq> []" "TrimSpace (c_Provider ?c) \<noteq> []"
    using assms(5-7) json_safe_cong [of ?c c] by auto
  obtain err db' where c: "js_Update marshal gm s (cm_db m) (c_ID ?c) (Some ?c) = (err, db')" by fastforce
  note law = store_update_law [OF table syncD(2) [OF sync] safe [OF ok(1)] c]
  have "Update m ctx (Some c) env =
      (case err of
         Some e \<Rightarrow> (Some (''manager: update credential '' @ c_ID ?c @ '': '' @ e), m\<lparr>cm_db := db'\<rparr>)
       | None \<Rightarrow> (None, notify (publish (commit (m\<lparr>cm_db := db'\<rparr>) ?c) ?c (e_schedNow env)) (OnCredentialUpdated ?c)))"
    using assms(4) c syncD(1) [OF sync]
    by (cases err) (simp_all add: Update_def store_update_def sqlite_cred_store_def CredentialStore_Update_def Let_def)
  with law sync_commit [OF sync, of db' ?c] sync_error [OF sync, of db'] ok show ?thesis
    by (cases err) (auto split: option.splits)
qed

lemma MarkResult_sync:
  assumes "json_table gm ref dbok rows s" and "\<And>x. json_safe x \<Longrightarrow> survives_json marshal (js_decode s) x"
    and sync: "store_in_sync marshal gm dbok rows s m" and "\<not> shouldSkipPersist ctx"
  shows "store_in_sync marshal gm dbok rows s (MarkResult m ctx result now env)"
proof (cases "map_of (cm_creds m) (TrimSpace (r_CredentialID result))")
  case None
  then show ?thesis using sync by (simp add: MarkResult_def Let_def)
next
  case (Some c)
  obtain changed c' where mark: "mark_cred m c result now = (changed, c')" by fastforce
  let ?c = "c'\<lparr>c_UpdatedAt := now\<rparr>"
  have "c_Metadata ?c = c_Metadata c" "c_Provider ?c = c_Provider c" "c_ID ?c = c_ID c"
    using mark_cred_frame [of m c result now] mark_cred_id [of m c result now] mark by simp_all
  with syncD(4) [OF sync Some] json_safe_cong [of ?c c]
  have "store_in_sync marshal gm dbok rows s (snd (Update m ctx (Some ?c) env))"
    by (intro Update_sync [OF assms]) auto
  with sync Some mark show ?thesis by (simp add: MarkResult_def Let_def)
qed

lemma Deregister_sync:
  assumes table: "json_table gm ref dbok rows s" and sync: "store_in_sync marshal gm dbok rows s m"
    and "\<not> shouldSkipPersist ctx" and "fst (Deregister m ctx i) = None"
  shows "store_in_sync marshal gm dbok rows s (snd (Deregister m ctx i))"
proof (cases "TrimSpace i = [] \<or> map_of (cm_creds m) (TrimSpace i) = None")
  case True
  then show ?thesis using sync by (auto simp: Deregister_def Let_def)
next
  case False
  obtain err db' where d: "js_Delete gm s (cm_db m) (TrimSpace i) = (err, db')" by fastforce
  note law = store_delete_law [OF table syncD(2) [OF sync] d]
  from assms(3,4) False d syncD(1) [OF sync] law sync show ?thesis
    by (auto simp: Deregister_def Let_def sqlite_cred_store_def store_in_sync_def)
qed

subsection \<open>Restart\<close>

text \<open>The operations a running gateway applies to the manager.  In a run without storage failure no
  deletion reports an error; a failed creation or update is allowed.\<close>

datatype mgr_op =
    DoRegister credential call_env
  | DoUpdate credential call_env
  | DoMark mark_result gotime call_env
  | DoDeregister string
  | DoPick string string "string list" gotime gotime gotime

fun mgr_step :: "go_ctx \<Rightarrow> 'st cred_manager \<Rightarrow> mgr_op \<Rightarrow> 'st cred_manager" where
  "mgr_step ctx m (DoRegister c env) = snd (Register m ctx (Some c) env)"
| "mgr_step ctx m (DoUpdate c env) = snd (Update m ctx (Some c) env)"
| "mgr_step ctx m (DoMark result now env) = MarkResult m ctx result now env"
| "mgr_step ctx m (DoDeregister i) = snd (Deregister m ctx i)"
| "mgr_step ctx m (DoPick p md tried n1 n2 n3) = snd (Pick m p md tried n1 n2 n3)"

fun op_ok :: "go_ctx \<Rightarrow> 'st cred_manager \<Rightarrow> mgr_op \<Rightarrow> bool" where
  "op_ok ctx m (DoRegister c env) = (json_safe c \<and> TrimSpace (e_uuid env) \<noteq> [])"
| "op_ok ctx m (DoUpdate c env) = (json_safe c \<and> TrimSpace (c_Provider c) \<noteq> [] \<and> TrimSpace (c_ID c) \<noteq> [])"
| "op_ok ctx m (DoDeregister i) = (fst (Deregister m ctx i) = None)"
| "op_ok ctx m _ = True"

fun run_ok :: "go_ctx \<Rightarrow> 'st cred_manager \<Rightarrow> mgr_op list \<Rightarrow> bool" where
  "run_ok ctx m [] = True"
| "run_ok ctx m (op # ops) = (op_ok ctx m op \<and> run_ok ctx (mgr_step ctx m op) ops)"

lemma mgr_step_sync:
  assumes "json_table gm ref dbok rows s" and "\<And>x. json_safe x \<Longrightarrow> survives_json marshal (js_decode s) x"
    and "store_in_sync marshal gm dbok rows s m" and "\<not> shouldSkipPersist ctx" and "op_ok ctx m op"
  shows "store_in_sync marshal gm dbok rows s (mgr_step ctx m op)"
proof (cases op)
  case (DoPick p md tried n1 n2 n3)
  obtain r sch where "sched_pick (cm_scheduler m) p md tried n1 n2 n3 = (r, sch)" by fastforce
  with assms(3) show ?thesis by (simp add: DoPick Pick_def store_in_sync_def)
next
  case (DoRegister c env)
  with assms(5) show ?thesis by (auto intro: Register_sync [OF assms(1-4)])
next
  case (DoUpdate c env)
  with assms(5) show ?thesis by (auto intro: Update_sync [OF assms(1-4)])
next
  case (DoMark result now env)
  then show ?thesis by (auto intro: MarkResult_sync [OF assms(1-4)])
next
  case (DoDeregister i)
  with assms(5) show ?thesis by (auto intro: Deregister_sync [OF assms(1,3,4)])
qed

lemma run_sync:
  assumes "json_table gm ref dbok rows s" and "\<And>x. json_safe x \<Longrightarrow> survives_json marshal (js_decode s) x"
    and "\<not> shouldSkipPersist ctx"
  shows "store_in_sync marshal gm dbok rows s m \<Longrightarrow> run_ok ctx m ops \<Longrightarrow>
    store_in_sync marshal gm dbok rows s (foldl (mgr_step ctx) m ops)"
proof (induction ops arbitrary: m)
  case (Cons op ops)
  with mgr_step_sync [OF assms(1,2) Cons.prems(1) assms(3), of op] show ?case by simp
qed simp

lemma empty_sync:
  assumes "dbok db" and "rows db = Map.empty"
  shows "store_in_sync marshal gm dbok rows s (NewManager (Some (sqlite_cred_store marshal gm s)) db strategy)"
  using assms by (simp add: store_in_sync_def NewManager_def Let_def rows_decode_def objects_def)

text \<open>What \<open>Load\<close> finds in a table that is in step with a manager.\<close>

lemma sync_listing:
  assumes table: "json_table gm ref dbok rows s" and sync: "store_in_sync marshal gm dbok rows s m"
  shows "\<exists>cs. cs_ListByProviderName (sqlite_cred_store marshal gm s) (cm_db m) [] = Inr (map StoredCredential cs) \<and>
           distinct (map c_ID cs) \<and> (\<forall>i c. map_of (cm_creds m) i = Some c \<longleftrightarrow> c \<in> set cs \<and> c_ID c = i)"
proof -
  let ?obj = "objects (js_decode s) (rows (cm_db m))"
  from json_table.listed [OF table conjunct1 [OF syncD(2) [OF sync]] conjunct2 [OF syncD(2) [OF sync]], of AllRows]
  obtain rs cs where rs: "gm_Find gm (cm_db m) ref AllRows = Inr rs" "found AllRows (rows (cm_db m)) rs"
      "decode_rows (js_decode s) rs = Inr cs" and all: "list_all2 (\<lambda>row x. ?obj (jr_ID row) = Some (jr_Tag row, x)) rs cs"
    by blast
  have id: "?obj i = Some (t, c) \<Longrightarrow> map_of (cm_creds m) i = Some c \<and> c_ID c = i" for i t c
    using syncD(3) [OF sync, of i] syncD(4) [OF sync, of i c] by auto
  from all have "map c_ID cs = map jr_ID rs"
    by (induction rule: list_all2_induct) (auto dest: id)
  moreover have "distinct (map jr_ID rs)" using rs(2) strict_sorted_iff unfolding found_def by blast
  moreover have "map_of (cm_creds m) i = Some c \<longleftrightarrow> c \<in> set cs \<and> c_ID c = i" for i c
  proof
    assume *: "map_of (cm_creds m) i = Some c"
    with syncD(3) [OF sync, of i] obtain t where o: "?obj i = Some (t, c)" by auto
    then obtain d where "rows (cm_db m) i = Some (t, d)"
      by (cases "rows (cm_db m) i") (auto simp: objects_def decoded_def split: sum.splits)
    with rs(2) have "\<lparr>jr_ID = i, jr_Tag = t, jr_Data = d\<rparr> \<in> set rs" by (simp add: found_def)
    from list_all2_mem(1) [OF all this] o show "c \<in> set cs \<and> c_ID c = i" using id [OF o] by auto
  next
    assume c: "c \<in> set cs \<and> c_ID c = i"
    from list_all2_mem(2) [OF all conjunct1 [OF c]] obtain row :: json_record where "?obj (jr_ID row) = Some (jr_Tag row, c)" by blast
    from id [OF this] c show "map_of (cm_creds m) i = Some c" by auto
  qed
  moreover have "js_ref s = ref" using table by (simp add: json_table_def json_table_axioms_def)
  with rs(1,3) have "cs_ListByProviderName (sqlite_cred_store marshal gm s) (cm_db m) [] = Inr (map StoredCredential cs)"
    by (simp add: sqlite_cred_store_def CredentialStore_ListByProviderName_def js_ListByTagPrefix_def)
  ultimately show ?thesis by auto
qed


subsection \<open>Scenario\<close>

definition w_token :: credential where
  "w_token = w_key\<lparr>c_Metadata := [(''access_token'', GString ''t'')]\<rparr>"

definition w_saved :: credential where
  "w_saved = prepare_registration (w_env 0) w_token"

definition w_marshal :: "credential \<Rightarrow> string + string" where
  "w_marshal c = (if c = w_saved then Inr ''x'' else Inl ''unsupported value'')"

definition w_json_store :: "credential sqlite_json_store" where
  "w_json_store =
     newSQLiteJSONStore ''cliauth_credentials'' ''credential'' (\<lambda>d. if d = ''x'' then Inr w_saved else Inl ''bad json'')"

lemma w_table: "json_table mem_gorm (js_ref w_json_store) gomap_ok map_of w_json_store"
  by (simp add: json_table_def json_table_axioms_def mem.gorm_table_axioms)

lemma w_survives: "survives_json w_marshal (js_decode w_json_store) x"
  by (simp add: survives_json_def w_marshal_def w_json_store_def newSQLiteJSONStore_def newSQLiteJSONStoreWithColumns_def)


subsection \<open>Listing the keys of a user\<close>

text \<open>Listing by user is by prefix.  \<open>ListByUserID\<close> returns every key whose owner's name starts with
  the requested name (letter case apart, with the wildcards of LIKE): in particular the keys of
  other users, such as those of \<open>alice\<close> when \<open>al\<close> is asked for.\<close>

theorem list_by_user_is_prefix:
  assumes "json_table gm ref dbok rows s" and "dbok db" and "rows_decode (js_decode s) (rows db)" and "userID \<noteq> []"
  shows "\<exists>ks. LocalAPIKeyStore_ListByUserID gm s db userID = Inr ks \<and>
           (\<forall>k. k \<in> set ks \<longleftrightarrow>
              (\<exists>i owner. objects (js_decode s) (rows db) i = Some (owner, k) \<and> sql_like (userID @ ''%'') owner)) \<and>
           (\<forall>i k rest. objects (js_decode s) (rows db) i = Some (userID @ rest, k) \<longrightarrow> k \<in> set ks)"
proof -
  from json_table.list_by_prefix [OF assms(1-3), of userID] assms(4) obtain ks where
    ks: "js_ListByTagPrefix gm s db userID = Inr ks"
      "\<forall>k. k \<in> set ks \<longleftrightarrow> (\<exists>i t. objects (js_decode s) (rows db) i = Some (t, k) \<and> sql_like (userID @ ''%'') t)" by auto
  with sql_like_prefix [of userID] show ?thesis
    by (intro exI [of _ ks]) (auto simp: LocalAPIKeyStore_ListByUserID_def)
qed

theorem list_by_user_is_prefix_witness:
  "\<exists>ks. LocalAPIKeyStore_ListByUserID mem_gorm (newSQLiteJSONStore ''local_api_keys'' ''local api key'' Inr)
          [(''k1'', ''alice'', ''{}'')] ''al'' = Inr ks \<and> ''{}'' \<in> set ks"
proof -
  let ?s = "newSQLiteJSONStore ''local_api_keys'' ''local api key'' Inr :: string sqlite_json_store"
  have t: "json_table mem_gorm (js_ref ?s) gomap_ok map_of ?s"
    by (simp add: json_table_def json_table_axioms_def mem.gorm_table_axioms)
  have d: "js_decode ?s = Inr" by (simp add: newSQLiteJSONStore_def newSQLiteJSONStoreWithColumns_def)
  have "rows_decode (js_decode ?s) (map_of [(''k1'', ''alice'', ''{}'')])"
    by (simp add: d rows_decode_def decoded_def)
  with list_by_user_is_prefix [OF t, of "[(''k1'', ''alice'', ''{}'')]" "''al''"] obtain ks where
    "LocalAPIKeyStore_ListByUserID mem_gorm ?s [(''k1'', ''alice'', ''{}'')] ''al'' = Inr ks"
    "\<forall>i k rest. objects (js_decode ?s) (map_of [(''k1'', ''alice'', ''{}'')]) i = Some (''al'' @ rest, k) \<longrightarrow> k \<in> set ks"
    by auto
  moreover have "objects (js_decode ?s) (map_of [(''k1'', ''alice'', ''{}'')]) ''k1'' = Some (''al'' @ ''ice'', ''{}'')"
    by (simp add: d objects_def decoded_def)
  ultimately show ?thesis by blast
qed

subsection \<open>The store as a map\<close>

text \<open>C40: what is created is read back.  After a successful creation \<open>Get\<close> returns the object with its
  tag and the other entries are untouched; creating the same identifier again is refused and changes
  nothing; an update replaces the object and keeps the tag; after a deletion \<open>Get\<close> fails.\<close>

theorem json_store_roundtrip:
  assumes "json_table gm ref dbok rows s" and "dbok db" and "rows_decode (js_decode s) (rows db)"
    and "survives_json marshal (js_decode s) x" and "survives_json marshal (js_decode s) y"
    and "js_Create marshal gm s db i t (Some x) = (Inr i', db1)"
  shows "js_Get gm s db1 i = Inr (t, x) \<and>
         (\<forall>j. j \<noteq> i \<longrightarrow> objects (js_decode s) (rows db1) j = objects (js_decode s) (rows db) j) \<and>
         (\<exists>err. fst (js_Create marshal gm s db1 i t' (Some y)) = Inl err) \<and>
         (fst (js_Update marshal gm s db1 i (Some y)) = None \<longrightarrow>
            js_Get gm s (snd (js_Update marshal gm s db1 i (Some y))) i = Inr (t, y)) \<and>
         (fst (js_Delete gm s db1 i) = None \<longrightarrow> (\<exists>err. js_Get gm s (snd (js_Delete gm s db1 i)) i = Inl err))"
proof -
  note os = json_table_object_store [OF assms(1), of marshal]
  have db: "dbok db \<and> rows_decode (js_decode s) (rows db)" using assms(2,3) by simp
  from object_store.create [OF os db assms(4,6)] have
    db1: "dbok db1 \<and> rows_decode (js_decode s) (rows db1)" and
    c: "objects (js_decode s) (rows db1) = (objects (js_decode s) (rows db))(i \<mapsto> (t, x))" by auto
  obtain r2 d2 u d3 del d4 where ops: "js_Create marshal gm s db1 i t' (Some y) = (r2, d2)"
    "js_Update marshal gm s db1 i (Some y) = (u, d3)" "js_Delete gm s db1 i = (del, d4)" by fastforce
  from c have i: "objects (js_decode s) (rows db1) i = Some (t, x)" by simp
  show ?thesis
    using object_store.get [OF os db1 i] c object_store.create_twice [OF os db1 assms(5) i ops(1)]
      object_store.get_update [OF os db1 assms(5) i] object_store.get_delete [OF os db1] ops
    by auto
qed

theorem json_store_roundtrip_witness:
  "js_Get mem_gorm w_json_store (snd (js_Create w_marshal mem_gorm w_json_store [] ''k1'' ''openai'' (Some w_saved))) ''k1'' =
     Inr (''openai'', w_saved)"
proof -
  have c: "js_Create w_marshal mem_gorm w_json_store [] ''k1'' ''openai'' (Some w_saved) =
      (Inr ''k1'', [(''k1'', ''openai'', ''x'')])"
    by (simp add: js_Create_def js_newRecord_def w_marshal_def mem_gorm_def)
  have "rows_decode (js_decode w_json_store) (map_of [])" by (simp add: rows_decode_def)
  with json_store_roundtrip [OF w_table, of "[]" w_marshal w_saved w_saved "''k1''" "''openai''"] c w_survives
  show ?thesis by simp
qed

end
