(* ===== verification/Admin.thy ===== *)
theory Admin
  imports Http_Utils Json_Store Cred_Manager Provider_Core
begin

text \<open>
  Package admin: the administration API.  The state of a handler is the record \<open>admin_state\<close>: the
  credential manager, the config store with its database, the sessions, the status of the CLI logins,
  the log and the response (a logging writer).  The record \<open>admin_env\<close> holds what a request reads from
  outside: gorm, the JSON encodings of the stored objects, bcrypt, the random token and the clock.

  \<open>http.ServeMux\<close> is modelled for the patterns of the table \<open>Routes\<close>: a pattern matches a path with the
  same number of segments, a wildcard matches any non-empty one; HEAD is served by GET; another method
  of a known path is answered with 405, an unknown path with 404.  The redirects of the mux for paths
  that are not clean and the recovery from panics are not modelled.
\<close>

subsection \<open>State\<close>

record admin_session =
  ss_username :: string
  ss_createdAt :: gotime

record cli_auth_status =
  ca_Status :: string
  ca_StartedAt :: gotime
  ca_FinishedAt :: "gotime option"
  ca_Error :: string
  ca_CredentialID :: string

type_synonym admin_config_store = "(unit, stored_config, local_api_key, route) sqlite_config_store"

record ('db, 'st) admin_state =
  ad_manager :: "'st cred_manager option"
  ad_configStore :: "admin_config_store option"
  ad_db :: 'db
  ad_cliAuthSessions :: "(string, cli_auth_status) gomap"
  ad_sessions :: "(string, admin_session) gomap"
  ad_adminUsername :: string
  ad_adminPasswordHash :: string
  ad_log :: logger
  ad_out :: logging_writer

record login_request =
  lg_Username :: string
  lg_Password :: string

record 'db admin_env =
  av_gorm :: "'db gorm"
  av_decodeProvider :: "string \<Rightarrow> string + stored_config"
  av_decodeRoute :: "string \<Rightarrow> string + route"
  av_decodeKey :: "string \<Rightarrow> string + local_api_key"
  av_marshalProvider :: "stored_config \<Rightarrow> string + string"
  av_marshalRoute :: "route \<Rightarrow> string + string"
  av_marshalKey :: "local_api_key \<Rightarrow> string + string"
  av_readProvider :: "string \<Rightarrow> string + provider_config"
  av_readRoute :: "string \<Rightarrow> string + route"
  av_readKey :: "string \<Rightarrow> string + local_api_key"
  av_readLogin :: "string \<Rightarrow> string + login_request"
  av_providerJSON :: "provider_config \<Rightarrow> json"
  av_routeJSON :: "route \<Rightarrow> json"
  av_keyJSON :: "local_api_key \<Rightarrow> json"
  av_credentialJSON :: "credential \<Rightarrow> json"
  av_timeJSON :: "gotime \<Rightarrow> json"
  av_bcrypt :: "string \<Rightarrow> string \<Rightarrow> bool"
  av_token :: "string option"
  av_now :: gotime
  av_unmarshalError :: "string \<Rightarrow> string + string"

record admin_request =
  aq_HTTP :: api_request
  aq_Query :: "(string, string) gomap"
  aq_PathValue :: "(string, string) gomap"

definition query_Get :: "admin_request \<Rightarrow> string \<Rightarrow> string" where
  "query_Get r k = (case map_of (aq_Query r) k of Some v \<Rightarrow> v | None \<Rightarrow> [])"

definition path_value :: "admin_request \<Rightarrow> string \<Rightarrow> string" where
  "path_value r k = (case map_of (aq_PathValue r) k of Some v \<Rightarrow> v | None \<Rightarrow> [])"

subsection \<open>Replies\<close>

definition lw_SetHeader :: "logging_writer \<Rightarrow> string \<Rightarrow> string \<Rightarrow> logging_writer" where
  "lw_SetHeader w k v = w\<lparr>lw_inner := rw_SetHeader (lw_inner w) k v\<rparr>"

definition reply :: "int \<Rightarrow> json \<Rightarrow> ('db, 'st) admin_state \<Rightarrow> ('db, 'st) admin_state" where
  "reply status v s =
     s\<lparr>ad_out := lw_Write (lw_WriteHeader (lw_SetHeader (ad_out s) ''Content-Type'' ''application/json'') status)
                   (json_text v @ [CHR 0x0A])\<rparr>"

definition reply_error :: "int \<Rightarrow> string \<Rightarrow> ('db, 'st) admin_state \<Rightarrow> ('db, 'st) admin_state" where
  "reply_error status message s = reply status (json_map [(''error'', JStr message)]) s"

definition http_Error :: "int \<Rightarrow> string \<Rightarrow> ('db, 'st) admin_state \<Rightarrow> ('db, 'st) admin_state" where
  "http_Error status message s =
     s\<lparr>ad_out := lw_Write (lw_WriteHeader
          (lw_SetHeader (lw_SetHeader (ad_out s) ''Content-Type'' ''text/plain; charset=utf-8'')
             ''X-Content-Type-Options'' ''nosniff'') status) (message @ [CHR 0x0A])\<rparr>"

definition status_reply :: "(string \<times> string) list \<Rightarrow> json" where
  "status_reply fs = json_map (map (\<lambda>(k, v). (k, JStr v)) fs)"

subsection \<open>Sessions\<close>

definition session_create :: "string option \<Rightarrow> gotime \<Rightarrow> string \<Rightarrow> ('db, 'st) admin_state \<Rightarrow> string option \<times> ('db, 'st) admin_state" where
  "session_create token now username s =
     (case token of
        None \<Rightarrow> (None, s)
      | Some t \<Rightarrow>
          (Some t, s\<lparr>ad_sessions := AList.update t \<lparr>ss_username = username, ss_createdAt = now\<rparr> (ad_sessions s)\<rparr>))"

definition session_lookup :: "('db, 'st) admin_state \<Rightarrow> string \<Rightarrow> admin_session option" where
  "session_lookup s token = map_of (ad_sessions s) token"

definition session_revoke :: "string \<Rightarrow> ('db, 'st) admin_state \<Rightarrow> ('db, 'st) admin_state" where
  "session_revoke token s = s\<lparr>ad_sessions := AList.delete token (ad_sessions s)\<rparr>"

definition bearerToken :: "admin_request \<Rightarrow> string" where
  "bearerToken r =
     (let v = Header_Get (hr_Header (ar_HTTP (aq_HTTP r))) ''Authorization''
      in if HasPrefix v ''Bearer '' then TrimPrefix v ''Bearer '' else [])"

definition sessionUsername :: "('db, 'st) admin_state \<Rightarrow> admin_request \<Rightarrow> string" where
  "sessionUsername s r =
     (let token = bearerToken r
      in if token = [] then []
         else (case session_lookup s token of None \<Rightarrow> [] | Some sess \<Rightarrow> ss_username sess))"

definition requireAuth ::
    "(admin_request \<Rightarrow> ('db, 'st) admin_state \<Rightarrow> ('db, 'st) admin_state) \<Rightarrow> admin_request \<Rightarrow>
     ('db, 'st) admin_state \<Rightarrow> ('db, 'st) admin_state" where
  "requireAuth nxt r s =
     (if ad_adminUsername s = [] then reply_error 401 ''admin authentication not configured'' s
      else (let token = bearerToken r
            in if token = [] then reply_error 401 ''authentication required'' s
               else (case session_lookup s token of
                       None \<Rightarrow> reply_error 401 ''invalid or expired session'' s
                     | Some _ \<Rightarrow> nxt r s)))"

definition dummy_hash :: string where
  "dummy_hash = ''$2a$10$invalidhashpadding000000000000000000000000000000000000''"

definition handleLogin :: "'db admin_env \<Rightarrow> admin_request \<Rightarrow> ('db, 'st) admin_state \<Rightarrow> ('db, 'st) admin_state" where
  "handleLogin env r s =
     (case DecodeJSON (av_readLogin env) (aq_HTTP r) of
        Inl err \<Rightarrow> reply_error 400 ''invalid request body'' s
      | Inr req \<Rightarrow>
          if lg_Username req = [] \<or> lg_Password req = [] then
            reply_error 400 ''username and password are required'' s
          else if ad_adminUsername s = [] then reply_error 503 ''admin credentials not configured'' s
          else
            (let hash = (if lg_Username req \<noteq> ad_adminUsername s then dummy_hash else ad_adminPasswordHash s)
             in if lg_Username req \<noteq> ad_adminUsername s \<or> \<not> av_bcrypt env hash (lg_Password req) then
                  reply_error 401 ''invalid credentials'' s
                else
                  (case session_create (av_token env) (av_now env) (lg_Username req) s of
                     (None, s1) \<Rightarrow> reply_error 500 ''failed to create session'' s1
                   | (Some token, s1) \<Rightarrow>
                       reply 200 (status_reply [(''token'', token), (''username'', lg_Username req)]) s1)))"

definition handleLogout :: "admin_request \<Rightarrow> ('db, 'st) admin_state \<Rightarrow> ('db, 'st) admin_state" where
  "handleLogout r s =
     (let token = bearerToken r; s = (if token \<noteq> [] then session_revoke token s else s)
      in reply 200 (status_reply [(''status'', ''logged_out'')]) s)"

definition handleMe :: "'db admin_env \<Rightarrow> admin_request \<Rightarrow> ('db, 'st) admin_state \<Rightarrow> ('db, 'st) admin_state" where
  "handleMe env r s =
     (case session_lookup s (bearerToken r) of
        None \<Rightarrow> reply_error 401 ''not authenticated'' s
      | Some sess \<Rightarrow>
          reply 200 (json_map [(''username'', JStr (ss_username sess)),
                               (''created_at'', av_timeJSON env (ss_createdAt sess))]) s)"

subsection \<open>The stores\<close>

definition providerStore ::
    "'db admin_env \<Rightarrow> ('db, 'st) admin_state \<Rightarrow> stored_config sqlite_json_store option \<times> ('db, 'st) admin_state" where
  "providerStore env s =
     (case ad_configStore s of
        None \<Rightarrow> (None, s)
      | Some cs \<Rightarrow>
          (case GetProviderConfigStore (av_gorm env) cs (ad_db s) (av_decodeProvider env) of
             (Inl err, cs, db) \<Rightarrow> (None, s\<lparr>ad_configStore := Some cs, ad_db := db\<rparr>)
           | (Inr store, cs, db) \<Rightarrow> (Some store, s\<lparr>ad_configStore := Some cs, ad_db := db\<rparr>)))"

definition routeStore ::
    "'db admin_env \<Rightarrow> ('db, 'st) admin_state \<Rightarrow> route sqlite_json_store option \<times> ('db, 'st) admin_state" where
  "routeStore env s =
     (case ad_configStore s of
        None \<Rightarrow> (None, s)
      | Some cs \<Rightarrow>
          (case GetRouteStore (av_gorm env) cs (ad_db s) (av_decodeRoute env) of
             (Inl err, cs, db) \<Rightarrow> (None, s\<lparr>ad_configStore := Some cs, ad_db := db\<rparr>)
           | (Inr store, cs, db) \<Rightarrow> (Some store, s\<lparr>ad_configStore := Some cs, ad_db := db\<rparr>)))"

definition localAPIKeyStore ::
    "'db admin_env \<Rightarrow> ('db, 'st) admin_state \<Rightarrow> local_api_key sqlite_json_store option \<times> ('db, 'st) admin_state" where
  "localAPIKeyStore env s =
     (case ad_configStore s of
        None \<Rightarrow> (None, s)
      | Some cs \<Rightarrow>
          (case GetLocalAPIKeyStore (av_gorm env) cs (ad_db s) (av_decodeKey env) of
             (Inl err, cs, db) \<Rightarrow> (None, s\<lparr>ad_configStore := Some cs, ad_db := db\<rparr>)
           | (Inr store, cs, db) \<Rightarrow> (Some store, s\<lparr>ad_configStore := Some cs, ad_db := db\<rparr>)))"

subsection \<open>Providers\<close>

fun provider_configs :: "stored_config list \<Rightarrow> provider_config list option" where
  "provider_configs [] = Some []"
| "provider_configs (StoredConfig cfg # items) = map_option (Cons cfg) (provider_configs items)"
| "provider_configs (_ # items) = None"

definition handleListProviders :: "'db admin_env \<Rightarrow> admin_request \<Rightarrow> ('db, 'st) admin_state \<Rightarrow> ('db, 'st) admin_state" where
  "handleListProviders env r s =
     (case providerStore env s of
        (None, s) \<Rightarrow> reply_error 503 ''provider store not configured'' s
      | (Some store, s) \<Rightarrow>
          (case ProviderConfigStore_ListByName (av_gorm env) store (ad_db s) (query_Get r ''provider_name'') of
             Inl err \<Rightarrow> reply_error 500 err s
           | Inr items \<Rightarrow>
               (case provider_configs items of
                  None \<Rightarrow> reply_error 500 ''unexpected provider config type'' s
                | Some providers \<Rightarrow> reply 200 (json_map [(''items'', JArr (map (av_providerJSON env) providers))]) s)))"

definition handleCreateProvider :: "'db admin_env \<Rightarrow> admin_request \<Rightarrow> ('db, 'st) admin_state \<Rightarrow> ('db, 'st) admin_state" where
  "handleCreateProvider env r s =
     (case providerStore env s of
        (None, s) \<Rightarrow> reply_error 503 ''provider store not configured'' s
      | (Some store, s) \<Rightarrow>
          (case DecodeJSON (av_readProvider env) (aq_HTTP r) of
             Inl err \<Rightarrow> reply_error 400 (''decode request: '' @ err) s
           | Inr cfg \<Rightarrow>
               if pc_Id cfg = [] \<or> pc_ProviderName cfg = [] then reply_error 400 ''id and provider_name are required'' s
               else
                 (case ProviderConfigStore_Create (av_marshalProvider env) (av_gorm env) store (ad_db s)
                         (pc_Id cfg) (pc_ProviderName cfg) (Some (StoredConfig cfg)) of
                    (Inl err, db) \<Rightarrow> reply_error 500 err (s\<lparr>ad_db := db\<rparr>)
                  | (Inr ident, db) \<Rightarrow> reply 201 (av_providerJSON env (cfg\<lparr>pc_Id := ident\<rparr>)) (s\<lparr>ad_db := db\<rparr>))))"

definition provider_reply ::
    "'db admin_env \<Rightarrow> stored_config \<Rightarrow> ('db, 'st) admin_state \<Rightarrow> ('db, 'st) admin_state" where
  "provider_reply env obj s =
     (case obj of
        StoredConfig cfg \<Rightarrow> reply 200 (av_providerJSON env cfg) s
      | _ \<Rightarrow> reply_error 500 ''unexpected provider config type'' s)"

definition handleGetProvider :: "'db admin_env \<Rightarrow> admin_request \<Rightarrow> ('db, 'st) admin_state \<Rightarrow> ('db, 'st) admin_state" where
  "handleGetProvider env r s =
     (case providerStore env s of
        (None, s) \<Rightarrow> reply_error 503 ''provider store not configured'' s
      | (Some store, s) \<Rightarrow>
          (case ProviderConfigStore_Get (av_gorm env) store (ad_db s) (path_value r ''id'') of
             Inl err \<Rightarrow>
               if err = ErrRecordNotFound then reply_error 404 ''provider not found'' s else reply_error 500 err s
           | Inr (tag, cfg) \<Rightarrow> provider_reply env cfg s))"

definition handleUpdateProvider :: "'db admin_env \<Rightarrow> admin_request \<Rightarrow> ('db, 'st) admin_state \<Rightarrow> ('db, 'st) admin_state" where
  "handleUpdateProvider env r s =
     (case providerStore env s of
        (None, s) \<Rightarrow> reply_error 503 ''provider store not configured'' s
      | (Some store, s) \<Rightarrow>
          (case DecodeJSON (av_readProvider env) (aq_HTTP r) of
             Inl err \<Rightarrow> reply_error 400 (''decode request: '' @ err) s
           | Inr cfg \<Rightarrow>
               if pc_ProviderName cfg = [] then reply_error 400 ''provider_name is required'' s
               else
                 (let ident = path_value r ''id''
                  in if pc_Id cfg \<noteq> [] \<and> pc_Id cfg \<noteq> ident then reply_error 400 ''body id must match path id'' s
                     else
                       (case ProviderConfigStore_Update (av_marshalProvider env) (av_gorm env) store (ad_db s) ident
                               (Some (StoredConfig (cfg\<lparr>pc_Id := ident\<rparr>))) of
                          (Some err, db) \<Rightarrow>
                            if err = ErrRecordNotFound then reply_error 404 ''provider not found'' (s\<lparr>ad_db := db\<rparr>)
                            else reply_error 500 err (s\<lparr>ad_db := db\<rparr>)
                        | (None, db) \<Rightarrow>
                            (case ProviderConfigStore_Get (av_gorm env) store db ident of
                               Inl err \<Rightarrow> reply_error 500 err (s\<lparr>ad_db := db\<rparr>)
                             | Inr (tag, updatedCfg) \<Rightarrow> provider_reply env updatedCfg (s\<lparr>ad_db := db\<rparr>))))))"

definition handleDeleteProvider :: "'db admin_env \<Rightarrow> admin_request \<Rightarrow> ('db, 'st) admin_state \<Rightarrow> ('db, 'st) admin_state" where
  "handleDeleteProvider env r s =
     (case providerStore env s of
        (None, s) \<Rightarrow> reply_error 503 ''provider store not configured'' s
      | (Some store, s) \<Rightarrow>
          (let ident = path_value r ''id''
           in (case ProviderConfigStore_Delete (av_gorm env) store (ad_db s) ident of
                 (Some err, db) \<Rightarrow> reply_error 500 err (s\<lparr>ad_db := db\<rparr>)
               | (None, db) \<Rightarrow>
                   reply 200 (status_reply [(''status'', ''deleted''), (''id'', ident)]) (s\<lparr>ad_db := db\<rparr>))))"

subsection \<open>Routes\<close>

definition defaultRouteTag :: string where
  "defaultRouteTag = []"

definition handleListRoutes :: "'db admin_env \<Rightarrow> admin_request \<Rightarrow> ('db, 'st) admin_state \<Rightarrow> ('db, 'st) admin_state" where
  "handleListRoutes env r s =
     (case routeStore env s of
        (None, s) \<Rightarrow> reply_error 503 ''route store not configured'' s
      | (Some store, s) \<Rightarrow>
          (let tagPrefix = query_Get r ''tag_prefix'';
               tag = query_Get r ''tag'';
               tag = (if tag = [] \<and> tagPrefix = [] then defaultRouteTag else tag)
           in (case (if tagPrefix \<noteq> [] then RouteStore_ListByTagPrefix (av_gorm env) store (ad_db s) tagPrefix
                     else RouteStore_ListByTag (av_gorm env) store (ad_db s) tag) of
                 Inl err \<Rightarrow> reply_error 500 err s
               | Inr items \<Rightarrow> reply 200 (json_map [(''items'', JArr (map (av_routeJSON env) items))]) s)))"

text \<open>What \<open>handleCreateRoute\<close> and \<open>handleUpdateRoute\<close> fill in.\<close>

definition complete_route :: "route \<Rightarrow> route" where
  "complete_route rt =
     with_defaults (if r_Name rt = [] then rt\<lparr>r_Name := r_ID rt\<rparr> else rt)"

definition handleCreateRoute :: "'db admin_env \<Rightarrow> admin_request \<Rightarrow> ('db, 'st) admin_state \<Rightarrow> ('db, 'st) admin_state" where
  "handleCreateRoute env r s =
     (case routeStore env s of
        (None, s) \<Rightarrow> reply_error 503 ''route store not configured'' s
      | (Some store, s) \<Rightarrow>
          (case DecodeJSON (av_readRoute env) (aq_HTTP r) of
             Inl err \<Rightarrow> reply_error 400 (''decode request: '' @ err) s
           | Inr rt \<Rightarrow>
               if r_ID rt = [] then reply_error 400 ''id is required'' s
               else if r_Targets rt = [] then reply_error 400 ''at least one target is required'' s
               else
                 (let rt = complete_route rt;
                      tag = query_Get r ''tag'';
                      tag = (if tag = [] then defaultRouteTag else tag)
                  in (case RouteStore_Create (av_marshalRoute env) (av_gorm env) store (ad_db s) (r_ID rt) tag (Some rt) of
                        (Some err, db) \<Rightarrow> reply_error 500 err (s\<lparr>ad_db := db\<rparr>)
                      | (None, db) \<Rightarrow> reply 201 (av_routeJSON env rt) (s\<lparr>ad_db := db\<rparr>)))))"

definition handleGetRoute :: "'db admin_env \<Rightarrow> admin_request \<Rightarrow> ('db, 'st) admin_state \<Rightarrow> ('db, 'st) admin_state" where
  "handleGetRoute env r s =
     (case routeStore env s of
        (None, s) \<Rightarrow> reply_error 503 ''route store not configured'' s
      | (Some store, s) \<Rightarrow>
          (case RouteStore_Get (av_gorm env) store (ad_db s) (path_value r ''id'') of
             Inl err \<Rightarrow>
               if err = ErrRecordNotFound then reply_error 404 ''route not found'' s else reply_error 500 err s
           | Inr item \<Rightarrow> reply 200 (av_routeJSON env item) s))"

definition handleUpdateRoute :: "'db admin_env \<Rightarrow> admin_request \<Rightarrow> ('db, 'st) admin_state \<Rightarrow> ('db, 'st) admin_state" where
  "handleUpdateRoute env r s =
     (case routeStore env s of
        (None, s) \<Rightarrow> reply_error 503 ''route store not configured'' s
      | (Some store, s) \<Rightarrow>
          (case DecodeJSON (av_readRoute env) (aq_HTTP r) of
             Inl err \<Rightarrow> reply_error 400 (''decode request: '' @ err) s
           | Inr rt \<Rightarrow>
               (let ident = path_value r ''id'';
                    rt = (if r_ID rt = [] then rt\<lparr>r_ID := ident\<rparr> else rt)
                in if r_ID rt \<noteq> ident then reply_error 400 ''route id in body must match path'' s
                   else if r_Targets rt = [] then reply_error 400 ''at least one target is required'' s
                   else
                     (case RouteStore_Update (av_marshalRoute env) (av_gorm env) store (ad_db s) ident
                             (Some (complete_route rt)) of
                        (Some err, db) \<Rightarrow>
                          if err = ErrRecordNotFound then reply_error 404 ''route not found'' (s\<lparr>ad_db := db\<rparr>)
                          else reply_error 500 err (s\<lparr>ad_db := db\<rparr>)
                      | (None, db) \<Rightarrow>
                          (case RouteStore_Get (av_gorm env) store db ident of
                             Inl err \<Rightarrow> reply_error 500 err (s\<lparr>ad_db := db\<rparr>)
                           | Inr item \<Rightarrow> reply 200 (av_routeJSON env item) (s\<lparr>ad_db := db\<rparr>))))))"

definition handleDeleteRoute :: "'db admin_env \<Rightarrow> admin_request \<Rightarrow> ('db, 'st) admin_state \<Rightarrow> ('db, 'st) admin_state" where
  "handleDeleteRoute env r s =
     (case routeStore env s of
        (None, s) \<Rightarrow> reply_error 503 ''route store not configured'' s
      | (Some store, s) \<Rightarrow>
          (let ident = path_value r ''id''
           in (case RouteStore_Delete (av_gorm env) store (ad_db s) ident of
                 (Some err, db) \<Rightarrow> reply_error 500 err (s\<lparr>ad_db := db\<rparr>)
               | (None, db) \<Rightarrow>
                   reply 200 (status_reply [(''status'', ''deleted''), (''id'', ident)]) (s\<lparr>ad_db := db\<rparr>))))"

subsection \<open>Local API keys\<close>

definition handleListLocalAPIKeys :: "'db admin_env \<Rightarrow> admin_request \<Rightarrow> ('db, 'st) admin_state \<Rightarrow> ('db, 'st) admin_state" where
  "handleListLocalAPIKeys env r s =
     (case localAPIKeyStore env s of
        (None, s) \<Rightarrow> reply_error 503 ''local api key store not configured'' s
      | (Some store, s) \<Rightarrow>
          (let userID = query_Get r ''user_id''; username = sessionUsername s r
           in if username = [] then reply_error 403 ''forbidden'' s
              else if userID \<noteq> [] \<and> userID \<noteq> username then reply_error 403 ''forbidden'' s
              else
                (case LocalAPIKeyStore_ListByUserID (av_gorm env) store (ad_db s) username of
                   Inl err \<Rightarrow> reply_error 500 err s
                 | Inr items \<Rightarrow> reply 200 (json_map [(''items'', JArr (map (av_keyJSON env) items))]) s)))"

definition handleCreateLocalAPIKey :: "'db admin_env \<Rightarrow> admin_request \<Rightarrow> ('db, 'st) admin_state \<Rightarrow> ('db, 'st) admin_state" where
  "handleCreateLocalAPIKey env r s =
     (case localAPIKeyStore env s of
        (None, s) \<Rightarrow> reply_error 503 ''local api key store not configured'' s
      | (Some store, s) \<Rightarrow>
          (case DecodeJSON (av_readKey env) (aq_HTTP r) of
             Inl err \<Rightarrow> reply_error 400 (''decode request: '' @ err) s
           | Inr key \<Rightarrow>
               (let username = sessionUsername s r
                in if username = [] then reply_error 403 ''forbidden'' s
                   else if k_UserID key \<noteq> [] \<and> k_UserID key \<noteq> username then reply_error 403 ''forbidden'' s
                   else
                     (let key = key\<lparr>k_UserID := username\<rparr>
                      in if k_Key key = [] then reply_error 400 ''key is required'' s
                         else
                           (case LocalAPIKeyStore_Create (av_marshalKey env) (av_gorm env) store (ad_db s)
                                   (k_Key key) (k_UserID key) (Some key) of
                              (Some err, db) \<Rightarrow> reply_error 500 err (s\<lparr>ad_db := db\<rparr>)
                            | (None, db) \<Rightarrow> reply 201 (av_keyJSON env key) (s\<lparr>ad_db := db\<rparr>))))))"

definition handleGetLocalAPIKey :: "'db admin_env \<Rightarrow> admin_request \<Rightarrow> ('db, 'st) admin_state \<Rightarrow> ('db, 'st) admin_state" where
  "handleGetLocalAPIKey env r s =
     (case localAPIKeyStore env s of
        (None, s) \<Rightarrow> reply_error 503 ''local api key store not configured'' s
      | (Some store, s) \<Rightarrow>
          (case LocalAPIKeyStore_Get (av_gorm env) store (ad_db s) (path_value r ''key'') of
             Inl err \<Rightarrow>
               if err = ErrRecordNotFound then reply_error 404 ''local api key not found'' s else reply_error 500 err s
           | Inr item \<Rightarrow> reply 200 (av_keyJSON env item) s))"

definition handleUpdateLocalAPIKey :: "'db admin_env \<Rightarrow> admin_request \<Rightarrow> ('db, 'st) admin_state \<Rightarrow> ('db, 'st) admin_state" where
  "handleUpdateLocalAPIKey env r s =
     (case localAPIKeyStore env s of
        (None, s) \<Rightarrow> reply_error 503 ''local api key store not configured'' s
      | (Some store, s) \<Rightarrow>
          (case DecodeJSON (av_readKey env) (aq_HTTP r) of
             Inl err \<Rightarrow> reply_error 400 (''decode request: '' @ err) s
           | Inr key \<Rightarrow>
               (let pathKey = path_value r ''key'';
                    key = (if k_Key key = [] then key\<lparr>k_Key := pathKey\<rparr> else key)
                in if k_Key key \<noteq> pathKey then reply_error 400 ''local api key in body must match path'' s
                   else
                     (case LocalAPIKeyStore_Get (av_gorm env) store (ad_db s) pathKey of
                        Inl err \<Rightarrow>
                          if err = ErrRecordNotFound then reply_error 404 ''local api key not found'' s
                          else reply_error 500 err s
                      | Inr _ \<Rightarrow>
                          (case LocalAPIKeyStore_Update (av_marshalKey env) (av_gorm env) store (ad_db s)
                                  (k_Key key) (Some key) of
                             (Some err, db) \<Rightarrow> reply_error 500 err (s\<lparr>ad_db := db\<rparr>)
                           | (None, db) \<Rightarrow> reply 200 (av_keyJSON env key) (s\<lparr>ad_db := db\<rparr>))))))"

definition handleDeleteLocalAPIKey :: "'db admin_env \<Rightarrow> admin_request \<Rightarrow> ('db, 'st) admin_state \<Rightarrow> ('db, 'st) admin_state" where
  "handleDeleteLocalAPIKey env r s =
     (case localAPIKeyStore env s of
        (None, s) \<Rightarrow> reply_error 503 ''local api key store not configured'' s
      | (Some store, s) \<Rightarrow>
          (let key = path_value r ''key''
           in (case LocalAPIKeyStore_Delete (av_gorm env) store (ad_db s) key of
                 (Some err, db) \<Rightarrow> reply_error 500 err (s\<lparr>ad_db := db\<rparr>)
               | (None, db) \<Rightarrow>
                   reply 200 (status_reply [(''status'', ''deleted''), (''key'', key)]) (s\<lparr>ad_db := db\<rparr>))))"

end
