(* ===== verification/Admin_Server.thy ===== *)
theory Admin_Server
  imports Admin
begin

text \<open>
  Package admin, continued: the credential handlers, the CLI login flow (cliauth.go), the table of
  routes, the mux and the entry point \<open>ServeHTTP\<close> (handler.go).  The login flow runs in a goroutine:
  \<open>handleCLIAuth\<close> is the part before it, \<open>cli_login_finish\<close> the part from the answer of \<open>Login\<close> on, so
  that other requests can come in between; the log lines of the goroutine are left out.
\<close>

subsection \<open>Credentials\<close>

definition handleListCredentials :: "'db admin_env \<Rightarrow> admin_request \<Rightarrow> ('db, 'st) admin_state \<Rightarrow> ('db, 'st) admin_state" where
  "handleListCredentials env r s =
     (case ad_manager s of
        None \<Rightarrow> reply_error 503 ''auth manager not configured'' s
      | Some m \<Rightarrow>
          reply 200 (json_map [(''items'', JArr (map (av_credentialJSON env) (List_creds m (query_Get r ''provider''))))]) s)"

definition handleGetCredential :: "'db admin_env \<Rightarrow> admin_request \<Rightarrow> ('db, 'st) admin_state \<Rightarrow> ('db, 'st) admin_state" where
  "handleGetCredential env r s =
     (case ad_manager s of
        None \<Rightarrow> reply_error 503 ''auth manager not configured'' s
      | Some m \<Rightarrow>
          (case Get m (path_value r ''id'') of
             None \<Rightarrow> reply_error 404 ''credential not found'' s
           | Some item \<Rightarrow> reply 200 (av_credentialJSON env item) s))"

definition handleDeleteCredential :: "admin_request \<Rightarrow> ('db, 'st) admin_state \<Rightarrow> ('db, 'st) admin_state" where
  "handleDeleteCredential r s =
     (case ad_manager s of
        None \<Rightarrow> reply_error 503 ''auth manager not configured'' s
      | Some m \<Rightarrow>
          (let ident = path_value r ''id''
           in (case Deregister m [] ident of
                 (Some err, m1) \<Rightarrow> reply_error 500 err (s\<lparr>ad_manager := Some m1\<rparr>)
               | (None, m1) \<Rightarrow>
                   reply 200 (status_reply [(''status'', ''deleted''), (''id'', ident)]) (s\<lparr>ad_manager := Some m1\<rparr>))))"

definition handleHealth :: "('db, 'st) admin_state \<Rightarrow> ('db, 'st) admin_state" where
  "handleHealth s = reply 200 (status_reply [(''status'', ''ok'')]) s"

text \<open>The handlers of MCP clients, memory, agents and metrics.\<close>

definition handle_not_implemented :: "('db, 'st) admin_state \<Rightarrow> ('db, 'st) admin_state" where
  "handle_not_implemented s = reply_error 501 ''not implemented'' s"

subsection \<open>CLI login\<close>

definition cliAuthStatusSnapshot :: "cli_auth_status option \<Rightarrow> cli_auth_status" where
  "cliAuthStatusSnapshot status =
     (case status of
        None \<Rightarrow> \<lparr>ca_Status = [], ca_StartedAt = zero_time, ca_FinishedAt = None, ca_Error = [], ca_CredentialID = []\<rparr>
      | Some st \<Rightarrow> (case ca_FinishedAt st of None \<Rightarrow> st | Some t \<Rightarrow> st\<lparr>ca_FinishedAt := Some t\<rparr>))"

definition storeCLIAuthStatus :: "string \<Rightarrow> cli_auth_status option \<Rightarrow> ('db, 'st) admin_state \<Rightarrow> ('db, 'st) admin_state" where
  "storeCLIAuthStatus cliname status s =
     (case status of
        None \<Rightarrow> s
      | Some st \<Rightarrow> s\<lparr>ad_cliAuthSessions := AList.update cliname (cliAuthStatusSnapshot (Some st)) (ad_cliAuthSessions s)\<rparr>)"

definition running_status :: "gotime \<Rightarrow> cli_auth_status" where
  "running_status now =
     \<lparr>ca_Status = ''running'', ca_StartedAt = now, ca_FinishedAt = None, ca_Error = [], ca_CredentialID = []\<rparr>"

definition cli_login_message :: string where
  "cli_login_message =
     ''CLI login initiated. Complete the provider authentication flow on the server to register the credential.''"

definition handleCLIAuth :: "'db admin_env \<Rightarrow> admin_request \<Rightarrow> ('db, 'st) admin_state \<Rightarrow> ('db, 'st) admin_state" where
  "handleCLIAuth env r s =
     (case ad_manager s of
        None \<Rightarrow> reply_error 503 ''auth manager not configured'' s
      | Some m \<Rightarrow>
          (let requestedName = ToLower (TrimSpace (path_value r ''cliname''))
           in if requestedName = [] then reply_error 400 ''cliname is required'' s
              else (case GetAuthenticator m requestedName of
                      None \<Rightarrow> reply_error 404 (requestedName @ '' authenticator not registered'') s
                    | Some auth \<Rightarrow>
                        reply 202
                          (status_reply [(''status'', ''login_started''), (''cliname'', requestedName),
                                         (''message'', cli_login_message)])
                          (storeCLIAuthStatus requestedName (Some (running_status (av_now env))) s))))"

text \<open>The goroutine once \<open>Login\<close> has returned: \<open>started\<close> is the status it was started with, \<open>now\<close> the
  clock, \<open>env\<close> the readings of \<open>Register\<close>.\<close>

definition cli_login_finish ::
    "string \<Rightarrow> cli_auth_status \<Rightarrow> string + credential \<Rightarrow> gotime \<Rightarrow> call_env \<Rightarrow> ('db, 'st) admin_state \<Rightarrow> ('db, 'st) admin_state" where
  "cli_login_finish requestedName started answer now env s =
     (let finished = (cliAuthStatusSnapshot (Some started))\<lparr>ca_FinishedAt := Some now\<rparr>
      in (case answer of
            Inl err \<Rightarrow>
              storeCLIAuthStatus requestedName (Some (finished\<lparr>ca_Status := ''failed'', ca_Error := err\<rparr>)) s
          | Inr cred \<Rightarrow>
              (case ad_manager s of
                 None \<Rightarrow> s
               | Some m \<Rightarrow>
                   (case Register m [] (Some cred) env of
                      (Some regErr, m1) \<Rightarrow>
                        storeCLIAuthStatus requestedName (Some (finished\<lparr>ca_Status := ''failed'', ca_Error := regErr\<rparr>))
                          (s\<lparr>ad_manager := Some m1\<rparr>)
                    | (None, m1) \<Rightarrow>
                        storeCLIAuthStatus requestedName
                          (Some (finished\<lparr>ca_Status := ''succeeded'', ca_CredentialID := c_ID cred\<rparr>))
                          (s\<lparr>ad_manager := Some m1\<rparr>)))))"

definition cli_status_json :: "'db admin_env \<Rightarrow> cli_auth_status \<Rightarrow> json" where
  "cli_status_json env st =
     JObj ([(''status'', JStr (ca_Status st)), (''started_at'', av_timeJSON env (ca_StartedAt st))] @
           (case ca_FinishedAt st of None \<Rightarrow> [] | Some t \<Rightarrow> [(''finished_at'', av_timeJSON env t)]) @
           omit_empty ''error'' (ca_Error st) @ omit_empty ''credential_id'' (ca_CredentialID st))"

definition handleCLIAuthStatus :: "'db admin_env \<Rightarrow> admin_request \<Rightarrow> ('db, 'st) admin_state \<Rightarrow> ('db, 'st) admin_state" where
  "handleCLIAuthStatus env r s =
     (let cliname = ToLower (TrimSpace (path_value r ''cliname''))
      in if cliname = [] then reply_error 400 ''cliname is required'' s
         else (case map_of (ad_cliAuthSessions s) cliname of
                 None \<Rightarrow> reply_error 404 (''no login session found for '' @ cliname) s
               | Some st \<Rightarrow> reply 200 (cli_status_json env st) s))"

subsection \<open>Routes\<close>

datatype admin_handler =
    HHealth | HLogin | HLogout | HMe
  | HListProviders | HCreateProvider | HGetProvider | HUpdateProvider | HDeleteProvider
  | HListRoutes | HCreateRoute | HGetRoute | HUpdateRoute | HDeleteRoute
  | HListLocalAPIKeys | HCreateLocalAPIKey | HGetLocalAPIKey | HUpdateLocalAPIKey | HDeleteLocalAPIKey
  | HListCredentials | HGetCredential | HDeleteCredential
  | HNotImplemented
  | HCLIAuth | HCLIAuthStatus

record admin_route =
  at_Method :: string
  at_Path :: string
  at_Handler :: admin_handler
  at_RequireAuth :: bool

definition admin_rt :: "string \<Rightarrow> string \<Rightarrow> admin_handler \<Rightarrow> bool \<Rightarrow> admin_route" where
  "admin_rt m p h a = \<lparr>at_Method = m, at_Path = p, at_Handler = h, at_RequireAuth = a\<rparr>"

definition Admin_Routes :: "admin_route list" where
  "Admin_Routes =
     [admin_rt ''GET'' ''/admin/health'' HHealth False,
      admin_rt ''POST'' ''/admin/auth/login'' HLogin False,
      admin_rt ''POST'' ''/admin/auth/logout'' HLogout True,
      admin_rt ''GET'' ''/admin/auth/me'' HMe True,
      admin_rt ''GET'' ''/admin/providers'' HListProviders True,
      admin_rt ''POST'' ''/admin/providers'' HCreateProvider True,
      admin_rt ''GET'' ''/admin/providers/{id}'' HGetProvider True,
      admin_rt ''PUT'' ''/admin/providers/{id}'' HUpdateProvider True,
      admin_rt ''DELETE'' ''/admin/providers/{id}'' HDeleteProvider True,
      admin_rt ''GET'' ''/admin/routes'' HListRoutes True,
      admin_rt ''POST'' ''/admin/routes'' HCreateRoute True,
      admin_rt ''GET'' ''/admin/routes/{id}'' HGetRoute True,
      admin_rt ''PUT'' ''/admin/routes/{id}'' HUpdateRoute True,
      admin_rt ''DELETE'' ''/admin/routes/{id}'' HDeleteRoute True,
      admin_rt ''GET'' ''/admin/local_api_keys'' HListLocalAPIKeys True,
      admin_rt ''POST'' ''/admin/local_api_keys'' HCreateLocalAPIKey True,
      admin_rt ''GET'' ''/admin/local_api_keys/{key}'' HGetLocalAPIKey True,
      admin_rt ''PUT'' ''/admin/local_api_keys/{key}'' HUpdateLocalAPIKey True,
      admin_rt ''DELETE'' ''/admin/local_api_keys/{key}'' HDeleteLocalAPIKey True,
      admin_rt ''GET'' ''/admin/credentials'' HListCredentials True,
      admin_rt ''GET'' ''/admin/credentials/{id}'' HGetCredential True,
      admin_rt ''DELETE'' ''/admin/credentials/{id}'' HDeleteCredential True,
      admin_rt ''GET'' ''/admin/mcp/clients'' HNotImplemented True,
      admin_rt ''POST'' ''/admin/mcp/clients'' HNotImplemented True,
      admin_rt ''GET'' ''/admin/mcp/clients/{id}'' HNotImplemented True,
      admin_rt ''PUT'' ''/admin/mcp/clients/{id}'' HNotImplemented True,
      admin_rt ''DELETE'' ''/admin/mcp/clients/{id}'' HNotImplemented True,
      admin_rt ''GET'' ''/admin/mcp/clients/{id}/tools'' HNotImplemented True,
      admin_rt ''GET'' ''/admin/memory/config'' HNotImplemented True,
      admin_rt ''PUT'' ''/admin/memory/config'' HNotImplemented True,
      admin_rt ''GET'' ''/admin/memory/search'' HNotImplemented True,
      admin_rt ''GET'' ''/admin/agents'' HNotImplemented True,
      admin_rt ''POST'' ''/admin/agents'' HNotImplemented True,
      admin_rt ''GET'' ''/admin/agents/{id}'' HNotImplemented True,
      admin_rt ''PUT'' ''/admin/agents/{id}'' HNotImplemented True,
      admin_rt ''DELETE'' ''/admin/agents/{id}'' HNotImplemented True,
      admin_rt ''GET'' ''/admin/metrics'' HNotImplemented True,
      admin_rt ''POST'' ''/admin/cliauth/{cliname}'' HCLIAuth True,
      admin_rt ''GET'' ''/admin/cliauth/{cliname}/status'' HCLIAuthStatus True]"

fun run_handler :: "'db admin_env \<Rightarrow> admin_handler \<Rightarrow> admin_request \<Rightarrow> ('db, 'st) admin_state \<Rightarrow> ('db, 'st) admin_state" where
  "run_handler env HHealth r s = handleHealth s"
| "run_handler env HLogin r s = handleLogin env r s"
| "run_handler env HLogout r s = handleLogout r s"
| "run_handler env HMe r s = handleMe env r s"
| "run_handler env HListProviders r s = handleListProviders env r s"
| "run_handler env HCreateProvider r s = handleCreateProvider env r s"
| "run_handler env HGetProvider r s = handleGetProvider env r s"
| "run_handler env HUpdateProvider r s = handleUpdateProvider env r s"
| "run_handler env HDeleteProvider r s = handleDeleteProvider env r s"
| "run_handler env HListRoutes r s = handleListRoutes env r s"
| "run_handler env HCreateRoute r s = handleCreateRoute env r s"
| "run_handler env HGetRoute r s = handleGetRoute env r s"
| "run_handler env HUpdateRoute r s = handleUpdateRoute env r s"
| "run_handler env HDeleteRoute r s = handleDeleteRoute env r s"
| "run_handler env HListLocalAPIKeys r s = handleListLocalAPIKeys env r s"
| "run_handler env HCreateLocalAPIKey r s = handleCreateLocalAPIKey env r s"
| "run_handler env HGetLocalAPIKey r s = handleGetLocalAPIKey env r s"
| "run_handler env HUpdateLocalAPIKey r s = handleUpdateLocalAPIKey env r s"
| "run_handler env HDeleteLocalAPIKey r s = handleDeleteLocalAPIKey env r s"
| "run_handler env HListCredentials r s = handleListCredentials env r s"
| "run_handler env HGetCredential r s = handleGetCredential env r s"
| "run_handler env HDeleteCredential r s = handleDeleteCredential r s"
| "run_handler env HNotImplemented r s = handle_not_implemented s"
| "run_handler env HCLIAuth r s = handleCLIAuth env r s"
| "run_handler env HCLIAuthStatus r s = handleCLIAuthStatus env r s"

subsection \<open>The mux\<close>

fun path_segments :: "string \<Rightarrow> string list" where
  "path_segments [] = [[]]"
| "path_segments (c # s) =
     (if c = CHR ''/'' then [] # path_segments s
      else (case path_segments s of [] \<Rightarrow> [[c]] | seg # segs \<Rightarrow> (c # seg) # segs))"

fun match_segments :: "string list \<Rightarrow> string list \<Rightarrow> (string, string) gomap option" where
  "match_segments [] [] = Some []"
| "match_segments (p # ps) (q # qs) =
     (if HasPrefix p ''{'' then
        (if q = [] then None
         else map_option (Cons (TrimSuffix (TrimPrefix p ''{'') ''}'', q)) (match_segments ps qs))
      else if p = q then match_segments ps qs else None)"
| "match_segments _ _ = None"

definition match_path :: "admin_route \<Rightarrow> string \<Rightarrow> (string, string) gomap option" where
  "match_path rt path = match_segments (path_segments (at_Path rt)) (path_segments path)"

definition method_matches :: "admin_route \<Rightarrow> string \<Rightarrow> bool" where
  "method_matches rt m \<longleftrightarrow> at_Method rt = m \<or> at_Method rt = ''GET'' \<and> m = ''HEAD''"

fun find_route :: "admin_route list \<Rightarrow> string \<Rightarrow> string \<Rightarrow> (admin_route \<times> (string, string) gomap) option" where
  "find_route [] m path = None"
| "find_route (rt # rts) m path =
     (case match_path rt path of
        Some pv \<Rightarrow> if method_matches rt m then Some (rt, pv) else find_route rts m path
      | None \<Rightarrow> find_route rts m path)"

definition mux_ServeHTTP :: "'db admin_env \<Rightarrow> admin_request \<Rightarrow> ('db, 'st) admin_state \<Rightarrow> ('db, 'st) admin_state" where
  "mux_ServeHTTP env r s =
     (let m = ar_Method (aq_HTTP r); path = ar_Path (aq_HTTP r)
      in (case find_route Admin_Routes m path of
            Some (rt, pv) \<Rightarrow>
              (if at_RequireAuth rt then requireAuth (run_handler env (at_Handler rt)) (r\<lparr>aq_PathValue := pv\<rparr>) s
               else run_handler env (at_Handler rt) (r\<lparr>aq_PathValue := pv\<rparr>) s)
          | None \<Rightarrow>
              if list_ex (\<lambda>rt. match_path rt path \<noteq> None) Admin_Routes
              then http_Error 405 ''Method Not Allowed'' s
              else http_Error 404 ''404 page not found'' s))"

definition set_cors :: "string \<Rightarrow> logging_writer \<Rightarrow> logging_writer" where
  "set_cors origin w =
     (if origin = [] then w
      else lw_SetHeader (lw_SetHeader (lw_SetHeader (lw_SetHeader w
             ''Access-Control-Allow-Origin'' origin)
             ''Access-Control-Allow-Methods'' ''GET, POST, PUT, DELETE, OPTIONS'')
             ''Access-Control-Allow-Headers'' ''Authorization, Content-Type'')
             ''Access-Control-Max-Age'' ''86400'')"

definition admin_ServeHTTP ::
    "'db admin_env \<Rightarrow> admin_request \<Rightarrow> response_writer \<Rightarrow> ('db, 'st) admin_state \<Rightarrow> ('db, 'st) admin_state" where
  "admin_ServeHTTP env r w s =
     (let s = s\<lparr>ad_out := set_cors (Header_Get (hr_Header (ar_HTTP (aq_HTTP r))) ''Origin'')
                             (NewLoggingResponseWriter w)\<rparr>;
          s = (if ar_Method (aq_HTTP r) = ''OPTIONS'' then s\<lparr>ad_out := lw_WriteHeader (ad_out s) 204\<rparr>
               else mux_ServeHTTP env r s)
      in s\<lparr>ad_log := LogHTTPResponseError (av_unmarshalError env) (ad_log s) ''admin request failed'' (aq_HTTP r)
                       (Some (ad_out s)) []\<rparr>)"

definition admin_NewHandler ::
    "'st cred_manager option \<Rightarrow> admin_config_store option \<Rightarrow> 'db \<Rightarrow> logger \<Rightarrow> string \<Rightarrow> string \<Rightarrow> ('db, 'st) admin_state" where
  "admin_NewHandler cliauthMgr configStore db logger adminUser adminPasswordHash =
     \<lparr>ad_manager = cliauthMgr, ad_configStore = configStore, ad_db = db, ad_cliAuthSessions = [],
      ad_sessions = [], ad_adminUsername = adminUser, ad_adminPasswordHash = adminPasswordHash,
      ad_log = (case logger of None \<Rightarrow> Some [] | Some l \<Rightarrow> Some l),
      ad_out = NewLoggingResponseWriter new_response\<rparr>"

end
