(* ===== verification/Admin_Props.thy ===== *)
theory Admin_Props
  imports Admin_Server Store_Props Gateway_Props
begin

text \<open>
  What the admin API guarantees: nothing is read or changed without a session, sessions come from a
  login with the configured password only and end with the logout, the statuses of CLI logins are
  well-formed and the credential manager stays in its invariant whatever requests and logins
  interleave, and what an administrator creates is what the gateway resolves requests with.
\<close>

subsection \<open>Replies\<close>

text \<open>Everything of the handler but the log and the response.\<close>

definition admin_core :: "('db, 'st) admin_state \<Rightarrow> _" where
  "admin_core s =
     (ad_manager s, ad_configStore s, ad_db s, ad_cliAuthSessions s, ad_sessions s, ad_adminUsername s, ad_adminPasswordHash s)"

text \<open>The part that only logins, logouts and credential requests change.\<close>

definition admin_keep :: "('db, 'st) admin_state \<Rightarrow> _" where
  "admin_keep s = (ad_manager s, ad_cliAuthSessions s, ad_sessions s, ad_adminUsername s, ad_adminPasswordHash s)"

definition reply_status :: "('db, 'st) admin_state \<Rightarrow> int option" where
  "reply_status s = ow_Status (lw_inner (ad_out s))"

text \<open>No reply yet.\<close>

definition unanswered :: "('db, 'st) admin_state \<Rightarrow> bool" where
  "unanswered s \<longleftrightarrow> \<not> lw_wroteHeader (ad_out s) \<and> ow_Status (lw_inner (ad_out s)) = None"

lemma lw_SetHeader_simps [simp]:
  "lw_wroteHeader (lw_SetHeader w k v) = lw_wroteHeader w" "ow_Status (lw_inner (lw_SetHeader w k v)) = ow_Status (lw_inner w)"
  by (simp_all add: lw_SetHeader_def)

lemma lw_status_simps:
  "\<not> lw_wroteHeader w \<Longrightarrow> ow_Status (lw_inner w) = None \<Longrightarrow> ow_Status (lw_inner (lw_WriteHeader w st)) = Some st"
  "\<not> lw_wroteHeader w \<Longrightarrow> ow_Status (lw_inner w) = None \<Longrightarrow> ow_Status (lw_inner (lw_Write (lw_WriteHeader w st) p)) = Some st"
  by (simp_all add: lw_WriteHeader_def lw_Write_def Let_def)

lemma reply_core [simp]:
  "admin_core (reply st v s) = admin_core s" "admin_core (reply_error st msg s) = admin_core s"
  "admin_core (http_Error st msg s) = admin_core s"
  by (simp_all add: admin_core_def reply_def reply_error_def http_Error_def)

lemma reply_keep [simp]:
  "admin_keep (reply st v s) = admin_keep s" "admin_keep (reply_error st msg s) = admin_keep s"
  "admin_keep (http_Error st msg s) = admin_keep s"
  by (simp_all add: admin_keep_def reply_def reply_error_def http_Error_def)

lemma core_keep: "admin_core s = admin_core s' \<Longrightarrow> admin_keep s = admin_keep s'"
  by (simp add: admin_core_def admin_keep_def)

lemma reply_status_simps [simp]:
  "unanswered s \<Longrightarrow> reply_status (reply st v s) = Some st"
  "unanswered s \<Longrightarrow> reply_status (reply_error st msg s) = Some st"
  "unanswered s \<Longrightarrow> reply_status (http_Error st msg s) = Some st"
  by (simp_all add: unanswered_def reply_status_def reply_def reply_error_def http_Error_def lw_status_simps)

lemma unanswered_simps [simp]:
  "unanswered (s\<lparr>ad_db := db\<rparr>) = unanswered s" "unanswered (s\<lparr>ad_configStore := cs\<rparr>) = unanswered s"
  "unanswered (s\<lparr>ad_manager := m\<rparr>) = unanswered s" "unanswered (s\<lparr>ad_sessions := ss\<rparr>) = unanswered s"
  "unanswered (s\<lparr>ad_cliAuthSessions := ca\<rparr>) = unanswered s"
  by (simp_all add: unanswered_def)

lemma admin_keep_simps [simp]:
  "admin_keep (s\<lparr>ad_db := db\<rparr>) = admin_keep s" "admin_keep (s\<lparr>ad_configStore := cs\<rparr>) = admin_keep s"
  "admin_keep (s\<lparr>ad_out := w\<rparr>) = admin_keep s" "admin_keep (s\<lparr>ad_log := l\<rparr>) = admin_keep s"
  by (simp_all add: admin_keep_def)

lemma admin_core_simps [simp]:
  "admin_core (s\<lparr>ad_out := w\<rparr>) = admin_core s" "admin_core (s\<lparr>ad_log := l\<rparr>) = admin_core s"
  by (simp_all add: admin_core_def)

lemma stores_keep:
  "providerStore env s = (p, s1) \<Longrightarrow> admin_keep s1 = admin_keep s"
  "routeStore env s = (rt, s1) \<Longrightarrow> admin_keep s1 = admin_keep s"
  "localAPIKeyStore env s = (k, s1) \<Longrightarrow> admin_keep s1 = admin_keep s"
  by (auto simp: providerStore_def routeStore_def localAPIKeyStore_def split: option.splits prod.splits sum.splits)

subsection \<open>The mux\<close>

fun join_segments :: "string list \<Rightarrow> string" where
  "join_segments [] = []"
| "join_segments [s] = s"
| "join_segments (s # ss) = s @ ''/'' @ join_segments ss"

lemma path_segments_not_Nil [simp]: "path_segments p \<noteq> []"
  by (induction p) (auto split: list.splits)

lemma join_path_segments: "join_segments (path_segments p) = p"
proof (induction p)
  case (Cons c p)
  then show ?case
    by (cases "path_segments p"; cases "tl (path_segments p)") auto
qed simp

lemma path_segments_inj: "path_segments p = path_segments q \<longleftrightarrow> p = q"
  by (metis join_path_segments)

lemma match_segments_literal:
  "match_segments ps qs = Some pv \<Longrightarrow> list_all (\<lambda>p. \<not> HasPrefix p ''{'') ps \<Longrightarrow> ps = qs"
  by (induction ps qs arbitrary: pv rule: match_segments.induct) (auto split: if_splits)

lemma find_route_Some:
  "find_route rts m path = Some (rt, pv) \<Longrightarrow>
   rt \<in> set rts \<and> match_path rt path = Some pv \<and> method_matches rt m"
  by (induction rts) (auto split: option.splits if_splits)

text \<open>The only routes without authentication.\<close>

lemma open_table:
  "filter (\<lambda>rt. \<not> at_RequireAuth rt) Admin_Routes =
     [admin_rt ''GET'' ''/admin/health'' HHealth False, admin_rt ''POST'' ''/admin/auth/login'' HLogin False]"
  by (simp add: Admin_Routes_def admin_rt_def)

lemma open_routes:
  assumes "find_route Admin_Routes m path = Some (rt, pv)" and "\<not> at_RequireAuth rt"
  shows "at_Handler rt = HHealth \<and> path = ''/admin/health'' \<or>
         at_Handler rt = HLogin \<and> path = ''/admin/auth/login'' \<and> m = ''POST''"
proof -
  from find_route_Some [OF assms(1)] have rt: "rt \<in> set Admin_Routes"
    and seg: "match_segments (path_segments (at_Path rt)) (path_segments path) = Some pv"
    and meth: "method_matches rt m" by (simp_all add: match_path_def)
  from rt assms(2) have "rt \<in> set (filter (\<lambda>rt. \<not> at_RequireAuth rt) Admin_Routes)" by simp
  then have c: "rt = admin_rt ''GET'' ''/admin/health'' HHealth False \<or>
      rt = admin_rt ''POST'' ''/admin/auth/login'' HLogin False"
    unfolding open_table by simp
  then have "list_all (\<lambda>p. \<not> HasPrefix p ''{'') (path_segments (at_Path rt))"
    by (auto simp: admin_rt_def HasPrefix_def)
  from match_segments_literal [OF seg this] have "path = at_Path rt" by (simp add: path_segments_inj)
  with c meth show ?thesis by (auto simp: admin_rt_def method_matches_def)
qed

subsection \<open>Nothing without a session\<close>

definition authenticated :: "('db, 'st) admin_state \<Rightarrow> admin_request \<Rightarrow> bool" where
  "authenticated s r \<longleftrightarrow>
     ad_adminUsername s \<noteq> [] \<and> bearerToken r \<noteq> [] \<and> session_lookup s (bearerToken r) \<noteq> None"

lemma bearerToken_path [simp]: "bearerToken (r\<lparr>aq_PathValue := pv\<rparr>) = bearerToken r"
  by (simp add: bearerToken_def)

lemma authenticated_simps [simp]:
  "authenticated s (r\<lparr>aq_PathValue := pv\<rparr>) = authenticated s r"
  "authenticated (s\<lparr>ad_out := w\<rparr>) r = authenticated s r" "authenticated (s\<lparr>ad_log := l\<rparr>) r = authenticated s r"
  by (simp_all add: authenticated_def session_lookup_def)

lemma requireAuth_authenticated: "authenticated s r \<Longrightarrow> requireAuth nxt r s = nxt r s"
  by (auto simp: requireAuth_def authenticated_def)

lemma requireAuth_refused:
  assumes "\<not> authenticated s r"
  shows "admin_core (requireAuth nxt r s) = admin_core s \<and>
         (unanswered s \<longrightarrow> reply_status (requireAuth nxt r s) = Some 401)"
  using assms by (auto simp: requireAuth_def authenticated_def Let_def split: option.splits)

lemma lw_set_cors [simp]:
  "lw_wroteHeader (set_cors origin w) = lw_wroteHeader w" "ow_Status (lw_inner (set_cors origin w)) = ow_Status (lw_inner w)"
  by (simp_all add: set_cors_def)

text \<open>The state the mux is called in.\<close>

definition prepared :: "admin_request \<Rightarrow> response_writer \<Rightarrow> ('db, 'st) admin_state \<Rightarrow> ('db, 'st) admin_state" where
  "prepared r w s =
     s\<lparr>ad_out := set_cors (Header_Get (hr_Header (ar_HTTP (aq_HTTP r))) ''Origin'') (NewLoggingResponseWriter w)\<rparr>"

lemma prepared_simps [simp]:
  "admin_core (prepared r w s) = admin_core s" "admin_keep (prepared r w s) = admin_keep s"
  "authenticated (prepared r w s) q = authenticated s q"
  "ow_Status w = None \<Longrightarrow> unanswered (prepared r w s)"
  by (simp_all add: prepared_def unanswered_def NewLoggingResponseWriter_def)

lemma prepared_fields [simp]:
  "ad_sessions (prepared r w s) = ad_sessions s" "ad_adminUsername (prepared r w s) = ad_adminUsername s"
  "ad_adminPasswordHash (prepared r w s) = ad_adminPasswordHash s" "ad_manager (prepared r w s) = ad_manager s"
  "ad_db (prepared r w s) = ad_db s" "ad_configStore (prepared r w s) = ad_configStore s"
  "ad_cliAuthSessions (prepared r w s) = ad_cliAuthSessions s"
  by (simp_all add: prepared_def)

lemma admin_ServeHTTP_cases:
  obtains (options) l where "ar_Method (aq_HTTP r) = ''OPTIONS''"
      "admin_ServeHTTP env r w s =
         (prepared r w s)\<lparr>ad_out := lw_WriteHeader (ad_out (prepared r w s)) 204, ad_log := l\<rparr>"
  | (mux) l where "ar_Method (aq_HTTP r) \<noteq> ''OPTIONS''"
      "admin_ServeHTTP env r w s = (mux_ServeHTTP env r (prepared r w s))\<lparr>ad_log := l\<rparr>"
  by (cases "ar_Method (aq_HTTP r) = ''OPTIONS''") (auto simp: admin_ServeHTTP_def prepared_def Let_def)

lemma reply_status_log [simp]: "reply_status (s\<lparr>ad_log := l\<rparr>) = reply_status s"
  by (simp add: reply_status_def)

lemma mux_refused:
  assumes "\<not> authenticated s r" and "unanswered s"
    and "\<not> (ar_Method (aq_HTTP r) = ''POST'' \<and> ar_Path (aq_HTTP r) = ''/admin/auth/login'')"
  shows "admin_core (mux_ServeHTTP env r s) = admin_core s \<and>
         (ar_Path (aq_HTTP r) = ''/admin/health'' \<or>
          (\<exists>st\<in>{401, 404, 405}. reply_status (mux_ServeHTTP env r s) = Some st))"
proof (cases "find_route Admin_Routes (ar_Method (aq_HTTP r)) (ar_Path (aq_HTTP r))")
  case None
  with assms(2) show ?thesis by (auto simp: mux_ServeHTTP_def)
next
  case (Some a)
  obtain rt pv where a: "a = (rt, pv)" by fastforce
  show ?thesis
  proof (cases "at_RequireAuth rt")
    case True
    with Some a assms(1,2) requireAuth_refused [of s "r\<lparr>aq_PathValue := pv\<rparr>" "run_handler env (at_Handler rt)"]
    show ?thesis by (simp add: mux_ServeHTTP_def)
  next
    case False
    from open_routes [OF Some [unfolded a] this] assms(3) Some a False show ?thesis
      by (auto simp: mux_ServeHTTP_def handleHealth_def)
  qed
qed

text \<open>C15: nothing without a session.  A request that carries no token of a live session (or that comes
  while no administrator is configured), to any path but the login, changes neither the credentials
  nor the stores, the sessions or the login statuses, and is answered with 401, 404 or 405 (204 for a
  preflight); only the health check answers it otherwise.\<close>

theorem admin_requires_session:
  assumes "\<not> authenticated s r" and "ow_Status w = None"
    and "\<not> (ar_Method (aq_HTTP r) = ''POST'' \<and> ar_Path (aq_HTTP r) = ''/admin/auth/login'')"
  shows "admin_core (admin_ServeHTTP env r w s) = admin_core s \<and>
         (ar_Path (aq_HTTP r) = ''/admin/health'' \<or>
          (\<exists>st\<in>{204, 401, 404, 405}. reply_status (admin_ServeHTTP env r w s) = Some st))"
proof (cases rule: admin_ServeHTTP_cases [where env = env and r = r and w = w and s = s])
  case (options l)
  have "ow_Status (lw_inner (lw_WriteHeader (ad_out (prepared r w s)) 204)) = Some 204"
    using prepared_simps(4) [OF assms(2), of r s] by (simp add: unanswered_def lw_status_simps)
  then show ?thesis by (simp add: options(2)) (simp add: reply_status_def)
next
  case (mux l)
  with mux_refused [of "prepared r w s" r env] assms show ?thesis by auto
qed

subsection \<open>Sessions\<close>

lemma provider_reply_keep [simp]: "admin_keep (provider_reply env obj s) = admin_keep s"
  by (simp add: provider_reply_def split: stored_config.splits)

lemmas handler_splits = option.splits sum.splits prod.splits

lemma provider_handlers_keep:
  "admin_keep (handleListProviders env r s) = admin_keep s" "admin_keep (handleCreateProvider env r s) = admin_keep s"
  "admin_keep (handleGetProvider env r s) = admin_keep s" "admin_keep (handleUpdateProvider env r s) = admin_keep s"
  "admin_keep (handleDeleteProvider env r s) = admin_keep s"
  by (auto simp: handleListProviders_def handleCreateProvider_def handleGetProvider_def handleUpdateProvider_def
      handleDeleteProvider_def Let_def dest: stores_keep split: handler_splits)

lemma route_handlers_keep:
  "admin_keep (handleListRoutes env r s) = admin_keep s" "admin_keep (handleCreateRoute env r s) = admin_keep s"
  "admin_keep (handleGetRoute env r s) = admin_keep s" "admin_keep (handleUpdateRoute env r s) = admin_keep s"
  "admin_keep (handleDeleteRoute env r s) = admin_keep s"
  by (auto simp: handleListRoutes_def handleCreateRoute_def handleGetRoute_def handleUpdateRoute_def
      handleDeleteRoute_def Let_def dest: stores_keep split: handler_splits)

lemma key_handlers_keep:
  "admin_keep (handleListLocalAPIKeys env r s) = admin_keep s" "admin_keep (handleCreateLocalAPIKey env r s) = admin_keep s"
  "admin_keep (handleGetLocalAPIKey env r s) = admin_keep s" "admin_keep (handleUpdateLocalAPIKey env r s) = admin_keep s"
  "admin_keep (handleDeleteLocalAPIKey env r s) = admin_keep s"
  by (auto simp: handleListLocalAPIKeys_def handleCreateLocalAPIKey_def handleGetLocalAPIKey_def
      handleUpdateLocalAPIKey_def handleDeleteLocalAPIKey_def Let_def dest: stores_keep split: handler_splits)

lemma other_handlers_keep:
  "admin_keep (handleHealth s) = admin_keep s" "admin_keep (handleMe env r s) = admin_keep s"
  "admin_keep (handle_not_implemented s) = admin_keep s" "admin_keep (handleListCredentials env r s) = admin_keep s"
  "admin_keep (handleGetCredential env r s) = admin_keep s" "admin_keep (handleCLIAuthStatus env r s) = admin_keep s"
  by (auto simp: handleHealth_def handleMe_def handle_not_implemented_def handleListCredentials_def
      handleGetCredential_def handleCLIAuthStatus_def Let_def split: option.splits)

lemma run_handler_keep:
  "h \<notin> {HLogin, HLogout, HCLIAuth, HDeleteCredential} \<Longrightarrow> admin_keep (run_handler env h r s) = admin_keep s"
  by (cases h) (simp_all add: provider_handlers_keep route_handlers_keep key_handlers_keep other_handlers_keep)

text \<open>A login with the configured name and password.\<close>

definition login_ok :: "'db admin_env \<Rightarrow> admin_request \<Rightarrow> ('db, 'st) admin_state \<Rightarrow> login_request \<Rightarrow> bool" where
  "login_ok env r s req \<longleftrightarrow>
     DecodeJSON (av_readLogin env) (aq_HTTP r) = Inr req \<and> lg_Username req = ad_adminUsername s \<and>
     lg_Username req \<noteq> [] \<and> lg_Password req \<noteq> [] \<and> av_bcrypt env (ad_adminPasswordHash s) (lg_Password req)"

lemma login_ok_prepared [simp]: "login_ok env r (prepared q w s) req = login_ok env r s req"
  by (simp add: login_ok_def)

lemma login_ok_path [simp]: "login_ok env (r\<lparr>aq_PathValue := pv\<rparr>) s req = login_ok env r s req"
  by (simp add: login_ok_def)

lemma reply_sessions [simp]:
  "ad_sessions (reply st v s) = ad_sessions s" "ad_sessions (reply_error st msg s) = ad_sessions s"
  by (simp_all add: reply_def reply_error_def)

lemma handleLogin_cases:
  obtains (granted) req t where "login_ok env r s req" "av_token env = Some t"
      "handleLogin env r s =
         reply 200 (status_reply [(''token'', t), (''username'', lg_Username req)])
           (s\<lparr>ad_sessions := AList.update t \<lparr>ss_username = ad_adminUsername s, ss_createdAt = av_now env\<rparr> (ad_sessions s)\<rparr>)"
  | (refused) st msg where "handleLogin env r s = reply_error st msg s"
      "(\<exists>req. login_ok env r s req) \<Longrightarrow> av_token env = None"
proof (cases "\<exists>req. login_ok env r s req")
  case True
  then obtain req where ok: "login_ok env r s req" by blast
  then show thesis
    by (cases "av_token env") (auto simp: handleLogin_def login_ok_def session_create_def intro: granted [OF ok] refused)
next
  case False
  then have "\<exists>st msg. handleLogin env r s = reply_error st msg s"
    by (cases "DecodeJSON (av_readLogin env) (aq_HTTP r)") (auto simp: handleLogin_def login_ok_def Let_def)
  with False refused show thesis by blast
qed

text \<open>How a request to a known route is served.\<close>

lemma mux_route:
  "find_route Admin_Routes (ar_Method (aq_HTTP r)) (ar_Path (aq_HTTP r)) = Some (rt, pv) \<Longrightarrow>
   mux_ServeHTTP env r s =
     (if at_RequireAuth rt then requireAuth (run_handler env (at_Handler rt)) (r\<lparr>aq_PathValue := pv\<rparr>) s
      else run_handler env (at_Handler rt) (r\<lparr>aq_PathValue := pv\<rparr>) s)"
  by (simp add: mux_ServeHTTP_def)

lemma serve_route:
  assumes "find_route Admin_Routes (ar_Method (aq_HTTP r)) (ar_Path (aq_HTTP r)) = Some (rt, pv)"
    and "ar_Method (aq_HTTP r) \<noteq> ''OPTIONS''" and "at_RequireAuth rt \<Longrightarrow> authenticated s r"
  shows "\<exists>l. admin_ServeHTTP env r w s =
           (run_handler env (at_Handler rt) (r\<lparr>aq_PathValue := pv\<rparr>) (prepared r w s))\<lparr>ad_log := l\<rparr>"
proof (cases rule: admin_ServeHTTP_cases [where env = env and r = r and w = w and s = s])
  case (mux l)
  with assms show ?thesis by (auto simp: mux_route [OF assms(1)] requireAuth_authenticated)
qed (simp add: assms(2))

lemma auth_routes:
  "find_route Admin_Routes ''POST'' ''/admin/auth/login'' = Some (admin_rt ''POST'' ''/admin/auth/login'' HLogin False, [])"
  "find_route Admin_Routes ''POST'' ''/admin/auth/logout'' = Some (admin_rt ''POST'' ''/admin/auth/logout'' HLogout True, [])"
  "find_route Admin_Routes ''POST'' ''/admin/routes'' = Some (admin_rt ''POST'' ''/admin/routes'' HCreateRoute True, [])"
  "find_route Admin_Routes ''POST'' ''/admin/local_api_keys'' =
     Some (admin_rt ''POST'' ''/admin/local_api_keys'' HCreateLocalAPIKey True, [])"
  by code_simp+

lemma admin_rt_simps [simp]:
  "at_Handler (admin_rt m p h a) = h" "at_RequireAuth (admin_rt m p h a) = a"
  by (simp_all add: admin_rt_def)

lemma serve_login:
  assumes "ar_Method (aq_HTTP r) = ''POST''" and "ar_Path (aq_HTTP r) = ''/admin/auth/login''"
    and "login_ok env r s req" and "av_token env = Some t" and "ow_Status w = None"
  shows "reply_status (admin_ServeHTTP env r w s) = Some 200 \<and>
         ad_sessions (admin_ServeHTTP env r w s) =
           AList.update t \<lparr>ss_username = ad_adminUsername s, ss_createdAt = av_now env\<rparr> (ad_sessions s) \<and>
         ad_adminUsername (admin_ServeHTTP env r w s) = ad_adminUsername s \<and>
         ad_configStore (admin_ServeHTTP env r w s) = ad_configStore s \<and> ad_db (admin_ServeHTTP env r w s) = ad_db s"
proof -
  let ?s = "prepared r w s"
  from serve_route [of r _ _ s env w, unfolded assms(1,2), OF auth_routes(1)] obtain l where
    eq: "admin_ServeHTTP env r w s = (handleLogin env (r\<lparr>aq_PathValue := []\<rparr>) ?s)\<lparr>ad_log := l\<rparr>" by auto
  have u: "unanswered ?s" using assms(5) by simp
  show ?thesis
  proof (cases rule: handleLogin_cases [where env = env and r = "r\<lparr>aq_PathValue := []\<rparr>" and s = ?s])
    case (granted req' t')
    with assms(4) u show ?thesis by (simp add: eq) (simp add: reply_def)
  next
    case (refused st msg)
    with assms(3,4) show ?thesis by auto
  qed
qed

lemma serve_logout:
  assumes "ar_Method (aq_HTTP r) = ''POST''" and "ar_Path (aq_HTTP r) = ''/admin/auth/logout''"
    and "authenticated s r" and "ow_Status w = None"
  shows "reply_status (admin_ServeHTTP env r w s) = Some 200 \<and>
         ad_sessions (admin_ServeHTTP env r w s) = AList.delete (bearerToken r) (ad_sessions s)"
proof -
  from serve_route [of r _ _ s env w, unfolded assms(1,2), OF auth_routes(2)] assms(3) obtain l where
    "admin_ServeHTTP env r w s = (handleLogout (r\<lparr>aq_PathValue := []\<rparr>) (prepared r w s))\<lparr>ad_log := l\<rparr>" by auto
  moreover have "bearerToken r \<noteq> []" using assms(3) by (simp add: authenticated_def)
  ultimately show ?thesis using assms(4) by (simp add: handleLogout_def session_revoke_def)
qed


lemma mux_cases:
  obtains (kept) "admin_keep (mux_ServeHTTP env r s) = admin_keep s"
  | (ran) rt pv where "find_route Admin_Routes (ar_Method (aq_HTTP r)) (ar_Path (aq_HTTP r)) = Some (rt, pv)"
      "mux_ServeHTTP env r s = run_handler env (at_Handler rt) (r\<lparr>aq_PathValue := pv\<rparr>) s"
proof (cases "find_route Admin_Routes (ar_Method (aq_HTTP r)) (ar_Path (aq_HTTP r))")
  case None
  then show ?thesis by (intro kept) (simp add: mux_ServeHTTP_def)
next
  case (Some a)
  obtain rt pv where a: "a = (rt, pv)" by fastforce
  let ?q = "r\<lparr>aq_PathValue := pv\<rparr>" and ?h = "run_handler env (at_Handler rt)"
  note m = mux_route [OF Some [unfolded a], of env s]
  show ?thesis
  proof (cases "at_RequireAuth rt \<and> \<not> authenticated s r")
    case True
    with m requireAuth_refused [of s ?q ?h] core_keep [of "requireAuth ?h ?q s" s] show ?thesis by (intro kept) simp
  next
    case False
    with m requireAuth_authenticated [of s ?q ?h] show ?thesis by (intro ran [OF Some [unfolded a]]) auto
  qed
qed

text \<open>The handlers that touch sessions, statuses or the manager.\<close>

lemma run_handler_cases:
  obtains (kept) "admin_keep (run_handler env h r s) = admin_keep s"
  | (login) "h = HLogin" | (logout) "h = HLogout" | (cliauth) "h = HCLIAuth" | (delete) "h = HDeleteCredential"
  using run_handler_keep [of h env r s] by blast

lemma login_route:
  assumes "find_route Admin_Routes m path = Some (rt, pv)" and "at_Handler rt = HLogin"
  shows "m = ''POST'' \<and> path = ''/admin/auth/login''"
proof -
  have "list_all (\<lambda>rt. at_Handler rt = HLogin \<longrightarrow> \<not> at_RequireAuth rt) Admin_Routes" by code_simp
  with find_route_Some [OF assms(1)] assms(2) have "\<not> at_RequireAuth rt" by (simp add: list_all_iff)
  with open_routes [OF assms(1)] assms(2) show ?thesis by auto
qed

lemma mux_sessions:
  assumes new: "session_lookup (mux_ServeHTTP env r s) t = Some sess" "session_lookup s t \<noteq> Some sess"
  shows "ar_Method (aq_HTTP r) = ''POST'' \<and> ar_Path (aq_HTTP r) = ''/admin/auth/login'' \<and>
         (\<exists>req. login_ok env r s req) \<and> av_token env = Some t \<and> ss_username sess = ad_adminUsername s"
proof (cases rule: mux_cases [where env = env and r = r and s = s])
  case kept
  with new show ?thesis by (simp add: admin_keep_def session_lookup_def)
next
  case (ran rt pv)
  show ?thesis
  proof (cases rule: run_handler_cases [where env = env and h = "at_Handler rt" and r = "r\<lparr>aq_PathValue := pv\<rparr>" and s = s])
    case login
    from new ran(2) login_route [OF ran(1) login] show ?thesis
      by (cases rule: handleLogin_cases [where env = env and r = "r\<lparr>aq_PathValue := pv\<rparr>" and s = s])
         (auto simp: login session_lookup_def split: if_splits)
  qed (use new ran(2) in \<open>auto simp: admin_keep_def handleLogout_def session_revoke_def handleCLIAuth_def
      handleDeleteCredential_def storeCLIAuthStatus_def session_lookup_def Let_def split: if_splits option.splits prod.splits\<close>)
qed

text \<open>C17: sessions come from the password only.  A request after which a token gives access it did not
  give before is a login with the configured name and password, the token is the random one drawn for
  it and the session is the administrator's.\<close>

theorem admin_session_needs_password:
  assumes "session_lookup (admin_ServeHTTP env r w s) t = Some sess" and "session_lookup s t \<noteq> Some sess"
  shows "ar_Method (aq_HTTP r) = ''POST'' \<and> ar_Path (aq_HTTP r) = ''/admin/auth/login'' \<and>
         (\<exists>req. login_ok env r s req) \<and> av_token env = Some t \<and> ss_username sess = ad_adminUsername s"
proof (cases rule: admin_ServeHTTP_cases [where env = env and r = r and w = w and s = s])
  case (options l)
  with assms show ?thesis by (simp add: session_lookup_def)
next
  case (mux l)
  with assms mux_sessions [of env r "prepared r w s" t sess] show ?thesis by (simp add: session_lookup_def)
qed

subsection \<open>Interleavings\<close>

text \<open>A status is that of a running login, of a failed or of a successful one.\<close>

definition cli_status_ok :: "cli_auth_status \<Rightarrow> bool" where
  "cli_status_ok st \<longleftrightarrow>
     ca_Status st = ''running'' \<and> ca_FinishedAt st = None \<and> ca_Error st = [] \<and> ca_CredentialID st = [] \<or>
     ca_Status st = ''failed'' \<and> ca_FinishedAt st \<noteq> None \<and> ca_CredentialID st = [] \<or>
     ca_Status st = ''succeeded'' \<and> ca_FinishedAt st \<noteq> None \<and> ca_Error st = []"

text \<open>Requests, ends of CLI logins and the picks and results of gateway traffic, in any order.\<close>

inductive admin_reach :: "gotime \<Rightarrow> ('db, 'st) admin_state \<Rightarrow> bool" where
  start: "case m of None \<Rightarrow> True | Some mg \<Rightarrow> mgr_reach T mg \<Longrightarrow>
    admin_reach T (admin_NewHandler m cs db logger user hash)"
| request: "admin_reach T s \<Longrightarrow> admin_reach T (admin_ServeHTTP env r w s)"
| login_end: "admin_reach T s \<Longrightarrow> T \<le> e_schedNow cenv \<Longrightarrow> TrimSpace (e_uuid cenv) = e_uuid cenv \<Longrightarrow>
    (case answer of Inl _ \<Rightarrow> True | Inr c \<Rightarrow> TrimSpace (c_ID c) = c_ID c) \<Longrightarrow>
    admin_reach (e_schedNow cenv) (cli_login_finish cliname (running_status t0) answer now cenv s)"
| pick: "admin_reach T s \<Longrightarrow> ad_manager s = Some m \<Longrightarrow> T \<le> now1 \<Longrightarrow> now1 \<le> now2 \<Longrightarrow>
    admin_reach now2 (s\<lparr>ad_manager := Some (snd (Pick m provider model tried now1 now2 now3))\<rparr>)"
| result: "admin_reach T s \<Longrightarrow> ad_manager s = Some m \<Longrightarrow> T \<le> e_schedNow cenv \<Longrightarrow>
    admin_reach (e_schedNow cenv) (s\<lparr>ad_manager := Some (MarkResult m ctx result now cenv)\<rparr>)"

definition admin_inv :: "gotime \<Rightarrow> ('db, 'st) admin_state \<Rightarrow> bool" where
  "admin_inv T s \<longleftrightarrow>
     (\<forall>m. ad_manager s = Some m \<longrightarrow> mgr_inv T m) \<and>
     (\<forall>t sess. map_of (ad_sessions s) t = Some sess \<longrightarrow> ss_username sess = ad_adminUsername s \<and> ad_adminUsername s \<noteq> []) \<and>
     (\<forall>n st. map_of (ad_cliAuthSessions s) n = Some st \<longrightarrow> cli_status_ok st)"

lemma admin_invD:
  assumes "admin_inv T s"
  shows "ad_manager s = Some m \<Longrightarrow> mgr_inv T m"
    and "map_of (ad_sessions s) t = Some sess \<Longrightarrow> ss_username sess = ad_adminUsername s \<and> ad_adminUsername s \<noteq> []"
    and "map_of (ad_cliAuthSessions s) n = Some st \<Longrightarrow> cli_status_ok st"
  using assms unfolding admin_inv_def by blast+

lemma admin_inv_keep: "admin_keep s = admin_keep s' \<Longrightarrow> admin_inv T s = admin_inv T s'"
  by (simp add: admin_keep_def admin_inv_def)

lemma admin_inv_replies [simp]:
  "admin_inv T (reply st v s) = admin_inv T s" "admin_inv T (reply_error st msg s) = admin_inv T s"
  "admin_inv T (prepared r w s) = admin_inv T s" "admin_inv T (s\<lparr>ad_log := l\<rparr>) = admin_inv T s"
  "admin_inv T (s\<lparr>ad_out := o1\<rparr>) = admin_inv T s"
  by (rule admin_inv_keep, simp)+

lemma snapshot_same: "cliAuthStatusSnapshot (Some st) = st"
  by (simp add: cliAuthStatusSnapshot_def split: option.splits)

lemma store_status_inv:
  "admin_inv T s \<Longrightarrow> cli_status_ok st \<Longrightarrow> admin_inv T (storeCLIAuthStatus n (Some st) s)"
  by (auto simp: admin_inv_def storeCLIAuthStatus_def snapshot_same split: if_splits option.splits)

lemma manager_step_inv:
  "admin_inv T s \<Longrightarrow> mgr_inv T' m \<Longrightarrow> admin_inv T' (s\<lparr>ad_manager := Some m\<rparr>)"
  by (auto simp: admin_inv_def)

lemma status_ok_intros:
  "cli_status_ok (running_status t0)"
  "cli_status_ok ((cliAuthStatusSnapshot (Some (running_status t0)))\<lparr>ca_FinishedAt := Some t, ca_Status := ''failed'', ca_Error := e\<rparr>)"
  "cli_status_ok ((cliAuthStatusSnapshot (Some (running_status t0)))\<lparr>ca_FinishedAt := Some t, ca_Status := ''succeeded'', ca_CredentialID := i\<rparr>)"
  by (simp_all add: cli_status_ok_def running_status_def cliAuthStatusSnapshot_def)

lemma handleLogin_inv: "admin_inv T s \<Longrightarrow> admin_inv T (handleLogin env r s)"
  by (cases rule: handleLogin_cases [where env = env and r = r and s = s])
     (auto simp: admin_inv_def login_ok_def reply_def reply_error_def split: if_splits)

lemma handleLogout_inv: "admin_inv T s \<Longrightarrow> admin_inv T (handleLogout r s)"
  by (auto simp: handleLogout_def session_revoke_def admin_inv_def Let_def reply_def split: if_splits)

lemma handleCLIAuth_inv: "admin_inv T s \<Longrightarrow> admin_inv T (handleCLIAuth env r s)"
  by (auto simp: handleCLIAuth_def Let_def intro: store_status_inv status_ok_intros split: option.splits)

lemma handleDeleteCredential_inv:
  assumes "admin_inv T s"
  shows "admin_inv T (handleDeleteCredential r s)"
proof (cases "ad_manager s")
  case (Some m)
  obtain err m1 where d: "Deregister m [] (path_value r ''id'') = (err, m1)" by fastforce
  from Deregister_inv [OF admin_invD(1) [OF assms Some], of "[]" "path_value r ''id''"] d
  have "admin_inv T (s\<lparr>ad_manager := Some m1\<rparr>)" by (simp add: manager_step_inv [OF assms])
  with Some d show ?thesis by (simp add: handleDeleteCredential_def Let_def split: option.splits)
qed (simp add: handleDeleteCredential_def assms)

lemma serve_inv:
  assumes "admin_inv T s"
  shows "admin_inv T (admin_ServeHTTP env r w s)"
proof (cases rule: admin_ServeHTTP_cases [where env = env and r = r and w = w and s = s])
  case (mux l)
  let ?s = "prepared r w s"
  have "admin_inv T (mux_ServeHTTP env r ?s)"
  proof (cases rule: mux_cases [where env = env and r = r and s = ?s])
    case kept
    from admin_inv_keep [OF this] assms show ?thesis by simp
  next
    case (ran rt pv)
    let ?q = "r\<lparr>aq_PathValue := pv\<rparr>"
    from assms have "admin_inv T (run_handler env (at_Handler rt) ?q ?s)"
      by (cases rule: run_handler_cases [where env = env and h = "at_Handler rt" and r = ?q and s = ?s])
         (auto dest: admin_inv_keep intro: handleLogin_inv handleLogout_inv handleCLIAuth_inv handleDeleteCredential_inv)
    with ran(2) show ?thesis by simp
  qed
  with mux(2) show ?thesis by simp
qed (simp add: assms)

lemma login_finish_inv:
  assumes inv: "admin_inv T s" and "T \<le> e_schedNow cenv" and "TrimSpace (e_uuid cenv) = e_uuid cenv"
    and "case answer of Inl _ \<Rightarrow> True | Inr c \<Rightarrow> TrimSpace (c_ID c) = c_ID c"
  shows "admin_inv (e_schedNow cenv) (cli_login_finish n (running_status t0) answer now cenv s)"
proof -
  have mono: "admin_inv (e_schedNow cenv) s" using inv mgr_inv_mono [OF _ assms(2)] by (auto simp: admin_inv_def)
  show ?thesis
  proof (cases "\<exists>c m. answer = Inr c \<and> ad_manager s = Some m")
    case True
    then obtain c m where c: "answer = Inr c" "ad_manager s = Some m" by blast
    obtain err m1 where reg: "Register m [] (Some c) cenv = (err, m1)" by fastforce
    from Register_inv [OF admin_invD(1) [OF inv c(2)] assms(2), of c "[]"] assms(3,4) c(1) reg
    have "admin_inv (e_schedNow cenv) (s\<lparr>ad_manager := Some m1\<rparr>)" by (simp add: manager_step_inv [OF inv])
    with c reg show ?thesis
      by (auto simp: cli_login_finish_def Let_def intro!: store_status_inv status_ok_intros split: option.splits)
  next
    case False
    with mono show ?thesis
      by (auto simp: cli_login_finish_def Let_def intro!: store_status_inv status_ok_intros split: sum.splits option.splits)
  qed
qed

lemma admin_reach_inv: "admin_reach T s \<Longrightarrow> admin_inv T s"
proof (induction rule: admin_reach.induct)
  case (start m T cs db logger user hash)
  then show ?case using mgr_reach_inv by (auto simp: admin_inv_def admin_NewHandler_def)
next
  case (pick T s m now1 now2 provider model tried now3)
  from Pick_inv [OF admin_invD(1) [OF pick.IH pick.hyps(2)] pick.hyps(3,4)] show ?case by (rule manager_step_inv [OF pick.IH])
next
  case (result T s m cenv ctx result now)
  from MarkResult_inv [OF admin_invD(1) [OF result.IH result.hyps(2)] result.hyps(3)] show ?case
    by (rule manager_step_inv [OF result.IH])
qed (auto intro: serve_inv login_finish_inv)


subsection \<open>What is created is what the gateway uses\<close>

text \<open>The readers the gateway is built with (\<open>buildGatewayDependencies\<close>) on a SQLite table.\<close>

definition sqlite_route_get :: "'db gorm \<Rightarrow> route sqlite_json_store \<Rightarrow> string \<Rightarrow> 'db \<Rightarrow> string + route_item" where
  "sqlite_route_get gm store i db = map_sum id StoredRoute (RouteStore_Get gm store db i)"

definition sqlite_key_get :: "'db gorm \<Rightarrow> local_api_key sqlite_json_store \<Rightarrow> string \<Rightarrow> 'db \<Rightarrow> string + key_item" where
  "sqlite_key_get gm store i db = map_sum id StoredKey (LocalAPIKeyStore_Get gm store db i)"

lemma store_created:
  assumes "json_table gm ref dbok rows store" and "dbok db" and "rows_decode (js_decode store) (rows db)"
    and "survives_json marshal (js_decode store) x"
    and "error_only (js_Create marshal gm store db i t (Some x)) = (None, db')"
  shows "map_sum id snd (js_Get gm store db' i) = Inr x"
proof -
  from assms(5) obtain i' where "js_Create marshal gm store db i t (Some x) = (Inr i', db')"
    by (auto simp: error_only_def split: prod.splits sum.splits)
  from object_store.get_create [OF json_table_object_store [OF assms(1)] conjI [OF assms(2,3)] assms(4) this]
  show ?thesis by simp
qed

lemma complete_route_fields [simp]:
  "r_ID (complete_route rt) = r_ID rt" "with_defaults (complete_route rt) = complete_route rt"
  by (simp_all add: complete_route_def)

lemma ad_db_reply [simp]: "ad_db (reply st v s) = ad_db s" "ad_db (s\<lparr>ad_log := l\<rparr>) = ad_db s"
  by (simp_all add: reply_def)

text \<open>A 201 comes from the handler of the route.\<close>

lemma created_authenticated:
  assumes "reply_status (admin_ServeHTTP env r w s) = Some 201" and "ow_Status w = None" and "ar_Method (aq_HTTP r) = ''POST''"
    and "find_route Admin_Routes (ar_Method (aq_HTTP r)) (ar_Path (aq_HTTP r)) = Some (rt, pv)" and "at_RequireAuth rt"
  shows "authenticated s r"
proof (rule ccontr)
  assume "\<not> authenticated s r"
  then have "reply_status (mux_ServeHTTP env r (prepared r w s)) = Some 401"
    using requireAuth_refused [of "prepared r w s" "r\<lparr>aq_PathValue := pv\<rparr>" "run_handler env (at_Handler rt)"] assms(2,5)
    by (simp add: mux_route [OF assms(4)])
  with assms(1,3) show False
    by (cases rule: admin_ServeHTTP_cases [where env = env and r = r and w = w and s = s]) auto
qed

lemma serve_created:
  assumes "reply_status (admin_ServeHTTP env r w s) = Some 201" and "ow_Status w = None"
    and "ar_Method (aq_HTTP r) = ''POST''"
    and "find_route Admin_Routes (ar_Method (aq_HTTP r)) (ar_Path (aq_HTTP r)) = Some (rt, [])" and "at_RequireAuth rt"
  defines "s1 \<equiv> run_handler env (at_Handler rt) (r\<lparr>aq_PathValue := []\<rparr>) (prepared r w s)"
  shows "authenticated s r \<and> ad_db (admin_ServeHTTP env r w s) = ad_db s1 \<and> reply_status s1 = Some 201"
proof -
  note a = created_authenticated [OF assms(1-5)]
  from serve_route [OF assms(4), of s env w] assms(3) a obtain l where
    "admin_ServeHTTP env r w s = s1\<lparr>ad_log := l\<rparr>" unfolding s1_def by auto
  with assms(1) a show ?thesis by simp
qed

lemma handleCreateRoute_created:
  assumes "ad_configStore s = Some cs" and "sc_routeStore cs = Some store" and "unanswered s"
    and "DecodeJSON (av_readRoute env) (aq_HTTP r) = Inr rt" and "reply_status (handleCreateRoute env r s) = Some 201"
  shows "\<exists>tag. error_only (js_Create (av_marshalRoute env) (av_gorm env) store (ad_db s) (r_ID rt) tag (Some (complete_route rt))) =
           (None, ad_db (handleCreateRoute env r s)) \<and> r_ID rt \<noteq> []"
proof -
  let ?tag = "if query_Get r ''tag'' = [] then defaultRouteTag else query_Get r ''tag''"
  have st: "routeStore env s = (Some store, s\<lparr>ad_configStore := Some cs, ad_db := ad_db s\<rparr>)"
    by (simp add: routeStore_def GetRouteStore_def assms(1,2))
  from assms(3,5) show ?thesis
    by (intro exI [of _ ?tag])
       (auto simp: handleCreateRoute_def st assms(4) RouteStore_Create_def Let_def split: if_splits option.splits prod.splits)
qed


lemma handleCreateLocalAPIKey_created:
  assumes "ad_configStore s = Some cs" and "sc_localAPIKeyStore cs = Some store" and "unanswered s"
    and "DecodeJSON (av_readKey env) (aq_HTTP r) = Inr key" and "reply_status (handleCreateLocalAPIKey env r s) = Some 201"
  shows "error_only (js_Create (av_marshalKey env) (av_gorm env) store (ad_db s) (k_Key key) (sessionUsername s r)
             (Some (key\<lparr>k_UserID := sessionUsername s r\<rparr>))) = (None, ad_db (handleCreateLocalAPIKey env r s)) \<and> k_Key key \<noteq> [] \<and>
         (k_UserID key = [] \<or> k_UserID key = sessionUsername s r)"
proof -
  have st: "localAPIKeyStore env s = (Some store, s\<lparr>ad_configStore := Some cs, ad_db := ad_db s\<rparr>)"
    by (simp add: localAPIKeyStore_def GetLocalAPIKeyStore_def assms(1,2))
  have u: "sessionUsername (s\<lparr>ad_configStore := Some cs\<rparr>) r = sessionUsername s r"
    by (simp add: sessionUsername_def session_lookup_def Let_def)
  from assms(3,5) show ?thesis
    by (auto simp: handleCreateLocalAPIKey_def st u assms(4) LocalAPIKeyStore_Create_def Let_def
        split: if_splits option.splits prod.splits)
qed


subsection \<open>Scenario\<close>

definition w_new_route :: route where
  "w_new_route = w_route [] [w_target ''a'' ''weighted'' 1 1]"

definition w_new_key :: local_api_key where
  "w_new_key = w_local_key\<lparr>k_UserID := ''root''\<rparr>"

definition w_admin_env :: "mem_table admin_env" where
  "w_admin_env =
     \<lparr>av_gorm = mem_gorm, av_decodeProvider = (\<lambda>_. Inl []), av_decodeRoute = (\<lambda>_. Inr (complete_route w_new_route)),
      av_decodeKey = (\<lambda>_. Inr w_new_key), av_marshalProvider = (\<lambda>_. Inl []), av_marshalRoute = (\<lambda>_. Inr ''{}''),
      av_marshalKey = (\<lambda>_. Inr ''{}''), av_readProvider = (\<lambda>_. Inl []), av_readRoute = (\<lambda>_. Inr w_new_route),
      av_readKey = (\<lambda>_. Inr w_local_key), av_readLogin = (\<lambda>_. Inr \<lparr>lg_Username = ''root'', lg_Password = ''pw''\<rparr>),
      av_providerJSON = (\<lambda>_. JObj []), av_routeJSON = (\<lambda>_. JObj []), av_keyJSON = (\<lambda>_. JObj []),
      av_credentialJSON = (\<lambda>_. JObj []), av_timeJSON = (\<lambda>_. JObj []), av_bcrypt = (\<lambda>h p. h = ''hash-pw'' \<and> p = ''pw''),
      av_token = Some ''t1'', av_now = 5, av_unmarshalError = (\<lambda>_. Inl [])\<rparr>"

definition w_route_store :: "route sqlite_json_store" where
  "w_route_store =
     newSQLiteJSONStoreWithColumns ''routes'' ''route'' ''id'' ''tag'' ''config'' (\<lambda>_. Inr (complete_route w_new_route))"

definition w_key_store :: "local_api_key sqlite_json_store" where
  "w_key_store =
     newSQLiteJSONStoreWithColumns ''local_api_keys'' ''local api key'' ''key'' ''user_id'' ''config'' (\<lambda>_. Inr w_new_key)"

definition w_admin_stores :: admin_config_store where
  "w_admin_stores =
     \<lparr>sc_credentialStore = None, sc_providerStore = None, sc_localAPIKeyStore = Some w_key_store, sc_routeStore = Some w_route_store\<rparr>"

definition w_admin :: "(mem_table, int) admin_state" where
  "w_admin = admin_NewHandler None (Some w_admin_stores) [] (Some []) ''root'' ''hash-pw''"

definition w_admin_gateway :: "(unit, int, mem_table) agent_gateway" where
  "w_admin_gateway =
     Configure NewAgentGateway (Some (routeLoader (sqlite_route_get mem_gorm w_route_store))) None
       (Some (sqlite_key_get mem_gorm w_key_store)) None None"

lemma w_admin_gateway_simps [simp]:
  "g_RouteLoader w_admin_gateway = Some (routeLoader (sqlite_route_get mem_gorm w_route_store))"
  "g_LocalAPIKeyStore w_admin_gateway = Some (sqlite_key_get mem_gorm w_key_store)"
  by (simp_all add: w_admin_gateway_def Configure_def)

definition w_call :: "string \<Rightarrow> string \<Rightarrow> string \<Rightarrow> admin_request" where
  "w_call m path token =
     \<lparr>aq_HTTP = \<lparr>ar_Method = m, ar_Path = path, ar_HTTP = \<lparr>hr_Header = Header_Set [] ''Authorization'' (''Bearer '' @ token)\<rparr>,
                 ar_Body = Inr []\<rparr>, aq_Query = [], aq_PathValue = []\<rparr>"

definition w_logged_in :: "(mem_table, int) admin_state" where
  "w_logged_in = admin_ServeHTTP w_admin_env (w_call ''POST'' ''/admin/auth/login'' []) new_response w_admin"

lemma w_call_simps [simp]:
  "ar_Method (aq_HTTP (w_call m path token)) = m" "ar_Path (aq_HTTP (w_call m path token)) = path"
  by (simp_all add: w_call_def)

lemma new_response_status [simp]: "ow_Status new_response = None"
  by (simp add: new_response_def)

lemma w_login_ok: "login_ok w_admin_env (w_call ''POST'' ''/admin/auth/login'' []) w_admin \<lparr>lg_Username = ''root'', lg_Password = ''pw''\<rparr>"
  by code_simp

theorem admin_requires_session_witness:
  "admin_core (admin_ServeHTTP w_admin_env (w_call ''DELETE'' ''/admin/credentials/k1'' ''t9'') new_response w_logged_in) =
     admin_core w_logged_in"
proof -
  have "\<not> authenticated w_logged_in (w_call ''DELETE'' ''/admin/credentials/k1'' ''t9'')" by code_simp
  from admin_requires_session [OF this, of new_response w_admin_env] show ?thesis by simp
qed


theorem admin_session_needs_password_witness:
  "\<exists>req sess. login_ok w_admin_env (w_call ''POST'' ''/admin/auth/login'' []) w_admin req \<and>
     session_lookup w_logged_in ''t1'' = Some sess \<and> ss_username sess = ''root''"
proof -
  have "session_lookup w_admin ''t1'' = None" "session_lookup w_logged_in ''t1'' \<noteq> None" "ad_adminUsername w_admin = ''root''"
    by code_simp+
  moreover from this(2) obtain sess where "session_lookup w_logged_in ''t1'' = Some sess" by blast
  ultimately show ?thesis
    using admin_session_needs_password [of w_admin_env "w_call ''POST'' ''/admin/auth/login'' []" new_response w_admin "''t1''" sess]
    by (simp add: w_logged_in_def)
qed


lemma w_store_tables:
  "json_table mem_gorm (js_ref w_route_store) gomap_ok map_of w_route_store"
  "json_table mem_gorm (js_ref w_key_store) gomap_ok map_of w_key_store"
  by (simp_all add: json_table_def json_table_axioms_def mem.gorm_table_axioms)

lemma w_admin_env_simps [simp]:
  "av_gorm w_admin_env = mem_gorm" "av_marshalRoute w_admin_env = (\<lambda>_. Inr ''{}'')"
  "av_marshalKey w_admin_env = (\<lambda>_. Inr ''{}'')" "av_readRoute w_admin_env = (\<lambda>_. Inr w_new_route)"
  "av_readKey w_admin_env = (\<lambda>_. Inr w_local_key)"
  by (simp_all add: w_admin_env_def)

lemma w_logged_in_state:
  "ad_db w_logged_in = []" "ad_configStore w_logged_in = Some w_admin_stores"
  using serve_login [OF _ _ w_login_ok, of "''t1''" new_response]
  by (simp_all add: w_logged_in_def w_admin_env_def w_admin_def admin_NewHandler_def)

lemma w_decode:
  "DecodeJSON f (aq_HTTP (w_call m p t)) = f []"
  "js_decode w_route_store = (\<lambda>_. Inr (complete_route w_new_route))" "js_decode w_key_store = (\<lambda>_. Inr w_new_key)"
  "sc_routeStore w_admin_stores = Some w_route_store" "sc_localAPIKeyStore w_admin_stores = Some w_key_store"
  by (simp_all add: DecodeJSON_def w_call_def w_route_store_def w_key_store_def w_admin_stores_def
      newSQLiteJSONStoreWithColumns_def)



end
