(* ===== verification/Go_Encoding.thy ===== *)
theory Go_Encoding
  imports Go_Json
begin

text \<open>
  What the login flows use of net/url and encoding/base64: \<open>url.QueryEscape\<close> and \<open>url.Values.Encode\<close>
  with the reader of a query string, and the URL alphabet of base64 in both directions.  A decoder
  returns \<open>None\<close> for its error; the offset in the error text of base64 is left out.
\<close>

subsection \<open>Splitting\<close>

fun Split :: "char \<Rightarrow> string \<Rightarrow> string list" where
  "Split sep [] = [[]]"
| "Split sep (c # s) =
     (if c = sep then [] # Split sep s
      else (case Split sep s of [] \<Rightarrow> [[c]] | p # ps \<Rightarrow> (c # p) # ps))"

text \<open>\<open>strings.SplitN(s, sep, 2)\<close> as the part before the separator and the part after it.\<close>

definition Cut :: "char \<Rightarrow> string \<Rightarrow> string \<times> string option" where
  "Cut sep s =
     (let before = takeWhile (\<lambda>c. c \<noteq> sep) s
      in (before, if length before < length s then Some (drop (Suc (length before)) s) else None))"

lemma Split_plain: "sep \<notin> set s \<Longrightarrow> Split sep s = [s]"
  by (induction s) auto

lemma Split_not_Nil [simp]: "Split sep s \<noteq> []"
  by (induction s) (auto split: list.splits)

lemma Split_append: "sep \<notin> set s \<Longrightarrow> Split sep (s @ sep # t) = s # Split sep t"
  by (induction s) (auto split: list.splits)

lemma Cut_append: "sep \<notin> set s \<Longrightarrow> Cut sep (s @ sep # t) = (s, Some t)"
proof -
  assume "sep \<notin> set s"
  then have "takeWhile (\<lambda>c. c \<noteq> sep) (s @ sep # t) = s" by (induction s) auto
  then show ?thesis by (simp only: Cut_def Let_def) simp
qed

lemma Split_joined:
  "ps \<noteq> [] \<Longrightarrow> \<forall>p\<in>set ps. sep \<notin> set p \<Longrightarrow> Split sep (joined [sep] ps) = ps"
  by (induction ps rule: induct_list012) (auto simp: Split_plain Split_append)

subsection \<open>Query strings\<close>

definition unreserved :: "char \<Rightarrow> bool" where
  "unreserved c \<longleftrightarrow>
     (let n = (of_char c :: nat)
      in 48 \<le> n \<and> n \<le> 57 \<or> 65 \<le> n \<and> n \<le> 90 \<or> 97 \<le> n \<and> n \<le> 122 \<or> c \<in> set ''-_.~'')"

definition upper_hex :: "nat \<Rightarrow> char" where
  "upper_hex n = char_of (if n < 10 then 48 + n else 55 + n)"

definition escape_char :: "char \<Rightarrow> string" where
  "escape_char c =
     (if unreserved c then [c]
      else if c = CHR '' '' then ''+''
      else [CHR ''%'', upper_hex (of_char c div 16), upper_hex (of_char c mod 16)])"

definition QueryEscape :: "string \<Rightarrow> string" where
  "QueryEscape s = concat (map escape_char s)"

text \<open>\<open>url.Values.Encode\<close> for one value per key: the pairs in the order of their keys.\<close>

definition Values_Encode :: "(string \<times> string) list \<Rightarrow> string" where
  "Values_Encode vs = joined ''&'' (map (\<lambda>(k, v). QueryEscape k @ ''='' @ QueryEscape v) (sort_key fst vs))"

definition hex_value :: "char \<Rightarrow> nat option" where
  "hex_value c =
     (let n = of_char c
      in if 48 \<le> n \<and> n \<le> 57 then Some (n - 48)
         else if 65 \<le> n \<and> n \<le> 70 then Some (n - 55)
         else if 97 \<le> n \<and> n \<le> 102 then Some (n - 87) else None)"

fun QueryUnescape :: "string \<Rightarrow> string option" where
  "QueryUnescape [] = Some []"
| "QueryUnescape (c # s) =
     (if c = CHR ''%'' then
        (case s of
           h # l # r \<Rightarrow>
             (case (hex_value h, hex_value l) of
                (Some x, Some y) \<Rightarrow> map_option (Cons (char_of (16 * x + y))) (QueryUnescape r)
              | _ \<Rightarrow> None)
         | _ \<Rightarrow> None)
      else map_option (Cons (if c = CHR ''+'' then CHR '' '' else c)) (QueryUnescape s))"

text \<open>\<open>url.ParseQuery\<close>, which drops the settings it cannot read.\<close>

definition query_setting :: "string \<Rightarrow> (string \<times> string) option" where
  "query_setting p =
     (if p = [] \<or> CHR '';'' \<in> set p then None
      else (case Cut (CHR ''='') p of
              (k, v) \<Rightarrow>
                (case (QueryUnescape k, QueryUnescape (case v of None \<Rightarrow> [] | Some x \<Rightarrow> x)) of
                   (Some k, Some v) \<Rightarrow> Some (k, v)
                 | _ \<Rightarrow> None)))"

definition ParseQuery :: "string \<Rightarrow> (string \<times> string) list" where
  "ParseQuery s = List.map_filter query_setting (Split (CHR ''&'') s)"

lemma hex_value_upper [simp]: "n < 16 \<Longrightarrow> hex_value (upper_hex n) = Some n"
  by (auto simp: hex_value_def upper_hex_def Let_def)

lemma unreserved_simps: "unreserved c \<Longrightarrow> c \<notin> set ''%+&=; #''"
  by (auto simp: unreserved_def)

lemma of_char_lt: "(of_char c :: nat) < 256"
  using of_char_mod_256 [of c] by (metis mod_less_divisor zero_less_numeral)

lemma high_nibble: "(of_char c :: nat) div 16 < 16"
  by (rule div_less_iff_less_mult [THEN iffD2]) (simp_all add: of_char_lt)

lemma char_of_parts: "char_of (16 * ((of_char c :: nat) div 16) + of_char c mod 16) = c"
  by simp

lemma QueryUnescape_escape: "QueryUnescape (QueryEscape s) = Some s"
proof (induction s)
  case (Cons c s)
  with high_nibble [of c] show ?case
    using unreserved_simps [of c] by (auto simp: QueryEscape_def escape_char_def)
qed (simp add: QueryEscape_def)

lemma upper_hex_plain: "n < 16 \<Longrightarrow> upper_hex n \<notin> set ''&=;+%''"
proof -
  assume "n < 16"
  then have "of_char (upper_hex n) \<in> {48 ..< 71 :: nat} - {59 ..< 65}" by (auto simp: upper_hex_def)
  then show ?thesis by auto
qed

lemma escape_plain: "CHR ''&'' \<notin> set (QueryEscape s) \<and> CHR ''='' \<notin> set (QueryEscape s) \<and> CHR '';'' \<notin> set (QueryEscape s)"
proof (induction s)
  case (Cons c s)
  from upper_hex_plain [OF high_nibble [of c]] upper_hex_plain [of "of_char c mod 16"] unreserved_simps [of c]
  have "CHR ''&'' \<notin> set (escape_char c) \<and> CHR ''='' \<notin> set (escape_char c) \<and> CHR '';'' \<notin> set (escape_char c)"
    by (auto simp: escape_char_def)
  with Cons show ?case by (simp add: QueryEscape_def)
qed (simp add: QueryEscape_def)

lemma query_setting_encoded:
  "query_setting (QueryEscape k @ CHR ''='' # QueryEscape v) = Some (k, v)"
  using escape_plain [of k] escape_plain [of v]
  by (simp add: query_setting_def Cut_append QueryUnescape_escape)

text \<open>What is encoded is read back, in the order of the keys.\<close>

lemma ParseQuery_Encode: "vs \<noteq> [] \<Longrightarrow> ParseQuery (Values_Encode vs) = sort_key fst vs"
proof -
  let ?f = "\<lambda>(k, v). QueryEscape k @ ''='' @ QueryEscape v"
  assume "vs \<noteq> []"
  then have "sort_key fst vs \<noteq> []" by (metis length_0_conv length_sort)
  then have "Split (CHR ''&'') (Values_Encode vs) = map ?f (sort_key fst vs)"
    unfolding Values_Encode_def using escape_plain by (intro Split_joined) auto
  then have "ParseQuery (Values_Encode vs) = List.map_filter query_setting (map ?f (sort_key fst vs))"
    by (simp add: ParseQuery_def)
  also have "\<dots> = sort_key fst vs"
    by (induction "sort_key fst vs" rule: list.induct) (simp_all add: List.map_filter_def query_setting_encoded comp_def case_prod_unfold map_idI)
  finally show ?thesis .
qed

lemma map_of_ParseQuery:
  assumes "vs \<noteq> []" and "distinct (map fst vs)"
  shows "map_of (ParseQuery (Values_Encode vs)) = map_of vs"
proof -
  from assms(2) have "distinct (map fst (sort_key fst vs))" by (metis distinct_map distinct_sort set_sort)
  with assms show ?thesis by (simp add: ParseQuery_Encode map_of_inject_set)
qed

subsection \<open>base64 with the URL alphabet\<close>

definition b64_alphabet :: string where
  "b64_alphabet = ''ABCDEFGHIJKLMNOPQRSTUVWXYZabcdefghijklmnopqrstuvwxyz0123456789-_''"

definition b64_char :: "nat \<Rightarrow> char" where
  "b64_char n = b64_alphabet ! n"

fun index_of :: "char \<Rightarrow> string \<Rightarrow> nat option" where
  "index_of c [] = None"
| "index_of c (d # s) = (if c = d then Some 0 else map_option Suc (index_of c s))"

definition b64_value :: "char \<Rightarrow> nat option" where
  "b64_value c = index_of c b64_alphabet"

text \<open>Without padding.\<close>

fun RawURLEncode :: "string \<Rightarrow> string" where
  "RawURLEncode [] = []"
| "RawURLEncode [a] = (let x = of_char a in [b64_char (x div 4), b64_char (x mod 4 * 16)])"
| "RawURLEncode [a, b] =
     (let x = of_char a; y = of_char b
      in [b64_char (x div 4), b64_char (x mod 4 * 16 + y div 16), b64_char (y mod 16 * 4)])"
| "RawURLEncode (a # b # c # s) =
     (let x = of_char a; y = of_char b; z = of_char c
      in b64_char (x div 4) # b64_char (x mod 4 * 16 + y div 16) # b64_char (y mod 16 * 4 + z div 64) #
         b64_char (z mod 64) # RawURLEncode s)"

text \<open>\<open>base64.URLEncoding\<close>: groups of four with padding in the last; line ends are skipped.\<close>

fun decode_groups :: "string \<Rightarrow> string option" where
  "decode_groups [] = Some []"
| "decode_groups (a # b # c # d # s) =
     (case (b64_value a, b64_value b) of
        (Some x, Some y) \<Rightarrow>
          if c = CHR ''='' then (if d = CHR ''='' \<and> s = [] then Some [char_of (x * 4 + y div 16)] else None)
          else
            (case b64_value c of
               None \<Rightarrow> None
             | Some z \<Rightarrow>
                 if d = CHR ''='' then
                   (if s = [] then Some [char_of (x * 4 + y div 16), char_of (y mod 16 * 16 + z div 4)] else None)
                 else
                   (case b64_value d of
                      None \<Rightarrow> None
                    | Some w \<Rightarrow>
                        map_option (\<lambda>t. char_of (x * 4 + y div 16) # char_of (y mod 16 * 16 + z div 4) #
                                        char_of (z mod 4 * 64 + w) # t) (decode_groups s)))
      | _ \<Rightarrow> None)"
| "decode_groups _ = None"

definition URLDecode :: "string \<Rightarrow> string option" where
  "URLDecode s = decode_groups (filter (\<lambda>c. c \<notin> {CHR 0x0A, CHR 0x0D}) s)"

text \<open>The padding the JWT parser adds.\<close>

definition b64_pad :: "string \<Rightarrow> string" where
  "b64_pad s = (if length s mod 4 = 2 then s @ ''=='' else if length s mod 4 = 3 then s @ ''='' else s)"

lemma b64_value_char: "n < 64 \<Longrightarrow> b64_value (b64_char n) = Some n"
proof -
  have "list_all (\<lambda>n. b64_value (b64_char n) = Some n) [0..<64]" by code_simp
  then show "n < 64 \<Longrightarrow> ?thesis" by (simp add: list_all_iff)
qed

definition b64_plain :: "char \<Rightarrow> bool" where
  "b64_plain c \<longleftrightarrow> c \<notin> {CHR ''='', CHR 0x0A, CHR 0x0D, CHR ''.''}"

lemma b64_char_plain: "n < 64 \<Longrightarrow> b64_plain (b64_char n)"
proof -
  have "list_all (\<lambda>n. b64_plain (b64_char n)) [0..<64]" by code_simp
  then show "n < 64 \<Longrightarrow> ?thesis" by (simp add: list_all_iff)
qed

lemma b64_char_not_pad: "n < 64 \<Longrightarrow> b64_char n \<noteq> CHR ''=''"
  using b64_char_plain [of n] by (auto simp: b64_plain_def)

lemma b64_bounds:
  "(of_char a :: nat) div 4 < 64" "(of_char a :: nat) mod 4 * 16 < 64"
  "(of_char a :: nat) mod 4 * 16 + of_char b div 16 < 64" "(of_char a :: nat) mod 16 * 4 < 64"
  "(of_char a :: nat) mod 16 * 4 + of_char b div 64 < 64" "(of_char a :: nat) mod 64 < 64"
proof -
  have d: "(of_char x :: nat) div 4 < 64" "(of_char x :: nat) div 16 < 16" "(of_char x :: nat) div 64 < 4" for x
    using of_char_lt [of x] by (simp_all add: div_less_iff_less_mult)
  have m: "(of_char x :: nat) mod 4 < 4" "(of_char x :: nat) mod 16 < 16" for x by simp_all
  show "(of_char a :: nat) div 4 < 64" by (rule d)
  show "(of_char a :: nat) mod 4 * 16 < 64" using m(1) [of a] by linarith
  show "(of_char a :: nat) mod 4 * 16 + of_char b div 16 < 64" using m(1) [of a] d(2) [of b] by linarith
  show "(of_char a :: nat) mod 16 * 4 < 64" using m(2) [of a] by linarith
  show "(of_char a :: nat) mod 16 * 4 + of_char b div 64 < 64" using m(2) [of a] d(3) [of b] by linarith
  show "(of_char a :: nat) mod 64 < 64" by simp
qed

lemma b64_small:
  "(of_char a :: nat) div 16 div 16 = 0" "(of_char a :: nat) div 16 mod 16 = of_char a div 16"
  "(of_char a :: nat) div 64 div 4 = 0" "(of_char a :: nat) div 64 mod 4 = of_char a div 64"
proof -
  have "(of_char a :: nat) div 16 < 16" "(of_char a :: nat) div 64 < 4"
    using of_char_lt [of a] by (simp_all add: div_less_iff_less_mult)
  then show "(of_char a :: nat) div 16 div 16 = 0" "(of_char a :: nat) div 16 mod 16 = of_char a div 16"
    "(of_char a :: nat) div 64 div 4 = 0" "(of_char a :: nat) div 64 mod 4 = of_char a div 64"
    by (simp_all only: div_less mod_less)
qed

lemmas b64_facts = b64_bounds b64_value_char b64_char_plain b64_char_not_pad b64_small

lemma encoded_plain: "list_all b64_plain (RawURLEncode s)"
  by (induction s rule: RawURLEncode.induct) (simp_all add: Let_def b64_char_plain b64_bounds)

lemma length_encoded: "length (RawURLEncode (a # b # c # s)) mod 4 = length (RawURLEncode s) mod 4"
  by (simp add: Let_def)

lemma b64_pad_group: "length xs = 4 \<Longrightarrow> b64_pad (xs @ s) = xs @ b64_pad s"
  by (simp add: b64_pad_def)

lemma decode_padded: "decode_groups (b64_pad (RawURLEncode s)) = Some s"
proof (induction s rule: RawURLEncode.induct)
  case (4 a b c s)
  let ?g = "take 4 (RawURLEncode (a # b # c # s))"
  have "b64_pad (RawURLEncode (a # b # c # s)) = ?g @ b64_pad (RawURLEncode s)"
    using b64_pad_group [of ?g "RawURLEncode s"] by (simp add: Let_def)
  with 4 show ?case by (simp add: Let_def b64_facts)
qed (simp_all add: b64_pad_def Let_def b64_facts)

lemma URLDecode_encoded: "URLDecode (b64_pad (RawURLEncode s)) = Some s"
proof -
  have "c \<in> set (b64_pad (RawURLEncode s)) \<Longrightarrow> c \<notin> {CHR 0x0A, CHR 0x0D}" for c
    using encoded_plain [of s] by (auto simp: b64_pad_def b64_plain_def list_all_iff split: if_splits)
  then show ?thesis by (simp add: URLDecode_def decode_padded)
qed

end
