(* ===== verification/Oauth_Flow.thy ===== *)
theory Oauth_Flow
  imports Go_Encoding Http_Utils Credential
begin

text \<open>
  What the three login flows of llm/cliauth/authenticator share: the outside world, PKCE codes and
  state (codex.go), and the local callback servers.

  The world is a state \<open>'w\<close> every effect reads and changes: a request over HTTP, waiting (a timer
  against the end of the context), the clock, random bytes, a new UUID, listening on a port, opening
  the browser.  What a running callback server is sent before the flow gives up waiting is a list of
  requests.  What the flows print is left out.  SHA-256, the format of instants and the decoding of
  JSON are functions.
\<close>

record oauth_call =
  oc_Method :: string
  oc_URL :: string
  oc_Header :: http_header
  oc_Body :: string

text \<open>The answer of the client with the result of reading the body.\<close>

record oauth_reply =
  or_StatusCode :: int
  or_Body :: "string + string"

record callback_request =
  cq_Method :: string
  cq_Path :: string
  cq_Query :: "(string \<times> string) list"

record 'w oauth_world =
  oa_Do :: "oauth_call \<Rightarrow> 'w \<Rightarrow> (string + oauth_reply) \<times> 'w"
  oa_Wait :: "duration \<Rightarrow> 'w \<Rightarrow> string option \<times> 'w"
  oa_Now :: "'w \<Rightarrow> gotime \<times> 'w"
  oa_Rand :: "nat \<Rightarrow> 'w \<Rightarrow> (string + string) \<times> 'w"
  oa_UUID :: "'w \<Rightarrow> string \<times> 'w"
  oa_Listen :: "int \<Rightarrow> 'w \<Rightarrow> string option \<times> 'w"
  oa_Shutdown :: "int \<Rightarrow> 'w \<Rightarrow> 'w"
  oa_openBrowser :: "string \<Rightarrow> 'w \<Rightarrow> string option \<times> 'w"
  oa_Callbacks :: "'w \<Rightarrow> callback_request list \<times> 'w"
  oa_SHA256 :: "string \<Rightarrow> string"
  oa_RFC3339 :: "gotime \<Rightarrow> string"

definition Query_Get :: "(string \<times> string) list \<Rightarrow> string \<Rightarrow> string" where
  "Query_Get q k = (case map_of q k of None \<Rightarrow> [] | Some v \<Rightarrow> v)"

lemma Query_Get_Cons [simp]: "Query_Get ((k, v) # q) k' = (if k' = k then v else Query_Get q k')"
  by (simp add: Query_Get_def)

text \<open>Reading a reply: \<open>ok\<close> are the accepted codes, the four texts introduce the errors.\<close>

definition read_reply ::
    "string \<times> string \<times> string \<times> string \<Rightarrow> (int \<Rightarrow> bool) \<Rightarrow> (string \<Rightarrow> string + 'a) \<Rightarrow> string + oauth_reply \<Rightarrow> string + 'a" where
  "read_reply texts ok decode answer =
     (case texts of
        (failed, unread, refused, unparsed) \<Rightarrow>
          (case answer of
             Inl err \<Rightarrow> Inl (failed @ '': '' @ err)
           | Inr resp \<Rightarrow>
               (case or_Body resp of
                  Inl err \<Rightarrow> Inl (unread @ '': '' @ err)
                | Inr body \<Rightarrow>
                    if \<not> ok (or_StatusCode resp) then
                      Inl (refused @ '' returned status '' @ Itoa (or_StatusCode resp) @ '': '' @ TrimSpace body)
                    else (case decode body of Inl err \<Rightarrow> Inl (unparsed @ '': '' @ err) | Inr v \<Rightarrow> Inr v))))"

definition form_header :: http_header where
  "form_header = Header_Set (Header_Set [] ''Content-Type'' ''application/x-www-form-urlencoded'') ''Accept'' ''application/json''"

definition json_header :: http_header where
  "json_header = Header_Set (Header_Set [] ''Content-Type'' ''application/json'') ''Accept'' ''application/json''"

definition post :: "string \<Rightarrow> http_header \<Rightarrow> string \<Rightarrow> oauth_call" where
  "post url header body = \<lparr>oc_Method = ''POST'', oc_URL = url, oc_Header = header, oc_Body = body\<rparr>"

text \<open>A type assertion to string; anything else reads as the empty string.\<close>

definition metadata_string :: "credential \<Rightarrow> string \<Rightarrow> string" where
  "metadata_string cred k = (case map_of (c_Metadata cred) k of Some (GString s) \<Rightarrow> s | _ \<Rightarrow> [])"

subsection \<open>PKCE and state\<close>

definition generatePKCECodes :: "'w oauth_world \<Rightarrow> 'w \<Rightarrow> (string + string \<times> string) \<times> 'w" where
  "generatePKCECodes ow w =
     (case oa_Rand ow 96 w of
        (Inl err, w) \<Rightarrow> (Inl (''failed to generate PKCE verifier: '' @ err), w)
      | (Inr raw, w) \<Rightarrow>
          (let verifier = RawURLEncode raw
           in (Inr (verifier, RawURLEncode (oa_SHA256 ow verifier)), w)))"

definition generateState :: "'w oauth_world \<Rightarrow> 'w \<Rightarrow> (string + string) \<times> 'w" where
  "generateState ow w =
     (case oa_Rand ow 16 w of
        (Inl err, w) \<Rightarrow> (Inl (''failed to generate OAuth state: '' @ err), w)
      | (Inr raw, w) \<Rightarrow> (Inr (RawURLEncode raw), w))"

subsection \<open>The callback server\<close>

record oauth_callback_result =
  cr_code :: string
  cr_state :: string
  cr_err :: string

text \<open>\<open>cb_resultCh\<close> is the buffered channel of capacity one.\<close>

record oauth_callback_server =
  cb_port :: int
  cb_resultCh :: "oauth_callback_result option"
  cb_running :: bool

definition newOAuthCallbackServer :: "int \<Rightarrow> oauth_callback_server" where
  "newOAuthCallbackServer port = \<lparr>cb_port = port, cb_resultCh = None, cb_running = False\<rparr>"

definition cb_start :: "'w oauth_world \<Rightarrow> oauth_callback_server \<Rightarrow> 'w \<Rightarrow> string option \<times> oauth_callback_server \<times> 'w" where
  "cb_start ow s w =
     (if cb_running s then (Some ''callback server already running'', s, w)
      else (case oa_Listen ow (cb_port s) w of
              (Some err, w) \<Rightarrow> (Some (''port '' @ Itoa (cb_port s) @ '' already in use: '' @ err), s, w)
            | (None, w) \<Rightarrow> (None, s\<lparr>cb_running := True\<rparr>, w)))"

definition cb_stop :: "'w oauth_world \<Rightarrow> oauth_callback_server \<Rightarrow> 'w \<Rightarrow> oauth_callback_server \<times> 'w" where
  "cb_stop ow s w = (if \<not> cb_running s then (s, w) else (s\<lparr>cb_running := False\<rparr>, oa_Shutdown ow (cb_port s) w))"

definition callback_result :: "callback_request \<Rightarrow> oauth_callback_result" where
  "callback_result r =
     (let errParam = Query_Get (cq_Query r) ''error''; code = Query_Get (cq_Query r) ''code'';
          state = Query_Get (cq_Query r) ''state''; none = \<lparr>cr_code = [], cr_state = [], cr_err = []\<rparr>
      in if errParam \<noteq> [] then none\<lparr>cr_err := errParam\<rparr>
         else if code = [] then none\<lparr>cr_err := ''no_code''\<rparr>
         else if state = [] then none\<lparr>cr_err := ''no_state''\<rparr>
         else none\<lparr>cr_code := code, cr_state := state\<rparr>)"

text \<open>A send on the full channel takes the default branch of the select.\<close>

definition send_result :: "oauth_callback_server \<Rightarrow> oauth_callback_result \<Rightarrow> oauth_callback_server" where
  "send_result s result = (case cb_resultCh s of None \<Rightarrow> s\<lparr>cb_resultCh := Some result\<rparr> | Some _ \<Rightarrow> s)"

definition rw_Error :: "response_writer \<Rightarrow> string \<Rightarrow> int \<Rightarrow> response_writer" where
  "rw_Error w message status =
     rw_Write (rw_WriteHeader (rw_SetHeader (rw_SetHeader w ''Content-Type'' ''text/plain; charset=utf-8'')
       ''X-Content-Type-Options'' ''nosniff'') status) (message @ [CHR 0x0A])"

text \<open>\<open>http.Redirect\<close> of a GET request.\<close>

definition rw_Redirect :: "response_writer \<Rightarrow> string \<Rightarrow> int \<Rightarrow> response_writer" where
  "rw_Redirect w url status =
     rw_Write (rw_WriteHeader (rw_SetHeader (rw_SetHeader w ''Location'' url) ''Content-Type'' ''text/html; charset=utf-8'') status)
       (''<a href='' @ [CHR 0x22] @ url @ [CHR 0x22] @ ''>'' @ StatusText status @ ''</a>.'' @ [CHR 0x0A, CHR 0x0A])"

definition handleCallback ::
    "oauth_callback_server \<Rightarrow> response_writer \<Rightarrow> callback_request \<Rightarrow> oauth_callback_server \<times> response_writer" where
  "handleCallback s w r =
     (if cq_Method r \<noteq> ''GET'' then (s, rw_Error w ''Method not allowed'' 405)
      else
        (let result = callback_result r
         in (send_result s result,
             if cr_err result \<noteq> [] then rw_Error w (''Authentication failed: '' @ cr_err result) 400
             else rw_Redirect w ''/success'' 302)))"

text \<open>The mux of \<open>start\<close>: only the callback path reaches \<open>handleCallback\<close>.\<close>

definition callback_serve :: "string \<Rightarrow> oauth_callback_server \<Rightarrow> callback_request \<Rightarrow> oauth_callback_server" where
  "callback_serve path s r = (if cq_Path r = path then fst (handleCallback s new_response r) else s)"

text \<open>\<open>waitForCallback\<close> once \<open>arrived\<close> has been served: the channel is empty only after the timeout.\<close>

definition waitForCallback :: "string \<Rightarrow> oauth_callback_server \<Rightarrow> string + string \<times> string" where
  "waitForCallback timeout s =
     (case cb_resultCh s of
        Some result \<Rightarrow>
          if cr_err result \<noteq> [] then Inl (''OAuth callback error: '' @ cr_err result)
          else Inr (cr_code result, cr_state result)
      | None \<Rightarrow> Inl (''timed out waiting for OAuth callback after '' @ timeout))"

subsection \<open>The browser flow\<close>

text \<open>The common part of \<open>loginWithBrowser\<close> in codex.go and claude.go: codes, state, server, browser,
  callback, the check of the state, the exchange, the end of the server.  The arguments are the name
  of the flow, the default port, the path of the callback, the URL and the exchange.\<close>

record 'w browser_flow =
  bf_name :: string
  bf_defaultPort :: int
  bf_path :: string
  bf_authURL :: "string \<Rightarrow> string \<Rightarrow> string"
  bf_login :: "string \<Rightarrow> string \<Rightarrow> string \<Rightarrow> 'w \<Rightarrow> (string + credential) \<times> 'w"

definition browser_wait ::
    "'w oauth_world \<Rightarrow> 'w browser_flow \<Rightarrow> string \<Rightarrow> oauth_callback_server \<Rightarrow> 'w \<Rightarrow> (string + string) \<times> 'w" where
  "browser_wait ow bf state srv w =
     (case oa_Callbacks ow w of
        (arrived, w) \<Rightarrow>
          (case waitForCallback ''5m0s'' (foldl (callback_serve (bf_path bf)) srv arrived) of
             Inl err \<Rightarrow> (Inl (bf_name bf @ '': callback error: '' @ err), w)
           | Inr (code, gotState) \<Rightarrow>
               if gotState \<noteq> state then (Inl (bf_name bf @ '': OAuth state mismatch (CSRF check failed)''), w)
               else (Inr code, w)))"

definition login_with_browser ::
    "'w oauth_world \<Rightarrow> 'w browser_flow \<Rightarrow> int \<Rightarrow> bool \<Rightarrow> 'w \<Rightarrow> (string + credential) \<times> 'w" where
  "login_with_browser ow bf callbackPort noBrowser w =
     (case generatePKCECodes ow w of
        (Inl err, w) \<Rightarrow> (Inl (bf_name bf @ '': PKCE generation failed: '' @ err), w)
      | (Inr (codeVerifier, codeChallenge), w) \<Rightarrow>
          (case generateState ow w of
             (Inl err, w) \<Rightarrow> (Inl (bf_name bf @ '': state generation failed: '' @ err), w)
           | (Inr state, w) \<Rightarrow>
               (let port = (if callbackPort \<le> 0 then bf_defaultPort bf else callbackPort)
                in (case cb_start ow (newOAuthCallbackServer port) w of
                      (Some err, srv, w) \<Rightarrow>
                        (Inl (bf_name bf @ '': failed to start callback server on port '' @ Itoa port @ '': '' @ err), w)
                    | (None, srv, w) \<Rightarrow>
                        (let w = (if noBrowser then w else snd (oa_openBrowser ow (bf_authURL bf state codeChallenge) w))
                         in (case (case browser_wait ow bf state srv w of
                                     (Inl err, w) \<Rightarrow> (Inl err, w)
                                   | (Inr code, w) \<Rightarrow> bf_login bf code state codeVerifier w) of
                               (answer, w) \<Rightarrow> (answer, snd (cb_stop ow srv w))))))))"

end
