(* ===== verification/Codex_Auth.thy ===== *)
theory Codex_Auth
  imports Oauth_Flow
begin

text \<open>
  Package llm/cliauth/authenticator, file codex.go: the login of the Codex CLI by browser or by device
  code, and the refresh of its tokens.  The decoders of the JSON answers are the record \<open>codex_json\<close>.
  The loop that polls for the device token returns \<open>None\<close> when it never ends.
\<close>

subsection \<open>Data\<close>

record codex_token_response =
  ct_AccessToken :: string
  ct_RefreshToken :: string
  ct_IDToken :: string
  ct_TokenType :: string
  ct_ExpiresIn :: int

record codex_user_code =
  cu_DeviceAuthID :: string
  cu_UserCode :: string
  cu_UserCodeAlt :: string
  cu_Interval :: string

record codex_device_token =
  cd_AuthorizationCode :: string
  cd_CodeVerifier :: string
  cd_CodeChallenge :: string

record codex_claims =
  cl_Email :: string
  cl_Exp :: int
  cl_ChatgptAccountID :: string
  cl_ChatgptPlanType :: string
  cl_ChatgptUserID :: string

record codex_json =
  cj_token :: "string \<Rightarrow> string + codex_token_response"
  cj_claims :: "string \<Rightarrow> string + codex_claims"
  cj_userCode :: "string \<Rightarrow> string + codex_user_code"
  cj_deviceToken :: "string \<Rightarrow> string + codex_device_token"
  cj_string :: "string \<Rightarrow> string option"
  cj_int :: "string \<Rightarrow> int option"

record codex_authenticator =
  xa_CallbackPort :: int
  xa_UseDeviceFlow :: bool
  xa_NoBrowser :: bool

definition codexAuthURL :: string where "codexAuthURL = ''https://auth.openai.com/oauth/authorize''"
definition codexTokenURL :: string where "codexTokenURL = ''https://auth.openai.com/oauth/token''"
definition codexClientID :: string where "codexClientID = ''app_EMoamEEZ73f0CkXaXp7hrann''"
definition codexRedirectURI :: string where "codexRedirectURI = ''http://localhost:1455/auth/callback''"
definition codexDeviceUserCodeURL :: string where
  "codexDeviceUserCodeURL = ''https://auth.openai.com/api/accounts/deviceauth/usercode''"
definition codexDeviceTokenURL :: string where
  "codexDeviceTokenURL = ''https://auth.openai.com/api/accounts/deviceauth/token''"
definition codexDeviceVerificationURL :: string where
  "codexDeviceVerificationURL = ''https://auth.openai.com/codex/device''"
definition codexDeviceRedirectURI :: string where
  "codexDeviceRedirectURI = ''https://auth.openai.com/deviceauth/callback''"
definition codexDeviceTimeout :: duration where "codexDeviceTimeout = 15 * minute"
definition codexDefaultCallbackPort :: int where "codexDefaultCallbackPort = 1455"
definition codexDefaultPollInterval :: duration where "codexDefaultPollInterval = 5 * second"
definition codexRefreshMaxRetries :: nat where "codexRefreshMaxRetries = 3"

definition NewCodexAuthenticator :: codex_authenticator where
  "NewCodexAuthenticator =
     \<lparr>xa_CallbackPort = codexDefaultCallbackPort, xa_UseDeviceFlow = False, xa_NoBrowser = False\<rparr>"

definition codex_Provision :: "codex_authenticator \<Rightarrow> codex_authenticator" where
  "codex_Provision a = (if xa_CallbackPort a \<le> 0 then a\<lparr>xa_CallbackPort := codexDefaultCallbackPort\<rparr> else a)"

definition codex_Provider :: string where
  "codex_Provider = ''openai''"

subsection \<open>Tokens\<close>

definition buildAuthURL :: "string \<Rightarrow> string \<Rightarrow> string" where
  "buildAuthURL state codeChallenge =
     codexAuthURL @ ''?'' @
     Values_Encode
       [(''client_id'', codexClientID), (''response_type'', ''code''), (''redirect_uri'', codexRedirectURI),
        (''scope'', ''openid email profile offline_access''), (''state'', state), (''code_challenge'', codeChallenge),
        (''code_challenge_method'', ''S256''), (''prompt'', ''login''), (''id_token_add_organizations'', ''true''),
        (''codex_cli_simplified_flow'', ''true'')]"

definition codex_exchangeCode ::
    "'w oauth_world \<Rightarrow> codex_json \<Rightarrow> string \<Rightarrow> string \<Rightarrow> string \<Rightarrow> 'w \<Rightarrow> (string + codex_token_response) \<times> 'w" where
  "codex_exchangeCode ow js code redirectURI codeVerifier w =
     (case oa_Do ow
             (post codexTokenURL form_header
                (Values_Encode [(''grant_type'', ''authorization_code''), (''client_id'', codexClientID), (''code'', code),
                                (''redirect_uri'', redirectURI), (''code_verifier'', codeVerifier)])) w of
        (answer, w) \<Rightarrow>
          (read_reply (''token exchange request failed'', ''failed to read token exchange response'', ''token exchange'',
                       ''failed to parse token exchange response'') (\<lambda>c. c = 200) (cj_token js) answer, w))"

definition codex_refreshTokens ::
    "'w oauth_world \<Rightarrow> codex_json \<Rightarrow> string \<Rightarrow> 'w \<Rightarrow> (string + codex_token_response) \<times> 'w" where
  "codex_refreshTokens ow js refreshToken w =
     (case oa_Do ow
             (post codexTokenURL form_header
                (Values_Encode [(''grant_type'', ''refresh_token''), (''client_id'', codexClientID),
                                (''refresh_token'', refreshToken), (''scope'', ''openid profile email'')])) w of
        (answer, w) \<Rightarrow>
          (read_reply (''refresh request failed'', ''failed to read refresh response'', ''token refresh'',
                       ''failed to parse refresh response'') (\<lambda>c. c = 200) (cj_token js) answer, w))"

text \<open>The loop with \<open>n\<close> attempts left; \<open>time.Duration(attempt) * time.Second\<close> is exact for three.\<close>

fun codex_refresh_loop ::
    "'w oauth_world \<Rightarrow> codex_json \<Rightarrow> string \<Rightarrow> nat \<Rightarrow> nat \<Rightarrow> string \<Rightarrow> 'w \<Rightarrow> (string + codex_token_response) \<times> 'w" where
  "codex_refresh_loop ow js refreshToken maxRetries 0 lastErr w =
     (Inl (''token refresh failed after '' @ Itoa (int maxRetries) @ '' attempts: '' @ lastErr), w)"
| "codex_refresh_loop ow js refreshToken maxRetries (Suc n) lastErr w =
     (let attempt = maxRetries - Suc n
      in (case (if attempt > 0 then oa_Wait ow (int attempt * second) w else (None, w)) of
            (Some err, w) \<Rightarrow> (Inl err, w)
          | (None, w) \<Rightarrow>
              (case codex_refreshTokens ow js refreshToken w of
                 (Inr resp, w) \<Rightarrow> (Inr resp, w)
               | (Inl err, w) \<Rightarrow>
                   if Contains (ToLower err) ''refresh_token_reused'' then (Inl err, w)
                   else codex_refresh_loop ow js refreshToken maxRetries n err w)))"

definition codex_refreshTokensWithRetry ::
    "'w oauth_world \<Rightarrow> codex_json \<Rightarrow> string \<Rightarrow> nat \<Rightarrow> 'w \<Rightarrow> (string + codex_token_response) \<times> 'w" where
  "codex_refreshTokensWithRetry ow js refreshToken maxRetries w =
     codex_refresh_loop ow js refreshToken maxRetries maxRetries ''%!w(<nil>)'' w"

definition codex_applyTokenToMetadata ::
    "'w oauth_world \<Rightarrow> credential \<Rightarrow> codex_token_response \<Rightarrow> 'w \<Rightarrow> credential \<times> 'w" where
  "codex_applyTokenToMetadata ow cred tokenResp w =
     (let md = AList.update ''access_token'' (GString (ct_AccessToken tokenResp)) (c_Metadata cred);
          md = AList.update ''refresh_token'' (GString (ct_RefreshToken tokenResp)) md;
          md = AList.update ''id_token'' (GString (ct_IDToken tokenResp)) md
      in (case (if ct_ExpiresIn tokenResp > 0 then
                  (case oa_Now ow w of
                     (now, w) \<Rightarrow>
                       (AList.update ''expired'' (GString (oa_RFC3339 ow (now + wrap64 (ct_ExpiresIn tokenResp * second)))) md, w))
                else (md, w)) of
            (md, w) \<Rightarrow>
              (case oa_Now ow w of
                 (now, w) \<Rightarrow>
                   (cred\<lparr>c_Metadata := AList.update ''last_refresh'' (GString (oa_RFC3339 ow now)) md\<rparr>, w))))"

definition codex_RefreshLead ::
    "'w oauth_world \<Rightarrow> codex_json \<Rightarrow> credential option \<Rightarrow> 'w \<Rightarrow> (string + credential option) \<times> 'w" where
  "codex_RefreshLead ow js cred w =
     (case cred of
        None \<Rightarrow> (Inl ''codex: credential is nil'', w)
      | Some cred \<Rightarrow>
          (let refreshToken = metadata_string cred ''refresh_token''
           in if TrimSpace refreshToken = [] then (Inr None, w)
              else
                (case codex_refreshTokensWithRetry ow js refreshToken codexRefreshMaxRetries w of
                   (Inl err, w) \<Rightarrow> (Inl (''codex: token refresh failed: '' @ err), w)
                 | (Inr tokenResp, w) \<Rightarrow>
                     (case codex_applyTokenToMetadata ow (Clone cred) tokenResp w of (updated, w) \<Rightarrow> (Inr (Some updated), w)))))"

subsection \<open>The credential\<close>

definition parseJWTClaims :: "codex_json \<Rightarrow> string \<Rightarrow> string + codex_claims" where
  "parseJWTClaims js idToken =
     (let parts = Split (CHR ''.'') idToken
      in if length parts \<noteq> 3 then Inl (''invalid JWT format: expected 3 parts, got '' @ Itoa (int (length parts)))
         else (case URLDecode (b64_pad (parts ! 1)) of
                 None \<Rightarrow> Inl ''failed to decode JWT payload: illegal base64 data''
               | Some decoded \<Rightarrow>
                   (case cj_claims js decoded of
                      Inl err \<Rightarrow> Inl (''failed to unmarshal JWT claims: '' @ err)
                    | Inr claims \<Rightarrow> Inr claims)))"

definition codex_buildCredential ::
    "'w oauth_world \<Rightarrow> codex_json \<Rightarrow> codex_token_response \<Rightarrow> 'w \<Rightarrow> (string + credential) \<times> 'w" where
  "codex_buildCredential ow js tokenResp w =
     (case oa_UUID ow w of
        (uuid, w) \<Rightarrow>
          (let cred = zero_credential\<lparr>c_ID := uuid, c_Provider := codex_Provider, c_Status := StatusActive\<rparr>
           in (case codex_applyTokenToMetadata ow cred tokenResp w of
                 (cred, w) \<Rightarrow>
                   (Inr (if ct_IDToken tokenResp \<noteq> [] then
                           (case parseJWTClaims js (ct_IDToken tokenResp) of
                              Inl _ \<Rightarrow> cred
                            | Inr claims \<Rightarrow>
                                (let email = TrimSpace (cl_Email claims); planType = TrimSpace (cl_ChatgptPlanType claims);
                                     accountID = TrimSpace (cl_ChatgptAccountID claims)
                                 in cred\<lparr>c_Label := email,
                                         c_Attributes := AList.update ''account_id'' accountID
                                           (AList.update ''plan_type'' planType (AList.update ''email'' email (c_Attributes cred))),
                                         c_Metadata := AList.update ''email'' (GString email) (c_Metadata cred)\<rparr>))
                         else cred), w))))"

subsection \<open>The browser flow\<close>

definition codex_flow :: "'w oauth_world \<Rightarrow> codex_json \<Rightarrow> 'w browser_flow" where
  "codex_flow ow js =
     \<lparr>bf_name = ''codex'', bf_defaultPort = codexDefaultCallbackPort, bf_path = ''/auth/callback'', bf_authURL = buildAuthURL,
      bf_login = (\<lambda>code state codeVerifier w.
        case codex_exchangeCode ow js code codexRedirectURI codeVerifier w of
          (Inl err, w) \<Rightarrow> (Inl (''codex: token exchange failed: '' @ err), w)
        | (Inr tokenResp, w) \<Rightarrow> codex_buildCredential ow js tokenResp w)\<rparr>"

definition codex_loginWithBrowser ::
    "'w oauth_world \<Rightarrow> codex_json \<Rightarrow> codex_authenticator \<Rightarrow> 'w \<Rightarrow> (string + credential) \<times> 'w" where
  "codex_loginWithBrowser ow js a w = login_with_browser ow (codex_flow ow js) (xa_CallbackPort a) (xa_NoBrowser a) w"

subsection \<open>The device flow\<close>

definition requestDeviceUserCode :: "'w oauth_world \<Rightarrow> codex_json \<Rightarrow> 'w \<Rightarrow> (string + codex_user_code) \<times> 'w" where
  "requestDeviceUserCode ow js w =
     (case oa_Do ow (post codexDeviceUserCodeURL json_header (json_text (JObj [(''client_id'', JStr codexClientID)]))) w of
        (answer, w) \<Rightarrow>
          ((case answer of
              Inr resp \<Rightarrow>
                (case or_Body resp of
                   Inr body \<Rightarrow>
                     if or_StatusCode resp = 404 then Inl ''device flow endpoint unavailable (status 404)''
                     else read_reply (''device code request failed'', ''failed to read device code response'', ''device code request'',
                            ''failed to parse device code response'') (\<lambda>c. 200 \<le> c \<and> c < 300) (cj_userCode js) answer
                 | Inl err \<Rightarrow> Inl (''failed to read device code response: '' @ err))
            | Inl err \<Rightarrow> Inl (''device code request failed: '' @ err)), w))"

definition parseDevicePollInterval :: "codex_json \<Rightarrow> string \<Rightarrow> duration" where
  "parseDevicePollInterval js raw =
     (if raw = [] then codexDefaultPollInterval
      else
        (case Option.bind (cj_string js raw) (\<lambda>s. Atoi (TrimSpace s)) of
           Some n \<Rightarrow>
             if n > 0 then wrap64 (n * second)
             else (case cj_int js raw of
                     Some i \<Rightarrow> if i > 0 then wrap64 (i * second) else codexDefaultPollInterval
                   | None \<Rightarrow> codexDefaultPollInterval)
         | None \<Rightarrow>
             (case cj_int js raw of
                Some i \<Rightarrow> if i > 0 then wrap64 (i * second) else codexDefaultPollInterval
              | None \<Rightarrow> codexDefaultPollInterval)))"

definition device_poll_call :: "string \<Rightarrow> string \<Rightarrow> oauth_call" where
  "device_poll_call deviceAuthID userCode =
     post codexDeviceTokenURL json_header
       (json_text (JObj [(''device_auth_id'', JStr deviceAuthID), (''user_code'', JStr userCode)]))"

partial_function (option) poll_loop ::
    "'w oauth_world \<Rightarrow> codex_json \<Rightarrow> string \<Rightarrow> string \<Rightarrow> duration \<Rightarrow> gotime \<Rightarrow> 'w \<Rightarrow> ((string + codex_device_token) \<times> 'w) option" where
  "poll_loop ow js deviceAuthID userCode interval deadline w =
     (case oa_Now ow w of
        (now, w) \<Rightarrow>
          if now > deadline then Some (Inl ''device authentication timed out after 15 minutes'', w)
          else
            (case oa_Do ow (device_poll_call deviceAuthID userCode) w of
               (Inl err, w) \<Rightarrow> Some (Inl (''device poll request failed: '' @ err), w)
             | (Inr resp, w) \<Rightarrow>
                 (case or_Body resp of
                    Inl err \<Rightarrow> Some (Inl (''failed to read device poll response: '' @ err), w)
                  | Inr body \<Rightarrow>
                      if 200 \<le> or_StatusCode resp \<and> or_StatusCode resp < 300 then
                        (case cj_deviceToken js body of
                           Inl err \<Rightarrow> Some (Inl (''failed to parse device token response: '' @ err), w)
                         | Inr parsed \<Rightarrow> Some (Inr parsed, w))
                      else if or_StatusCode resp = 403 \<or> or_StatusCode resp = 404 then
                        (case oa_Wait ow interval w of
                           (Some err, w) \<Rightarrow> Some (Inl err, w)
                         | (None, w) \<Rightarrow> poll_loop ow js deviceAuthID userCode interval deadline w)
                      else
                        Some (Inl (''device token polling returned status '' @ Itoa (or_StatusCode resp) @ '': '' @ TrimSpace body), w))))"

definition pollDeviceToken ::
    "'w oauth_world \<Rightarrow> codex_json \<Rightarrow> string \<Rightarrow> string \<Rightarrow> duration \<Rightarrow> 'w \<Rightarrow> ((string + codex_device_token) \<times> 'w) option" where
  "pollDeviceToken ow js deviceAuthID userCode interval w =
     (case oa_Now ow w of (now, w) \<Rightarrow> poll_loop ow js deviceAuthID userCode interval (now + codexDeviceTimeout) w)"

definition codex_loginWithDeviceFlow ::
    "'w oauth_world \<Rightarrow> codex_json \<Rightarrow> codex_authenticator \<Rightarrow> 'w \<Rightarrow> ((string + credential) \<times> 'w) option" where
  "codex_loginWithDeviceFlow ow js a w =
     (case requestDeviceUserCode ow js w of
        (Inl err, w) \<Rightarrow> Some (Inl (''codex device: '' @ err), w)
      | (Inr resp, w) \<Rightarrow>
          (let deviceCode = TrimSpace (cu_UserCode resp);
               deviceCode = (if deviceCode = [] then TrimSpace (cu_UserCodeAlt resp) else deviceCode);
               deviceAuthID = TrimSpace (cu_DeviceAuthID resp)
           in if deviceCode = [] \<or> deviceAuthID = [] then
                Some (Inl ''codex device: server did not return required device_auth_id and user_code'', w)
              else
                (let w = (if xa_NoBrowser a then w else snd (oa_openBrowser ow codexDeviceVerificationURL w))
                 in (case pollDeviceToken ow js deviceAuthID deviceCode (parseDevicePollInterval js (cu_Interval resp)) w of
                       None \<Rightarrow> None
                     | Some (Inl err, w) \<Rightarrow> Some (Inl (''codex device: '' @ err), w)
                     | Some (Inr devToken, w) \<Rightarrow>
                         (let authCode = TrimSpace (cd_AuthorizationCode devToken);
                              codeVerifier = TrimSpace (cd_CodeVerifier devToken)
                          in if authCode = [] \<or> codeVerifier = [] then
                               Some (Inl ''codex device: token response missing required fields'', w)
                             else
                               (case codex_exchangeCode ow js authCode codexDeviceRedirectURI codeVerifier w of
                                  (Inl err, w) \<Rightarrow> Some (Inl (''codex device: token exchange failed: '' @ err), w)
                                | (Inr tokenResp, w) \<Rightarrow> Some (codex_buildCredential ow js tokenResp w)))))))"

definition codex_Login ::
    "'w oauth_world \<Rightarrow> codex_json \<Rightarrow> codex_authenticator \<Rightarrow> 'w \<Rightarrow> ((string + credential) \<times> 'w) option" where
  "codex_Login ow js a w =
     (if xa_UseDeviceFlow a then codex_loginWithDeviceFlow ow js a w else Some (codex_loginWithBrowser ow js a w))"

end
