(* ===== verification/Claude_Auth.thy ===== *)
theory Claude_Auth
  imports Oauth_Flow
begin

text \<open>
  Package llm/cliauth/authenticator, file claude.go: the browser login of the Claude CLI and the refresh
  of its tokens.  The decoder of the token answer is the argument \<open>decode\<close>.  The callback server is
  the one of codex.go under another path; it is modelled there.
\<close>

record claude_token_response =
  lt_AccessToken :: string
  lt_RefreshToken :: string
  lt_TokenType :: string
  lt_ExpiresIn :: int
  lt_OrganizationUUID :: string
  lt_OrganizationName :: string
  lt_AccountUUID :: string
  lt_AccountEmail :: string

record claude_authenticator =
  la_CallbackPort :: int
  la_NoBrowser :: bool

type_synonym claude_decode = "string \<Rightarrow> string + claude_token_response"

definition claudeAuthURL :: string where "claudeAuthURL = ''https://claude.ai/oauth/authorize''"
definition claudeTokenURL :: string where "claudeTokenURL = ''https://api.anthropic.com/v1/oauth/token''"
definition claudeClientID :: string where "claudeClientID = ''9d1c250a-e61b-44d9-88ed-5944d1962f5e''"
definition claudeRedirectURI :: string where "claudeRedirectURI = ''http://localhost:54545/callback''"
definition claudeScopes :: string where "claudeScopes = ''org:create_api_key user:profile user:inference''"
definition claudeDefaultCallbackPort :: int where "claudeDefaultCallbackPort = 54545"
definition claudeRefreshMaxRetries :: nat where "claudeRefreshMaxRetries = 3"

definition NewClaudeAuthenticator :: claude_authenticator where
  "NewClaudeAuthenticator = \<lparr>la_CallbackPort = claudeDefaultCallbackPort, la_NoBrowser = False\<rparr>"

definition claude_Provision :: "claude_authenticator \<Rightarrow> claude_authenticator" where
  "claude_Provision a = (if la_CallbackPort a \<le> 0 then a\<lparr>la_CallbackPort := claudeDefaultCallbackPort\<rparr> else a)"

definition claude_Provider :: string where
  "claude_Provider = ''anthropic''"

definition buildClaudeAuthURL :: "string \<Rightarrow> string \<Rightarrow> string" where
  "buildClaudeAuthURL state codeChallenge =
     claudeAuthURL @ ''?'' @
     Values_Encode
       [(''code'', ''true''), (''client_id'', claudeClientID), (''response_type'', ''code''), (''redirect_uri'', claudeRedirectURI),
        (''scope'', claudeScopes), (''state'', state), (''code_challenge'', codeChallenge), (''code_challenge_method'', ''S256'')]"

definition parseClaudeCodeParam :: "string \<Rightarrow> string \<times> string" where
  "parseClaudeCodeParam code =
     (case Cut (CHR ''#'') code of (parsedCode, rest) \<Rightarrow> (parsedCode, case rest of None \<Rightarrow> [] | Some s \<Rightarrow> s))"

definition postTokenRequest ::
    "'w oauth_world \<Rightarrow> claude_decode \<Rightarrow> (string \<times> json) list \<Rightarrow> 'w \<Rightarrow> (string + claude_token_response) \<times> 'w" where
  "postTokenRequest ow decode body w =
     (case oa_Do ow (post claudeTokenURL json_header (json_text (json_map body))) w of
        (answer, w) \<Rightarrow>
          (read_reply (''token request failed'', ''failed to read token response'', ''token request'',
                       ''failed to parse token response'') (\<lambda>c. c = 200) decode answer, w))"

definition claude_exchangeCode ::
    "'w oauth_world \<Rightarrow> claude_decode \<Rightarrow> string \<Rightarrow> string \<Rightarrow> string \<Rightarrow> 'w \<Rightarrow> (string + claude_token_response) \<times> 'w" where
  "claude_exchangeCode ow decode code state codeVerifier w =
     (case parseClaudeCodeParam code of
        (parsedCode, parsedState) \<Rightarrow>
          postTokenRequest ow decode
            [(''code'', JStr parsedCode), (''state'', JStr (if parsedState \<noteq> [] then parsedState else state)),
             (''grant_type'', JStr ''authorization_code''), (''client_id'', JStr claudeClientID),
             (''redirect_uri'', JStr claudeRedirectURI), (''code_verifier'', JStr codeVerifier)] w)"

definition claude_refreshTokens ::
    "'w oauth_world \<Rightarrow> claude_decode \<Rightarrow> string \<Rightarrow> 'w \<Rightarrow> (string + claude_token_response) \<times> 'w" where
  "claude_refreshTokens ow decode refreshToken w =
     postTokenRequest ow decode
       [(''grant_type'', JStr ''refresh_token''), (''client_id'', JStr claudeClientID), (''refresh_token'', JStr refreshToken)] w"

fun claude_refresh_loop ::
    "'w oauth_world \<Rightarrow> claude_decode \<Rightarrow> string \<Rightarrow> nat \<Rightarrow> nat \<Rightarrow> string \<Rightarrow> 'w \<Rightarrow> (string + claude_token_response) \<times> 'w" where
  "claude_refresh_loop ow decode refreshToken maxRetries 0 lastErr w =
     (Inl (''token refresh failed after '' @ Itoa (int maxRetries) @ '' attempts: '' @ lastErr), w)"
| "claude_refresh_loop ow decode refreshToken maxRetries (Suc n) lastErr w =
     (let attempt = maxRetries - Suc n
      in (case (if attempt > 0 then oa_Wait ow (int attempt * second) w else (None, w)) of
            (Some err, w) \<Rightarrow> (Inl err, w)
          | (None, w) \<Rightarrow>
              (case claude_refreshTokens ow decode refreshToken w of
                 (Inr resp, w) \<Rightarrow> (Inr resp, w)
               | (Inl err, w) \<Rightarrow> claude_refresh_loop ow decode refreshToken maxRetries n err w)))"

definition claude_refreshTokensWithRetry ::
    "'w oauth_world \<Rightarrow> claude_decode \<Rightarrow> string \<Rightarrow> nat \<Rightarrow> 'w \<Rightarrow> (string + claude_token_response) \<times> 'w" where
  "claude_refreshTokensWithRetry ow decode refreshToken maxRetries w =
     claude_refresh_loop ow decode refreshToken maxRetries maxRetries ''%!w(<nil>)'' w"

definition claude_applyTokenToMetadata ::
    "'w oauth_world \<Rightarrow> credential \<Rightarrow> claude_token_response \<Rightarrow> 'w \<Rightarrow> credential \<times> 'w" where
  "claude_applyTokenToMetadata ow cred tokenResp w =
     (let md = AList.update ''access_token'' (GString (lt_AccessToken tokenResp)) (c_Metadata cred);
          md = AList.update ''refresh_token'' (GString (lt_RefreshToken tokenResp)) md
      in (case (if lt_ExpiresIn tokenResp > 0 then
                  (case oa_Now ow w of
                     (now, w) \<Rightarrow>
                       (AList.update ''expired'' (GString (oa_RFC3339 ow (now + wrap64 (lt_ExpiresIn tokenResp * second)))) md, w))
                else (md, w)) of
            (md, w) \<Rightarrow>
              (case oa_Now ow w of
                 (now, w) \<Rightarrow>
                   (cred\<lparr>c_Metadata := AList.update ''last_refresh'' (GString (oa_RFC3339 ow now)) md\<rparr>, w))))"

definition claude_RefreshLead ::
    "'w oauth_world \<Rightarrow> claude_decode \<Rightarrow> credential option \<Rightarrow> 'w \<Rightarrow> (string + credential option) \<times> 'w" where
  "claude_RefreshLead ow decode cred w =
     (case cred of
        None \<Rightarrow> (Inl ''claude: credential is nil'', w)
      | Some cred \<Rightarrow>
          (let refreshToken = metadata_string cred ''refresh_token''
           in if TrimSpace refreshToken = [] then (Inr None, w)
              else
                (case claude_refreshTokensWithRetry ow decode refreshToken claudeRefreshMaxRetries w of
                   (Inl err, w) \<Rightarrow> (Inl (''claude: token refresh failed: '' @ err), w)
                 | (Inr tokenResp, w) \<Rightarrow>
                     (case claude_applyTokenToMetadata ow (Clone cred) tokenResp w of (updated, w) \<Rightarrow> (Inr (Some updated), w)))))"

definition claude_buildCredential ::
    "'w oauth_world \<Rightarrow> claude_token_response \<Rightarrow> 'w \<Rightarrow> (string + credential) \<times> 'w" where
  "claude_buildCredential ow tokenResp w =
     (case oa_UUID ow w of
        (uuid, w) \<Rightarrow>
          (case claude_applyTokenToMetadata ow
                  (zero_credential\<lparr>c_ID := uuid, c_Provider := claude_Provider, c_Status := StatusActive\<rparr>) tokenResp w of
             (cred, w) \<Rightarrow>
               (let email = TrimSpace (lt_AccountEmail tokenResp);
                    cred = (if email \<noteq> [] then
                              cred\<lparr>c_Label := email, c_Attributes := AList.update ''email'' email (c_Attributes cred),
                                   c_Metadata := AList.update ''email'' (GString email) (c_Metadata cred)\<rparr>
                            else cred);
                    orgName = TrimSpace (lt_OrganizationName tokenResp);
                    cred = (if orgName \<noteq> [] then cred\<lparr>c_Attributes := AList.update ''org_name'' orgName (c_Attributes cred)\<rparr> else cred);
                    orgUUID = TrimSpace (lt_OrganizationUUID tokenResp);
                    cred = (if orgUUID \<noteq> [] then cred\<lparr>c_Attributes := AList.update ''org_id'' orgUUID (c_Attributes cred)\<rparr> else cred)
                in (Inr cred, w))))"

definition claude_flow :: "'w oauth_world \<Rightarrow> claude_decode \<Rightarrow> 'w browser_flow" where
  "claude_flow ow decode =
     \<lparr>bf_name = ''claude'', bf_defaultPort = claudeDefaultCallbackPort, bf_path = ''/callback'', bf_authURL = buildClaudeAuthURL,
      bf_login = (\<lambda>code state codeVerifier w.
        case claude_exchangeCode ow decode code state codeVerifier w of
          (Inl err, w) \<Rightarrow> (Inl (''claude: token exchange failed: '' @ err), w)
        | (Inr tokenResp, w) \<Rightarrow> claude_buildCredential ow tokenResp w)\<rparr>"

definition claude_loginWithBrowser ::
    "'w oauth_world \<Rightarrow> claude_decode \<Rightarrow> claude_authenticator \<Rightarrow> 'w \<Rightarrow> (string + credential) \<times> 'w" where
  "claude_loginWithBrowser ow decode a w =
     login_with_browser ow (claude_flow ow decode) (la_CallbackPort a) (la_NoBrowser a) w"

definition claude_Login ::
    "'w oauth_world \<Rightarrow> claude_decode \<Rightarrow> claude_authenticator \<Rightarrow> 'w \<Rightarrow> (string + credential) \<times> 'w" where
  "claude_Login ow decode a w = claude_loginWithBrowser ow decode a w"

end
