(* ===== verification/Gemini_Auth.thy ===== *)
theory Gemini_Auth
  imports Oauth_Flow
begin

text \<open>
  Package llm/cliauth/authenticator, file gemini.go: the browser login of the Gemini CLI and the refresh
  of its tokens.  The package golang.org/x/oauth2 is outside: what the code calls of it is the record
  \<open>oauth2_lib\<close> (\<open>Config.AuthCodeURL\<close>, \<open>Config.Exchange\<close>, \<open>TokenSource.Token\<close> and the client of a
  token).  The callback server differs from the other two: it has no state.  The page it writes is the
  argument \<open>page\<close>.
\<close>

record oauth2_token =
  gt_AccessToken :: string
  gt_TokenType :: string
  gt_RefreshToken :: string
  gt_Expiry :: gotime

record oauth2_config =
  gc_ClientID :: string
  gc_ClientSecret :: string
  gc_RedirectURL :: string
  gc_Scopes :: "string list"

record 'w oauth2_lib =
  ol_AuthCodeURL :: "oauth2_config \<Rightarrow> string \<Rightarrow> (string \<times> string) list \<Rightarrow> string"
  ol_Exchange :: "oauth2_config \<Rightarrow> string \<Rightarrow> 'w \<Rightarrow> (string + oauth2_token) \<times> 'w"
  ol_Token :: "oauth2_config \<Rightarrow> oauth2_token \<Rightarrow> 'w \<Rightarrow> (string + oauth2_token) \<times> 'w"
  ol_ClientDo :: "oauth2_config \<Rightarrow> oauth2_token \<Rightarrow> oauth_call \<Rightarrow> 'w \<Rightarrow> (string + oauth_reply) \<times> 'w"
  ol_email :: "string \<Rightarrow> string + string"

record gemini_authenticator =
  ga_CallbackPort :: int
  ga_NoBrowser :: bool

definition geminiClientID :: string where
  "geminiClientID = ''681255809395-oo8ft2oprdrnp9e3aqf6av3hmdib135j.apps.googleusercontent.com''"
definition geminiClientSecret :: string where
  "geminiClientSecret = ''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''"
definition geminiDefaultCallbackPort :: int where "geminiDefaultCallbackPort = 8085"
definition geminiRefreshMaxRetries :: nat where "geminiRefreshMaxRetries = 3"

definition geminiScopes :: "string list" where
  "geminiScopes =
     [''https://www.googleapis.com/auth/cloud-platform'', ''https://www.googleapis.com/auth/userinfo.email'',
      ''https://www.googleapis.com/auth/userinfo.profile'']"

definition geminiUserInfoURL :: string where
  "geminiUserInfoURL = ''https://www.googleapis.com/oauth2/v1/userinfo?alt=json''"

definition NewGeminiAuthenticator :: gemini_authenticator where
  "NewGeminiAuthenticator = \<lparr>ga_CallbackPort = geminiDefaultCallbackPort, ga_NoBrowser = False\<rparr>"

definition gemini_auth_Provision :: "gemini_authenticator \<Rightarrow> gemini_authenticator" where
  "gemini_auth_Provision a = (if ga_CallbackPort a \<le> 0 then a\<lparr>ga_CallbackPort := geminiDefaultCallbackPort\<rparr> else a)"

definition gemini_Provider :: string where
  "gemini_Provider = ''gemini''"

subsection \<open>Tokens\<close>

definition gemini_refreshTokens ::
    "'w oauth_world \<Rightarrow> 'w oauth2_lib \<Rightarrow> string \<Rightarrow> 'w \<Rightarrow> (string + oauth2_token) \<times> 'w" where
  "gemini_refreshTokens ow ol refreshToken w =
     (let conf = \<lparr>gc_ClientID = geminiClientID, gc_ClientSecret = geminiClientSecret, gc_RedirectURL = [], gc_Scopes = []\<rparr>
      in (case oa_Now ow w of
            (now, w) \<Rightarrow>
              (case ol_Token ol conf
                      \<lparr>gt_AccessToken = [], gt_TokenType = [], gt_RefreshToken = refreshToken, gt_Expiry = now - 60 * minute\<rparr> w of
                 (Inl err, w) \<Rightarrow> (Inl (''failed to refresh token: '' @ err), w)
               | (Inr token, w) \<Rightarrow> (Inr token, w))))"

fun gemini_refresh_loop ::
    "'w oauth_world \<Rightarrow> 'w oauth2_lib \<Rightarrow> string \<Rightarrow> nat \<Rightarrow> nat \<Rightarrow> string \<Rightarrow> 'w \<Rightarrow> (string + oauth2_token) \<times> 'w" where
  "gemini_refresh_loop ow ol refreshToken maxRetries 0 lastErr w =
     (Inl (''token refresh failed after '' @ Itoa (int maxRetries) @ '' attempts: '' @ lastErr), w)"
| "gemini_refresh_loop ow ol refreshToken maxRetries (Suc n) lastErr w =
     (let attempt = maxRetries - Suc n
      in (case (if attempt > 0 then oa_Wait ow (int attempt * second) w else (None, w)) of
            (Some err, w) \<Rightarrow> (Inl err, w)
          | (None, w) \<Rightarrow>
              (case gemini_refreshTokens ow ol refreshToken w of
                 (Inr token, w) \<Rightarrow> (Inr token, w)
               | (Inl err, w) \<Rightarrow> gemini_refresh_loop ow ol refreshToken maxRetries n err w)))"

definition gemini_refreshTokensWithRetry ::
    "'w oauth_world \<Rightarrow> 'w oauth2_lib \<Rightarrow> string \<Rightarrow> nat \<Rightarrow> 'w \<Rightarrow> (string + oauth2_token) \<times> 'w" where
  "gemini_refreshTokensWithRetry ow ol refreshToken maxRetries w =
     gemini_refresh_loop ow ol refreshToken maxRetries maxRetries ''%!w(<nil>)'' w"

definition applyGeminiTokenToMetadata ::
    "'w oauth_world \<Rightarrow> credential \<Rightarrow> oauth2_token \<Rightarrow> 'w \<Rightarrow> credential \<times> 'w" where
  "applyGeminiTokenToMetadata ow cred token w =
     (let md = AList.update ''access_token'' (GString (gt_AccessToken token)) (c_Metadata cred);
          md = AList.update ''token_type'' (GString (gt_TokenType token)) md;
          md = (if gt_RefreshToken token \<noteq> [] then AList.update ''refresh_token'' (GString (gt_RefreshToken token)) md else md);
          md = (if \<not> IsZero (gt_Expiry token) then AList.update ''expired'' (GString (oa_RFC3339 ow (gt_Expiry token))) md else md)
      in (case oa_Now ow w of
            (now, w) \<Rightarrow>
              (let md = AList.update ''last_refresh'' (GString (oa_RFC3339 ow now)) md;
                   md = AList.update ''token_uri'' (GString ''https://oauth2.googleapis.com/token'') md
               in (cred\<lparr>c_Metadata := AList.update ''client_id'' (GString geminiClientID) md\<rparr>, w))))"

definition gemini_RefreshLead ::
    "'w oauth_world \<Rightarrow> 'w oauth2_lib \<Rightarrow> credential option \<Rightarrow> 'w \<Rightarrow> (string + credential option) \<times> 'w" where
  "gemini_RefreshLead ow ol cred w =
     (case cred of
        None \<Rightarrow> (Inl ''gemini: credential is nil'', w)
      | Some cred \<Rightarrow>
          (let refreshToken = metadata_string cred ''refresh_token''
           in if TrimSpace refreshToken = [] then (Inr None, w)
              else
                (case gemini_refreshTokensWithRetry ow ol refreshToken geminiRefreshMaxRetries w of
                   (Inl err, w) \<Rightarrow> (Inl (''gemini: token refresh failed: '' @ err), w)
                 | (Inr token, w) \<Rightarrow>
                     (case applyGeminiTokenToMetadata ow (Clone cred) token w of (updated, w) \<Rightarrow> (Inr (Some updated), w)))))"

definition fetchGeminiUserEmail ::
    "(oauth_call \<Rightarrow> 'w \<Rightarrow> (string + oauth_reply) \<times> 'w) \<Rightarrow> (string \<Rightarrow> string + string) \<Rightarrow> 'w \<Rightarrow> (string + string) \<times> 'w" where
  "fetchGeminiUserEmail client decode w =
     (case client \<lparr>oc_Method = ''GET'', oc_URL = geminiUserInfoURL, oc_Header = [], oc_Body = []\<rparr> w of
        (Inl err, w) \<Rightarrow> (Inl (''userinfo request failed: '' @ err), w)
      | (Inr resp, w) \<Rightarrow>
          ((case or_Body resp of
              Inl err \<Rightarrow> Inl (''failed to read userinfo response: '' @ err)
            | Inr body \<Rightarrow>
                if or_StatusCode resp < 200 \<or> or_StatusCode resp \<ge> 300
                then Inl (''userinfo request returned status '' @ Itoa (or_StatusCode resp))
                else (case decode body of
                        Inl err \<Rightarrow> Inl (''failed to parse userinfo response: '' @ err)
                      | Inr email \<Rightarrow> Inr (TrimSpace email))), w))"

definition gemini_buildCredential ::
    "'w oauth_world \<Rightarrow> 'w oauth2_lib \<Rightarrow> oauth2_config \<Rightarrow> oauth2_token \<Rightarrow> 'w \<Rightarrow> (string + credential) \<times> 'w" where
  "gemini_buildCredential ow ol conf token w =
     (case oa_UUID ow w of
        (uuid, w) \<Rightarrow>
          (case applyGeminiTokenToMetadata ow
                  (zero_credential\<lparr>c_ID := uuid, c_Provider := gemini_Provider, c_Status := StatusActive\<rparr>) token w of
             (cred, w) \<Rightarrow>
               (case fetchGeminiUserEmail (ol_ClientDo ol conf token) (ol_email ol) w of
                  (Inr email, w) \<Rightarrow>
                    (Inr (if email \<noteq> [] then
                            cred\<lparr>c_Label := email, c_Attributes := AList.update ''email'' email (c_Attributes cred),
                                 c_Metadata := AList.update ''email'' (GString email) (c_Metadata cred)\<rparr>
                          else cred), w)
                | (Inl _, w) \<Rightarrow> (Inr cred, w))))"

subsection \<open>The callback server\<close>

record gemini_callback_result =
  gr_code :: string
  gr_err :: string

record gemini_callback_server =
  gb_port :: int
  gb_resultCh :: "gemini_callback_result option"
  gb_running :: bool

definition newGeminiCallbackServer :: "int \<Rightarrow> gemini_callback_server" where
  "newGeminiCallbackServer port = \<lparr>gb_port = port, gb_resultCh = None, gb_running = False\<rparr>"

definition gb_start :: "'w oauth_world \<Rightarrow> gemini_callback_server \<Rightarrow> 'w \<Rightarrow> string option \<times> gemini_callback_server \<times> 'w" where
  "gb_start ow s w =
     (if gb_running s then (Some ''callback server already running'', s, w)
      else (case oa_Listen ow (gb_port s) w of
              (Some err, w) \<Rightarrow> (Some (''port '' @ Itoa (gb_port s) @ '' already in use: '' @ err), s, w)
            | (None, w) \<Rightarrow> (None, s\<lparr>gb_running := True\<rparr>, w)))"

definition gb_stop :: "'w oauth_world \<Rightarrow> gemini_callback_server \<Rightarrow> 'w \<Rightarrow> gemini_callback_server \<times> 'w" where
  "gb_stop ow s w = (if \<not> gb_running s then (s, w) else (s\<lparr>gb_running := False\<rparr>, oa_Shutdown ow (gb_port s) w))"

definition gemini_callback_result_of :: "callback_request \<Rightarrow> gemini_callback_result" where
  "gemini_callback_result_of r =
     (let errParam = Query_Get (cq_Query r) ''error''; code = Query_Get (cq_Query r) ''code''
      in if errParam \<noteq> [] then \<lparr>gr_code = [], gr_err = errParam\<rparr>
         else if code = [] then \<lparr>gr_code = [], gr_err = ''no_code''\<rparr>
         else \<lparr>gr_code = code, gr_err = []\<rparr>)"

definition gemini_handleCallback ::
    "string \<Rightarrow> gemini_callback_server \<Rightarrow> response_writer \<Rightarrow> callback_request \<Rightarrow> gemini_callback_server \<times> response_writer" where
  "gemini_handleCallback page s w r =
     (if cq_Method r \<noteq> ''GET'' then (s, rw_Error w ''Method not allowed'' 405)
      else
        (let result = gemini_callback_result_of r
         in (case gb_resultCh s of None \<Rightarrow> s\<lparr>gb_resultCh := Some result\<rparr> | Some _ \<Rightarrow> s,
             if gr_err result \<noteq> [] then rw_Error w (''Authentication failed: '' @ gr_err result) 400
             else rw_Write (rw_SetHeader w ''Content-Type'' ''text/html; charset=utf-8'') page)))"

definition gemini_callback_serve :: "string \<Rightarrow> gemini_callback_server \<Rightarrow> callback_request \<Rightarrow> gemini_callback_server" where
  "gemini_callback_serve page s r =
     (if cq_Path r = ''/oauth2callback'' then fst (gemini_handleCallback page s new_response r) else s)"

definition gemini_waitForCallback :: "gemini_callback_server \<Rightarrow> string + string" where
  "gemini_waitForCallback s =
     (case gb_resultCh s of
        Some result \<Rightarrow>
          if gr_err result \<noteq> [] then Inl (''OAuth callback error: '' @ gr_err result) else Inr (gr_code result)
      | None \<Rightarrow> Inl ''timed out waiting for OAuth callback after 5m0s'')"

subsection \<open>Login\<close>

definition gemini_loginWithBrowser ::
    "'w oauth_world \<Rightarrow> 'w oauth2_lib \<Rightarrow> string \<Rightarrow> gemini_authenticator \<Rightarrow> 'w \<Rightarrow> (string + credential) \<times> 'w" where
  "gemini_loginWithBrowser ow ol page a w =
     (let port = (if ga_CallbackPort a \<le> 0 then geminiDefaultCallbackPort else ga_CallbackPort a);
          conf = \<lparr>gc_ClientID = geminiClientID, gc_ClientSecret = geminiClientSecret,
                  gc_RedirectURL = ''http://localhost:'' @ Itoa port @ ''/oauth2callback'', gc_Scopes = geminiScopes\<rparr>
      in (case gb_start ow (newGeminiCallbackServer port) w of
            (Some err, srv, w) \<Rightarrow>
              (Inl (''gemini: failed to start callback server on port '' @ Itoa port @ '': '' @ err), w)
          | (None, srv, w) \<Rightarrow>
              (let authURL = ol_AuthCodeURL ol conf ''state-token'' [(''access_type'', ''offline''), (''prompt'', ''consent'')];
                   w = (if ga_NoBrowser a then w else snd (oa_openBrowser ow authURL w))
               in (case oa_Callbacks ow w of
                     (arrived, w) \<Rightarrow>
                       (case (case gemini_waitForCallback (foldl (gemini_callback_serve page) srv arrived) of
                                Inl err \<Rightarrow> (Inl (''gemini: callback error: '' @ err), w)
                              | Inr code \<Rightarrow>
                                  (case ol_Exchange ol conf code w of
                                     (Inl err, w) \<Rightarrow> (Inl (''gemini: token exchange failed: '' @ err), w)
                                   | (Inr token, w) \<Rightarrow> gemini_buildCredential ow ol conf token w)) of
                          (answer, w) \<Rightarrow> (answer, snd (gb_stop ow srv w)))))))"

definition gemini_Login ::
    "'w oauth_world \<Rightarrow> 'w oauth2_lib \<Rightarrow> string \<Rightarrow> gemini_authenticator \<Rightarrow> 'w \<Rightarrow> (string + credential) \<times> 'w" where
  "gemini_Login ow ol page a w = gemini_loginWithBrowser ow ol page a w"

end
