(* ===== verification/Authenticator_Spec.thy ===== *)
theory Authenticator_Spec
  imports Codex_Auth Claude_Auth Gemini_Auth Manager_Inv
begin

text \<open>
  What the three authenticators promise.  The locale \<open>refresh_retry\<close> is the contract of their retry
  loops, the locale \<open>oauth_refresher\<close> what the credential manager relies on when it calls \<open>RefreshLead\<close>;
  both are interpreted on all three.
\<close>

subsection \<open>Retries\<close>

locale refresh_retry =
  fixes attempt :: "'w \<Rightarrow> (string + 't) \<times> 'w" and wait :: "duration \<Rightarrow> 'w \<Rightarrow> string option \<times> 'w"
    and final :: "string \<Rightarrow> bool" and loop :: "nat \<Rightarrow> nat \<Rightarrow> string \<Rightarrow> 'w \<Rightarrow> (string + 't) \<times> 'w"
  assumes loop_0: "\<exists>msg. loop k 0 e w = (Inl msg, w)"
    and loop_Suc: "loop k (Suc n) e w =
      (case (if k - Suc n > 0 then wait (int (k - Suc n) * second) w else (None, w)) of
         (Some err, w) \<Rightarrow> (Inl err, w)
       | (None, w) \<Rightarrow>
           (case attempt w of
              (Inr t, w) \<Rightarrow> (Inr t, w)
            | (Inl err, w) \<Rightarrow> if final err then (Inl err, w) else loop k n err w))"
begin

text \<open>The answer is that of an attempt, and there are at most as many attempts as allowed.\<close>

lemma loop_answer: "loop k n e w = (Inr t, w') \<Longrightarrow> \<exists>w1. attempt w1 = (Inr t, w')"
proof (induction n arbitrary: e w)
  case 0
  with loop_0 [of k e w] show ?case by auto
next
  case (Suc n)
  then show ?case by (auto simp: loop_Suc split: prod.splits sum.splits option.splits if_splits)
qed

lemma loop_attempts:
  assumes "\<And>w. sent (snd (attempt w)) = Suc (sent w)" and "\<And>d w. sent (snd (wait d w)) = sent w"
  shows "sent w \<le> sent (snd (loop k n e w)) \<and> sent (snd (loop k n e w)) \<le> sent w + n"
proof (induction n arbitrary: e w)
  case 0
  with loop_0 [of k e w] show ?case by auto
next
  case (Suc n)
  obtain d w1 where d: "(if k - Suc n > 0 then wait (int (k - Suc n) * second) w else (None, w)) = (d, w1)" by fastforce
  then have s1: "sent w1 = sent w" using assms(2) by (auto split: if_splits) (metis snd_conv)
  obtain a w2 where a: "attempt w1 = (a, w2)" by fastforce
  with assms(1) [of w1] have s2: "sent w2 = Suc (sent w1)" by simp
  from Suc.IH [of w2] s1 s2 show ?case
    unfolding loop_Suc d by (auto simp: a intro: Suc_leD split: option.splits sum.splits)
qed

end

interpretation codex_retry: refresh_retry "codex_refreshTokens ow js rt" "oa_Wait ow"
    "\<lambda>err. Contains (ToLower err) ''refresh_token_reused''" "codex_refresh_loop ow js rt" for ow js rt
  by unfold_locales (simp_all add: Let_def)

interpretation claude_retry: refresh_retry "claude_refreshTokens ow decode rt" "oa_Wait ow" "\<lambda>err. False"
    "claude_refresh_loop ow decode rt" for ow decode rt
  by unfold_locales (auto simp: Let_def split: prod.splits option.splits sum.splits)

interpretation gemini_retry: refresh_retry "gemini_refreshTokens ow ol rt" "oa_Wait ow" "\<lambda>err. False"
    "gemini_refresh_loop ow ol rt" for ow ol rt
  by unfold_locales (auto simp: Let_def split: prod.splits option.splits sum.splits)

lemma refreshTokens_sent:
  "(\<And>c w. sent (snd (oa_Do ow c w)) = Suc (sent w)) \<Longrightarrow> sent (snd (codex_refreshTokens ow js rt w)) = Suc (sent w)"
  "(\<And>c w. sent (snd (oa_Do ow c w)) = Suc (sent w)) \<Longrightarrow> sent (snd (claude_refreshTokens ow decode rt w)) = Suc (sent w)"
  "(\<And>c t w. sent (snd (ol_Token ol c t w)) = Suc (sent w)) \<Longrightarrow> (\<And>w. sent (snd (oa_Now ow w)) = sent w) \<Longrightarrow>
   sent (snd (gemini_refreshTokens ow ol rt w)) = Suc (sent w)"
  by (simp_all add: codex_refreshTokens_def claude_refreshTokens_def postTokenRequest_def gemini_refreshTokens_def Let_def
      split: prod.splits sum.splits) (metis snd_conv)+

text \<open>Writing the tokens into the metadata sends nothing.\<close>

lemma applyToken_sent:
  assumes "\<And>w. sent (snd (oa_Now ow w)) = sent w"
  shows "sent (snd (codex_applyTokenToMetadata ow c t w)) = sent w"
    and "sent (snd (claude_applyTokenToMetadata ow c t' w)) = sent w"
    and "sent (snd (applyGeminiTokenToMetadata ow c t'' w)) = sent w"
proof -
  have now: "oa_Now ow v = (x, v') \<Longrightarrow> sent v' = sent v" for v v' x using assms [of v] by simp
  show "sent (snd (codex_applyTokenToMetadata ow c t w)) = sent w" "sent (snd (claude_applyTokenToMetadata ow c t' w)) = sent w"
      "sent (snd (applyGeminiTokenToMetadata ow c t'' w)) = sent w"
    by (auto simp: codex_applyTokenToMetadata_def claude_applyTokenToMetadata_def applyGeminiTokenToMetadata_def Let_def
        split: prod.splits if_splits dest!: now)
qed

subsection \<open>What the manager relies on\<close>

text \<open>A refresh keeps who the credential is for: identifier, provider, attributes, status and the
  feedback on it; without a refresh token there is nothing to do.\<close>

definition same_credential :: "credential \<Rightarrow> credential \<Rightarrow> bool" where
  "same_credential c u \<longleftrightarrow> (\<exists>md. u = c\<lparr>c_Metadata := md\<rparr>)"

locale oauth_refresher =
  fixes refresh :: "credential option \<Rightarrow> 'w \<Rightarrow> (string + credential option) \<times> 'w"
  assumes keeps: "refresh (Some c) w = (Inr (Some u), w') \<Longrightarrow> same_credential c u"
    and nothing: "TrimSpace (metadata_string c ''refresh_token'') = [] \<Longrightarrow> refresh (Some c) w = (Inr None, w)"
begin

lemma refresh_keeps_manager:
  assumes "mgr_inv T m" and "T \<le> e_schedNow env" and "TrimSpace (c_ID c) = c_ID c"
  shows "mgr_inv (e_schedNow env) (refreshOne_finish m ctx c (fst (refresh (Some c) w)) now env)"
proof (rule refreshOne_finish_inv [OF assms])
  obtain a w' where "refresh (Some c) w = (a, w')" by fastforce
  with keeps [of c w _ w'] assms(3) show "case fst (refresh (Some c) w) of Inr (Some u) \<Rightarrow> TrimSpace (c_ID u) = c_ID u | _ \<Rightarrow> True"
    by (auto simp: same_credential_def split: sum.splits option.splits)
qed

end

lemma applyToken_same:
  "same_credential c (fst (codex_applyTokenToMetadata ow c t w))"
  "same_credential c (fst (claude_applyTokenToMetadata ow c t' w))"
  "same_credential c (fst (applyGeminiTokenToMetadata ow c t'' w))"
  by (auto simp: same_credential_def codex_applyTokenToMetadata_def claude_applyTokenToMetadata_def
      applyGeminiTokenToMetadata_def Let_def split: prod.splits)

lemma fst_pair: "p = (a, b) \<Longrightarrow> fst p = a"
  by simp

interpretation codex: oauth_refresher "codex_RefreshLead ow js" for ow js
  using applyToken_same(1) [of _ ow]
  by unfold_locales (auto simp: codex_RefreshLead_def Let_def Clone_id split: prod.splits sum.splits if_splits dest!: fst_pair)

interpretation claude: oauth_refresher "claude_RefreshLead ow decode" for ow decode
  using applyToken_same(2) [of _ ow]
  by unfold_locales (auto simp: claude_RefreshLead_def Let_def Clone_id split: prod.splits sum.splits if_splits dest!: fst_pair)

interpretation gemini: oauth_refresher "gemini_RefreshLead ow ol" for ow ol
  using applyToken_same(3) [of _ ow]
  by unfold_locales (auto simp: gemini_RefreshLead_def Let_def Clone_id split: prod.splits sum.splits if_splits dest!: fst_pair)

subsection \<open>Metadata\<close>

lemma metadata_string_update [simp]:
  "metadata_string (c\<lparr>c_Metadata := AList.update k (GString v) md\<rparr>) k' =
     (if k' = k then v else metadata_string (c\<lparr>c_Metadata := md\<rparr>) k')"
  by (simp add: metadata_string_def)

definition token_keys :: "string list" where
  "token_keys =
     [''access_token'', ''refresh_token'', ''id_token'', ''token_type'', ''expired'', ''last_refresh'', ''token_uri'', ''client_id'']"

lemma codex_apply_fields:
  assumes "codex_applyTokenToMetadata ow c t w = (u, w')"
  shows "metadata_string u ''access_token'' = ct_AccessToken t \<and> metadata_string u ''refresh_token'' = ct_RefreshToken t \<and>
         (k \<notin> set token_keys \<longrightarrow> map_of (c_Metadata u) k = map_of (c_Metadata c) k)"
  using assms by (auto simp: codex_applyTokenToMetadata_def token_keys_def Let_def split: prod.splits if_splits)

lemma claude_apply_fields:
  assumes "claude_applyTokenToMetadata ow c t w = (u, w')"
  shows "metadata_string u ''access_token'' = lt_AccessToken t \<and> metadata_string u ''refresh_token'' = lt_RefreshToken t \<and>
         (k \<notin> set token_keys \<longrightarrow> map_of (c_Metadata u) k = map_of (c_Metadata c) k)"
  using assms by (auto simp: claude_applyTokenToMetadata_def token_keys_def Let_def split: prod.splits if_splits)

lemma gemini_apply_fields:
  assumes "applyGeminiTokenToMetadata ow c t w = (u, w')"
  shows "metadata_string u ''access_token'' = gt_AccessToken t \<and>
         metadata_string u ''refresh_token'' =
           (if gt_RefreshToken t \<noteq> [] then gt_RefreshToken t else metadata_string c ''refresh_token'') \<and>
         (k \<notin> set token_keys \<longrightarrow> map_of (c_Metadata u) k = map_of (c_Metadata c) k)"
  using assms
  by (auto simp: applyGeminiTokenToMetadata_def token_keys_def metadata_string_def Let_def split: prod.splits if_splits)

subsection \<open>Callbacks\<close>

definition is_callback :: "string \<Rightarrow> callback_request \<Rightarrow> bool" where
  "is_callback path r \<longleftrightarrow> cq_Method r = ''GET'' \<and> cq_Path r = path"

text \<open>The channel holds the result of the first callback.\<close>

lemma callbacks_channel:
  "cb_resultCh (foldl (callback_serve path) srv rs) =
     (case cb_resultCh srv of Some x \<Rightarrow> Some x | None \<Rightarrow> map_option callback_result (find (is_callback path) rs))"
proof (induction rs arbitrary: srv)
  case (Cons r rs)
  then show ?case
    by (auto simp: callback_serve_def handleCallback_def send_result_def is_callback_def Let_def split: option.splits)
qed (simp split: option.splits)

lemma browser_wait_code:
  assumes "browser_wait ow bf state srv w = (Inr code, w')" and "cb_resultCh srv = None"
  shows "\<exists>arrived r. oa_Callbacks ow w = (arrived, w') \<and> find (is_callback (bf_path bf)) arrived = Some r \<and>
           Query_Get (cq_Query r) ''state'' = state \<and> Query_Get (cq_Query r) ''code'' = code"
  using assms
  by (auto simp: browser_wait_def waitForCallback_def callbacks_channel callback_result_def Let_def
      split: prod.splits sum.splits option.splits if_splits)

lemma started_empty: "cb_start ow (newOAuthCallbackServer port) w = (None, srv, w') \<Longrightarrow> cb_resultCh srv = None"
  by (cases "oa_Listen ow port w"; cases "fst (oa_Listen ow port w)") (auto simp: cb_start_def newOAuthCallbackServer_def)

lemma login_with_browser_checks:
  assumes "login_with_browser ow bf callbackPort noBrowser w = (Inr cred, w')"
  shows "\<exists>v ch w1 st w2 w3 arrived w4 r.
           generatePKCECodes ow w = (Inr (v, ch), w1) \<and> generateState ow w1 = (Inr st, w2) \<and>
           oa_Callbacks ow w3 = (arrived, w4) \<and> find (is_callback (bf_path bf)) arrived = Some r \<and>
           Query_Get (cq_Query r) ''state'' = st \<and>
           fst (bf_login bf (Query_Get (cq_Query r) ''code'') st v w4) = Inr cred"
proof -
  from assms obtain v ch w1 st w2 srv w3 code w4 where
    *: "generatePKCECodes ow w = (Inr (v, ch), w1)" "generateState ow w1 = (Inr st, w2)"
      "\<exists>port. cb_start ow (newOAuthCallbackServer port) w2 = (None, srv, w3)"
      "\<exists>w3'. browser_wait ow bf st srv w3' = (Inr code, w4)" "fst (bf_login bf code st v w4) = Inr cred"
    by (auto simp: login_with_browser_def Let_def split: prod.splits sum.splits option.splits) (metis fst_conv)+
  from *(3) have "cb_resultCh srv = None" by (auto dest: started_empty)
  moreover from *(4) obtain w5 where "browser_wait ow bf st srv w5 = (Inr code, w4)" by blast
  ultimately obtain arrived r where "oa_Callbacks ow w5 = (arrived, w4)" "find (is_callback (bf_path bf)) arrived = Some r"
      "Query_Get (cq_Query r) ''state'' = st" "Query_Get (cq_Query r) ''code'' = code"
    using browser_wait_code [of ow bf st srv w5 code w4] by blast
  with *(1,2,5) show ?thesis by blast
qed

subsection \<open>The device flow\<close>

text \<open>A clock that does not go back and that a timer moves on.\<close>

definition ticking :: "'w oauth_world \<Rightarrow> ('w \<Rightarrow> gotime) \<Rightarrow> bool" where
  "ticking ow clock \<longleftrightarrow>
     (\<forall>w. fst (oa_Now ow w) = clock w \<and> clock w \<le> clock (snd (oa_Now ow w))) \<and>
     (\<forall>c w. clock w \<le> clock (snd (oa_Do ow c w))) \<and>
     (\<forall>d w w'. oa_Wait ow d w = (None, w') \<longrightarrow> clock w + d \<le> clock w')"

lemma tickingD:
  assumes "ticking ow clock"
  shows "oa_Now ow w = (t, w') \<Longrightarrow> t = clock w \<and> clock w \<le> clock w'"
    and "oa_Do ow c w = (a, w') \<Longrightarrow> clock w \<le> clock w'" and "oa_Wait ow d w = (None, w') \<Longrightarrow> clock w + d \<le> clock w'"
  using assms unfolding ticking_def by (metis fst_conv snd_conv)+

lemma poll_loop_ends:
  assumes tick: "ticking ow clock" and "0 < interval"
  shows "\<exists>r. poll_loop ow js deviceAuthID userCode interval deadline w = Some r"
proof (induction "nat (deadline + 1 - clock w)" arbitrary: w rule: less_induct)
  case less
  obtain t w1 where now: "oa_Now ow w = (t, w1)" by fastforce
  obtain a w2 where d: "oa_Do ow (device_poll_call deviceAuthID userCode) w1 = (a, w2)" by fastforce
  obtain e w3 where wait: "oa_Wait ow interval w2 = (e, w3)" by fastforce
  have "\<exists>r. poll_loop ow js deviceAuthID userCode interval deadline w3 = Some r" if "e = None" "\<not> deadline < t"
  proof (rule less)
    from that tickingD(1) [OF tick now] tickingD(2) [OF tick d] tickingD(3) [OF tick wait [unfolded that(1)]] assms(2)
    show "nat (deadline + 1 - clock w3) < nat (deadline + 1 - clock w)" by auto
  qed
  then show ?case
    by (subst poll_loop.simps) (auto simp: now d wait split: sum.splits option.splits)
qed

text \<open>The numbers a server may send so that the interval does not overflow.\<close>

definition short_interval :: "codex_json \<Rightarrow> string \<Rightarrow> bool" where
  "short_interval js raw \<longleftrightarrow>
     (\<forall>s n. cj_string js raw = Some s \<longrightarrow> Atoi (TrimSpace s) = Some n \<longrightarrow> n \<le> 9223372036) \<and>
     (\<forall>n. cj_int js raw = Some n \<longrightarrow> n \<le> 9223372036)"

lemma interval_pos: "0 < n \<Longrightarrow> n \<le> 9223372036 \<Longrightarrow> second \<le> wrap64 (n * second)" "second \<le> codexDefaultPollInterval"
  using wrap64_id [of "n * second"] by (auto simp: second_def codexDefaultPollInterval_def)

lemma parse_interval_pos: "short_interval js raw \<Longrightarrow> second \<le> parseDevicePollInterval js raw"
  by (auto simp: parseDevicePollInterval_def short_interval_def interval_pos split: option.splits Option.bind_splits)

text \<open>What a URL built from a list of values carries.\<close>

lemma url_query:
  assumes "url = base @ ''?'' @ Values_Encode vs" and "vs \<noteq> []" and "distinct (map fst vs)"
  shows "\<exists>q. url = base @ ''?'' @ q \<and> Query_Get (ParseQuery q) k1 = Query_Get vs k1 \<and>
           Query_Get (ParseQuery q) k2 = Query_Get vs k2 \<and> Query_Get (ParseQuery q) k3 = Query_Get vs k3"
  using assms by (intro exI [of _ "Values_Encode vs"]) (simp add: Query_Get_def map_of_ParseQuery)

subsection \<open>The credential of a login\<close>

definition fresh_login :: "'w oauth_world \<Rightarrow> string \<Rightarrow> credential \<Rightarrow> bool" where
  "fresh_login ow provider cred \<longleftrightarrow>
     c_Provider cred = provider \<and> c_Status cred = StatusActive \<and> (\<exists>w. c_ID cred = fst (oa_UUID ow w))"

lemma applied_fresh:
  assumes "same_credential (zero_credential\<lparr>c_ID := uuid, c_Provider := p, c_Status := StatusActive\<rparr>) c"
    and "oa_UUID ow w = (uuid, w')"
  shows "fresh_login ow p c"
  using assms by (auto simp: fresh_login_def same_credential_def intro: exI [of _ w])

lemma fresh_login_update [simp]:
  "fresh_login ow p (c\<lparr>c_Label := l\<rparr>) = fresh_login ow p c" "fresh_login ow p (c\<lparr>c_Attributes := a\<rparr>) = fresh_login ow p c"
  "fresh_login ow p (c\<lparr>c_Metadata := m\<rparr>) = fresh_login ow p c"
  by (simp_all add: fresh_login_def)

lemma apply_fresh:
  fixes p :: string
  assumes "oa_UUID ow w = (uuid, w1)"
  defines "c0 \<equiv> zero_credential\<lparr>c_ID := uuid, c_Provider := p, c_Status := StatusActive\<rparr>"
  shows "codex_applyTokenToMetadata ow c0 t w1 = (c, w2) \<Longrightarrow> fresh_login ow p c"
    and "claude_applyTokenToMetadata ow c0 t' w1 = (c, w2) \<Longrightarrow> fresh_login ow p c"
    and "applyGeminiTokenToMetadata ow c0 t'' w1 = (c, w2) \<Longrightarrow> fresh_login ow p c"
  using applied_fresh [OF _ assms(1), of p c] applyToken_same(1) [of c0 ow t w1] applyToken_same(2) [of c0 ow t' w1]
    applyToken_same(3) [of c0 ow t'' w1] unfolding c0_def by auto

lemma codex_built_fresh: "codex_buildCredential ow js t w = (Inr cred, w') \<Longrightarrow> fresh_login ow ''openai'' cred"
  by (auto simp: codex_buildCredential_def codex_Provider_def Let_def split: prod.splits sum.splits if_splits dest: apply_fresh(1))

lemma claude_built_fresh: "claude_buildCredential ow t w = (Inr cred, w') \<Longrightarrow> fresh_login ow ''anthropic'' cred"
  by (auto simp: claude_buildCredential_def claude_Provider_def Let_def split: prod.splits if_splits dest: apply_fresh(2))

lemma gemini_built_fresh: "gemini_buildCredential ow ol conf t w = (Inr cred, w') \<Longrightarrow> fresh_login ow ''gemini'' cred"
  by (auto simp: gemini_buildCredential_def gemini_Provider_def Let_def split: prod.splits sum.splits if_splits dest: apply_fresh(3))

lemma fst_Inr: "fst p = Inr x \<Longrightarrow> \<exists>w. p = (Inr x, w)"
  by (cases p) simp

lemma codex_login_fresh: "codex_Login ow js a w = Some (Inr cred, w') \<Longrightarrow> fresh_login ow ''openai'' cred"
proof (cases "xa_UseDeviceFlow a")
  case True
  assume "codex_Login ow js a w = Some (Inr cred, w')"
  with True have "\<exists>t w1. codex_buildCredential ow js t w1 = (Inr cred, w')"
    by (auto simp: codex_Login_def codex_loginWithDeviceFlow_def Let_def split: prod.splits sum.splits option.splits if_splits)
  then show ?thesis by (auto dest: codex_built_fresh)
next
  case False
  assume "codex_Login ow js a w = Some (Inr cred, w')"
  with False have "login_with_browser ow (codex_flow ow js) (xa_CallbackPort a) (xa_NoBrowser a) w = (Inr cred, w')"
    by (simp add: codex_Login_def codex_loginWithBrowser_def)
  from login_with_browser_checks [OF this] obtain code st v w4 where
    "fst (bf_login (codex_flow ow js) code st v w4) = Inr cred" by blast
  then show ?thesis
    by (auto simp: codex_flow_def split: prod.splits sum.splits dest!: fst_Inr dest: codex_built_fresh)
qed

lemma claude_login_fresh: "claude_Login ow decode a w = (Inr cred, w') \<Longrightarrow> fresh_login ow ''anthropic'' cred"
proof -
  assume "claude_Login ow decode a w = (Inr cred, w')"
  from login_with_browser_checks [OF this [unfolded claude_Login_def claude_loginWithBrowser_def]] obtain code st v w4 where
    "fst (bf_login (claude_flow ow decode) code st v w4) = Inr cred" by blast
  then show ?thesis
    by (auto simp: claude_flow_def split: prod.splits sum.splits dest!: fst_Inr dest: claude_built_fresh)
qed

lemma gemini_login_fresh: "gemini_Login ow ol page a w = (Inr cred, w') \<Longrightarrow> fresh_login ow ''gemini'' cred"
  by (auto simp: gemini_Login_def gemini_loginWithBrowser_def Let_def
      split: prod.splits sum.splits option.splits dest: gemini_built_fresh)

end
