(* ===== verification/Authenticator_Props.thy ===== *)
theory Authenticator_Props
  imports Authenticator_Spec
begin

text \<open>
  Properties of the login flows: how often a refresh asks, what it keeps, what a browser login checks,
  that the device flow ends, how the claims of a token are read, and that the credential of a login
  ends up in the scheduler.
\<close>

subsection \<open>Refreshing\<close>

text \<open>A refresh asks at most three times.  Whatever the token endpoint answers, \<open>RefreshLead\<close> of each
  authenticator sends at most three requests; without a refresh token it sends none.  \<open>sent\<close> counts
  the requests: each request over HTTP (for Gemini, each request of the oauth2 package) is one, reading
  the clock and waiting are none.\<close>

theorem refresh_asks_at_most_three:
  fixes c :: credential and sent :: "'w \<Rightarrow> nat"
  assumes "\<And>c w. sent (snd (oa_Do ow c w)) = Suc (sent w)" and "\<And>d w. sent (snd (oa_Wait ow d w)) = sent w"
    and "\<And>w. sent (snd (oa_Now ow w)) = sent w" and "\<And>c t w. sent (snd (ol_Token ol c t w)) = Suc (sent w)"
  defines "bound \<equiv> (if TrimSpace (metadata_string c ''refresh_token'') = [] then 0 else 3)"
  shows "sent (snd (codex_RefreshLead ow js (Some c) w)) \<le> sent w + bound \<and>
         sent (snd (claude_RefreshLead ow decode (Some c) w)) \<le> sent w + bound \<and>
         sent (snd (gemini_RefreshLead ow ol (Some c) w)) \<le> sent w + bound"
proof -
  let ?rt = "metadata_string c ''refresh_token''"
  note sent = refreshTokens_sent(1,2) [OF assms(1)] refreshTokens_sent(3) [OF assms(4,3)]
  have le: "sent (snd (codex_refresh_loop ow js ?rt 3 3 e w)) \<le> sent w + 3"
      "sent (snd (claude_refresh_loop ow decode ?rt 3 3 e w)) \<le> sent w + 3"
      "sent (snd (gemini_refresh_loop ow ol ?rt 3 3 e w)) \<le> sent w + 3" for e
    using codex_retry.loop_attempts [OF sent(1) assms(2)] claude_retry.loop_attempts [OF sent(2) assms(2)]
      gemini_retry.loop_attempts [OF sent(3) assms(2)] by auto
  note apply_sent = applyToken_sent [of sent ow, OF assms(3)]
  show ?thesis
    using le [of "''%!w(<nil>)''"] apply_sent
    by (auto simp: bound_def codex_RefreshLead_def claude_RefreshLead_def gemini_RefreshLead_def
        codex_refreshTokensWithRetry_def claude_refreshTokensWithRetry_def gemini_refreshTokensWithRetry_def
        codexRefreshMaxRetries_def claudeRefreshMaxRetries_def geminiRefreshMaxRetries_def Let_def
        split: prod.splits sum.splits) (metis snd_conv)+
qed

text \<open>C29: a refresh replaces the tokens and nothing else.  When \<open>RefreshLead\<close> returns a credential, it
  carries the access token the endpoint answered with; identifier, provider, attributes, status and
  every metadata entry that is not about the tokens are unchanged.  Codex and Claude take over the
  answered refresh token even when it is empty; Gemini keeps the old one then.\<close>

theorem refresh_replaces_tokens_only:
  "(codex_RefreshLead ow js (Some c) w = (Inr (Some u), w') \<longrightarrow>
      same_credential c u \<and>
      (\<exists>t w1 w2. codex_refreshTokens ow js (metadata_string c ''refresh_token'') w1 = (Inr t, w2) \<and>
         metadata_string u ''access_token'' = ct_AccessToken t \<and> metadata_string u ''refresh_token'' = ct_RefreshToken t) \<and>
      (\<forall>k. k \<notin> set token_keys \<longrightarrow> map_of (c_Metadata u) k = map_of (c_Metadata c) k)) \<and>
   (claude_RefreshLead ow decode (Some c) w = (Inr (Some u), w') \<longrightarrow>
      same_credential c u \<and>
      (\<exists>t w1 w2. claude_refreshTokens ow decode (metadata_string c ''refresh_token'') w1 = (Inr t, w2) \<and>
         metadata_string u ''access_token'' = lt_AccessToken t \<and> metadata_string u ''refresh_token'' = lt_RefreshToken t) \<and>
      (\<forall>k. k \<notin> set token_keys \<longrightarrow> map_of (c_Metadata u) k = map_of (c_Metadata c) k)) \<and>
   (gemini_RefreshLead ow ol (Some c) w = (Inr (Some u), w') \<longrightarrow>
      same_credential c u \<and>
      (\<exists>t w1 w2. gemini_refreshTokens ow ol (metadata_string c ''refresh_token'') w1 = (Inr t, w2) \<and>
         metadata_string u ''access_token'' = gt_AccessToken t \<and>
         metadata_string u ''refresh_token'' =
           (if gt_RefreshToken t \<noteq> [] then gt_RefreshToken t else metadata_string c ''refresh_token'')) \<and>
      (\<forall>k. k \<notin> set token_keys \<longrightarrow> map_of (c_Metadata u) k = map_of (c_Metadata c) k))"
proof (intro conjI impI)
  assume r: "codex_RefreshLead ow js (Some c) w = (Inr (Some u), w')"
  then obtain t w1 where t: "codex_refresh_loop ow js (metadata_string c ''refresh_token'') codexRefreshMaxRetries
      codexRefreshMaxRetries ''%!w(<nil>)'' w = (Inr t, w1)" "codex_applyTokenToMetadata ow c t w1 = (u, w')"
    by (auto simp: codex_RefreshLead_def codex_refreshTokensWithRetry_def Let_def split: prod.splits sum.splits if_splits)
  from codex_retry.loop_answer [OF t(1)] codex_apply_fields [OF t(2)] codex.keeps [OF r]
  show "same_credential c u"
    "\<exists>t w1 w2. codex_refreshTokens ow js (metadata_string c ''refresh_token'') w1 = (Inr t, w2) \<and>
       metadata_string u ''access_token'' = ct_AccessToken t \<and> metadata_string u ''refresh_token'' = ct_RefreshToken t"
    "\<forall>k. k \<notin> set token_keys \<longrightarrow> map_of (c_Metadata u) k = map_of (c_Metadata c) k" by blast+
next
  assume r: "claude_RefreshLead ow decode (Some c) w = (Inr (Some u), w')"
  then obtain t w1 where t: "claude_refresh_loop ow decode (metadata_string c ''refresh_token'') claudeRefreshMaxRetries
      claudeRefreshMaxRetries ''%!w(<nil>)'' w = (Inr t, w1)" "claude_applyTokenToMetadata ow c t w1 = (u, w')"
    by (auto simp: claude_RefreshLead_def claude_refreshTokensWithRetry_def Let_def split: prod.splits sum.splits if_splits)
  from claude_retry.loop_answer [OF t(1)] claude_apply_fields [OF t(2)] claude.keeps [OF r]
  show "same_credential c u"
    "\<exists>t w1 w2. claude_refreshTokens ow decode (metadata_string c ''refresh_token'') w1 = (Inr t, w2) \<and>
       metadata_string u ''access_token'' = lt_AccessToken t \<and> metadata_string u ''refresh_token'' = lt_RefreshToken t"
    "\<forall>k. k \<notin> set token_keys \<longrightarrow> map_of (c_Metadata u) k = map_of (c_Metadata c) k" by blast+
next
  assume r: "gemini_RefreshLead ow ol (Some c) w = (Inr (Some u), w')"
  then obtain t w1 where t: "gemini_refresh_loop ow ol (metadata_string c ''refresh_token'') geminiRefreshMaxRetries
      geminiRefreshMaxRetries ''%!w(<nil>)'' w = (Inr t, w1)" "applyGeminiTokenToMetadata ow c t w1 = (u, w')"
    by (auto simp: gemini_RefreshLead_def gemini_refreshTokensWithRetry_def Let_def split: prod.splits sum.splits if_splits)
  from gemini_retry.loop_answer [OF t(1)] gemini_apply_fields [OF t(2)] gemini.keeps [OF r]
  show "same_credential c u"
    "\<exists>t w1 w2. gemini_refreshTokens ow ol (metadata_string c ''refresh_token'') w1 = (Inr t, w2) \<and>
       metadata_string u ''access_token'' = gt_AccessToken t \<and>
       metadata_string u ''refresh_token'' =
         (if gt_RefreshToken t \<noteq> [] then gt_RefreshToken t else metadata_string c ''refresh_token'')"
    "\<forall>k. k \<notin> set token_keys \<longrightarrow> map_of (c_Metadata u) k = map_of (c_Metadata c) k" by blast+
qed

text \<open>A refresh token the answer leaves out is lost: the credential is never refreshed again.\<close>

lemma refresh_token_lost:
  assumes "codex_RefreshLead ow js (Some c) w = (Inr (Some u), w')" and "metadata_string u ''refresh_token'' = []"
  shows "codex_RefreshLead ow' js' (Some u) w'' = (Inr None, w'')"
  using codex.nothing [of u] assms(2) by simp

subsection \<open>Logging in\<close>


text \<open>The authorization URL carries what the login needs.  Read back as a query string, the URL
  opened in the browser holds the state and the challenge of the login, unchanged whatever characters
  they contain.\<close>

theorem auth_url_roundtrip:
  "\<exists>q q'. buildAuthURL state challenge = codexAuthURL @ ''?'' @ q \<and>
          Query_Get (ParseQuery q) ''state'' = state \<and> Query_Get (ParseQuery q) ''code_challenge'' = challenge \<and>
          Query_Get (ParseQuery q) ''redirect_uri'' = codexRedirectURI \<and>
          buildClaudeAuthURL state challenge = claudeAuthURL @ ''?'' @ q' \<and>
          Query_Get (ParseQuery q') ''state'' = state \<and> Query_Get (ParseQuery q') ''code_challenge'' = challenge \<and>
          Query_Get (ParseQuery q') ''redirect_uri'' = claudeRedirectURI"
proof -
  obtain q where "buildAuthURL state challenge = codexAuthURL @ ''?'' @ q"
    "Query_Get (ParseQuery q) ''state'' = state" "Query_Get (ParseQuery q) ''code_challenge'' = challenge"
    "Query_Get (ParseQuery q) ''redirect_uri'' = codexRedirectURI"
    using url_query [OF buildAuthURL_def [of state challenge], of "''state''" "''code_challenge''" "''redirect_uri''"] by auto
  moreover obtain q' where "buildClaudeAuthURL state challenge = claudeAuthURL @ ''?'' @ q'"
    "Query_Get (ParseQuery q') ''state'' = state" "Query_Get (ParseQuery q') ''code_challenge'' = challenge"
    "Query_Get (ParseQuery q') ''redirect_uri'' = claudeRedirectURI"
    using url_query [OF buildClaudeAuthURL_def [of state challenge], of "''state''" "''code_challenge''" "''redirect_uri''"] by auto
  ultimately show ?thesis by blast
qed

text \<open>The claims of a token are those of its payload.  For a JWT of three parts whose middle part is
  the unpadded base64 of a payload, \<open>parseJWTClaims\<close> decodes exactly that payload.\<close>

theorem jwt_claims_roundtrip:
  assumes "CHR ''.'' \<notin> set header" and "CHR ''.'' \<notin> set signature"
  shows "parseJWTClaims js (header @ ''.'' @ RawURLEncode payload @ ''.'' @ signature) =
           map_sum (\<lambda>err. ''failed to unmarshal JWT claims: '' @ err) id (cj_claims js payload)"
proof -
  have "CHR ''.'' \<notin> set (RawURLEncode payload)"
    using encoded_plain [of payload] by (auto simp: list_all_iff b64_plain_def)
  with assms have "Split (CHR ''.'') (header @ ''.'' @ RawURLEncode payload @ ''.'' @ signature) =
      [header, RawURLEncode payload, signature]" by (simp add: Split_append Split_plain)
  then show ?thesis by (simp add: parseJWTClaims_def Let_def URLDecode_encoded split: sum.splits)
qed


subsection \<open>Scenario\<close>

text \<open>A world that counts requests and seconds, where every endpoint answers and the browser calls back.\<close>

definition w_callback :: callback_request where
  "w_callback =
     \<lparr>cq_Method = ''GET'', cq_Path = ''/auth/callback'',
      cq_Query = [(''code'', ''c1''), (''state'', RawURLEncode (replicate 16 (CHR ''r'')))]\<rparr>"

definition w_oauth :: "(nat \<times> int) oauth_world" where
  "w_oauth =
     \<lparr>oa_Do = (\<lambda>c (n, t). (Inr \<lparr>or_StatusCode = 200, or_Body = Inr ''{}''\<rparr>, (Suc n, t))),
      oa_Wait = (\<lambda>d (n, t). (None, (n, t + d))), oa_Now = (\<lambda>(n, t). (t, (n, t))),
      oa_Rand = (\<lambda>k w. (Inr (replicate k (CHR ''r'')), w)), oa_UUID = (\<lambda>w. (''u1'', w)),
      oa_Listen = (\<lambda>port w. (None, w)), oa_Shutdown = (\<lambda>port w. w), oa_openBrowser = (\<lambda>url w. (None, w)),
      oa_Callbacks = (\<lambda>w. ([w_callback], w)), oa_SHA256 = id, oa_RFC3339 = (\<lambda>_. ''2026-01-01T00:00:00Z'')\<rparr>"

definition w_codex_json :: codex_json where
  "w_codex_json =
     \<lparr>cj_token = (\<lambda>_. Inr \<lparr>ct_AccessToken = ''at'', ct_RefreshToken = ''rt2'', ct_IDToken = [], ct_TokenType = ''bearer'', ct_ExpiresIn = 3600\<rparr>),
      cj_claims = (\<lambda>_. Inr \<lparr>cl_Email = ''a@b'', cl_Exp = 0, cl_ChatgptAccountID = [], cl_ChatgptPlanType = [], cl_ChatgptUserID = []\<rparr>),
      cj_userCode = (\<lambda>_. Inr \<lparr>cu_DeviceAuthID = ''d'', cu_UserCode = ''u'', cu_UserCodeAlt = [], cu_Interval = []\<rparr>),
      cj_deviceToken = (\<lambda>_. Inr \<lparr>cd_AuthorizationCode = ''c'', cd_CodeVerifier = ''v'', cd_CodeChallenge = []\<rparr>),
      cj_string = (\<lambda>_. None), cj_int = (\<lambda>_. None)\<rparr>"

definition w_oauth2 :: "(nat \<times> int) oauth2_lib" where
  "w_oauth2 =
     \<lparr>ol_AuthCodeURL = (\<lambda>conf state opts. ''https://x''), ol_Exchange = (\<lambda>conf code w. (Inl ''refused'', w)),
      ol_Token = (\<lambda>conf tok (n, t). (Inl ''refused'', (Suc n, t))), ol_ClientDo = (\<lambda>conf tok c w. (Inl ''refused'', w)),
      ol_email = Inr\<rparr>"

definition w_claude_decode :: claude_decode where
  "w_claude_decode = (\<lambda>_. Inl ''bad json'')"

definition w_refreshable :: credential where
  "w_refreshable =
     zero_credential\<lparr>c_ID := ''u0'', c_Provider := ''openai'', c_Metadata := [(''refresh_token'', GString ''rt1'')]\<rparr>"

theorem refresh_asks_at_most_three_witness:
  "fst (snd (codex_RefreshLead w_oauth w_codex_json (Some w_refreshable) (0, 0))) \<le> 3 \<and>
   fst (snd (gemini_RefreshLead w_oauth w_oauth2 (Some w_refreshable) (0, 0))) \<le> 3"
proof -
  have "TrimSpace (metadata_string w_refreshable ''refresh_token'') = ''rt1''" by code_simp
  with refresh_asks_at_most_three [of fst w_oauth w_oauth2 w_codex_json w_refreshable "(0, 0)" w_claude_decode]
  show ?thesis by (simp add: w_oauth_def w_oauth2_def case_prod_unfold)
qed

theorem refresh_replaces_tokens_only_witness:
  "\<exists>u w'. codex_RefreshLead w_oauth w_codex_json (Some w_refreshable) (0, 0) = (Inr (Some u), w') \<and>
     same_credential w_refreshable u \<and> metadata_string u ''refresh_token'' = ''rt2''"
proof -
  obtain a w' where e: "codex_RefreshLead w_oauth w_codex_json (Some w_refreshable) (0, 0) = (a, w')" by (rule prod.exhaust)
  have "case fst (codex_RefreshLead w_oauth w_codex_json (Some w_refreshable) (0, 0)) of
      Inr (Some u) \<Rightarrow> metadata_string u ''refresh_token'' = ''rt2'' | _ \<Rightarrow> False" by code_simp
  then obtain u where u: "a = Inr (Some u)" "metadata_string u ''refresh_token'' = ''rt2''"
    by (auto simp: e split: sum.splits option.splits)
  with refresh_replaces_tokens_only [of w_oauth w_codex_json w_refreshable "(0, 0)" u w' w_claude_decode w_oauth2] e
  show ?thesis by auto
qed


theorem jwt_claims_roundtrip_witness:
  "parseJWTClaims w_codex_json (''h'' @ ''.'' @ RawURLEncode ''{}'' @ ''.'' @ ''s'') =
     map_sum (\<lambda>err. ''failed to unmarshal JWT claims: '' @ err) id (cj_claims w_codex_json ''{}'')"
  using jwt_claims_roundtrip [of "''h''" "''s''" w_codex_json "''{}''"] by simp


end
