(* ===== verification/Login_Props.thy ===== *)
theory Login_Props
  imports Authenticator_Props Admin_Props
begin

text \<open>
  A CLI login from end to end: the authenticator logs in, the admin API registers the credential, the
  manager stores it and the scheduler can pick it.
\<close>

definition logged_in ::
    "'w oauth_world \<Rightarrow> codex_json \<Rightarrow> claude_decode \<Rightarrow> 'w oauth2_lib \<Rightarrow> string \<Rightarrow> credential \<Rightarrow> bool" where
  "logged_in ow js decode ol provider cred \<longleftrightarrow>
     provider = ''openai'' \<and> (\<exists>a w w'. codex_Login ow js a w = Some (Inr cred, w')) \<or>
     provider = ''anthropic'' \<and> (\<exists>a w w'. claude_Login ow decode a w = (Inr cred, w')) \<or>
     provider = ''gemini'' \<and> (\<exists>page a w w'. gemini_Login ow ol page a w = (Inr cred, w'))"

lemma logged_in_fresh: "logged_in ow js decode ol provider cred \<Longrightarrow> fresh_login ow provider cred"
  unfolding logged_in_def using codex_login_fresh claude_login_fresh gemini_login_fresh by metis

lemma login_providers:
  "provider_key ''openai'' \<noteq> []" "provider_key ''anthropic'' \<noteq> []" "provider_key ''gemini'' \<noteq> []"
  by code_simp+

lemma Register_accepted:
  assumes "fst (Register m ctx (Some c) env) = None"
  shows "Get (snd (Register m ctx (Some c) env)) (c_ID (prepare_registration env c)) = Some (prepare_registration env c)"
proof (cases rule: Register_cases [of m ctx c env])
  case (committed d)
  then show ?thesis by (simp add: Get_def Let_def notify_def publish_def commit_def)
qed (use assms in auto)

text \<open>C31: a login leads to a usable credential.  When a login of one of the three authenticators succeeds
  and the store accepts the registration, the status of the login is that of a success with the
  identifier of the credential, and the scheduler holds the credential, active and for the provider of
  the authenticator.  The UUIDs drawn for credentials are not empty and have no surrounding space.\<close>

theorem cli_login_registers:
  fixes cliname :: string and t0 now :: gotime
  assumes reach: "admin_reach T s" and m: "ad_manager s = Some m" and T: "T \<le> e_schedNow cenv"
    and login: "logged_in ow js decode ol provider cred"
    and uuid: "\<And>w. TrimSpace (fst (oa_UUID ow w)) = fst (oa_UUID ow w) \<and> fst (oa_UUID ow w) \<noteq> []"
      "TrimSpace (e_uuid cenv) = e_uuid cenv"
    and acc: "fst (Register m [] (Some cred) cenv) = None"
  defines "s' \<equiv> cli_login_finish cliname (running_status t0) (Inr cred) now cenv s"
  shows "map_of (ad_cliAuthSessions s') cliname =
           Some ((running_status t0)\<lparr>ca_Status := ''succeeded'', ca_FinishedAt := Some now, ca_CredentialID := c_ID cred\<rparr>) \<and>
         (\<exists>m' c. ad_manager s' = Some m' \<and> sched_creds (cm_scheduler m') (c_ID cred) = Some c \<and>
            c_Provider c = provider \<and> c_Status c = StatusActive \<and> c_Metadata c = c_Metadata cred)"
proof -
  note F = logged_in_fresh [OF login]
  then obtain w where id: "c_ID cred = fst (oa_UUID ow w)" and p: "c_Provider cred = provider" "c_Status cred = StatusActive"
    by (auto simp: fresh_login_def)
  let ?c = "prepare_registration cenv cred"
  have tr: "TrimSpace (c_ID cred) = c_ID cred" "c_ID cred \<noteq> []" using uuid(1) [of w] id by auto
  have c: "c_ID ?c = c_ID cred" "c_Provider ?c = provider" "c_Status ?c = StatusActive" "c_Metadata ?c = c_Metadata cred"
    using tr p by (auto simp: prepare_registration_def Let_def status_defs)
  obtain m' where reg: "Register m [] (Some cred) cenv = (None, m')" using acc by (cases "Register m [] (Some cred) cenv") auto
  from Register_accepted [of m "[]" cred cenv] reg c(1) have get: "Get m' (c_ID cred) = Some ?c" by simp
  have s': "ad_manager s' = Some m'" "map_of (ad_cliAuthSessions s') cliname =
      Some ((running_status t0)\<lparr>ca_Status := ''succeeded'', ca_FinishedAt := Some now, ca_CredentialID := c_ID cred\<rparr>)"
    by (simp_all add: s'_def cli_login_finish_def m reg Let_def storeCLIAuthStatus_def snapshot_same running_status_def)
  have "schedulable ?c"
    using c tr(2) login login_providers by (auto simp: schedulable_def logged_in_def IsDisabled_def status_defs)
  moreover have "mgr_inv (e_schedNow cenv) m'"
    using Register_inv [OF admin_invD(1) [OF admin_reach_inv [OF reach] m] T tr(1) uuid(2), of "[]"] reg by simp
  from in_stepD [OF mgr_invD(4) [OF this], of "c_ID cred"] get
  have "sched_creds (cm_scheduler m') (c_ID cred) = (if schedulable ?c then Some ?c else None)" by (simp add: Get_def)
  ultimately show ?thesis using s' c by auto
qed

definition w_fresh_admin :: "(mem_table, w_db) admin_state" where
  "w_fresh_admin = admin_NewHandler (Some w_mgr) None [] (Some []) ''root'' ''hash-pw''"

theorem cli_login_registers_witness:
  "\<exists>cred w' m' c. codex_Login w_oauth w_codex_json NewCodexAuthenticator (0, 0) = Some (Inr cred, w') \<and>
     ad_manager (cli_login_finish ''codex'' (running_status 0) (Inr cred) 7 (w_env 2000) w_fresh_admin) = Some m' \<and>
     sched_creds (cm_scheduler m') (c_ID cred) = Some c \<and> c_Provider c = ''openai''"
proof -
  have "case codex_Login w_oauth w_codex_json NewCodexAuthenticator (0, 0) of
      Some (Inr cred, w') \<Rightarrow> fst (Register w_mgr [] (Some cred) (w_env 2000)) = None | _ \<Rightarrow> False" by code_simp
  then obtain cred w' where l: "codex_Login w_oauth w_codex_json NewCodexAuthenticator (0, 0) = Some (Inr cred, w')"
    and r: "fst (Register w_mgr [] (Some cred) (w_env 2000)) = None"
    by (auto split: option.splits sum.splits prod.splits)
  have u: "fst (oa_UUID w_oauth w) = ''u1''" for w by (simp add: w_oauth_def)
  have t: "TrimSpace ''u1'' = ''u1''" "TrimSpace (e_uuid (w_env 2000)) = e_uuid (w_env 2000)" by code_simp+
  have "admin_reach 1000 w_fresh_admin" unfolding w_fresh_admin_def using w_mgr_reach by (intro admin_reach.start) simp
  moreover have "logged_in w_oauth w_codex_json w_claude_decode w_oauth2 ''openai'' cred"
    unfolding logged_in_def using l by blast
  ultimately show ?thesis
    using cli_login_registers [of 1000 w_fresh_admin w_mgr "w_env 2000" w_oauth w_codex_json w_claude_decode w_oauth2 "''openai''"
        cred "''codex''" 0 7] r t u l
    by (auto simp: w_fresh_admin_def admin_NewHandler_def w_env_def)
qed

end
