(* ===== verification/Caddyfile_Dispenser.thy ===== *)
theory Caddyfile_Dispenser
  imports Go_Prelude
begin

text \<open>
  The interface of Caddy's Caddyfile dispenser as the parsers of the repository use it, the two loops
  they share (over the subdirectives of a block, over the directives of a segment), and what the
  documentation of the dispenser promises, as two locales: every loop over it ends, and it shows a
  directive with a flat block line by line.  A block given line by line is read by \<open>read_lines\<close>, the
  reference the loops are compared with.

  The dispenser belongs to Caddy: it is a record of operations on a state \<open>'d\<close>.  The second part of
  the theory is a dispenser over a list of tokens that has the promised behaviour.
\<close>

subsection \<open>The interface\<close>

text \<open>\<open>dp_NextBlock\<close> is \<open>NextBlock(0)\<close>; \<open>dp_NewFromNextSegment\<close> returns the new dispenser and the old one
  after it; \<open>dp_Err\<close> and \<open>dp_ArgErr\<close> give the text of an error at the current token.\<close>

record 'd dispenser =
  dp_Next :: "'d \<Rightarrow> bool \<times> 'd"
  dp_NextArg :: "'d \<Rightarrow> bool \<times> 'd"
  dp_NextBlock :: "'d \<Rightarrow> bool \<times> 'd"
  dp_Val :: "'d \<Rightarrow> string"
  dp_RemainingArgs :: "'d \<Rightarrow> string list \<times> 'd"
  dp_RemainingArgsRaw :: "'d \<Rightarrow> string list \<times> 'd"
  dp_NewFromNextSegment :: "'d \<Rightarrow> 'd \<times> 'd"
  dp_Err :: "'d \<Rightarrow> string \<Rightarrow> string"
  dp_ArgErr :: "'d \<Rightarrow> string"

type_synonym ('d, 'a) parse = "(string + 'a) \<times> 'd"
type_synonym ('d, 'a) subdirective = "'d \<Rightarrow> 'a \<Rightarrow> ('d, 'a) parse"

text \<open>\<open>for d.NextBlock(0) { switch d.Val() ... }\<close>\<close>

partial_function (option) block_loop ::
    "'d dispenser \<Rightarrow> ('d, 'a) subdirective \<Rightarrow> 'd \<Rightarrow> 'a \<Rightarrow> ('d, 'a) parse option" where
  "block_loop ds step d a =
     (case dp_NextBlock ds d of
        (ok, d) \<Rightarrow>
          if \<not> ok then Some (Inr a, d)
          else (case step d a of
                  (Inl err, d) \<Rightarrow> Some (Inl err, d)
                | (Inr a, d) \<Rightarrow> block_loop ds step d a))"

text \<open>\<open>for d.Next() { for d.NextBlock(0) { switch d.Val() ... } }\<close>\<close>

partial_function (option) unmarshal_loop ::
    "'d dispenser \<Rightarrow> ('d, 'a) subdirective \<Rightarrow> 'd \<Rightarrow> 'a \<Rightarrow> ('d, 'a) parse option" where
  "unmarshal_loop ds step d a =
     (case dp_Next ds d of
        (ok, d) \<Rightarrow>
          if \<not> ok then Some (Inr a, d)
          else (case block_loop ds step d a of
                  None \<Rightarrow> None
                | Some (Inl err, d) \<Rightarrow> Some (Inl err, d)
                | Some (Inr a, d) \<Rightarrow> unmarshal_loop ds step d a))"

declare block_loop.simps [code] unmarshal_loop.simps [code]

text \<open>\<open>if !d.NextArg() { return d.ArgErr() }\<close>, then the use of \<open>d.Val()\<close>.\<close>

definition with_arg :: "'d dispenser \<Rightarrow> ('d \<Rightarrow> string \<Rightarrow> string + 'a) \<Rightarrow> 'd \<Rightarrow> ('d, 'a) parse" where
  "with_arg ds f d =
     (case dp_NextArg ds d of
        (ok, d) \<Rightarrow> if \<not> ok then (Inl (dp_ArgErr ds d), d) else (f d (dp_Val ds d), d))"

text \<open>\<open>args := d.RemainingArgs(); if len(args) != 2 { return d.ArgErr() }\<close>, then the use of both.\<close>

definition with_two_args :: "'d dispenser \<Rightarrow> (string \<Rightarrow> string \<Rightarrow> 'a) \<Rightarrow> 'd \<Rightarrow> ('d, 'a) parse" where
  "with_two_args ds f d =
     (case dp_RemainingArgs ds d of
        (args, d) \<Rightarrow> (case args of [x, y] \<Rightarrow> (Inr (f x y), d) | _ \<Rightarrow> (Inl (dp_ArgErr ds d), d)))"

text \<open>The text of the error of \<open>strconv.Atoi\<close> and \<open>strconv.ParseBool\<close>.\<close>

definition NumError :: "string \<Rightarrow> string \<Rightarrow> string" where
  "NumError fn s =
     ''strconv.'' @ fn @ '': parsing '' @ quoted s @ '': '' @
     (let ds = (if HasPrefix s ''-'' \<or> HasPrefix s ''+'' then tl s else s)
      in if fn = ''Atoi'' \<and> ds \<noteq> [] \<and> list_all is_digit ds then ''value out of range'' else ''invalid syntax'')"

subsection \<open>Reading line by line\<close>

text \<open>A line is a subdirective with its arguments; \<open>f\<close> reads the subdirective and says how many arguments
  it used.  Arguments it did not use are read as the next subdirective.\<close>

function read_lines :: "(string \<Rightarrow> string list \<Rightarrow> 'a \<Rightarrow> ('a \<times> nat) option) \<Rightarrow> 'a \<Rightarrow> string list list \<Rightarrow> 'a option" where
  "read_lines f a [] = Some a"
| "read_lines f a ([] # ls) = read_lines f a ls"
| "read_lines f a ((k # us) # ls) =
     (case f k us a of None \<Rightarrow> None | Some (a, n) \<Rightarrow> read_lines f a (drop n us # ls))"
  by pat_completeness auto
termination
  by (relation "measure (\<lambda>(f, a, ls). length ls + sum_list (map length ls))") auto

lemma read_lines_whole:
  assumes "f k us a = Some (a', n)" "length us \<le> n"
  shows "read_lines f a ((k # us) # ls) = read_lines f a' ls"
  using assms by simp

fun accepted :: "string + 'a \<Rightarrow> 'a option" where
  "accepted (Inl err) = None"
| "accepted (Inr a) = Some a"

text \<open>What every case of the switch keeps, the loop keeps.\<close>

lemma block_loop_invariant:
  fixes ds :: "'d dispenser" and I :: "'a \<Rightarrow> bool"
  assumes "block_loop ds step d a = Some (Inr a', d')" and "I a"
    and step: "\<And>d a a' d'. I a \<Longrightarrow> step d a = (Inr a', d') \<Longrightarrow> I a'"
  shows "I a'"
proof -
  define P where "P = (\<lambda>(ds' :: 'd dispenser) step' (d :: 'd) a (rd :: ('d, 'a) parse). step' = step \<longrightarrow> I a \<longrightarrow>
    pred_option I (accepted (fst rd)))"
  have "P ds step d a (Inr a', d')"
  proof (rule block_loop.raw_induct [OF _ assms(1), of P], goal_cases)
    case (1 loop ds' step' d a y)
    obtain ok d1 where nb: "dp_NextBlock ds' d = (ok, d1)" by (rule prod.exhaust)
    obtain r d2 where st: "step' d1 a = (r, d2)" by (rule prod.exhaust)
    show ?case
    proof (cases "ok \<and> (\<exists>a1. r = Inr a1)")
      case True
      then obtain a1 where a1: "r = Inr a1" ok by blast
      then have "loop ds' step' d2 a1 = Some y" using 1(2) nb st by simp
      from 1(1) [OF this] show ?thesis using st step [of a d1 a1 d2] unfolding P_def a1(1) by blast
    next
      case False
      then have "y = (Inr a, d1) \<or> (\<exists>err. y = (Inl err, d2))" using 1(2) nb st
        by (cases ok; cases r) (auto simp: eq_commute [of _ y])
      then show ?thesis by (auto simp: P_def)
    qed
  qed
  then show ?thesis using assms(2) by (simp add: P_def)
qed

subsection \<open>What the dispenser promises\<close>

text \<open>Every call that reports a token has consumed one, and no call puts one back.\<close>

locale dispenser_ends =
  fixes ds :: "'d dispenser" and left :: "'d \<Rightarrow> nat"
  assumes Next_left: "dp_Next ds d = (True, d') \<Longrightarrow> left d' < left d"
    and NextArg_left: "left (snd (dp_NextArg ds d)) \<le> left d"
    and NextBlock_left: "dp_NextBlock ds d = (True, d') \<Longrightarrow> left d' < left d"
    and NextBlock_last: "left (snd (dp_NextBlock ds d)) \<le> left d"
    and RemainingArgs_left: "left (snd (dp_RemainingArgs ds d)) \<le> left d"
    and RemainingArgsRaw_left: "left (snd (dp_RemainingArgsRaw ds d)) \<le> left d"
    and NewFromNextSegment_left: "left (snd (dp_NewFromNextSegment ds d)) \<le> left d"
begin

lemma with_arg_left: "left (snd (with_arg ds f d)) \<le> left d"
  using NextArg_left [of d] by (auto simp: with_arg_def split: prod.splits)

lemma with_two_args_left: "left (snd (with_two_args ds f d)) \<le> left d"
  using RemainingArgs_left [of d] by (auto simp: with_two_args_def split: prod.splits list.splits)

lemma block_loop_ends:
  assumes "\<And>d a. left (snd (step d a)) \<le> left d"
  shows "\<exists>r d'. block_loop ds step d a = Some (r, d') \<and> left d' \<le> left d"
proof (induction "left d" arbitrary: d a rule: less_induct)
  case less
  obtain ok d1 where nb: "dp_NextBlock ds d = (ok, d1)" by (rule prod.exhaust)
  show ?case
  proof (cases ok)
    case False
    then show ?thesis using nb NextBlock_last [of d] by (subst block_loop.simps) simp
  next
    case True
    have d1: "left d1 < left d" using nb True by (intro NextBlock_left) simp
    obtain r d2 where st: "step d1 a = (r, d2)" by (rule prod.exhaust)
    have d2: "left d2 < left d" using assms [of d1 a] st d1 by simp
    show ?thesis
    proof (cases r)
      case (Inl err)
      then show ?thesis using nb st True d2 by (subst block_loop.simps) simp
    next
      case (Inr a')
      then show ?thesis using less [OF d2, of a'] nb st True d2 by (subst block_loop.simps) fastforce
    qed
  qed
qed

lemma unmarshal_loop_ends:
  assumes "\<And>d a. left (snd (step d a)) \<le> left d"
  shows "\<exists>r d'. unmarshal_loop ds step d a = Some (r, d')"
proof (induction "left d" arbitrary: d a rule: less_induct)
  case less
  obtain ok d1 where nx: "dp_Next ds d = (ok, d1)" by (rule prod.exhaust)
  show ?case
  proof (cases ok)
    case False
    then show ?thesis using nx by (subst unmarshal_loop.simps) simp
  next
    case True
    obtain r d2 where bl: "block_loop ds step d1 a = Some (r, d2)" and d2: "left d2 \<le> left d1"
      using block_loop_ends [of step, OF assms] by blast
    have "left d1 < left d" using nx True by (intro Next_left) simp
    then have "left d2 < left d" using d2 by simp
    from less [OF this] show ?thesis using nx bl True by (subst unmarshal_loop.simps) (simp split: sum.splits)
  qed
qed

end

text \<open>A segment, as the dispenser is moved through it: before the first token; on the head, with the
  tokens left on its line and the lines of its block; inside the block; behind it.\<close>

datatype segment_view =
    Before "string list" "string list list"
  | Head string "string list" "string list list"
  | Inside string "string list" "string list list"
  | After

text \<open>\<open>sees d v\<close>: the tokens of the segment are neither braces nor quoted, and \<open>v\<close> is what is left of it.\<close>

definition reads ::
    "('d \<Rightarrow> segment_view \<Rightarrow> bool) \<Rightarrow> ('d, 'a) subdirective \<Rightarrow> (string \<Rightarrow> string list \<Rightarrow> 'a \<Rightarrow> ('a \<times> nat) option) \<Rightarrow> bool" where
  "reads sees step f \<longleftrightarrow>
     (\<forall>d k us ls a. sees d (Inside k us ls) \<longrightarrow>
        (case f k us a of
           None \<Rightarrow> accepted (fst (step d a)) = None
         | Some (a', n) \<Rightarrow> \<exists>d' t. step d a = (Inr a', d') \<and> sees d' (Inside t (drop n us) ls)))"

lemma reads_None: "reads sees step f \<Longrightarrow> sees d (Inside k us ls) \<Longrightarrow> f k us a = None \<Longrightarrow> accepted (fst (step d a)) = None"
  unfolding reads_def by (drule spec [of _ d], drule spec [of _ k], drule spec [of _ us], drule spec [of _ ls], drule spec [of _ a]) simp

lemma reads_Some:
  "reads sees step f \<Longrightarrow> sees d (Inside k us ls) \<Longrightarrow> f k us a = Some (a', n) \<Longrightarrow>
   \<exists>d' t. step d a = (Inr a', d') \<and> sees d' (Inside t (drop n us) ls)"
  unfolding reads_def by (drule spec [of _ d], drule spec [of _ k], drule spec [of _ us], drule spec [of _ ls], drule spec [of _ a]) simp

locale dispenser_sees =
  fixes ds :: "'d dispenser" and sees :: "'d \<Rightarrow> segment_view \<Rightarrow> bool"
  assumes Val_Head: "sees d (Head t us ls) \<Longrightarrow> dp_Val ds d = t"
    and Val_Inside: "sees d (Inside t us ls) \<Longrightarrow> dp_Val ds d = t"
    and lines_Head: "sees d (Head t us ls) \<Longrightarrow> [] \<notin> set ls"
    and Next_Before: "sees d (Before (t # us) ls) \<Longrightarrow> \<exists>d'. dp_Next ds d = (True, d') \<and> sees d' (Head t us ls)"
    and Next_Head: "sees d (Head t (u # us) ls) \<Longrightarrow> \<exists>d'. dp_Next ds d = (True, d') \<and> sees d' (Head u us ls)"
    and Next_end: "sees d (Head t [] []) \<or> sees d After \<Longrightarrow> \<not> fst (dp_Next ds d)"
    and NextBlock_args: "sees d (Head t (u # us) ls) \<Longrightarrow>
      \<exists>d'. dp_NextBlock ds d = (False, d') \<and> sees d' (Head t (u # us) ls)"
    and NextBlock_opens: "sees d (Head t [] ((k # us) # ls)) \<Longrightarrow>
      \<exists>d'. dp_NextBlock ds d = (True, d') \<and> sees d' (Inside k us ls)"
    and NextBlock_none: "sees d (Head t [] []) \<Longrightarrow>
      \<exists>d'. dp_NextBlock ds d = (False, d') \<and> (sees d' (Head t [] []) \<or> sees d' After)"
    and NextBlock_unread: "sees d (Inside t (u # us) ls) \<Longrightarrow>
      \<exists>d'. dp_NextBlock ds d = (True, d') \<and> sees d' (Inside u us ls)"
    and NextBlock_line: "sees d (Inside t [] ((k # us) # ls)) \<Longrightarrow>
      \<exists>d'. dp_NextBlock ds d = (True, d') \<and> sees d' (Inside k us ls)"
    and NextBlock_closes: "sees d (Inside t [] []) \<Longrightarrow> \<exists>d'. dp_NextBlock ds d = (False, d') \<and> sees d' After"
    and NextArg_Head: "sees d (Head t (u # us) ls) \<Longrightarrow> \<exists>d'. dp_NextArg ds d = (True, d') \<and> sees d' (Head u us ls)"
    and NextArg_Head_end: "sees d (Head t [] ls) \<Longrightarrow> \<exists>d'. dp_NextArg ds d = (False, d') \<and> sees d' (Head t [] ls)"
    and NextArg_Inside: "sees d (Inside t (u # us) ls) \<Longrightarrow>
      \<exists>d'. dp_NextArg ds d = (True, d') \<and> sees d' (Inside u us ls)"
    and NextArg_Inside_end: "sees d (Inside t [] ls) \<Longrightarrow>
      \<exists>d'. dp_NextArg ds d = (False, d') \<and> sees d' (Inside t [] ls)"
    and RemainingArgs_Inside: "sees d (Inside t us ls) \<Longrightarrow>
      \<exists>d'. dp_RemainingArgs ds d = (us, d') \<and> sees d' (Inside (last (t # us)) [] ls)"
    and RemainingArgsRaw_Inside: "sees d (Inside t us ls) \<Longrightarrow>
      \<exists>d'. dp_RemainingArgsRaw ds d = (us, d') \<and> sees d' (Inside (last (t # us)) [] ls)"
    and RemainingArgsRaw_Head: "sees d (Head t us ls) \<Longrightarrow>
      \<exists>d'. dp_RemainingArgsRaw ds d = (us, d') \<and> sees d' (Head (last (t # us)) [] ls)"
    and lines_Inside: "sees d (Inside t us ls) \<Longrightarrow> [] \<notin> set ls"
begin

lemma block_inside:
  assumes "reads sees step f" "sees d (Inside k us ls)"
  shows "\<exists>r d'. (case step d a of (Inl err, d) \<Rightarrow> Some (Inl err, d) | (Inr a, d) \<Rightarrow> block_loop ds step d a) = Some (r, d') \<and>
    accepted r = read_lines f a ((k # us) # ls) \<and> (accepted r \<noteq> None \<longrightarrow> sees d' After)"
  using assms(2)
proof (induction "length ls + sum_list (map length ((k # us) # ls))" arbitrary: d k us ls a rule: less_induct)
  case less
  show ?case
  proof (cases "f k us a")
    case None
    then have "accepted (fst (step d a)) = None" by (rule reads_None [OF assms(1) less(2)])
    then show ?thesis using None by (cases "step d a" rule: prod.exhaust) (auto elim: accepted.elims)
  next
    case (Some an)
    then obtain a' n where f: "f k us a = Some (a', n)" by (cases an) auto
    then obtain d1 t where st: "step d a = (Inr a', d1)" and d1: "sees d1 (Inside t (drop n us) ls)"
      using reads_Some [OF assms(1) less(2)] by blast
    show ?thesis
    proof (cases "drop n us")
      case (Cons u us')
      have "length (drop n us) \<le> length us" by simp
      then have lt: "length ls + sum_list (map length ((u # us') # ls)) < length ls + sum_list (map length ((k # us) # ls))"
        using Cons by (simp del: length_drop)
      obtain d2 where d2: "dp_NextBlock ds d1 = (True, d2)" "sees d2 (Inside u us' ls)"
        using NextBlock_unread d1 Cons by metis
      show ?thesis using less(1) [OF lt d2(2), of a'] st d2 f Cons
        by (simp del: read_lines.simps add: block_loop.simps [of ds step d1] read_lines.simps(3) [of f a])
    next
      case Nil
      show ?thesis
      proof (cases ls)
        case Nil': Nil
        obtain d2 where "dp_NextBlock ds d1 = (False, d2)" "sees d2 After" using NextBlock_closes d1 Nil Nil' by metis
        then show ?thesis using st f Nil Nil' by (simp add: block_loop.simps [of ds step d1])
      next
        case (Cons l ls')
        then obtain k' us' where l: "l = k' # us'" using lines_Inside [OF d1] by (cases l) auto
        have lt: "length ls' + sum_list (map length ((k' # us') # ls')) < length ls + sum_list (map length ((k # us) # ls))"
          using Cons l by simp
        obtain d2 where d2: "dp_NextBlock ds d1 = (True, d2)" "sees d2 (Inside k' us' ls')"
          using NextBlock_line d1 Nil Cons l by metis
        show ?thesis using less(1) [OF lt d2(2), of a'] st d2 f Cons l Nil
          by (simp del: read_lines.simps add: block_loop.simps [of ds step d1] read_lines.simps(2) read_lines.simps(3) [of f a])
      qed
    qed
  qed
qed

text \<open>The loop over a block reads its lines.\<close>

lemma block_loop_reads:
  assumes "reads sees step f" "sees d (Head t [] ls)"
  shows "\<exists>r d'. block_loop ds step d a = Some (r, d') \<and> accepted r = read_lines f a ls \<and>
    (accepted r \<noteq> None \<longrightarrow> \<not> fst (dp_Next ds d'))"
proof (cases ls)
  case Nil
  then obtain d' where "dp_NextBlock ds d = (False, d')" "sees d' (Head t [] []) \<or> sees d' After"
    using NextBlock_none assms(2) by metis
  then show ?thesis using Nil Next_end by (auto simp: block_loop.simps [of ds step d])
next
  case (Cons l ls')
  then obtain k us where l: "l = k # us" using lines_Head [OF assms(2)] by (cases l) auto
  then obtain d1 where d1: "dp_NextBlock ds d = (True, d1)" "sees d1 (Inside k us ls')"
    using NextBlock_opens assms(2) Cons by metis
  from block_inside [OF assms(1) d1(2), of a] obtain r d' where
    "block_loop ds step d a = Some (r, d')" "accepted r = read_lines f a ls" "accepted r \<noteq> None \<longrightarrow> sees d' After"
    using d1 Cons l by (auto simp del: read_lines.simps simp add: block_loop.simps [of ds step d])
  then show ?thesis using Next_end by blast
qed

text \<open>So does the loop over the directives of a segment; the arguments of its head are skipped.\<close>

lemma unmarshal_head_reads:
  assumes "reads sees step f" "sees d (Head t us ls)"
  shows "\<exists>r d'. (case block_loop ds step d a of
      None \<Rightarrow> None
    | Some (Inl err, d) \<Rightarrow> Some (Inl err, d)
    | Some (Inr a, d) \<Rightarrow> unmarshal_loop ds step d a) = Some (r, d') \<and>
    accepted r = read_lines f a ls"
  using assms(2)
proof (induction us arbitrary: d t)
  case Nil
  from block_loop_reads [OF assms(1) Nil, of a] obtain r d' where
    r: "block_loop ds step d a = Some (r, d')" "accepted r = read_lines f a ls" "accepted r \<noteq> None \<longrightarrow> \<not> fst (dp_Next ds d')"
    by blast
  then show ?case
    by (cases r; cases "dp_Next ds d'") (auto simp: unmarshal_loop.simps [of ds step d'])
next
  case (Cons u us)
  obtain d1 where d1: "dp_NextBlock ds d = (False, d1)" "sees d1 (Head t (u # us) ls)" using NextBlock_args [OF Cons(2)] by blast
  obtain d2 where d2: "dp_Next ds d1 = (True, d2)" "sees d2 (Head u us ls)" using Next_Head [OF d1(2)] by blast
  show ?case using Cons(1) [OF d2(2)] d1 d2
    by (simp add: block_loop.simps [of ds step d] unmarshal_loop.simps [of ds step d1])
qed

lemma unmarshal_loop_reads:
  assumes "reads sees step f" "sees d (Before (t # us) ls)"
  shows "\<exists>r d'. unmarshal_loop ds step d a = Some (r, d') \<and> accepted r = read_lines f a ls"
proof -
  obtain d1 where d1: "dp_Next ds d = (True, d1)" "sees d1 (Head t us ls)" using Next_Before [OF assms(2)] by blast
  then show ?thesis using unmarshal_head_reads [OF assms(1) d1(2), of a] by (simp add: unmarshal_loop.simps [of ds step d])
qed

lemma with_arg_sees:
  assumes "sees d (Inside k us ls)"
  shows "case us of
      [] \<Rightarrow> accepted (fst (with_arg ds f d)) = None
    | u # us \<Rightarrow> \<exists>d'. with_arg ds f d = (f d' u, d') \<and> sees d' (Inside u us ls)"
proof (cases us)
  case Nil
  then show ?thesis using NextArg_Inside_end assms by (fastforce simp: with_arg_def)
next
  case (Cons u us')
  then obtain d' where "dp_NextArg ds d = (True, d')" "sees d' (Inside u us' ls)" using NextArg_Inside assms by blast
  then show ?thesis using Cons Val_Inside by (auto simp: with_arg_def)
qed

end

end
