(* ===== verification/Caddyfile_Parse.thy ===== *)
theory Caddyfile_Parse
  imports Caddyfile_Dispenser Codex_Auth Claude_Auth Gemini_Auth Provider_Core Route_Types
begin

text \<open>
  The Caddyfile parsers: gateway/caddyfile.go and route_caddyfile.go (the app block and its routes),
  api/caddyfile.go (the directive of the LLM handlers), and the blocks of the modules (the three
  authenticators, llm/provider/module.go, the SQLite config store, the admin handler).

  Each switch over the subdirectives is a function of the dispenser on the subdirective; the loops
  around it are those of \<open>Caddyfile_Dispenser\<close>.  Caddy's registry of modules, \<open>UnmarshalModule\<close> and
  \<open>caddyconfig.JSON\<close> are parameters.
\<close>

subsection \<open>Module blocks\<close>

definition codex_subdirective :: "'d dispenser \<Rightarrow> ('d, codex_authenticator) subdirective" where
  "codex_subdirective ds d a =
     (if dp_Val ds d = ''callback_port'' then
        with_arg ds (\<lambda>d v. case Atoi v of
            None \<Rightarrow> Inl (dp_Err ds d (''invalid callback_port: '' @ NumError ''Atoi'' v))
          | Some port \<Rightarrow> Inr (a\<lparr>xa_CallbackPort := port\<rparr>)) d
      else if dp_Val ds d = ''use_device_flow'' then
        with_arg ds (\<lambda>d v. case ParseBool v of
            None \<Rightarrow> Inl (dp_Err ds d (''invalid use_device_flow: '' @ NumError ''ParseBool'' v))
          | Some val \<Rightarrow> Inr (a\<lparr>xa_UseDeviceFlow := val\<rparr>)) d
      else if dp_Val ds d = ''no_browser'' then
        with_arg ds (\<lambda>d v. case ParseBool v of
            None \<Rightarrow> Inl (dp_Err ds d (''invalid no_browser: '' @ NumError ''ParseBool'' v))
          | Some val \<Rightarrow> Inr (a\<lparr>xa_NoBrowser := val\<rparr>)) d
      else (Inl (dp_Err ds d (''unknown subdirective: '' @ dp_Val ds d)), d))"

definition codex_UnmarshalCaddyfile ::
    "'d dispenser \<Rightarrow> 'd \<Rightarrow> codex_authenticator \<Rightarrow> ('d, codex_authenticator) parse option" where
  "codex_UnmarshalCaddyfile ds d a = unmarshal_loop ds (codex_subdirective ds) d a"

definition claude_subdirective :: "'d dispenser \<Rightarrow> ('d, claude_authenticator) subdirective" where
  "claude_subdirective ds d a =
     (if dp_Val ds d = ''callback_port'' then
        with_arg ds (\<lambda>d v. case Atoi v of
            None \<Rightarrow> Inl (dp_Err ds d (''invalid callback_port: '' @ NumError ''Atoi'' v))
          | Some port \<Rightarrow> Inr (a\<lparr>la_CallbackPort := port\<rparr>)) d
      else if dp_Val ds d = ''no_browser'' then
        with_arg ds (\<lambda>d v. case ParseBool v of
            None \<Rightarrow> Inl (dp_Err ds d (''invalid no_browser: '' @ NumError ''ParseBool'' v))
          | Some val \<Rightarrow> Inr (a\<lparr>la_NoBrowser := val\<rparr>)) d
      else (Inl (dp_Err ds d (''unknown subdirective: '' @ dp_Val ds d)), d))"

definition claude_UnmarshalCaddyfile ::
    "'d dispenser \<Rightarrow> 'd \<Rightarrow> claude_authenticator \<Rightarrow> ('d, claude_authenticator) parse option" where
  "claude_UnmarshalCaddyfile ds d a = unmarshal_loop ds (claude_subdirective ds) d a"

definition gemini_subdirective :: "'d dispenser \<Rightarrow> ('d, gemini_authenticator) subdirective" where
  "gemini_subdirective ds d a =
     (if dp_Val ds d = ''callback_port'' then
        with_arg ds (\<lambda>d v. case Atoi v of
            None \<Rightarrow> Inl (dp_Err ds d (''invalid callback_port: '' @ NumError ''Atoi'' v))
          | Some port \<Rightarrow> Inr (a\<lparr>ga_CallbackPort := port\<rparr>)) d
      else if dp_Val ds d = ''no_browser'' then
        with_arg ds (\<lambda>d v. case ParseBool v of
            None \<Rightarrow> Inl (dp_Err ds d (''invalid no_browser: '' @ NumError ''ParseBool'' v))
          | Some val \<Rightarrow> Inr (a\<lparr>ga_NoBrowser := val\<rparr>)) d
      else (Inl (dp_Err ds d (''unknown subdirective: '' @ dp_Val ds d)), d))"

definition gemini_UnmarshalCaddyfile ::
    "'d dispenser \<Rightarrow> 'd \<Rightarrow> gemini_authenticator \<Rightarrow> ('d, gemini_authenticator) parse option" where
  "gemini_UnmarshalCaddyfile ds d a = unmarshal_loop ds (gemini_subdirective ds) d a"

text \<open>The settings all providers share; \<open>set_number\<close> is the case of a number in the network section.\<close>

definition set_number :: "(int \<Rightarrow> network_config \<Rightarrow> network_config) \<Rightarrow> provider_config \<Rightarrow> string \<Rightarrow> string + provider_config" where
  "set_number put cfg v =
     (case Atoi v of
        None \<Rightarrow> Inl (NumError ''Atoi'' v)
      | Some n \<Rightarrow> Inr (cfg\<lparr>pc_Network := put n (pc_Network cfg)\<rparr>))"

definition provider_subdirective :: "'d dispenser \<Rightarrow> ('d, provider_config) subdirective" where
  "provider_subdirective ds d cfg =
     (let name = dp_Val ds d
      in if name = ''api_key'' then with_arg ds (\<lambda>d v. Inr (cfg\<lparr>pc_APIKey := v\<rparr>)) d
         else if name = ''base_url'' then with_arg ds (\<lambda>d v. Inr (cfg\<lparr>pc_BaseURL := v\<rparr>)) d
         else if name = ''default_model'' then with_arg ds (\<lambda>d v. Inr (cfg\<lparr>pc_DefaultModel := v\<rparr>)) d
         else if name = ''timeout_seconds'' then
           with_arg ds (\<lambda>d. set_number (\<lambda>n net. net\<lparr>n_TimeoutSeconds := n\<rparr>) cfg) d
         else if name = ''max_retries'' then
           with_arg ds (\<lambda>d. set_number (\<lambda>n net. net\<lparr>n_MaxRetries := n\<rparr>) cfg) d
         else if name = ''retry_delay_seconds'' then
           with_arg ds (\<lambda>d. set_number (\<lambda>n net. net\<lparr>n_RetryDelaySeconds := n\<rparr>) cfg) d
         else if name = ''proxy_url'' then
           with_arg ds (\<lambda>d v. Inr (cfg\<lparr>pc_Network := (pc_Network cfg)\<lparr>n_ProxyURL := v\<rparr>\<rparr>)) d
         else if name = ''header'' then
           with_two_args ds (\<lambda>k v. cfg\<lparr>pc_Network := (pc_Network cfg)\<lparr>n_ExtraHeaders :=
             AList.update k v (n_ExtraHeaders (pc_Network cfg))\<rparr>\<rparr>) d
         else if name = ''option'' then
           with_two_args ds (\<lambda>k v. cfg\<lparr>pc_Options := AList.update k (GString v) (pc_Options cfg)\<rparr>) d
         else (Inl (dp_Err ds d (''unknown subdirective: '' @ name)), d))"

definition UnmarshalCaddyfileConfig :: "'d dispenser \<Rightarrow> 'd \<Rightarrow> provider_config \<Rightarrow> ('d, provider_config) parse option" where
  "UnmarshalCaddyfileConfig ds d cfg = unmarshal_loop ds (provider_subdirective ds) d cfg"

text \<open>The path of the SQLite store is its only setting.\<close>

definition sqlite_subdirective :: "'d dispenser \<Rightarrow> ('d, string) subdirective" where
  "sqlite_subdirective ds d path =
     (if dp_Val ds d = ''path'' then with_arg ds (\<lambda>d v. Inr v) d
      else (Inl (dp_Err ds d (''unknown sqlite config_store subdirective: '' @ dp_Val ds d)), d))"

definition sqlite_UnmarshalCaddyfile :: "'d dispenser \<Rightarrow> 'd \<Rightarrow> string \<Rightarrow> ('d, string) parse option" where
  "sqlite_UnmarshalCaddyfile ds d path = unmarshal_loop ds (sqlite_subdirective ds) d path"

record admin_module =
  am_AdminUsername :: string
  am_AdminPasswordHash :: string

definition admin_subdirective :: "'d dispenser \<Rightarrow> ('d, admin_module) subdirective" where
  "admin_subdirective ds d h =
     (if dp_Val ds d = ''admin_user'' then with_arg ds (\<lambda>d v. Inr (h\<lparr>am_AdminUsername := v\<rparr>)) d
      else if dp_Val ds d = ''admin_password_hash'' then with_arg ds (\<lambda>d v. Inr (h\<lparr>am_AdminPasswordHash := v\<rparr>)) d
      else (Inl (dp_Err ds d (''unrecognized agent_gateway_admin option: '' @ dp_Val ds d)), d))"

definition admin_UnmarshalCaddyfile :: "'d dispenser \<Rightarrow> 'd \<Rightarrow> admin_module \<Rightarrow> ('d, admin_module) parse option" where
  "admin_UnmarshalCaddyfile ds d h = unmarshal_loop ds (admin_subdirective ds) d h"

definition parseAgentGatewayAdmin :: "'d dispenser \<Rightarrow> 'd \<Rightarrow> ('d, admin_module) parse option" where
  "parseAgentGatewayAdmin ds d = admin_UnmarshalCaddyfile ds d \<lparr>am_AdminUsername = [], am_AdminPasswordHash = []\<rparr>"

subsection \<open>Routes\<close>

definition zero_target :: route_target where
  "zero_target =
     \<lparr>t_ProviderRef = [], t_Mode = [], t_Weight = 0, t_Priority = 0, t_ModelMap = [],
      t_Conditions = \<lparr>tc_Models = [], tc_RequireStreaming = None, tc_RequireTools = None, tc_RequireVision = None,
        tc_RequireEmbeddings = None, tc_Regions = [], tc_Tags = []\<rparr>,
      t_Disabled = False\<rparr>"

definition zero_policy :: route_policy where
  "zero_policy =
     \<lparr>pol_Auth = \<lparr>ap_RequireLocalAPIKey = False\<rparr>,
      pol_RateLimit = \<lparr>rl_RequestsPerMinute = 0, rl_RequestsPerHour = 0, rl_ConcurrentLimit = 0\<rparr>,
      pol_Quota = \<lparr>qp_DailyRequests = 0, qp_MonthlyRequests = 0, qp_DailyTokens = 0, qp_MonthlyTokens = 0\<rparr>,
      pol_AllowedModels = [], pol_AllowStreaming = None, pol_AllowTools = None, pol_AllowVision = None,
      pol_AllowEmbeddings = None, pol_TimeoutSeconds = 0, pol_Selection = \<lparr>sp_Strategy = []\<rparr>,
      pol_Retry = \<lparr>rp_MaxAttempts = 0, rp_BackoffMS = 0, rp_RetryableStatusCodes = []\<rparr>,
      pol_Fallback = \<lparr>fp_Enabled = False, fp_OnStatusCodes = []\<rparr>\<rparr>"

definition zero_route :: route where
  "zero_route =
     \<lparr>r_ID = [], r_Name = [], r_Description = [], r_Disabled = False,
      r_Match = \<lparr>rm_Host = [], rm_PathPrefix = [], rm_Methods = []\<rparr>, r_Targets = [], r_Policy = zero_policy,
      r_CreatedAt = zero_time, r_UpdatedAt = zero_time\<rparr>"

text \<open>\<open>strings.Trim(arg, "\"`")\<close>\<close>

definition unquote :: "string \<Rightarrow> string" where
  "unquote s = Trim s [CHR 0x22, CHR 0x60]"

definition declared_route :: "string \<Rightarrow> route" where
  "declared_route routeID =
     zero_route\<lparr>r_ID := routeID, r_Name := routeID,
       r_Policy := zero_policy\<lparr>pol_Selection := \<lparr>sp_Strategy = RouteSelectionStrategyAuto\<rparr>\<rparr>\<rparr>"

definition set_require_key :: "bool \<Rightarrow> route \<Rightarrow> route" where
  "set_require_key v r = r\<lparr>r_Policy := (r_Policy r)\<lparr>pol_Auth := \<lparr>ap_RequireLocalAPIKey = v\<rparr>\<rparr>\<rparr>"

definition add_models :: "string list \<Rightarrow> route \<Rightarrow> route" where
  "add_models ms r = r\<lparr>r_Policy := (r_Policy r)\<lparr>pol_AllowedModels := pol_AllowedModels (r_Policy r) @ ms\<rparr>\<rparr>"

definition weighted_target :: "string \<Rightarrow> int \<Rightarrow> route_target" where
  "weighted_target ref weight = zero_target\<lparr>t_ProviderRef := ref, t_Mode := TargetModeWeighted, t_Weight := weight\<rparr>"

definition add_target :: "route_target \<Rightarrow> route \<Rightarrow> route" where
  "add_target t r = r\<lparr>r_Targets := r_Targets r @ [t]\<rparr>"

definition route_subdirective :: "'d dispenser \<Rightarrow> ('d, route) subdirective" where
  "route_subdirective ds d r =
     (let name = dp_Val ds d; (args, d) = dp_RemainingArgsRaw ds d; argErr = (Inl (dp_ArgErr ds d), d)
      in if name = ''route_name'' then (case args of [x] \<Rightarrow> (Inr (r\<lparr>r_Name := unquote x\<rparr>), d) | _ \<Rightarrow> argErr)
         else if name = ''require_local_api_key'' then
           (case args of
              [] \<Rightarrow> (Inr (set_require_key True r), d)
            | [x] \<Rightarrow>
                (case ParseBool (unquote x) of
                   None \<Rightarrow> (Inl (dp_Err ds d (''invalid require_local_api_key value: '' @ x)), d)
                 | Some v \<Rightarrow> (Inr (set_require_key v r), d))
            | _ \<Rightarrow> argErr)
         else if name = ''allowed_model'' then
           (if args = [] then argErr else (Inr (add_models (map unquote args) r), d))
         else if name = ''target'' then
           (case args of
              [x] \<Rightarrow> (Inr (add_target (weighted_target (unquote x) 1) r), d)
            | [x, y] \<Rightarrow>
                (case Atoi (unquote y) of
                   None \<Rightarrow> (Inl (dp_Err ds d (''invalid target weight: '' @ y)), d)
                 | Some weight \<Rightarrow> (Inr (add_target (weighted_target (unquote x) weight) r), d))
            | _ \<Rightarrow> argErr)
         else (Inl (dp_Err ds d (''unknown subdirective: '' @ name)), d))"

text \<open>The result comes with the dispenser of the caller, behind the segment.\<close>

definition ParseRouteSegment :: "'d dispenser \<Rightarrow> 'd \<Rightarrow> ('d, route) parse option" where
  "ParseRouteSegment ds d =
     (case dp_NewFromNextSegment ds d of
        (seg, d) \<Rightarrow>
          (case dp_Next ds seg of
             (ok, seg) \<Rightarrow>
               if \<not> ok then Some (Inl (dp_Err ds d ''expected route directive''), d)
               else (case dp_RemainingArgsRaw ds seg of
                       (args, seg) \<Rightarrow>
                         (case args of
                            [x] \<Rightarrow>
                              map_option (\<lambda>(result, _). (map_sum id with_defaults result, d))
                                (block_loop ds (route_subdirective ds) seg (declared_route (unquote x)))
                          | _ \<Rightarrow> Some (Inl (dp_ArgErr ds seg), d)))))"

subsection \<open>The app block\<close>

record gateway_app =
  app_ProvidersRaw :: "(string, string) gomap"
  app_AuthenticatorsRaw :: "(string, string) gomap"
  app_ConfigStoreRaw :: "(string, string) gomap"
  app_Routes :: "route list"

definition new_app :: gateway_app where
  "new_app = \<lparr>app_ProvidersRaw = [], app_AuthenticatorsRaw = [], app_ConfigStoreRaw = [], app_Routes = []\<rparr>"

text \<open>What \<open>existingVal.(*App)\<close> can find.\<close>

datatype existing_value = ExistingApp gateway_app | ExistingNil | ExistingOther

record ('d, 'u) caddy_modules =
  cm_UnmarshalModule :: "'d \<Rightarrow> string \<Rightarrow> ('d, 'u) parse"
  cm_JSON :: "'u \<Rightarrow> string"

text \<open>The name of a module, its block, and the JSON that is kept of it.\<close>

definition named_module ::
    "'d dispenser \<Rightarrow> ('d, 'u) caddy_modules \<Rightarrow> string \<Rightarrow> (string \<Rightarrow> string \<Rightarrow> gateway_app) \<Rightarrow> 'd \<Rightarrow> ('d, gateway_app) parse" where
  "named_module ds cm namespace put d =
     (case dp_NextArg ds d of
        (ok, d) \<Rightarrow>
          if \<not> ok then (Inl (dp_ArgErr ds d), d)
          else (let name = dp_Val ds d
                in (case cm_UnmarshalModule cm d (namespace @ name) of
                      (Inl err, d) \<Rightarrow> (Inl err, d)
                    | (Inr unm, d) \<Rightarrow> (Inr (put name (cm_JSON cm unm)), d))))"

definition parseProvider ::
    "'d dispenser \<Rightarrow> ('d, 'u) caddy_modules \<Rightarrow> 'd \<Rightarrow> gateway_app \<Rightarrow> ('d, gateway_app) parse" where
  "parseProvider ds cm d app =
     named_module ds cm ''llm.providers.'' (\<lambda>name raw. app\<lparr>app_ProvidersRaw := AList.update name raw (app_ProvidersRaw app)\<rparr>) d"

definition parseConfigStore ::
    "'d dispenser \<Rightarrow> ('d, 'u) caddy_modules \<Rightarrow> 'd \<Rightarrow> gateway_app \<Rightarrow> ('d, gateway_app) parse" where
  "parseConfigStore ds cm d app =
     (if app_ConfigStoreRaw app \<noteq> [] then (Inl (dp_Err ds d ''config_store already configured''), d)
      else named_module ds cm ''agent_gateway.config_stores.'' (\<lambda>name raw. app\<lparr>app_ConfigStoreRaw := [(name, raw)]\<rparr>) d)"

definition parseAuthenticator ::
    "'d dispenser \<Rightarrow> ('d, 'u) caddy_modules \<Rightarrow> 'd \<Rightarrow> gateway_app \<Rightarrow> ('d, gateway_app) parse" where
  "parseAuthenticator ds cm d app =
     named_module ds cm ''llm.authenticators.''
       (\<lambda>name raw. app\<lparr>app_AuthenticatorsRaw := AList.update name raw (app_AuthenticatorsRaw app)\<rparr>) d"

definition parseRoute :: "'d dispenser \<Rightarrow> 'd \<Rightarrow> gateway_app \<Rightarrow> ('d, gateway_app) parse option" where
  "parseRoute ds d app =
     map_option (\<lambda>(result, d).
         case result of
           Inl err \<Rightarrow> (Inl err, d)
         | Inr r \<Rightarrow>
             if \<exists>declared\<in>set (app_Routes app). r_ID declared = r_ID r
             then (Inl (dp_Err ds d (''duplicate route '' @ quoted (r_ID r))), d)
             else (Inr (app\<lparr>app_Routes := app_Routes app @ [r]\<rparr>), d))
       (ParseRouteSegment ds d)"

definition app_subdirective ::
    "'d dispenser \<Rightarrow> ('d, 'u) caddy_modules \<Rightarrow> 'd \<Rightarrow> gateway_app \<Rightarrow> ('d, gateway_app) parse option" where
  "app_subdirective ds cm d app =
     (if dp_Val ds d = ''provider'' then Some (parseProvider ds cm d app)
      else if dp_Val ds d = ''config_store'' then Some (parseConfigStore ds cm d app)
      else if dp_Val ds d = ''authenticator'' then Some (parseAuthenticator ds cm d app)
      else if dp_Val ds d = ''route'' then parseRoute ds d app
      else Some (Inl (dp_Err ds d (''unknown subdirective: '' @ dp_Val ds d)), d))"

partial_function (option) app_loop ::
    "'d dispenser \<Rightarrow> ('d, 'u) caddy_modules \<Rightarrow> 'd \<Rightarrow> gateway_app \<Rightarrow> ('d, gateway_app) parse option" where
  "app_loop ds cm d app =
     (case dp_NextBlock ds d of
        (ok, d) \<Rightarrow>
          if \<not> ok then Some (Inr app, d)
          else (case app_subdirective ds cm d app of
                  None \<Rightarrow> None
                | Some (Inl err, d) \<Rightarrow> Some (Inl err, d)
                | Some (Inr app, d) \<Rightarrow> app_loop ds cm d app))"

declare app_loop.simps [code]

text \<open>The result is the name of the app with its JSON, which \<open>encode\<close> makes.\<close>

definition parseApp ::
    "'d dispenser \<Rightarrow> ('d, 'u) caddy_modules \<Rightarrow> (gateway_app \<Rightarrow> 'j) \<Rightarrow> 'd \<Rightarrow> existing_value \<Rightarrow> (string + string \<times> 'j) option" where
  "parseApp ds cm encode d existingVal =
     (let app = (case existingVal of ExistingApp current \<Rightarrow> current | _ \<Rightarrow> new_app)
      in (case dp_Next ds d of
            (ok, d) \<Rightarrow>
              if \<not> ok then Some (Inl (dp_Err ds d ''expected directive name''))
              else (case dp_NextArg ds d of
                      (arg, d) \<Rightarrow>
                        if arg then Some (Inl (dp_ArgErr ds d))
                        else map_option (\<lambda>(r, _). map_sum id (\<lambda>app. (''agent_gateway'', encode app)) r) (app_loop ds cm d app))))"

subsection \<open>The directive of the LLM handlers\<close>

text \<open>A registered module: the new instance, \<open>SetRouteID\<close> if it accepts a route, whether it is a handler.\<close>

record 'h http_module =
  hm_New :: 'h
  hm_SetRouteID :: "(string \<Rightarrow> 'h \<Rightarrow> 'h) option"
  hm_isHandler :: bool

definition route_id_subdirective :: "'d dispenser \<Rightarrow> ('d, string) subdirective" where
  "route_id_subdirective ds d routeID =
     (if dp_Val ds d = ''route_id'' then
        (case dp_RemainingArgsRaw ds d of
           (args, d) \<Rightarrow> (case args of [x] \<Rightarrow> (Inr (unquote x), d) | _ \<Rightarrow> (Inl (dp_ArgErr ds d), d)))
      else (Inl (dp_Err ds d (''unknown subdirective: '' @ dp_Val ds d)), d))"

definition handler_for :: "(string \<Rightarrow> string + 'h http_module) \<Rightarrow> (string \<Rightarrow> string) \<Rightarrow> string \<Rightarrow> string \<Rightarrow> string + 'h" where
  "handler_for getModule errf apiName routeID =
     (if routeID = [] then Inl (errf ''route_id is required'')
      else
        (let moduleID = ''http.handlers.'' @ apiName
         in (case getModule moduleID of
               Inl err \<Rightarrow> Inl (errf (''getting module named '' @ [CHR 0x27] @ moduleID @ [CHR 0x27] @ '': '' @ err))
             | Inr md \<Rightarrow>
                 if \<not> hm_isHandler md then Inl (moduleID @ '' does not implement caddyhttp.MiddlewareHandler'')
                 else Inr (case hm_SetRouteID md of None \<Rightarrow> hm_New md | Some setRouteID \<Rightarrow> setRouteID routeID (hm_New md)))))"

definition parseHandleLLMAPI ::
    "'d dispenser \<Rightarrow> (string \<Rightarrow> string + 'h http_module) \<Rightarrow> 'd \<Rightarrow> (string + 'h) option" where
  "parseHandleLLMAPI ds getModule d =
     (case dp_Next ds d of
        (ok, d) \<Rightarrow>
          if \<not> ok then Some (Inl (dp_Err ds d ''expected directive name''))
          else (case dp_NextArg ds d of
                  (ok, d) \<Rightarrow>
                    if \<not> ok then Some (Inl (dp_Err ds d ''expected llm api name''))
                    else (let apiName = unquote (dp_Val ds d)
                          in (case dp_NextArg ds d of
                                (arg, d) \<Rightarrow>
                                  if arg then Some (Inl (dp_ArgErr ds d))
                                  else map_option (\<lambda>(r, d).
                                           case r of
                                             Inl err \<Rightarrow> Inl err
                                           | Inr routeID \<Rightarrow> handler_for getModule (dp_Err ds d) apiName routeID)
                                         (block_loop ds (route_id_subdirective ds) d [])))))"

end
