(* ===== verification/Caddyfile_Tokens.thy ===== *)
theory Caddyfile_Tokens
  imports Caddyfile_Dispenser
begin

text \<open>
  A dispenser over a list of tokens with their line numbers: a cursor, the tokens behind it and the
  nesting of blocks, as the documentation of Caddy's dispenser describes them.  It keeps both
  promises of \<open>Caddyfile_Dispenser\<close>, so the hypotheses on a dispenser can hold; nothing else rests on it.
\<close>

type_synonym token = "nat \<times> string"

record token_dispenser =
  tk_cur :: "token option"
  tk_rest :: "token list"
  tk_nesting :: nat

definition tok_Val :: "token_dispenser \<Rightarrow> string" where
  "tok_Val d = (case tk_cur d of None \<Rightarrow> [] | Some (_, t) \<Rightarrow> t)"

definition tok_Next :: "token_dispenser \<Rightarrow> bool \<times> token_dispenser" where
  "tok_Next d = (case tk_rest d of [] \<Rightarrow> (False, d) | t # r \<Rightarrow> (True, d\<lparr>tk_cur := Some t, tk_rest := r\<rparr>))"

definition on_line :: "token option \<Rightarrow> nat \<Rightarrow> bool" where
  "on_line cur n = (case cur of None \<Rightarrow> True | Some (m, _) \<Rightarrow> m = n)"

definition same_line :: "token_dispenser \<Rightarrow> bool" where
  "same_line d = (case tk_rest d of [] \<Rightarrow> False | (n, _) # _ \<Rightarrow> on_line (tk_cur d) n)"

definition next_is :: "token_dispenser \<Rightarrow> string \<Rightarrow> bool" where
  "next_is d s = (case tk_rest d of [] \<Rightarrow> False | (_, t) # _ \<Rightarrow> t = s)"

definition tok_NextArg :: "token_dispenser \<Rightarrow> bool \<times> token_dispenser" where
  "tok_NextArg d = (if same_line d \<and> \<not> next_is d ''{'' then tok_Next d else (False, d))"

definition tok_NextBlock :: "token_dispenser \<Rightarrow> bool \<times> token_dispenser" where
  "tok_NextBlock d =
     (if tk_nesting d > 0 then
        (case tok_Next d of
           (ok, d) \<Rightarrow>
             if \<not> ok then (False, d)
             else (let k = tk_nesting d;
                       k = (if same_line d then k
                            else if tok_Val d = ''}'' then k - 1
                            else if tok_Val d = ''{'' then k + 1 else k)
                   in (k > 0, d\<lparr>tk_nesting := k\<rparr>)))
      else if \<not> same_line d \<or> \<not> next_is d ''{'' then (False, d)
      else (let d = snd (tok_Next (snd (tok_Next d)))
            in if tok_Val d = ''}'' then (False, d) else (True, d\<lparr>tk_nesting := 1\<rparr>)))"

fun args_of :: "token option \<Rightarrow> token list \<Rightarrow> string list \<times> token option \<times> token list" where
  "args_of cur [] = ([], cur, [])"
| "args_of cur ((n, t) # r) =
     (if on_line cur n \<and> t \<noteq> ''{'' then (case args_of (Some (n, t)) r of (args, c, r) \<Rightarrow> (t # args, c, r))
      else ([], cur, (n, t) # r))"

definition tok_RemainingArgs :: "token_dispenser \<Rightarrow> string list \<times> token_dispenser" where
  "tok_RemainingArgs d =
     (case args_of (tk_cur d) (tk_rest d) of (args, c, r) \<Rightarrow> (args, d\<lparr>tk_cur := c, tk_rest := r\<rparr>))"

text \<open>The tokens up to the brace that closes the block.\<close>

fun until_close :: "nat \<Rightarrow> token list \<Rightarrow> token list \<times> token list" where
  "until_close k [] = ([], [])"
| "until_close k ((n, t) # r) =
     (if t = ''}'' \<and> k \<le> 1 then ([(n, t)], r)
      else (case until_close (if t = ''}'' then k - 1 else if t = ''{'' then k + 1 else k) r of
              (seg, r) \<Rightarrow> ((n, t) # seg, r)))"

definition tok_NewFromNextSegment :: "token_dispenser \<Rightarrow> token_dispenser \<times> token_dispenser" where
  "tok_NewFromNextSegment d =
     (case args_of (tk_cur d) (tk_rest d) of
        (args, c, r) \<Rightarrow>
          (let (block, r') = (if next_is (d\<lparr>tk_cur := c, tk_rest := r\<rparr>) ''{'' then until_close 0 r else ([], r));
               seg = take (length (tk_rest d) - length r') (tk_rest d)
           in (\<lparr>tk_cur = None, tk_rest = (case tk_cur d of None \<Rightarrow> seg | Some t \<Rightarrow> t # seg), tk_nesting = 0\<rparr>,
               d\<lparr>tk_cur := (if seg = [] then tk_cur d else Some (last seg)), tk_rest := r'\<rparr>)))"

definition tok_Err :: "token_dispenser \<Rightarrow> string \<Rightarrow> string" where
  "tok_Err d msg = msg"

definition tok_ArgErr :: "token_dispenser \<Rightarrow> string" where
  "tok_ArgErr d = ''wrong argument count or unexpected line ending after '' @ quoted (tok_Val d)"

definition tokens :: "token_dispenser dispenser" where
  "tokens = \<lparr>dp_Next = tok_Next, dp_NextArg = tok_NextArg, dp_NextBlock = tok_NextBlock, dp_Val = tok_Val,
     dp_RemainingArgs = tok_RemainingArgs, dp_RemainingArgsRaw = tok_RemainingArgs,
     dp_NewFromNextSegment = tok_NewFromNextSegment, dp_Err = tok_Err, dp_ArgErr = tok_ArgErr\<rparr>"

definition tokens_left :: "token_dispenser \<Rightarrow> nat" where
  "tokens_left d = length (tk_rest d)"

lemmas tok_defs = tok_Next_def tok_NextArg_def tok_NextBlock_def tok_RemainingArgs_def tok_NewFromNextSegment_def
  same_line_def next_is_def on_line_def tok_Val_def

subsection \<open>It ends\<close>

lemma args_of_left: "length (snd (snd (args_of c ts))) \<le> length ts"
  by (induction c ts rule: args_of.induct) (auto split: prod.splits)

lemma until_close_left: "length (snd (until_close k ts)) \<le> length ts"
  by (induction k ts rule: until_close.induct) (auto split: prod.splits if_splits)

lemma tok_NextBlock_left: "tok_NextBlock d = (ok, d') \<Longrightarrow> tokens_left d' \<le> tokens_left d \<and> (ok \<longrightarrow> tokens_left d' < tokens_left d)"
  by (cases "tk_rest d"; cases "tl (tk_rest d)") (auto simp: tok_defs tokens_left_def Let_def split: if_splits option.splits prod.splits)

lemma tok_segment_left: "tokens_left (snd (tok_NewFromNextSegment d)) \<le> tokens_left d"
  using args_of_left [of "tk_cur d" "tk_rest d"] until_close_left [of 0 "snd (snd (args_of (tk_cur d) (tk_rest d)))"]
  by (auto simp: tok_NewFromNextSegment_def tokens_left_def Let_def split: prod.splits if_splits)

interpretation tok_ends: dispenser_ends tokens tokens_left
proof
  show "tokens_left (snd (dp_RemainingArgs tokens d)) \<le> tokens_left d"
    "tokens_left (snd (dp_RemainingArgsRaw tokens d)) \<le> tokens_left d" for d
    using args_of_left [of "tk_cur d" "tk_rest d"] by (auto simp: tokens_def tok_RemainingArgs_def tokens_left_def split: prod.splits)
  show "tokens_left d' < tokens_left d" if "dp_NextBlock tokens d = (True, d')" for d d'
    using tok_NextBlock_left [of d True d'] that by (simp add: tokens_def)
  show "tokens_left (snd (dp_NextBlock tokens d)) \<le> tokens_left d" for d
    using tok_NextBlock_left [of d] by (cases "tok_NextBlock d") (simp add: tokens_def)
  show "tokens_left (snd (dp_NewFromNextSegment tokens d)) \<le> tokens_left d" for d
    using tok_segment_left by (simp add: tokens_def)
qed (auto simp: tokens_def tok_Next_def tok_NextArg_def tokens_left_def split: list.splits)

subsection \<open>It shows a segment\<close>

definition plain_token :: "string \<Rightarrow> bool" where
  "plain_token t \<longleftrightarrow> t \<noteq> ''{'' \<and> t \<noteq> ''}''"

definition plain_line :: "string list \<Rightarrow> bool" where
  "plain_line l \<longleftrightarrow> l \<noteq> [] \<and> list_all plain_token l"

text \<open>The tokens of the lines from line \<open>n\<close> on, with the closing brace; the block that opens on line \<open>n\<close>.\<close>

fun line_tokens :: "nat \<Rightarrow> string list list \<Rightarrow> token list" where
  "line_tokens n [] = [(n, ''}'')]"
| "line_tokens n (l # ls) = map (Pair n) l @ line_tokens (Suc n) ls"

definition block_tokens :: "nat \<Rightarrow> string list list \<Rightarrow> token list" where
  "block_tokens n ls = (if ls = [] then [] else (n, ''{'') # line_tokens (Suc n) ls)"

fun tok_sees :: "token_dispenser \<Rightarrow> segment_view \<Rightarrow> bool" where
  "tok_sees d (Before ts ls) \<longleftrightarrow>
     tk_cur d = None \<and> tk_nesting d = 0 \<and> plain_line ts \<and> list_all plain_line ls \<and>
     tk_rest d = map (Pair 0) ts @ block_tokens 0 ls"
| "tok_sees d (Head t us ls) \<longleftrightarrow>
     (\<exists>n. tk_cur d = Some (n, t) \<and> tk_nesting d = 0 \<and> plain_line (t # us) \<and> list_all plain_line ls \<and>
      tk_rest d = map (Pair n) us @ block_tokens n ls)"
| "tok_sees d (Inside t us ls) \<longleftrightarrow>
     (\<exists>n. tk_cur d = Some (n, t) \<and> tk_nesting d = 1 \<and> plain_line (t # us) \<and> list_all plain_line ls \<and>
      tk_rest d = map (Pair n) us @ line_tokens (Suc n) ls)"
| "tok_sees d After \<longleftrightarrow> tk_rest d = []"

lemma line_tokens_first: "list_all plain_line ls \<Longrightarrow> \<exists>t ts. line_tokens n ls = (n, t) # ts \<and> t \<noteq> ''{''"
  by (cases "(n, ls)" rule: line_tokens.cases) (auto simp: plain_line_def plain_token_def neq_Nil_conv)

lemma args_of_line: "list_all plain_token us \<Longrightarrow>
   args_of (Some (n, t)) (map (Pair n) us @ r) =
     (case args_of (Some (n, last (t # us))) r of (args, c, r) \<Rightarrow> (us @ args, c, r))"
  by (induction us arbitrary: t) (auto simp: on_line_def plain_token_def split: prod.splits)

lemma args_of_stop: "list_all plain_line ls \<Longrightarrow> args_of (Some (n, t)) (line_tokens (Suc n) ls) = ([], Some (n, t), line_tokens (Suc n) ls)"
  "args_of (Some (n, t)) (block_tokens n ls) = ([], Some (n, t), block_tokens n ls)"
  using line_tokens_first [of ls "Suc n"] by (auto simp: on_line_def block_tokens_def)

lemma plain_line_Cons [simp]: "plain_line (t # us) \<longleftrightarrow> plain_token t \<and> list_all plain_token us"
  by (simp add: plain_line_def)

lemma plain_line_Nil [simp]: "\<not> plain_line []"
  by (simp add: plain_line_def)

lemma list_all_plain_nonempty: "list_all plain_line ls \<Longrightarrow> [] \<notin> set ls"
  by (auto simp: list_all_iff)

lemma tok_RemainingArgs_sees:
  "tok_sees d (Inside t us ls) \<Longrightarrow> \<exists>d'. tok_RemainingArgs d = (us, d') \<and> tok_sees d' (Inside (last (t # us)) [] ls)"
  "tok_sees d (Head t us ls) \<Longrightarrow> \<exists>d'. tok_RemainingArgs d = (us, d') \<and> tok_sees d' (Head (last (t # us)) [] ls)"
  by (auto simp: tok_RemainingArgs_def args_of_line args_of_stop list_all_iff simp del: args_of.simps last.simps)
    (auto simp: plain_token_def)

lemma tok_NextBlock_inside:
  assumes "tk_nesting d = 1" "tk_rest d = (n, t) # ts" "plain_token t"
  shows "tok_NextBlock d = (True, d\<lparr>tk_cur := Some (n, t), tk_rest := ts\<rparr>)"
  using assms by (auto simp: tok_NextBlock_def tok_Next_def tok_Val_def plain_token_def Let_def)

lemma tok_NextBlock_opens:
  assumes "tok_sees d (Head t [] ((k # us) # ls))"
  shows "\<exists>d'. tok_NextBlock d = (True, d') \<and> tok_sees d' (Inside k us ls)"
  using assms by (auto simp: tok_NextBlock_def tok_Next_def tok_Val_def plain_token_def same_line_def next_is_def on_line_def
      block_tokens_def Let_def)

lemma tok_NextArg_end:
  "tok_sees d (Head t [] ls) \<Longrightarrow> tok_NextArg d = (False, d)"
  "tok_sees d (Inside t [] ls) \<Longrightarrow> tok_NextArg d = (False, d)"
  using line_tokens_first [of ls "Suc (fst (the (tk_cur d)))"]
  by (auto simp: tok_NextArg_def same_line_def next_is_def on_line_def block_tokens_def split: if_splits)

interpretation tok_shows: dispenser_sees tokens tok_sees
proof
  fix d t u us k ls
  show "\<exists>d'. dp_NextBlock tokens d = (True, d') \<and> tok_sees d' (Inside k us ls)" if "tok_sees d (Head t [] ((k # us) # ls))"
    using tok_NextBlock_opens [OF that] by (simp add: tokens_def)
  show "\<exists>d'. dp_NextBlock tokens d = (True, d') \<and> tok_sees d' (Inside u us ls)" if "tok_sees d (Inside t (u # us) ls)"
    using that by (auto simp: tokens_def tok_NextBlock_inside)
  show "\<exists>d'. dp_NextBlock tokens d = (True, d') \<and> tok_sees d' (Inside k us ls)" if "tok_sees d (Inside t [] ((k # us) # ls))"
    using that by (auto simp: tokens_def tok_NextBlock_inside)
  show "\<exists>d'. dp_NextBlock tokens d = (False, d') \<and> tok_sees d' After" if "tok_sees d (Inside t [] [])"
    using that by (auto simp: tokens_def tok_NextBlock_def tok_Next_def same_line_def tok_Val_def)
  show "\<exists>d'. dp_RemainingArgs tokens d = (us, d') \<and> tok_sees d' (Inside (last (t # us)) [] ls)"
    "\<exists>d'. dp_RemainingArgsRaw tokens d = (us, d') \<and> tok_sees d' (Inside (last (t # us)) [] ls)" if "tok_sees d (Inside t us ls)"
    using tok_RemainingArgs_sees(1) [OF that] by (simp_all add: tokens_def)
  show "\<exists>d'. dp_RemainingArgsRaw tokens d = (us, d') \<and> tok_sees d' (Head (last (t # us)) [] ls)" if "tok_sees d (Head t us ls)"
    using tok_RemainingArgs_sees(2) [OF that] by (simp add: tokens_def)
  show "\<exists>d'. dp_NextArg tokens d = (False, d') \<and> tok_sees d' (Head t [] ls)" if "tok_sees d (Head t [] ls)"
    using tok_NextArg_end(1) [OF that] that by (simp add: tokens_def)
  show "\<exists>d'. dp_NextArg tokens d = (False, d') \<and> tok_sees d' (Inside t [] ls)" if "tok_sees d (Inside t [] ls)"
    using tok_NextArg_end(2) [OF that] that by (simp add: tokens_def)
qed (auto simp: tokens_def tok_Val_def tok_Next_def tok_NextArg_def tok_NextBlock_def same_line_def next_is_def on_line_def
    block_tokens_def plain_token_def list_all_plain_nonempty)

end
