(* ===== verification/Caddyfile_Spec.thy ===== *)
theory Caddyfile_Spec
  imports Caddyfile_Parse Caddyfile_Tokens
begin

text \<open>
  The blocks of the modules as tables of settings, and the lemmas that their switches read the lines of
  a block by these tables and never put a token back.
\<close>

subsection \<open>Tables of settings\<close>

text \<open>A setting takes one argument, which may be refused, or exactly two.\<close>

datatype 'a setting = One "string \<Rightarrow> 'a \<Rightarrow> 'a option" | Two "string \<Rightarrow> string \<Rightarrow> 'a \<Rightarrow> 'a"

fun setting_line :: "'a setting \<Rightarrow> string list \<Rightarrow> 'a \<Rightarrow> ('a \<times> nat) option" where
  "setting_line (One put) us a = (case us of [] \<Rightarrow> None | v # _ \<Rightarrow> map_option (\<lambda>a. (a, 1)) (put v a))"
| "setting_line (Two put) us a = (case us of [x, y] \<Rightarrow> Some (put x y a, 2) | _ \<Rightarrow> None)"

definition line_of :: "(string \<times> 'a setting) list \<Rightarrow> string \<Rightarrow> string list \<Rightarrow> 'a \<Rightarrow> ('a \<times> nat) option" where
  "line_of table k us a = (case map_of table k of None \<Rightarrow> None | Some s \<Rightarrow> setting_line s us a)"

definition codex_settings :: "(string \<times> codex_authenticator setting) list" where
  "codex_settings =
     [(''callback_port'', One (\<lambda>v a. map_option (\<lambda>n. a\<lparr>xa_CallbackPort := n\<rparr>) (Atoi v))),
      (''use_device_flow'', One (\<lambda>v a. map_option (\<lambda>b. a\<lparr>xa_UseDeviceFlow := b\<rparr>) (ParseBool v))),
      (''no_browser'', One (\<lambda>v a. map_option (\<lambda>b. a\<lparr>xa_NoBrowser := b\<rparr>) (ParseBool v)))]"

definition claude_settings :: "(string \<times> claude_authenticator setting) list" where
  "claude_settings =
     [(''callback_port'', One (\<lambda>v a. map_option (\<lambda>n. a\<lparr>la_CallbackPort := n\<rparr>) (Atoi v))),
      (''no_browser'', One (\<lambda>v a. map_option (\<lambda>b. a\<lparr>la_NoBrowser := b\<rparr>) (ParseBool v)))]"

definition gemini_settings :: "(string \<times> gemini_authenticator setting) list" where
  "gemini_settings =
     [(''callback_port'', One (\<lambda>v a. map_option (\<lambda>n. a\<lparr>ga_CallbackPort := n\<rparr>) (Atoi v))),
      (''no_browser'', One (\<lambda>v a. map_option (\<lambda>b. a\<lparr>ga_NoBrowser := b\<rparr>) (ParseBool v)))]"

definition network_number :: "(int \<Rightarrow> network_config \<Rightarrow> network_config) \<Rightarrow> string \<Rightarrow> provider_config \<Rightarrow> provider_config option" where
  "network_number put v cfg = map_option (\<lambda>n. cfg\<lparr>pc_Network := put n (pc_Network cfg)\<rparr>) (Atoi v)"

definition provider_settings :: "(string \<times> provider_config setting) list" where
  "provider_settings =
     [(''api_key'', One (\<lambda>v cfg. Some (cfg\<lparr>pc_APIKey := v\<rparr>))),
      (''base_url'', One (\<lambda>v cfg. Some (cfg\<lparr>pc_BaseURL := v\<rparr>))),
      (''default_model'', One (\<lambda>v cfg. Some (cfg\<lparr>pc_DefaultModel := v\<rparr>))),
      (''timeout_seconds'', One (network_number (\<lambda>n net. net\<lparr>n_TimeoutSeconds := n\<rparr>))),
      (''max_retries'', One (network_number (\<lambda>n net. net\<lparr>n_MaxRetries := n\<rparr>))),
      (''retry_delay_seconds'', One (network_number (\<lambda>n net. net\<lparr>n_RetryDelaySeconds := n\<rparr>))),
      (''proxy_url'', One (\<lambda>v cfg. Some (cfg\<lparr>pc_Network := (pc_Network cfg)\<lparr>n_ProxyURL := v\<rparr>\<rparr>))),
      (''header'', Two (\<lambda>k v cfg. cfg\<lparr>pc_Network := (pc_Network cfg)\<lparr>n_ExtraHeaders :=
         AList.update k v (n_ExtraHeaders (pc_Network cfg))\<rparr>\<rparr>)),
      (''option'', Two (\<lambda>k v cfg. cfg\<lparr>pc_Options := AList.update k (GString v) (pc_Options cfg)\<rparr>))]"

definition sqlite_settings :: "(string \<times> string setting) list" where
  "sqlite_settings = [(''path'', One (\<lambda>v path. Some v))]"

definition admin_settings :: "(string \<times> admin_module setting) list" where
  "admin_settings =
     [(''admin_user'', One (\<lambda>v h. Some (h\<lparr>am_AdminUsername := v\<rparr>))),
      (''admin_password_hash'', One (\<lambda>v h. Some (h\<lparr>am_AdminPasswordHash := v\<rparr>)))]"

subsection \<open>The switches read by their tables\<close>

definition arg_case :: "'d dispenser \<Rightarrow> ('d, 'a) parse \<Rightarrow> 'd \<Rightarrow> (string \<Rightarrow> 'a \<Rightarrow> 'a option) \<Rightarrow> 'a \<Rightarrow> bool" where
  "arg_case ds r d put a \<longleftrightarrow> (\<exists>f. r = with_arg ds f d \<and> (\<forall>d' v. accepted (f d' v) = put v a))"

lemma arg_caseI: "(\<And>d' v. accepted (f d' v) = put v a) \<Longrightarrow> arg_case ds (with_arg ds f d) d put a"
  by (auto simp: arg_case_def)

lemma accepted_number:
  "accepted (case x of None \<Rightarrow> Inl e | Some n \<Rightarrow> Inr (g n)) = map_option g x"
  by (cases x) simp_all

context dispenser_sees
begin

lemma with_arg_reads:
  assumes "sees d (Inside k us ls)" and f: "\<And>d' v. accepted (f d' v) = put v a"
  shows "case setting_line (One put) us a of
      None \<Rightarrow> accepted (fst (with_arg ds f d)) = None
    | Some (a', n) \<Rightarrow> \<exists>d' t. with_arg ds f d = (Inr a', d') \<and> sees d' (Inside t (drop n us) ls)"
proof (cases us)
  case Nil
  then show ?thesis using with_arg_sees [OF assms(1), of f] by simp
next
  case (Cons v us')
  then obtain d' where d': "with_arg ds f d = (f d' v, d')" "sees d' (Inside v us' ls)"
    using with_arg_sees [OF assms(1), of f] by auto
  show ?thesis
  proof (cases "put v a")
    case None
    then show ?thesis using Cons d' f [of d' v] by simp
  next
    case (Some a')
    then have "f d' v = Inr a'" using f [of d' v] by (cases "f d' v") auto
    then show ?thesis using Cons d' Some by auto
  qed
qed

lemma with_two_args_reads:
  assumes "sees d (Inside k us ls)"
  shows "case setting_line (Two put) us a of
      None \<Rightarrow> accepted (fst (with_two_args ds (\<lambda>x y. put x y a) d)) = None
    | Some (a', n) \<Rightarrow> \<exists>d' t. with_two_args ds (\<lambda>x y. put x y a) d = (Inr a', d') \<and> sees d' (Inside t (drop n us) ls)"
proof -
  obtain d' where d': "dp_RemainingArgs ds d = (us, d')" "sees d' (Inside (last (k # us)) [] ls)"
    using RemainingArgs_Inside [OF assms] by blast
  consider x y where "us = [x, y]" | "\<forall>x y. us \<noteq> [x, y]" by blast
  then show ?thesis
  proof cases
    case 1
    then show ?thesis using d' by (auto simp: with_two_args_def)
  next
    case 2
    then show ?thesis using d' by (auto simp: with_two_args_def split: list.splits)
  qed
qed

text \<open>To compare a switch with a table it is enough to look at each case of the switch.\<close>

lemma reads_tableI:
  assumes "\<And>d us ls a k. sees d (Inside k us ls) \<Longrightarrow>
    (case map_of table k of
       None \<Rightarrow> accepted (fst (step d a)) = None
     | Some (One put) \<Rightarrow> arg_case ds (step d a) d put a
     | Some (Two put) \<Rightarrow> step d a = with_two_args ds (\<lambda>x y. put x y a) d)"
  shows "reads sees step (line_of table)"
  unfolding reads_def
proof (intro allI impI)
  fix d k us ls a
  assume s: "sees d (Inside k us ls)"
  show "case line_of table k us a of None \<Rightarrow> accepted (fst (step d a)) = None
    | Some (a', n) \<Rightarrow> \<exists>d' t. step d a = (Inr a', d') \<and> sees d' (Inside t (drop n us) ls)"
  proof (cases "map_of table k")
    case None
    then show ?thesis using assms [OF s, of a] by (simp add: line_of_def)
  next
    case (Some st)
    show ?thesis
    proof (cases st)
      case (One put)
      then obtain f where "step d a = with_arg ds f d" "\<And>d' v. accepted (f d' v) = put v a"
        using assms [OF s, of a] Some by (auto simp: arg_case_def)
      then show ?thesis using with_arg_reads [OF s, of f put a] Some One
        by (simp add: line_of_def del: setting_line.simps cong del: option.case_cong_weak)
    next
      case (Two put)
      then show ?thesis using with_two_args_reads [OF s, of put a] assms [OF s, of a] Some
        by (simp add: line_of_def del: setting_line.simps cong del: option.case_cong_weak)
    qed
  qed
qed

lemma codex_reads: "reads sees (codex_subdirective ds) (line_of codex_settings)"
  by (rule reads_tableI) (auto simp: codex_subdirective_def codex_settings_def accepted_number dest!: Val_Inside intro!: arg_caseI)

lemma claude_reads: "reads sees (claude_subdirective ds) (line_of claude_settings)"
  by (rule reads_tableI) (auto simp: claude_subdirective_def claude_settings_def accepted_number dest!: Val_Inside intro!: arg_caseI)

lemma gemini_reads: "reads sees (gemini_subdirective ds) (line_of gemini_settings)"
  by (rule reads_tableI) (auto simp: gemini_subdirective_def gemini_settings_def accepted_number dest!: Val_Inside intro!: arg_caseI)

lemma sqlite_reads: "reads sees (sqlite_subdirective ds) (line_of sqlite_settings)"
  by (rule reads_tableI) (auto simp: sqlite_subdirective_def sqlite_settings_def dest!: Val_Inside intro!: arg_caseI)

lemma admin_reads: "reads sees (admin_subdirective ds) (line_of admin_settings)"
  by (rule reads_tableI) (auto simp: admin_subdirective_def admin_settings_def dest!: Val_Inside intro!: arg_caseI)

lemma provider_reads: "reads sees (provider_subdirective ds) (line_of provider_settings)"
  by (rule reads_tableI)
    (auto simp: provider_subdirective_def provider_settings_def set_number_def network_number_def accepted_number Let_def
      dest!: Val_Inside intro!: arg_caseI)

end

subsection \<open>The parsers end\<close>

context dispenser_ends
begin

lemma subdirectives_left:
  "left (snd (codex_subdirective ds d xa)) \<le> left d" "left (snd (claude_subdirective ds d la)) \<le> left d"
  "left (snd (gemini_subdirective ds d ga)) \<le> left d" "left (snd (provider_subdirective ds d cfg)) \<le> left d"
  "left (snd (sqlite_subdirective ds d path)) \<le> left d" "left (snd (admin_subdirective ds d h)) \<le> left d"
  by (simp_all add: codex_subdirective_def claude_subdirective_def gemini_subdirective_def provider_subdirective_def
      sqlite_subdirective_def admin_subdirective_def Let_def with_arg_left with_two_args_left)

lemma raw_subdirectives_left:
  "left (snd (route_subdirective ds d r)) \<le> left d" "left (snd (route_id_subdirective ds d routeID)) \<le> left d"
  using RemainingArgsRaw_left [of d]
  by (auto simp: route_subdirective_def route_id_subdirective_def Let_def split: prod.splits list.splits option.splits)

lemma raw_loops_end:
  "\<exists>r d'. block_loop ds (route_subdirective ds) d q = Some (r, d')"
  "\<exists>r d'. block_loop ds (route_id_subdirective ds) d routeID = Some (r, d')"
  using block_loop_ends [of "route_subdirective ds", OF raw_subdirectives_left(1)]
    block_loop_ends [of "route_id_subdirective ds", OF raw_subdirectives_left(2)] by blast+

lemma ParseRouteSegment_ends: "\<exists>r d'. ParseRouteSegment ds d = Some (r, d') \<and> left d' \<le> left d"
proof -
  obtain seg d1 where s: "dp_NewFromNextSegment ds d = (seg, d1)" by (rule prod.exhaust)
  have d1: "left d1 \<le> left d" using NewFromNextSegment_left [of d] s by simp
  obtain ok seg1 where n: "dp_Next ds seg = (ok, seg1)" by (rule prod.exhaust)
  obtain args seg2 where a: "dp_RemainingArgsRaw ds seg1 = (args, seg2)" by (rule prod.exhaust)
  obtain r e where "block_loop ds (route_subdirective ds) seg2 (declared_route (unquote (hd args))) = Some (r, e)"
    using raw_loops_end(1) by blast
  then show ?thesis using d1 by (auto simp: ParseRouteSegment_def s n a split: list.splits)
qed

lemma app_subdirective_ends:
  assumes "\<And>d name. left (snd (cm_UnmarshalModule cm d name)) \<le> left d"
  shows "\<exists>r d'. app_subdirective ds cm d app = Some (r, d') \<and> left d' \<le> left d"
proof -
  have nm: "left (snd (named_module ds cm ns put d)) \<le> left d" for ns put
  proof -
    obtain ok d1 where n: "dp_NextArg ds d = (ok, d1)" by (rule prod.exhaust)
    have "left d1 \<le> left d" using NextArg_left [of d] n by simp
    then show ?thesis using assms [of d1 "ns @ dp_Val ds d1"] n
      by (auto simp: named_module_def Let_def split: prod.splits sum.splits)
  qed
  obtain r d' where "ParseRouteSegment ds d = Some (r, d')" "left d' \<le> left d" using ParseRouteSegment_ends [of d] by blast
  then have "\<exists>r d'. parseRoute ds d app = Some (r, d') \<and> left d' \<le> left d" by (cases r) (auto simp: parseRoute_def)
  then show ?thesis
    using nm by (auto simp: app_subdirective_def parseProvider_def parseConfigStore_def parseAuthenticator_def intro: prod.exhaust)
      (metis prod.collapse)+
qed

lemma app_loop_ends:
  assumes "\<And>d name. left (snd (cm_UnmarshalModule cm d name)) \<le> left d"
  shows "\<exists>r d'. app_loop ds cm d app = Some (r, d')"
proof (induction "left d" arbitrary: d app rule: less_induct)
  case less
  obtain ok d1 where nb: "dp_NextBlock ds d = (ok, d1)" by (rule prod.exhaust)
  show ?case
  proof (cases ok)
    case False
    then show ?thesis using nb by (subst app_loop.simps) simp
  next
    case True
    then have d1: "left d1 < left d" using nb by (intro NextBlock_left) simp
    obtain r d2 where st: "app_subdirective ds cm d1 app = Some (r, d2)" and d2: "left d2 \<le> left d1"
      using app_subdirective_ends [OF assms] by blast
    have "left d2 < left d" using d1 d2 by simp
    from less [OF this] show ?thesis using nb st True by (subst app_loop.simps) (simp split: sum.splits)
  qed
qed

lemma parseApp_ends:
  assumes "\<And>d name. left (snd (cm_UnmarshalModule cm d name)) \<le> left d"
  shows "\<exists>r. parseApp ds cm encode d existingVal = Some r"
  using app_loop_ends [OF assms] by (auto simp: parseApp_def Let_def split: prod.splits)

lemma parseHandleLLMAPI_ends: "\<exists>r. parseHandleLLMAPI ds getModule d = Some r"
  using raw_loops_end(2) by (auto simp: parseHandleLLMAPI_def Let_def split: prod.splits)

end

end
