(* ===== verification/Caddyfile_Props.thy ===== *)
theory Caddyfile_Props
  imports Caddyfile_Spec Gateway_Props
begin

text \<open>
  What the Caddyfile parsers do: they end, the block of a module is read line by line, a route written
  out is read back, and the routes of the app block are those the gateway serves.
\<close>

subsection \<open>Module blocks\<close>

text \<open>C26: a module reads its block line by line.  For a directive whose block has no nested blocks, each of
  the six \<open>UnmarshalCaddyfile\<close> functions gives the result of the table of its settings, line by line: a
  known setting with a readable value is set, the last value of a setting wins, arguments a setting does
  not use are read as the next setting, and everything else is refused.  The arguments of the directive
  itself are ignored.\<close>

theorem unmarshal_reads_lines:
  assumes "dispenser_sees ds sees" and "sees d (Before (t # us) ls)"
  shows "(\<exists>r d'. codex_UnmarshalCaddyfile ds d xa = Some (r, d') \<and> accepted r = read_lines (line_of codex_settings) xa ls) \<and>
    (\<exists>r d'. claude_UnmarshalCaddyfile ds d la = Some (r, d') \<and> accepted r = read_lines (line_of claude_settings) la ls) \<and>
    (\<exists>r d'. gemini_UnmarshalCaddyfile ds d ga = Some (r, d') \<and> accepted r = read_lines (line_of gemini_settings) ga ls) \<and>
    (\<exists>r d'. UnmarshalCaddyfileConfig ds d cfg = Some (r, d') \<and> accepted r = read_lines (line_of provider_settings) cfg ls) \<and>
    (\<exists>r d'. sqlite_UnmarshalCaddyfile ds d path = Some (r, d') \<and> accepted r = read_lines (line_of sqlite_settings) path ls) \<and>
    (\<exists>r d'. admin_UnmarshalCaddyfile ds d h = Some (r, d') \<and> accepted r = read_lines (line_of admin_settings) h ls)"
  unfolding codex_UnmarshalCaddyfile_def claude_UnmarshalCaddyfile_def gemini_UnmarshalCaddyfile_def
    UnmarshalCaddyfileConfig_def sqlite_UnmarshalCaddyfile_def admin_UnmarshalCaddyfile_def
  by (intro conjI dispenser_sees.unmarshal_loop_reads [OF assms(1) _ assms(2)] dispenser_sees.codex_reads [OF assms(1)]
      dispenser_sees.claude_reads [OF assms(1)] dispenser_sees.gemini_reads [OF assms(1)] dispenser_sees.provider_reads [OF assms(1)]
      dispenser_sees.sqlite_reads [OF assms(1)] dispenser_sees.admin_reads [OF assms(1)])

definition w_segment :: "string list \<Rightarrow> string list list \<Rightarrow> token_dispenser" where
  "w_segment head ls = \<lparr>tk_cur = None, tk_rest = map (Pair 0) head @ block_tokens 0 ls, tk_nesting = 0\<rparr>"

lemma w_segment_sees: "plain_line head \<Longrightarrow> list_all plain_line ls \<Longrightarrow> tok_sees (w_segment head ls) (Before head ls)"
  by (simp add: w_segment_def)

theorem unmarshal_reads_lines_witness:
  "\<exists>r d'. codex_UnmarshalCaddyfile tokens (w_segment [''codex''] [[''callback_port'', ''9000''], [''no_browser'', ''true'']])
       NewCodexAuthenticator = Some (r, d') \<and>
     accepted r = Some \<lparr>xa_CallbackPort = 9000, xa_UseDeviceFlow = False, xa_NoBrowser = True\<rparr>"
proof -
  let ?ls = "[[''callback_port'', ''9000''], [''no_browser'', ''true'']]"
  have "tok_sees (w_segment [''codex''] ?ls) (Before [''codex''] ?ls)"
    by (rule w_segment_sees) (simp_all add: plain_token_def)
  moreover have "read_lines (line_of codex_settings) NewCodexAuthenticator ?ls =
      Some \<lparr>xa_CallbackPort = 9000, xa_UseDeviceFlow = False, xa_NoBrowser = True\<rparr>" by code_simp
  ultimately show ?thesis
    using unmarshal_reads_lines [OF tok_shows.dispenser_sees_axioms, of "w_segment [''codex''] ?ls" "''codex''" "[]" ?ls
        NewCodexAuthenticator] by simp
qed

text \<open>C27: every Caddyfile parser returns, whatever the tokens are: every turn of a loop consumes a token.\<close>

theorem caddyfile_parse_ends:
  assumes "dispenser_ends ds left" and "\<And>d name. left (snd (cm_UnmarshalModule cm d name)) \<le> left d"
  shows "parseApp ds cm encode d existingVal \<noteq> None \<and> parseHandleLLMAPI ds getModule d \<noteq> None \<and>
    parseAgentGatewayAdmin ds d \<noteq> None \<and> codex_UnmarshalCaddyfile ds d xa \<noteq> None \<and>
    claude_UnmarshalCaddyfile ds d la \<noteq> None \<and> gemini_UnmarshalCaddyfile ds d ga \<noteq> None \<and>
    UnmarshalCaddyfileConfig ds d cfg \<noteq> None \<and> sqlite_UnmarshalCaddyfile ds d path \<noteq> None"
  unfolding codex_UnmarshalCaddyfile_def claude_UnmarshalCaddyfile_def gemini_UnmarshalCaddyfile_def parseAgentGatewayAdmin_def
    UnmarshalCaddyfileConfig_def sqlite_UnmarshalCaddyfile_def admin_UnmarshalCaddyfile_def not_None_eq
  using dispenser_ends.parseApp_ends [OF assms] dispenser_ends.parseHandleLLMAPI_ends [OF assms(1)]
    dispenser_ends.unmarshal_loop_ends [OF assms(1), of "codex_subdirective ds", OF dispenser_ends.subdirectives_left(1) [OF assms(1)]]
    dispenser_ends.unmarshal_loop_ends [OF assms(1), of "claude_subdirective ds", OF dispenser_ends.subdirectives_left(2) [OF assms(1)]]
    dispenser_ends.unmarshal_loop_ends [OF assms(1), of "gemini_subdirective ds", OF dispenser_ends.subdirectives_left(3) [OF assms(1)]]
    dispenser_ends.unmarshal_loop_ends [OF assms(1), of "provider_subdirective ds", OF dispenser_ends.subdirectives_left(4) [OF assms(1)]]
    dispenser_ends.unmarshal_loop_ends [OF assms(1), of "sqlite_subdirective ds", OF dispenser_ends.subdirectives_left(5) [OF assms(1)]]
    dispenser_ends.unmarshal_loop_ends [OF assms(1), of "admin_subdirective ds", OF dispenser_ends.subdirectives_left(6) [OF assms(1)]]
  by blast

text \<open>Modules for the examples: the Codex authenticator, whose JSON says whether it was configured.\<close>

definition w_UnmarshalModule :: "token_dispenser \<Rightarrow> string \<Rightarrow> (token_dispenser, codex_authenticator) parse" where
  "w_UnmarshalModule d name =
     (case tok_NewFromNextSegment d of
        (seg, d) \<Rightarrow>
          if name \<noteq> ''llm.authenticators.codex'' then (Inl (''module not registered: '' @ name), d)
          else (case codex_UnmarshalCaddyfile tokens seg NewCodexAuthenticator of
                  Some (r, _) \<Rightarrow> (r, d) | None \<Rightarrow> (Inl ''no result'', d)))"

definition w_JSON :: "codex_authenticator \<Rightarrow> string" where
  "w_JSON a = (if a = NewCodexAuthenticator then ''default'' else ''configured'')"

definition w_modules :: "(token_dispenser, codex_authenticator) caddy_modules" where
  "w_modules = \<lparr>cm_UnmarshalModule = w_UnmarshalModule, cm_JSON = w_JSON\<rparr>"

lemma w_modules_left: "tokens_left (snd (cm_UnmarshalModule w_modules d name)) \<le> tokens_left d"
  using tok_segment_left [of d] by (auto simp: w_modules_def w_UnmarshalModule_def split: prod.splits option.splits)

theorem caddyfile_parse_ends_witness:
  "parseApp tokens w_modules id (w_segment [''agent_gateway''] [[''authenticator'', ''codex'']]) ExistingNil \<noteq> None"
  using caddyfile_parse_ends [OF tok_ends.dispenser_ends_axioms, of w_modules, OF w_modules_left] by blast

subsection \<open>Routes\<close>

text \<open>The lines of the block of a route, and the route they declare.\<close>

definition route_lines :: "string \<Rightarrow> bool \<Rightarrow> string list \<Rightarrow> (string \<times> int) list \<Rightarrow> string list list" where
  "route_lines name requireKey models targets =
     [[''route_name'', name], [''require_local_api_key'', if requireKey then ''true'' else ''false'']] @
     (if models = [] then [] else [''allowed_model'' # models]) @
     map (\<lambda>(ref, weight). [''target'', ref, Itoa weight]) targets"

definition caddy_route :: "string \<Rightarrow> string \<Rightarrow> bool \<Rightarrow> string list \<Rightarrow> (string \<times> int) list \<Rightarrow> route" where
  "caddy_route routeID name requireKey models targets =
     with_defaults
       (zero_route\<lparr>r_ID := routeID, r_Name := name,
          r_Targets := map (\<lambda>(ref, weight). weighted_target ref weight) targets,
          r_Policy := zero_policy\<lparr>pol_Auth := \<lparr>ap_RequireLocalAPIKey = requireKey\<rparr>, pol_AllowedModels := models\<rparr>\<rparr>)"

definition route_line :: "string \<Rightarrow> string list \<Rightarrow> route \<Rightarrow> (route \<times> nat) option" where
  "route_line k us r =
     map_option (\<lambda>r. (r, length us))
       (if k = ''route_name'' then (case us of [x] \<Rightarrow> Some (r\<lparr>r_Name := unquote x\<rparr>) | _ \<Rightarrow> None)
        else if k = ''require_local_api_key'' then
          (case us of
             [] \<Rightarrow> Some (set_require_key True r)
           | [x] \<Rightarrow> map_option (\<lambda>v. set_require_key v r) (ParseBool (unquote x))
           | _ \<Rightarrow> None)
        else if k = ''allowed_model'' then (if us = [] then None else Some (add_models (map unquote us) r))
        else if k = ''target'' then
          (case us of
             [x] \<Rightarrow> Some (add_target (weighted_target (unquote x) 1) r)
           | [x, y] \<Rightarrow> map_option (\<lambda>w. add_target (weighted_target (unquote x) w) r) (Atoi (unquote y))
           | _ \<Rightarrow> None)
        else None)"

lemma route_subdirective_line:
  assumes "dp_Val ds d = k" "dp_RemainingArgsRaw ds d = (us, d')"
  shows "accepted (fst (route_subdirective ds d r)) = map_option fst (route_line k us r) \<and> snd (route_subdirective ds d r) = d'"
proof -
  consider "us = []" | x where "us = [x]" | x y where "us = [x, y]" | x y z zs where "us = x # y # z # zs"
    by (metis list.exhaust)
  then show ?thesis
    by cases (simp_all add: route_subdirective_def route_line_def assms Let_def option.map_comp comp_def split: option.split)
qed

lemma route_reads:
  assumes "dispenser_sees ds sees"
  shows "reads sees (route_subdirective ds) route_line"
  unfolding reads_def
proof (intro allI impI)
  fix d k us ls r
  assume s: "sees d (Inside k us ls)"
  obtain d' where d': "dp_RemainingArgsRaw ds d = (us, d')" "sees d' (Inside (last (k # us)) [] ls)"
    using dispenser_sees.RemainingArgsRaw_Inside [OF assms s] by blast
  note L = route_subdirective_line [OF dispenser_sees.Val_Inside [OF assms s] d'(1), of r]
  show "case route_line k us r of None \<Rightarrow> accepted (fst (route_subdirective ds d r)) = None
    | Some (a', n) \<Rightarrow> \<exists>d' t. route_subdirective ds d r = (Inr a', d') \<and> sees d' (Inside t (drop n us) ls)"
  proof (cases "route_line k us r")
    case None
    then show ?thesis using L by simp
  next
    case (Some an)
    then obtain a' where a': "route_line k us r = Some (a', length us)" by (auto simp: route_line_def)
    then have "route_subdirective ds d r = (Inr a', d')"
      using L by (cases "route_subdirective ds d r"; cases "fst (route_subdirective ds d r)") auto
    then show ?thesis using a' d'(2) by auto
  qed
qed

lemma read_lines_append: "read_lines f a (xs @ ys) = Option.bind (read_lines f a xs) (\<lambda>a. read_lines f a ys)"
  by (induction f a xs rule: read_lines.induct) (auto split: option.splits)

lemma digit_value_char: "m < 10 \<Longrightarrow> digit_value (char_of (48 + m)) = int m"
  using of_nat_of_char [of "char_of (48 + m)", where ?'a = int] by (simp add: digit_value_def)

lemma is_digit_char: "m < 10 \<Longrightarrow> is_digit (char_of (48 + m :: nat))"
  by (simp add: is_digit_def)

lemma nat_digits_value: "list_all is_digit (nat_digits m) \<and> digits_value (nat_digits m) = int m \<and> nat_digits m \<noteq> []"
proof (induction m rule: nat_digits.induct)
  case (1 m)
  show ?case
  proof (cases "m < 10")
    case True
    then show ?thesis by (subst (1 2 3) nat_digits.simps) (simp add: is_digit_char digits_value_def digit_value_char)
  next
    case False
    have "int (m mod 10) + 10 * int (m div 10) = int m" by (metis mod_mult_div_eq of_nat_add of_nat_mult of_nat_numeral)
    then show ?thesis using 1 [OF False] False
      by (subst (1 2 3) nat_digits.simps) (simp add: is_digit_char digits_value_def digit_value_char)
  qed
qed

lemma Atoi_Itoa:
  assumes "- (2 ^ 63) \<le> n" "n < 2 ^ 63"
  shows "Atoi (Itoa n) = Some n"
proof (cases "n < 0")
  case True
  then show ?thesis using assms nat_digits_value [of "nat (- n)"] by (simp add: Itoa_def Atoi_def HasPrefix_def Let_def)
next
  case False
  have "\<not> HasPrefix (nat_digits m) ''-''" "\<not> HasPrefix (nat_digits m) ''+''" for m
    using nat_digits_value [of m] by (cases "nat_digits m"; auto simp: HasPrefix_def is_digit_def)+
  then show ?thesis using False assms nat_digits_value [of "nat n"] by (simp add: Itoa_def Atoi_def Let_def)
qed

lemma unquote_Itoa: "unquote (Itoa n) = Itoa n"
proof -
  have "\<forall>c\<in>set (Itoa n). is_digit c \<or> c = CHR ''-''"
    using nat_digits_value [of "nat n"] nat_digits_value [of "nat (- n)"] by (auto simp: Itoa_def list_all_iff)
  then have "\<forall>c\<in>set (Itoa n). c \<notin> {CHR 0x22, CHR 0x60}" by (auto simp: is_digit_def)
  then have "dropWhile (\<lambda>c. c \<in> set [CHR 0x22, CHR 0x60]) xs = xs" if "set xs \<subseteq> set (Itoa n)" for xs
    using that by (cases xs) auto
  then show ?thesis by (simp add: unquote_def Trim_def)
qed

lemma read_targets:
  assumes "\<forall>(ref, weight)\<in>set targets. unquote ref = ref \<and> - (2 ^ 63) \<le> weight \<and> weight < 2 ^ 63"
  shows "read_lines route_line r (map (\<lambda>(ref, weight). [''target'', ref, Itoa weight]) targets) =
    Some (r\<lparr>r_Targets := r_Targets r @ map (\<lambda>(ref, weight). weighted_target ref weight) targets\<rparr>)"
  using assms by (induction targets arbitrary: r) (auto simp: route_line_def Atoi_Itoa unquote_Itoa add_target_def)

text \<open>C23: a route written out is read back.  When the segment of the directive is the identifier of a route
  and its settings, one per line, with names that are not quoted and weights of 64 bits, \<open>ParseRouteSegment\<close>
  returns this route: its models and weighted targets in the order of the lines, and the defaults of its
  policy.\<close>

theorem route_block_roundtrip:
  assumes "dispenser_sees ds sees"
    and "dp_NewFromNextSegment ds d = (seg, d')"
    and "sees seg (Before [dir, routeID] (route_lines name requireKey models targets))"
    and "unquote routeID = routeID" "unquote name = name" "\<forall>m\<in>set models. unquote m = m"
    and "\<forall>(ref, weight)\<in>set targets. unquote ref = ref \<and> - (2 ^ 63) \<le> weight \<and> weight < 2 ^ 63"
  shows "ParseRouteSegment ds d = Some (Inr (caddy_route routeID name requireKey models targets), d')"
proof -
  let ?ls = "route_lines name requireKey models targets"
  obtain s1 where s1: "dp_Next ds seg = (True, s1)" "sees s1 (Head dir [routeID] ?ls)"
    using dispenser_sees.Next_Before [OF assms(1,3)] by blast
  obtain s2 where s2: "dp_RemainingArgsRaw ds s1 = ([routeID], s2)" "sees s2 (Head routeID [] ?ls)"
    using dispenser_sees.RemainingArgsRaw_Head [OF assms(1) s1(2)] by auto
  have "map unquote models = models" using assms(6) by (simp add: map_idI)
  then have "read_lines route_line (declared_route routeID) ?ls =
      Some ((zero_route\<lparr>r_ID := routeID, r_Name := name, r_Targets := map (\<lambda>(ref, weight). weighted_target ref weight) targets,
        r_Policy := zero_policy\<lparr>pol_Auth := \<lparr>ap_RequireLocalAPIKey = requireKey\<rparr>, pol_AllowedModels := models,
          pol_Selection := \<lparr>sp_Strategy = RouteSelectionStrategyAuto\<rparr>\<rparr>\<rparr>))"
    using assms(5) read_targets [OF assms(7)]
    by (simp add: route_lines_def read_lines_append route_line_def declared_route_def zero_route_def zero_policy_def
        set_require_key_def add_models_def ParseBool_def unquote_def Trim_def)
  moreover obtain r s3 where "block_loop ds (route_subdirective ds) s2 (declared_route routeID) = Some (r, s3)"
    "accepted r = read_lines route_line (declared_route routeID) ?ls"
    using dispenser_sees.block_loop_reads [OF assms(1) route_reads [OF assms(1)] s2(2)] by blast
  ultimately show ?thesis using assms(2,4) s1(1) s2(1)
    by (cases r) (auto simp: ParseRouteSegment_def caddy_route_def with_defaults_def RoutePolicy_Defaults_def
        SelectionPolicy_Defaults_def zero_policy_def Let_def strategy_defs)
qed

definition w_route_segment :: token_dispenser where
  "w_route_segment = snd (tok_Next (w_segment [''route'', ''chat''] (route_lines ''Chat'' True [''gpt-4o''] [(''openai'', 3), (''backup'', 1)])))"

theorem route_block_roundtrip_witness:
  "\<exists>d'. ParseRouteSegment tokens w_route_segment =
     Some (Inr (caddy_route ''chat'' ''Chat'' True [''gpt-4o''] [(''openai'', 3), (''backup'', 1)]), d')"
proof -
  let ?ls = "route_lines ''Chat'' True [''gpt-4o''] [(''openai'', 3), (''backup'', 1)]"
  have "fst (dp_NewFromNextSegment tokens w_route_segment) = w_segment [''route'', ''chat''] ?ls" by code_simp
  then have seg: "dp_NewFromNextSegment tokens w_route_segment =
      (w_segment [''route'', ''chat''] ?ls, snd (dp_NewFromNextSegment tokens w_route_segment))" by (simp add: prod_eq_iff)
  have "list_all plain_line ?ls" by code_simp
  then have "tok_sees (w_segment [''route'', ''chat''] ?ls) (Before [''route'', ''chat''] ?ls)"
    by (intro w_segment_sees) (simp_all add: plain_token_def)
  moreover have "unquote ''chat'' = ''chat''" "unquote ''Chat'' = ''Chat''" "unquote ''gpt-4o'' = ''gpt-4o''"
    "unquote ''openai'' = ''openai''" "unquote ''backup'' = ''backup''" by code_simp+
  ultimately show ?thesis
    using route_block_roundtrip [OF tok_shows.dispenser_sees_axioms seg, of "''route''" "''chat''" "''Chat''" True "[''gpt-4o'']"
        "[(''openai'', 3), (''backup'', 1)]"] by auto
qed

subsection \<open>The app block\<close>

text \<open>What the parser keeps of the app: the identifiers of its routes differ, it has at most one config
  store, and its routes have their defaults, the strategy \<open>auto\<close> and weighted targets only.\<close>

definition parsed_route :: "route \<Rightarrow> bool" where
  "parsed_route r \<longleftrightarrow>
     with_defaults r = r \<and> sp_Strategy (pol_Selection (r_Policy r)) = RouteSelectionStrategyAuto \<and>
     (\<forall>t\<in>set (r_Targets r). t_Mode t = TargetModeWeighted \<and> \<not> t_Disabled t)"

definition app_ok :: "gateway_app \<Rightarrow> bool" where
  "app_ok app \<longleftrightarrow>
     distinct (map r_ID (app_Routes app)) \<and> length (app_ConfigStoreRaw app) \<le> 1 \<and> (\<forall>r\<in>set (app_Routes app). parsed_route r)"

definition raw_route :: "route \<Rightarrow> bool" where
  "raw_route r \<longleftrightarrow>
     sp_Strategy (pol_Selection (r_Policy r)) = RouteSelectionStrategyAuto \<and>
     (\<forall>t\<in>set (r_Targets r). t_Mode t = TargetModeWeighted \<and> \<not> t_Disabled t)"

lemma raw_route_declared: "raw_route (declared_route routeID)"
  by (simp add: raw_route_def declared_route_def zero_route_def)

lemma raw_route_line: "raw_route r \<Longrightarrow> route_line k us r = Some (r', n) \<Longrightarrow> raw_route r'"
  by (auto simp: route_line_def raw_route_def set_require_key_def add_models_def add_target_def weighted_target_def zero_target_def
      split: if_splits list.splits)

lemma route_subdirective_raw: "raw_route r \<Longrightarrow> route_subdirective ds d r = (Inr r', d') \<Longrightarrow> raw_route r'"
  using route_subdirective_line [of ds d "dp_Val ds d" "fst (dp_RemainingArgsRaw ds d)" "snd (dp_RemainingArgsRaw ds d)" r]
    raw_route_line [of r "dp_Val ds d" "fst (dp_RemainingArgsRaw ds d)"]
  by (cases "route_line (dp_Val ds d) (fst (dp_RemainingArgsRaw ds d)) r") auto

lemma map_sum_Inr: "map_sum f g x = Inr y \<longleftrightarrow> (\<exists>z. x = Inr z \<and> y = g z)"
  by (cases x) auto

lemma ParseRouteSegment_parsed:
  assumes "ParseRouteSegment ds d = Some (Inr r, d')"
  shows "parsed_route r"
proof -
  obtain seg x r' s' where l: "block_loop ds (route_subdirective ds) seg (declared_route (unquote x)) = Some (Inr r', s')"
    and r: "r = with_defaults r'"
    using assms by (auto simp: ParseRouteSegment_def map_sum_Inr split: prod.splits if_splits list.splits)
  have "raw_route r'"
    by (rule block_loop_invariant [OF l, of raw_route]) (auto intro: raw_route_declared route_subdirective_raw)
  then show ?thesis
    by (auto simp: r parsed_route_def raw_route_def with_defaults_def RoutePolicy_Defaults_def SelectionPolicy_Defaults_def Let_def
        strategy_defs)
qed

lemma app_subdirective_ok:
  assumes "app_subdirective ds cm d app = Some (Inr app', d')" "app_ok app"
  shows "app_ok app'"
proof -
  have nm: "\<exists>name raw. app' = put name raw" if "named_module ds cm ns put d = (Inr app', d')" for ns put
    using that by (auto simp: named_module_def Let_def split: prod.splits if_splits sum.splits)
  consider (route) "parseRoute ds d app = Some (Inr app', d')" | (prov) "parseProvider ds cm d app = (Inr app', d')"
    | (store) "parseConfigStore ds cm d app = (Inr app', d')" | (auth) "parseAuthenticator ds cm d app = (Inr app', d')"
    using assms(1) by (auto simp: app_subdirective_def split: if_splits)
  then show ?thesis
  proof cases
    case route
    then obtain r where "ParseRouteSegment ds d = Some (Inr r, d')" "app' = app\<lparr>app_Routes := app_Routes app @ [r]\<rparr>"
      "\<forall>declared\<in>set (app_Routes app). r_ID declared \<noteq> r_ID r"
      unfolding parseRoute_def by (cases "ParseRouteSegment ds d") (auto split: sum.split_asm if_splits prod.split_asm)
    then show ?thesis using assms(2) ParseRouteSegment_parsed by (auto simp: app_ok_def)
  qed (use assms(2) in \<open>auto simp: parseProvider_def parseConfigStore_def parseAuthenticator_def app_ok_def dest!: nm split: if_splits\<close>)
qed

lemma app_loop_ok:
  fixes ds :: "'a dispenser" and cm :: "('a, 'b) caddy_modules"
  assumes "app_loop ds cm d app = Some (Inr app', d')" "app_ok app"
  shows "app_ok app'"
proof -
  define P where "P = (\<lambda>(ds :: 'a dispenser) (cm :: ('a, 'b) caddy_modules) (d :: 'a) app (rd :: ('a, gateway_app) parse).
    app_ok app \<longrightarrow> pred_option app_ok (accepted (fst rd)))"
  have "P ds cm d app (Inr app', d')"
  proof (rule app_loop.raw_induct [OF _ assms(1), of P], goal_cases)
    case (1 loop ds cm d app y)
    obtain ok d1 where nb: "dp_NextBlock ds d = (ok, d1)" by (rule prod.exhaust)
    show ?case
    proof (cases "\<exists>app1 d2. ok \<and> app_subdirective ds cm d1 app = Some (Inr app1, d2)")
      case True
      then obtain app1 d2 where a1: "app_subdirective ds cm d1 app = Some (Inr app1, d2)" ok by blast
      then have "loop ds cm d2 app1 = Some y" using 1(2) nb by simp
      from 1(1) [OF this] show ?thesis using app_subdirective_ok [OF a1(1)] unfolding P_def by blast
    next
      case False
      then have "y = (Inr app, d1) \<or> (\<exists>err d2. y = (Inl err, d2))"
        using 1(2) nb by (cases "app_subdirective ds cm d1 app") (auto split: if_splits sum.split_asm prod.split_asm)
      then show ?thesis by (auto simp: P_def)
    qed
  qed
  then show ?thesis using assms(2) by (simp add: P_def)
qed


text \<open>An app block with an authenticator and a route.\<close>

definition w_app_block :: token_dispenser where
  "w_app_block =
     \<lparr>tk_cur = None,
      tk_rest =
        [(0, ''agent_gateway''), (0, ''{''),
         (1, ''authenticator''), (1, ''codex''), (1, ''{''), (2, ''callback_port''), (2, ''9000''), (3, ''}''),
         (4, ''route''), (4, ''chat''), (4, ''{''), (5, ''target''), (5, ''openai''), (5, ''3''), (6, ''}''),
         (7, ''}'')],
      tk_nesting = 0\<rparr>"

definition w_parsed_app :: gateway_app where
  "w_parsed_app =
     new_app\<lparr>app_AuthenticatorsRaw := [(''codex'', ''configured'')],
       app_Routes := [caddy_route ''chat'' ''chat'' False [] [(''openai'', 3)]]\<rparr>"

lemma w_app_parsed: "parseApp tokens w_modules id w_app_block ExistingNil = Some (Inr (''agent_gateway'', w_parsed_app))"
  by code_simp


end
