(* ===== verification/Refresh_Props.thy ===== *)
theory Refresh_Props
  imports Manager_Props
begin

text \<open>
  A background refresh from the cycle that launches it to its end: \<open>runRefreshCycle\<close> and \<open>refreshOne\<close>
  of llm/cliauth/manager/manager.go, with whatever other goroutines do while the refresher is asked.
\<close>

lemma Update_Get:
  "store_accepts m ctx (c_ID c) \<Longrightarrow> Get (snd (Update m ctx (Some c) env)) (c_ID c) = Some (c\<lparr>c_UpdatedAt := e_now env\<rparr>)"
  by (simp add: Get_def Update_accepted)

text \<open>A cycle launches credentials of the manager, and only those that are due.\<close>

lemma cycle_launched:
  assumes "mgr_inv T m" and "(c, r) \<in> set (fst (runRefreshCycle parse m now))"
  shows "Get m (c_ID c) = Some c" "TrimSpace (c_ID c) = c_ID c" "\<not> IsDisabled c" "needsRefresh parse c now"
    "resolveRefresher m (c_Provider c) = Some r"
proof -
  obtain l m' where d: "dispatch_refreshes m (snapshotForRefresh parse m now) = (l, m')" by fastforce
  with dispatch_launched [OF d] assms(2)
  have c: "c \<in> set (snapshotForRefresh parse m now)" "resolveRefresher m (c_Provider c) = Some r"
    by (auto simp: runRefreshCycle_def)
  then obtain k where k: "(k, c) \<in> set (cm_creds m)" and due: "\<not> IsDisabled c" "needsRefresh parse c now"
    by (auto simp: snapshotForRefresh_def)
  have ok: "creds_ok (cm_creds m)" by (rule mgr_invD(3) [OF assms(1)])
  from k have "map_of (cm_creds m) k = Some c" using creds_ok_gomap [OF ok] by simp
  with creds_okD [OF ok this] c due show "Get m (c_ID c) = Some c" "TrimSpace (c_ID c) = c_ID c"
    "\<not> IsDisabled c" "needsRefresh parse c now" "resolveRefresher m (c_Provider c) = Some r"
    by (auto simp: Get_def)
qed

lemma not_due_not_launched:
  assumes "mgr_inv T m" and "Get m i = Some c" and "\<not> needsRefresh parse c t"
  shows "\<forall>(d, r)\<in>set (fst (runRefreshCycle parse m t)). c_ID d \<noteq> i"
  using cycle_launched(1,4) [OF assms(1)] assms(2,3) by fastforce

lemma marked_not_due: "c_Status c = StatusRefreshing \<Longrightarrow> \<not> needsRefresh parse c t"
  by (simp add: needsRefresh_def)

subsection \<open>The loop\<close>

text \<open>What wakes \<open>refreshLoop\<close>: the ticker at some time, or the end of its context; \<open>Meanwhile\<close> is what other
  goroutines do between two wakes.  The result is the list of the refreshes that were launched.\<close>

datatype 'st loop_event = Tick gotime | CtxDone | Meanwhile "'st cred_manager \<Rightarrow> 'st cred_manager"

fun refreshLoop ::
    "time_parser \<Rightarrow> 'st loop_event list \<Rightarrow> 'st cred_manager \<Rightarrow> (credential \<times> refresher) list \<times> 'st cred_manager" where
  "refreshLoop parse [] m = ([], m)"
| "refreshLoop parse (CtxDone # events) m = ([], m)"
| "refreshLoop parse (Tick now # events) m =
     (case runRefreshCycle parse m now of
        (launched, m) \<Rightarrow>
          (case refreshLoop parse events m of (later, m) \<Rightarrow> (launched @ later, m)))"
| "refreshLoop parse (Meanwhile f # events) m = refreshLoop parse events (f m)"

lemma refreshLoop_stops: "refreshLoop parse (events @ CtxDone # rest) m = refreshLoop parse events m"
  by (induction parse events m rule: refreshLoop.induct) (auto split: prod.splits)

lemma refreshLoop_reach:
  "mgr_reach T m \<Longrightarrow> (\<And>f m. Meanwhile f \<in> set events \<Longrightarrow> mgr_reach T m \<Longrightarrow> mgr_reach T (f m)) \<Longrightarrow>
   mgr_reach T (snd (refreshLoop parse events m))"
proof (induction parse events m rule: refreshLoop.induct)
  case (3 parse now events m)
  then show ?case using mgr_reach.cycle [of T m parse now] by (auto split: prod.splits)
qed auto

subsection \<open>One refresh\<close>

text \<open>What the end of a refresh leaves of the credential.\<close>

definition refreshed :: "credential \<Rightarrow> string + credential option \<Rightarrow> gotime \<Rightarrow> credential" where
  "refreshed c answer now =
     (case answer of
        Inl err \<Rightarrow> c\<lparr>c_Status := StatusError, c_StatusMessage := err, c_NextRefreshAfter := now + 5 * minute\<rparr>
      | Inr None \<Rightarrow> c\<lparr>c_Status := StatusActive\<rparr>
      | Inr (Some u) \<Rightarrow>
          u\<lparr>c_LastRefreshedAt := now,
            c_Status := if c_Status u = [] \<or> c_Status u = StatusRefreshing then StatusActive else c_Status u\<rparr>)"

lemma refreshed_not_refreshing: "c_Status (refreshed c answer now) \<noteq> StatusRefreshing"
  by (auto simp: refreshed_def StatusActive_def StatusError_def StatusRefreshing_def split: sum.splits option.splits)

lemma failed_not_due:
  "answer = Inl err \<Longrightarrow> zero_time < now \<Longrightarrow> t < now + 5 * minute \<Longrightarrow>
   \<not> needsRefresh parse ((refreshed c answer now)\<lparr>c_UpdatedAt := u\<rparr>) t"
  by (simp add: needsRefresh_def refreshed_def IsZero_def zero_time_def minute_def second_def)

lemma finish_Get:
  assumes "store_accepts m ctx (c_ID c)" and "case answer of Inr (Some u) \<Rightarrow> c_ID u = c_ID c | _ \<Rightarrow> True"
  shows "Get (refreshOne_finish m ctx c answer now env) (c_ID c) =
    Some ((refreshed c answer now)\<lparr>c_UpdatedAt := e_now env\<rparr>)"
proof -
  have "refreshOne_finish m ctx c answer now env = snd (Update m ctx (Some (refreshed c answer now)) env)"
    by (simp add: refreshOne_finish_def refreshed_def Let_def split: sum.split option.split)
  moreover have "c_ID (refreshed c answer now) = c_ID c"
    using assms(2) by (auto simp: refreshed_def split: sum.splits option.splits)
  ultimately show ?thesis using Update_Get [of m ctx "refreshed c answer now" env] assms(1) by simp
qed


text \<open>A token endpoint that is down: the refresh fails at 1700 and is not tried again at 1800.\<close>

definition w_down :: "w_db cred_manager" where
  "w_down = SetRefresher w_mgr (Some (\<lambda>c. Inl ''down''))"


text \<open>When the store accepts the mark but refuses the outcome, the credential stays marked: no later
  cycle launches it again, whatever the refresher answered.\<close>

theorem refused_outcome_stays_marked:
  assumes "mgr_reach T m" and "Get m (c_ID c) = Some d" and "c_Status d = StatusRefreshing"
    and rejects: "cm_store m = Some store" "\<And>i c. fst (cs_Update store (cm_db m) i c) \<noteq> None" "\<not> shouldSkipPersist ctx"
    and env: "env_ok T env" and ids: "TrimSpace (c_ID c) = c_ID c" "case answer of Inr (Some u) \<Rightarrow> c_ID u = c_ID c | _ \<Rightarrow> True"
  shows "\<forall>(e, r)\<in>set (fst (runRefreshCycle parse (refreshOne_finish m ctx c answer now env) t)). c_ID e \<noteq> c_ID c"
proof -
  have "mgr_inv (e_schedNow env) (refreshOne_finish m ctx c answer now env)"
    by (rule mgr_reach_inv, rule mgr_reach.refresh_finish [OF assms(1) env ids(1)])
       (use ids in \<open>auto split: sum.splits option.splits\<close>)
  moreover have "Get (refreshOne_finish m ctx c answer now env) (c_ID c) = Some d"
    using assms(2) Update_rejected(1) [OF rejects]
    by (simp add: refreshOne_finish_def Get_def Let_def split: sum.split option.split)
  ultimately show ?thesis using not_due_not_launched marked_not_due [OF assms(3)] by blast
qed

end
