(* ===== verification/Gateway_Provision.thy ===== *)
theory Gateway_Provision
  imports Gateway_App Caddyfile_Parse Manager_Inv
begin

text \<open>
  Package gateway, file app.go: \<open>Provision\<close> as a whole.  The app is the record of what the Caddyfile
  declares; Caddy's \<open>LoadModule\<close> and the opening of the credential store are parameters.
\<close>

text \<open>What \<open>LoadModule\<close> returns: a map from names to modules, or a value of another type.\<close>

datatype 'm loaded = LoadedModules "(string, 'm) gomap" | LoadedOther string

datatype 's store_module = StoreModule 's | NotAStore

definition unexpected_loaded :: "string \<Rightarrow> 'm loaded \<Rightarrow> string + (string, 'm) gomap" where
  "unexpected_loaded what l =
     (case l of
        LoadedModules mods \<Rightarrow> Inr mods
      | LoadedOther ty \<Rightarrow> Inl (''unexpected '' @ what @ '' module type '' @ ty))"

text \<open>\<open>defaultRaw\<close> is the JSON of an empty SQLite config store.\<close>

definition provisionConfigStore ::
    "((string, string) gomap \<Rightarrow> string + 's store_module loaded) \<Rightarrow> string \<Rightarrow> (string, string) gomap \<Rightarrow> string + 's" where
  "provisionConfigStore loadModule defaultRaw raw =
     (case loadModule (if raw = [] then [(''sqlite'', defaultRaw)] else raw) of
        Inl err \<Rightarrow> Inl err
      | Inr modules \<Rightarrow>
          (case unexpected_loaded ''config store'' modules of
             Inl err \<Rightarrow> Inl err
           | Inr loaded \<Rightarrow>
               (case loaded of
                  [(name, StoreModule storer)] \<Rightarrow> Inr storer
                | [(name, NotAStore)] \<Rightarrow>
                    Inl (''config store module '' @ quoted name @ '' does not implement configstore.ConfigStorer'')
                | _ \<Rightarrow> Inl (''expected exactly one config store module, got '' @ Itoa (int (length loaded))))))"

definition App_provisionProviders ::
    "((string, string) gomap \<Rightarrow> string + ('p, authenticator) loaded_module loaded) \<Rightarrow> (string, string) gomap \<Rightarrow>
     string + (string, 'p) gomap" where
  "App_provisionProviders loadModule raw =
     (if raw = [] then Inr []
      else (case loadModule raw of
              Inl err \<Rightarrow> Inl err
            | Inr modules \<Rightarrow>
                (case unexpected_loaded ''provider'' modules of
                   Inl err \<Rightarrow> Inl err
                 | Inr loaded \<Rightarrow> provisionProviders loaded [])))"

definition App_provisionAuthenticators ::
    "((string, string) gomap \<Rightarrow> string + ('p, authenticator) loaded_module loaded) \<Rightarrow> (string, string) gomap \<Rightarrow>
     'st cred_manager \<Rightarrow> string option \<times> 'st cred_manager" where
  "App_provisionAuthenticators loadModule raw m =
     (if raw = [] then (None, m)
      else (case loadModule raw of
              Inl err \<Rightarrow> (Some err, m)
            | Inr modules \<Rightarrow>
                (case unexpected_loaded ''authenticator'' modules of
                   Inl err \<Rightarrow> (Some err, m)
                 | Inr loaded \<Rightarrow> registerLoadedAuthenticators m loaded)))"

record ('p, 'st, 'w) app_state =
  as_configStorer :: "'w config_store"
  as_cliauthManager :: "'st cred_manager"
  as_providers :: "(string, 'p) gomap"
  as_agentGateway :: "('p, 'st, 'w) agent_gateway"

text \<open>The outside of \<open>Provision\<close>: the three calls of \<open>LoadModule\<close>, the credential store of a config store
  with its table, the JSON of the default store, the instants and UUIDs of \<open>Load\<close>.\<close>

record ('p, 'st, 'w) provision_env =
  pe_loadStore :: "(string, string) gomap \<Rightarrow> string + 'w config_store store_module loaded"
  pe_loadProviders :: "(string, string) gomap \<Rightarrow> string + ('p, authenticator) loaded_module loaded"
  pe_loadAuthenticators :: "(string, string) gomap \<Rightarrow> string + ('p, authenticator) loaded_module loaded"
  pe_credentialStore :: "'w config_store \<Rightarrow> string + 'st cred_store \<times> 'st"
  pe_defaultStore :: string
  pe_envs :: "nat \<Rightarrow> call_env"

definition App_Provision ::
    "(stored_config \<Rightarrow> string + string) \<Rightarrow> 'p factories \<Rightarrow> ('p, 'st, 'p resolver_world) provision_env \<Rightarrow> gateway_app \<Rightarrow>
     string + ('p, 'st, 'p resolver_world) app_state" where
  "App_Provision marshal fs pe app =
     (case provisionConfigStore (pe_loadStore pe) (pe_defaultStore pe) (app_ConfigStoreRaw app) of
        Inl err \<Rightarrow> Inl (''init config store: '' @ err)
      | Inr storer \<Rightarrow>
          (case pe_credentialStore pe storer of
             Inl err \<Rightarrow> Inl (''get credential store: '' @ err)
           | Inr (credStore, db) \<Rightarrow>
               (case App_provisionProviders (pe_loadProviders pe) (app_ProvidersRaw app) of
                  Inl err \<Rightarrow> Inl (''provision providers: '' @ err)
                | Inr providers \<Rightarrow>
                    (case App_provisionAuthenticators (pe_loadAuthenticators pe) (app_AuthenticatorsRaw app)
                            (NewManager (Some credStore) db None) of
                       (Some err, m) \<Rightarrow> Inl (''provision authenticators: '' @ err)
                     | (None, m) \<Rightarrow>
                         (case Load m [] (pe_envs pe) of
                            (Some err, m) \<Rightarrow> Inl (''load credentials: '' @ err)
                          | (None, m) \<Rightarrow>
                              (case buildGatewayDependencies marshal fs (Some storer) providers of
                                 Inl err \<Rightarrow> Inl (''configure agent gateway: '' @ err)
                               | Inr (loader, resolver, keyStore) \<Rightarrow>
                                   Inr \<lparr>as_configStorer = storer, as_cliauthManager = m, as_providers = providers,
                                        as_agentGateway =
                                          SetRoutes (Configure NewAgentGateway loader resolver keyStore (Some m) None)
                                            (app_Routes app)\<rparr>))))))"

text \<open>The app a handler finds in the Caddy context; \<open>None\<close> is an app of another type.\<close>

definition GetApp :: "(string \<Rightarrow> string + 'app option) \<Rightarrow> string + 'app" where
  "GetApp ctxApp =
     (case ctxApp ''agent_gateway'' of
        Inl err \<Rightarrow> Inl err
      | Inr None \<Rightarrow> Inl ''agent_gateway app is not *gateway.App''
      | Inr (Some app) \<Rightarrow> Inr app)"

subsection \<open>Facts\<close>

lemma load_items_reach:
  assumes "\<And>i. TrimSpace (e_uuid (envs i)) = e_uuid (envs i)" and "\<And>i. e_schedNow (envs i) \<le> e_schedNow (envs (Suc i))"
    and "mgr_reach T m" and "T \<le> e_schedNow (envs n)"
    and "\<And>c. StoredCredential c \<in> set items \<Longrightarrow> TrimSpace (c_ID c) = c_ID c"
  shows "\<exists>T'. mgr_reach T' (snd (load_items m ctx items envs n))"
  using assms(3-)
proof (induction items arbitrary: m n T)
  case Nil
  then show ?case by auto
next
  case (Cons item items)
  show ?case
  proof (cases item)
    case (StoredCredential cred)
    let ?c = "if c_Status cred = StatusRefreshing then cred\<lparr>c_Status := StatusActive\<rparr> else cred"
    obtain err m1 where r: "Register m (WithSkipPersist ctx) (Some ?c) (envs n) = (err, m1)" by (rule prod.exhaust)
    have "TrimSpace (c_ID ?c) = c_ID ?c" using Cons.prems(3) StoredCredential by simp
    from mgr_reach.register [OF Cons.prems(1) _ this, of "envs n" "WithSkipPersist ctx"]
    have m1: "mgr_reach (e_schedNow (envs n)) m1" using r Cons.prems(2) assms(1) by (simp add: env_ok_def)
    show ?thesis
      using Cons.IH [OF m1 assms(2)] Cons.prems(3) m1 r StoredCredential by (cases err) auto
  qed (use Cons.prems(1) in auto)
qed

lemma registerLoadedAuthenticators_reach: "mgr_reach T m \<Longrightarrow> mgr_reach T (snd (registerLoadedAuthenticators m loaded))"
  by (induction m loaded rule: registerLoadedAuthenticators.induct) (auto split: loaded_module.splits intro: mgr_reach.authenticator)

lemma App_provisionAuthenticators_reach: "mgr_reach T m \<Longrightarrow> mgr_reach T (snd (App_provisionAuthenticators load raw m))"
  by (auto simp: App_provisionAuthenticators_def registerLoadedAuthenticators_reach split: sum.splits)

lemma registerLoadedAuthenticators_frame:
  "cm_store (snd (registerLoadedAuthenticators m loaded)) = cm_store m \<and> cm_db (snd (registerLoadedAuthenticators m loaded)) = cm_db m"
  by (induction m loaded rule: registerLoadedAuthenticators.induct)
    (auto simp: RegisterAuthenticator_def Let_def split: loaded_module.splits option.splits)

lemma App_provisionAuthenticators_frame:
  "cm_store (snd (App_provisionAuthenticators load raw m)) = cm_store m \<and> cm_db (snd (App_provisionAuthenticators load raw m)) = cm_db m"
  by (auto simp: App_provisionAuthenticators_def registerLoadedAuthenticators_frame split: sum.splits)

lemma provisionProviders_lookup:
  "provisionProviders mods acc = Inr ps \<Longrightarrow> distinct (map fst mods) \<Longrightarrow>
   map_of ps name = (case map_of mods name of Some (ProviderModule p) \<Rightarrow> Some p | _ \<Rightarrow> map_of acc name)"
proof (induction mods acc rule: provisionProviders.induct)
  case (2 name' md loaded acc)
  from 2(3) have "map_of loaded name' = None" by (simp add: map_of_eq_None_iff)
  with 2 show ?case by (cases md; cases "name = name'"; cases "map_of loaded name")
      (simp_all del: map_of_eq_Some_iff split: loaded_module.split)
qed simp

lemma provisionConfigStore_one:
  "provisionConfigStore load dflt raw = Inr storer \<Longrightarrow>
   \<exists>name. load (if raw = [] then [(''sqlite'', dflt)] else raw) = Inr (LoadedModules [(name, StoreModule storer)])"
  by (auto simp: provisionConfigStore_def unexpected_loaded_def split: sum.splits loaded.splits list.splits store_module.splits)

lemma App_Provision_routes:
  assumes "App_Provision marshal fs pe app = Inr st"
  shows "Route (as_agentGateway st) routeID =
    (if routeID = [] then None else map_option with_defaults (find (\<lambda>r. r_ID r = routeID) (rev (app_Routes app))))"
proof -
  obtain g where "as_agentGateway st = SetRoutes g (app_Routes app)"
    using assms by (auto simp: App_Provision_def split: sum.split_asm prod.split_asm option.split_asm)
  then show ?thesis by (simp add: set_routes_lookup)
qed

end
