(* ===== verification/Provision_Props.thy ===== *)
theory Provision_Props
  imports Gateway_Provision Manager_Props
begin

text \<open>
  What a provisioned app is made of.
\<close>

text \<open>C24: a provisioned app is wired up.  When \<open>Provision\<close> succeeds, the config store is the only module
  loaded for it (the SQLite store when none is configured); every loaded provider is found under its
  name and no other; the credential manager, after the authenticators are registered and the stored
  credentials loaded, is in a reachable state, so its scheduler is in step with its credentials, and it
  is the one of the gateway; the gateway holds the routes of the Caddyfile and a loader for the stored
  ones.  The stored identifiers have no surrounding space and the clock does not run backwards.\<close>

theorem provisioned_app:
  assumes prov: "App_Provision marshal fs pe app = Inr st"
    and clock: "\<And>i. TrimSpace (e_uuid (pe_envs pe i)) = e_uuid (pe_envs pe i)"
      "\<And>i. e_schedNow (pe_envs pe i) \<le> e_schedNow (pe_envs pe (Suc i))"
    and stored: "\<And>store db items c. pe_credentialStore pe (as_configStorer st) = Inr (store, db) \<Longrightarrow>
      cs_ListByProviderName store db [] = Inr items \<Longrightarrow> StoredCredential c \<in> set items \<Longrightarrow> TrimSpace (c_ID c) = c_ID c"
    and loaded: "app_ProvidersRaw app \<noteq> []" "pe_loadProviders pe (app_ProvidersRaw app) = Inr (LoadedModules mods)"
      "distinct (map fst mods)"
  shows "(\<exists>name. pe_loadStore pe (if app_ConfigStoreRaw app = [] then [(''sqlite'', pe_defaultStore pe)] else app_ConfigStoreRaw app) =
            Inr (LoadedModules [(name, StoreModule (as_configStorer st))])) \<and>
    App_Provider (as_providers st) name = (case map_of mods name of Some (ProviderModule p) \<Rightarrow> Some p | _ \<Rightarrow> None) \<and>
    (\<exists>T. mgr_reach T (as_cliauthManager st)) \<and>
    g_cliauthManager (as_agentGateway st) = Some (as_cliauthManager st) \<and>
    g_RouteLoader (as_agentGateway st) \<noteq> None \<and>
    Route (as_agentGateway st) routeID =
      (if routeID = [] then None else map_option with_defaults (find (\<lambda>r. r_ID r = routeID) (rev (app_Routes app))))"
proof -
  obtain storer store db ps m0 m loader resolver keys where
    s: "provisionConfigStore (pe_loadStore pe) (pe_defaultStore pe) (app_ConfigStoreRaw app) = Inr storer"
    and c: "pe_credentialStore pe storer = Inr (store, db)"
    and p: "App_provisionProviders (pe_loadProviders pe) (app_ProvidersRaw app) = Inr ps"
    and a: "App_provisionAuthenticators (pe_loadAuthenticators pe) (app_AuthenticatorsRaw app) (NewManager (Some store) db None) = (None, m0)"
    and l: "Load m0 [] (pe_envs pe) = (None, m)"
    and b: "buildGatewayDependencies marshal fs (Some storer) ps = Inr (loader, resolver, keys)"
    and st: "st = \<lparr>as_configStorer = storer, as_cliauthManager = m, as_providers = ps,
      as_agentGateway = SetRoutes (Configure NewAgentGateway loader resolver keys (Some m) None) (app_Routes app)\<rparr>"
    using prov by (auto simp: App_Provision_def split: sum.split_asm prod.split_asm option.split_asm)
  have fr: "cm_store m0 = Some store" "cm_db m0 = db"
    using App_provisionAuthenticators_frame [of "pe_loadAuthenticators pe" "app_AuthenticatorsRaw app" "NewManager (Some store) db None"] a
    by (simp_all add: NewManager_def Let_def)
  have "mgr_reach (e_schedNow (pe_envs pe 0)) m0"
    using App_provisionAuthenticators_reach [OF mgr_reach.init, of None "e_schedNow (pe_envs pe 0)" "pe_loadAuthenticators pe"
        "app_AuthenticatorsRaw app" "Some store" db] a by simp
  moreover obtain items where items: "cs_ListByProviderName store db [] = Inr items" "load_items m0 [] items (pe_envs pe) 0 = (None, m)"
    using l fr by (auto simp: Load_def split: sum.split_asm)
  ultimately have "\<exists>T. mgr_reach T m"
    using load_items_reach [where envs = "pe_envs pe" and T = "e_schedNow (pe_envs pe 0)" and m = m0 and n = 0 and items = items
        and ctx = "[]", OF clock] stored [of store db items] c st by simp
  moreover have "provisionProviders mods [] = Inr ps" using p loaded by (simp add: App_provisionProviders_def unexpected_loaded_def)
  then have "map_of ps name = (case map_of mods name of Some (ProviderModule p) \<Rightarrow> Some p | _ \<Rightarrow> None)"
    using provisionProviders_lookup [of mods "[]" ps name] loaded(3) by (auto split: option.split loaded_module.split)
  moreover note App_Provision_routes [OF prov, of routeID]
  moreover have "loader \<noteq> None" using b by (auto simp: buildGatewayDependencies_def Let_def split: sum.split_asm)
  ultimately show ?thesis
    using provisionConfigStore_one [OF s]
    by (simp add: st App_Provider_def) (simp add: SetRoutes_def Configure_def)
qed

text \<open>The SQLite store with one credential, one provider, one route.\<close>

definition w_provision :: "(string, w_db, string resolver_world) provision_env" where
  "w_provision =
     \<lparr>pe_loadStore = (\<lambda>raw. Inr (LoadedModules [(''sqlite'',
        StoreModule \<lparr>st_LocalAPIKeyStore = Inr (\<lambda>k w. Inl ''none''), st_ProviderConfigStore = True,
          st_RouteStore = Inr (\<lambda>i w. Inl ''record not found'')\<rparr>)])),
      pe_loadProviders = (\<lambda>raw. Inr (LoadedModules [(''openai'', ProviderModule ''OpenAI'')])),
      pe_loadAuthenticators = (\<lambda>raw. Inr (LoadedModules [])),
      pe_credentialStore = (\<lambda>cs. Inr (w_store False, [(''k1'', w_key)])),
      pe_defaultStore = ''{}'',
      pe_envs = (\<lambda>i. w_env (1000 + int i))\<rparr>"

definition w_declared_app :: gateway_app where
  "w_declared_app = new_app\<lparr>app_ProvidersRaw := [(''openai'', ''{}'')], app_Routes := [declared_route ''chat'']\<rparr>"

theorem provisioned_app_witness:
  "\<exists>st. App_Provision (\<lambda>c. Inl ''no'') [] w_provision w_declared_app = Inr st \<and>
     App_Provider (as_providers st) ''openai'' = Some ''OpenAI'' \<and> Route (as_agentGateway st) ''chat'' \<noteq> None"
proof -
  have "case App_Provision (\<lambda>c. Inl ''no'') [] w_provision w_declared_app of Inl err \<Rightarrow> False | Inr st \<Rightarrow> True" by code_simp
  then obtain st where st: "App_Provision (\<lambda>c. Inl ''no'') [] w_provision w_declared_app = Inr st" by (auto split: sum.splits)
  have t: "TrimSpace ''u-1'' = ''u-1''" "TrimSpace ''k1'' = ''k1''" by code_simp+
  have stored: "TrimSpace (c_ID c) = c_ID c"
    if "pe_credentialStore w_provision cs = Inr (store, db)" "cs_ListByProviderName store db [] = Inr items" "StoredCredential c \<in> set items"
    for cs store db items c
    using that t(2) by (auto simp: w_provision_def w_store_def w_key_def)
  have "App_Provider (as_providers st) ''openai'' = Some ''OpenAI''"
    "Route (as_agentGateway st) ''chat'' = map_option with_defaults (find (\<lambda>r. r_ID r = ''chat'') (rev (app_Routes w_declared_app)))"
    using provisioned_app [where mods = "[(''openai'', ProviderModule ''OpenAI'')]" and name = "''openai''" and routeID = "''chat''",
        OF st _ _ stored] t(1)
    by (simp_all add: w_provision_def w_declared_app_def w_env_def)
  then show ?thesis using st by (auto simp: w_declared_app_def new_app_def declared_route_def zero_route_def)
qed

end
