(* ===== verification/Handler_Setup.thy ===== *)
theory Handler_Setup
  imports Provision_Props Caddyfile_Props Llm_Handler Admin_Server
begin

text \<open>
  How the HTTP handlers get their settings: the setup half of api/llmapi/openai/handler.go,
  api/llmapi/anthropic/handler.go and admin/module.go, and what the directive \<open>handle_llm_api\<close> makes of
  them once the app is provisioned.
\<close>

record 'g llm_handler =
  lh_RouteID :: string
  lh_gateway :: "'g option"

definition new_llm_handler :: "'g llm_handler" where
  "new_llm_handler = \<lparr>lh_RouteID = [], lh_gateway = None\<rparr>"

definition SetRouteID :: "string \<Rightarrow> 'g llm_handler \<Rightarrow> 'g llm_handler" where
  "SetRouteID routeID h = h\<lparr>lh_RouteID := routeID\<rparr>"

definition SetAgentGateway :: "'g \<Rightarrow> 'g llm_handler \<Rightarrow> 'g llm_handler" where
  "SetAgentGateway gw h = h\<lparr>lh_gateway := Some gw\<rparr>"

type_synonym ('p, 'st, 'w) handler = "('p, 'st, 'w) agent_gateway llm_handler"

definition openai_handler_Provision ::
    "(string \<Rightarrow> string + ('p, 'st, 'w) app_state option) \<Rightarrow> ('p, 'st, 'w) handler \<Rightarrow> string + ('p, 'st, 'w) handler" where
  "openai_handler_Provision ctxApp h =
     (case GetApp ctxApp of
        Inl err \<Rightarrow> Inl (''openai llm api: get agent_gateway app: '' @ err)
      | Inr app \<Rightarrow> Inr (h\<lparr>lh_gateway := Some (as_agentGateway app)\<rparr>))"

definition anthropic_handler_Provision ::
    "(string \<Rightarrow> string + ('p, 'st, 'w) app_state option) \<Rightarrow> ('p, 'st, 'w) handler \<Rightarrow> string + ('p, 'st, 'w) handler" where
  "anthropic_handler_Provision ctxApp h =
     (case GetApp ctxApp of
        Inl err \<Rightarrow> Inl (''anthropic llm api: get agent_gateway app: '' @ err)
      | Inr app \<Rightarrow> Inr (h\<lparr>lh_gateway := Some (as_agentGateway app)\<rparr>))"

text \<open>\<open>storeOf\<close> is the config store of the app as the admin API sees it, with its database.\<close>

definition admin_Provision ::
    "(string \<Rightarrow> string + ('p, 'st, 'w) app_state option) \<Rightarrow> ('w config_store \<Rightarrow> admin_config_store \<times> 'db) \<Rightarrow> logger \<Rightarrow> admin_module \<Rightarrow>
     string + ('db, 'st) admin_state" where
  "admin_Provision ctxApp storeOf logger h =
     (case GetApp ctxApp of
        Inl err \<Rightarrow> Inl (''agent_gateway_admin: get agent_gateway app: '' @ err)
      | Inr app \<Rightarrow>
          (case storeOf (as_configStorer app) of
             (store, db) \<Rightarrow>
               Inr (admin_NewHandler (Some (as_cliauthManager app)) (Some store) db logger (am_AdminUsername h)
                      (am_AdminPasswordHash h))))"

text \<open>The two chat handlers in Caddy's registry of modules.\<close>

definition handler_modules :: "string \<Rightarrow> string + ('p, 'st, 'w) handler http_module" where
  "handler_modules moduleID =
     (if moduleID = ''http.handlers.openai'' \<or> moduleID = ''http.handlers.anthropic''
      then Inr \<lparr>hm_New = new_llm_handler, hm_SetRouteID = Some SetRouteID, hm_isHandler = True\<rparr>
      else Inl (''module not registered: '' @ moduleID))"

subsection \<open>The directive\<close>

definition route_id_line :: "string \<Rightarrow> string list \<Rightarrow> string \<Rightarrow> (string \<times> nat) option" where
  "route_id_line k us routeID =
     (if k = ''route_id'' then (case us of [x] \<Rightarrow> Some (unquote x, 1) | _ \<Rightarrow> None) else None)"

context dispenser_sees
begin

lemma route_id_reads: "reads sees (route_id_subdirective ds) route_id_line"
  unfolding reads_def
proof (intro allI impI)
  fix d k us ls a
  assume s: "sees d (Inside k us ls)"
  obtain d' where "dp_RemainingArgsRaw ds d = (us, d')" "sees d' (Inside (last (k # us)) [] ls)"
    using RemainingArgsRaw_Inside [OF s] by blast
  moreover have "dp_Val ds d = k" by (rule Val_Inside [OF s])
  ultimately show "case route_id_line k us a of None \<Rightarrow> accepted (fst (route_id_subdirective ds d a)) = None
    | Some (a', n) \<Rightarrow> \<exists>d' t. route_id_subdirective ds d a = (Inr a', d') \<and> sees d' (Inside t (drop n us) ls)"
    by (cases us rule: list.exhaust [case_product list.exhaust [of "tl us"]])
      (auto simp: route_id_line_def route_id_subdirective_def)
qed

lemma parseHandleLLMAPI_reads:
  assumes "sees d (Before [dir, api] ls)" and "read_lines route_id_line [] ls = Some routeID"
  shows "\<exists>d'. parseHandleLLMAPI ds getModule d = Some (handler_for getModule (dp_Err ds d') (unquote api) routeID)"
proof -
  obtain d1 where d1: "dp_Next ds d = (True, d1)" "sees d1 (Head dir [api] ls)" using Next_Before [OF assms(1)] by blast
  obtain d2 where d2: "dp_NextArg ds d1 = (True, d2)" "sees d2 (Head api [] ls)" using NextArg_Head [OF d1(2)] by blast
  obtain d3 where d3: "dp_NextArg ds d2 = (False, d3)" "sees d3 (Head api [] ls)" using NextArg_Head_end [OF d2(2)] by blast
  obtain r d4 where r: "block_loop ds (route_id_subdirective ds) d3 [] = Some (r, d4)" "accepted r = Some routeID"
    using block_loop_reads [OF route_id_reads d3(2), of "[]"] assms(2) by auto
  then have "r = Inr routeID" by (cases r) auto
  then show ?thesis using d1 d2 d3 r Val_Head [OF d2(2)] by (auto simp: parseHandleLLMAPI_def Let_def)
qed

end

text \<open>C25: the Caddyfile configures the chat handlers.  The directive \<open>handle_llm_api\<close> with the name of a
  protocol and a route identifier makes a handler of this protocol for this route; when the app is
  provisioned from a block that declares the route, the gateway of the handler is that of the app and
  knows the route as it is declared, with its defaults.\<close>

theorem directive_configures_handler:
  fixes pe :: "('p, 'st, 'p resolver_world) provision_env"
  assumes "dispenser_sees ds sees" and "sees d (Before [dir, api] [[''route_id'', routeID]])"
    and "api \<in> {''openai'', ''anthropic''}" and "unquote routeID = routeID" "routeID \<noteq> []"
    and prov: "App_Provision marshal fs pe app = Inr st"
    and r: "r \<in> set (app_Routes app)" "r_ID r = routeID" "distinct (map r_ID (app_Routes app))"
  shows "\<exists>h h' g. parseHandleLLMAPI ds handler_modules d = Some (Inr h) \<and>
    (if api = ''openai'' then openai_handler_Provision else anthropic_handler_Provision) (\<lambda>name. Inr (Some st)) h = Inr h' \<and>
    lh_RouteID h' = routeID \<and> lh_gateway h' = Some g \<and> g = as_agentGateway st \<and> Route g routeID = Some (with_defaults r)"
proof -
  have q: "unquote api = api" using assms(3) by (auto simp: unquote_def Trim_def)
  have lines: "read_lines route_id_line [] [[''route_id'', routeID]] = Some routeID" using assms(4) by (simp add: route_id_line_def)
  let ?modules = "handler_modules :: string \<Rightarrow> string + ('p, 'st, 'p resolver_world) handler http_module"
  obtain d' where "parseHandleLLMAPI ds ?modules d = Some (handler_for ?modules (dp_Err ds d') (unquote api) routeID)"
    using dispenser_sees.parseHandleLLMAPI_reads [OF assms(1), OF assms(2), of routeID ?modules] lines by blast
  then have h: "parseHandleLLMAPI ds ?modules d = Some (Inr (SetRouteID routeID new_llm_handler))"
    using assms(3,5) q by (auto simp: handler_for_def handler_modules_def)
  have "find (\<lambda>q. r_ID q = r_ID r) (rev (app_Routes app)) = Some r"
    using find_distinct [of r_ID "rev (app_Routes app)" r] r by (simp add: rev_map [symmetric])
  then have "Route (as_agentGateway st) routeID = Some (with_defaults r)"
    using App_Provision_routes [OF prov, of routeID] r(2) assms(5) by simp
  then show ?thesis using h
    by (auto simp: openai_handler_Provision_def anthropic_handler_Provision_def GetApp_def SetRouteID_def new_llm_handler_def)
qed

theorem directive_configures_handler_witness:
  "\<exists>st h h' g. App_Provision (\<lambda>c. Inl ''no'') [] w_provision w_declared_app = Inr st \<and>
     parseHandleLLMAPI tokens handler_modules (w_segment [''handle_llm_api'', ''openai''] [[''route_id'', ''chat'']]) = Some (Inr h) \<and>
     openai_handler_Provision (\<lambda>name. Inr (Some st)) h = Inr h' \<and> lh_RouteID h' = ''chat'' \<and> lh_gateway h' = Some g \<and>
     Route g ''chat'' = Some (with_defaults (declared_route ''chat''))"
proof -
  have "case App_Provision (\<lambda>c. Inl ''no'') [] w_provision w_declared_app of Inl err \<Rightarrow> False | Inr st \<Rightarrow> True" by code_simp
  then obtain st where st: "App_Provision (\<lambda>c. Inl ''no'') [] w_provision w_declared_app = Inr st" by (auto split: sum.splits)
  have s: "tok_sees (w_segment [''handle_llm_api'', ''openai''] [[''route_id'', ''chat'']])
      (Before [''handle_llm_api'', ''openai''] [[''route_id'', ''chat'']])"
    by (rule w_segment_sees) (simp_all add: plain_token_def)
  have u: "unquote ''chat'' = ''chat''" by code_simp
  have r: "declared_route ''chat'' \<in> set (app_Routes w_declared_app)" "r_ID (declared_route ''chat'') = ''chat''"
    "distinct (map r_ID (app_Routes w_declared_app))"
    by (simp_all add: w_declared_app_def new_app_def declared_route_def zero_route_def)
  have "''openai'' \<in> {''openai'', ''anthropic''}" "''chat'' \<noteq> []" by simp_all
  note H = directive_configures_handler [where ds = tokens and sees = tok_sees and dir = "''handle_llm_api''" and api = "''openai''"
      and routeID = "''chat''" and d = "w_segment [''handle_llm_api'', ''openai''] [[''route_id'', ''chat'']]",
      OF tok_shows.dispenser_sees_axioms s this(1) u this(2) st r]
  then show ?thesis using st by auto
qed

end
