(* ===== verification/Sqlite_Setup.thy ===== *)
theory Sqlite_Setup
  imports Json_Store Go_Encoding
begin

text \<open>
  How the config store comes by its database: \<open>Provision\<close> of configstore/sqlite/configstore.go, with what it
  uses of path/filepath.  The file system and \<open>gorm.Open\<close> are operations of a world.
\<close>

subsection \<open>Paths\<close>

text \<open>\<open>filepath.Clean\<close> on the elements of a path; \<open>kept\<close> is what has been kept, the last element first.\<close>

fun clean_elements :: "bool \<Rightarrow> string list \<Rightarrow> string list \<Rightarrow> string list" where
  "clean_elements rooted kept [] = rev kept"
| "clean_elements rooted kept (e # es) =
     (if e = [] \<or> e = ''.'' then clean_elements rooted kept es
      else if e = ''..'' then
        (if kept \<noteq> [] \<and> hd kept \<noteq> ''..'' then clean_elements rooted (tl kept) es
         else if rooted then clean_elements rooted kept es
         else clean_elements rooted (e # kept) es)
      else clean_elements rooted (e # kept) es)"

definition path_Clean :: "string \<Rightarrow> string" where
  "path_Clean p =
     (let rooted = HasPrefix p ''/''; es = clean_elements rooted [] (Split (CHR ''/'') p)
      in if rooted then ''/'' @ joined ''/'' es
         else if es = [] then ''.''
         else joined ''/'' es)"

definition path_Join :: "string list \<Rightarrow> string" where
  "path_Join es =
     (let es = dropWhile (\<lambda>e. e = []) es
      in if es = [] then [] else path_Clean (joined ''/'' es))"

text \<open>\<open>filepath.Dir\<close> cleans the path up to its last separator.\<close>

definition path_Dir :: "string \<Rightarrow> string" where
  "path_Dir p = path_Clean (rev (dropWhile (\<lambda>c. c \<noteq> CHR ''/'') (rev p)))"

subsection \<open>Opening the database\<close>

record ('w, 'db) file_world =
  fw_AppDataDir :: string
  fw_IsNotExist :: "string \<Rightarrow> 'w \<Rightarrow> bool"
  fw_MkdirAll :: "string \<Rightarrow> 'w \<Rightarrow> string option \<times> 'w"
  fw_Create :: "string \<Rightarrow> 'w \<Rightarrow> string option \<times> 'w"
  fw_gormOpen :: "string \<Rightarrow> 'w \<Rightarrow> (string + 'db) \<times> 'w"

definition sqlite_dsn :: "string \<Rightarrow> string" where
  "sqlite_dsn path =
     path @ ''?_journal_mode=WAL&_synchronous=NORMAL&_cache_size=10000&_busy_timeout=60000&_wal_autocheckpoint=1000&_foreign_keys=1''"

definition ensure_file :: "('w, 'db) file_world \<Rightarrow> string \<Rightarrow> 'w \<Rightarrow> string option \<times> 'w" where
  "ensure_file fw path w =
     (if \<not> fw_IsNotExist fw path w then (None, w)
      else (case fw_MkdirAll fw (path_Dir path) w of
              (Some err, w) \<Rightarrow> (Some err, w)
            | (None, w) \<Rightarrow> fw_Create fw path w))"

text \<open>The result is the path that is kept in \<open>SQLitePath\<close>, with the error or the store and its database.\<close>

definition sqlite_Provision ::
    "('w, 'db) file_world \<Rightarrow> string \<Rightarrow> 'w \<Rightarrow>
     (string \<times> (string + ('c, 'p, 'k, 'r) sqlite_config_store \<times> 'db)) \<times> 'w" where
  "sqlite_Provision fw sqlitePath w =
     (let path = (if sqlitePath = [] then path_Join [fw_AppDataDir fw, ''caddy-agent-gateway'', ''configstore.db'']
                  else sqlitePath)
      in (case ensure_file fw path w of
            (Some err, w) \<Rightarrow> ((path, Inl err), w)
          | (None, w) \<Rightarrow>
              (case fw_gormOpen fw (sqlite_dsn path) w of
                 (Inl err, w) \<Rightarrow> ((path, Inl err), w)
               | (Inr db, w) \<Rightarrow>
                   ((path, Inr (\<lparr>sc_credentialStore = None, sc_providerStore = None,
                                 sc_localAPIKeyStore = None, sc_routeStore = None\<rparr>, db)), w))))"

subsection \<open>The default path\<close>

definition plain_element :: "string \<Rightarrow> bool" where
  "plain_element e \<longleftrightarrow> e \<noteq> [] \<and> e \<noteq> ''.'' \<and> e \<noteq> ''..'' \<and> CHR ''/'' \<notin> set e"

lemma clean_plain: "list_all plain_element es \<Longrightarrow> clean_elements rooted kept es = rev kept @ es"
  by (induction es arbitrary: kept) (auto simp: plain_element_def)

lemma path_Clean_plain:
  assumes "list_all plain_element es" and "es \<noteq> []"
  shows "path_Clean (''/'' @ joined ''/'' es) = ''/'' @ joined ''/'' es"
    "path_Clean (''/'' @ joined ''/'' es @ ''/'') = ''/'' @ joined ''/'' es"
proof -
  have s: "Split (CHR ''/'') (joined ''/'' es) = es" "Split (CHR ''/'') (joined ''/'' es @ ''/'') = es @ [[]]"
  proof -
    have "\<forall>e\<in>set es. CHR ''/'' \<notin> set e" using assms(1) by (auto simp: list_all_iff plain_element_def)
    moreover have "joined ''/'' (es @ [[]]) = joined ''/'' es @ ''/''"
      using assms(2) by (induction es rule: induct_list012) auto
    ultimately show "Split (CHR ''/'') (joined ''/'' es) = es" "Split (CHR ''/'') (joined ''/'' es @ ''/'') = es @ [[]]"
      using Split_joined [of es "CHR ''/''"] Split_joined [of "es @ [[]]" "CHR ''/''"] assms(2) by auto
  qed
  have "clean_elements True [] (es @ [[]]) = es"
  proof -
    have "clean_elements True kept (es @ [[]]) = rev kept @ es" for kept
      using assms(1) by (induction es arbitrary: kept) (auto simp: plain_element_def)
    then show ?thesis by simp
  qed
  with s clean_plain [OF assms(1), of True "[]"]
  show "path_Clean (''/'' @ joined ''/'' es) = ''/'' @ joined ''/'' es"
    "path_Clean (''/'' @ joined ''/'' es @ ''/'') = ''/'' @ joined ''/'' es"
    by (simp_all add: path_Clean_def HasPrefix_def Let_def)
qed

lemma joined_append: "ds \<noteq> [] \<Longrightarrow> es \<noteq> [] \<Longrightarrow> joined sep ds @ sep @ joined sep es = joined sep (ds @ es)"
proof (induction ds rule: induct_list012)
  case (2 d)
  then show ?case by (cases es) auto
qed auto

lemma path_Dir_append: "CHR ''/'' \<notin> set f \<Longrightarrow> path_Dir (d @ ''/'' @ f) = path_Clean (d @ ''/'')"
  by (simp add: path_Dir_def dropWhile_append)

text \<open>Without a configured path a new database is the file configstore.db in the directory of the gateway
  below the data directory, and this directory is made before the file; a file that is there is opened
  as it is.\<close>

theorem default_database:
  assumes "fw_AppDataDir fw = ''/'' @ joined ''/'' ds" and "list_all plain_element ds" "ds \<noteq> []"
    and "dir = fw_AppDataDir fw @ ''/caddy-agent-gateway''" and "path = dir @ ''/configstore.db''"
  shows "sqlite_Provision fw [] w =
    (case (if fw_IsNotExist fw path w
           then case fw_MkdirAll fw dir w of (Some err, w) \<Rightarrow> (Some err, w) | (None, w) \<Rightarrow> fw_Create fw path w
           else (None, w)) of
       (Some err, w) \<Rightarrow> ((path, Inl err), w)
     | (None, w) \<Rightarrow>
         (case fw_gormOpen fw (sqlite_dsn path) w of
            (Inl err, w) \<Rightarrow> ((path, Inl err), w)
          | (Inr db, w) \<Rightarrow>
              ((path, Inr (\<lparr>sc_credentialStore = None, sc_providerStore = None,
                            sc_localAPIKeyStore = None, sc_routeStore = None\<rparr>, db)), w)))"
proof -
  let ?es = "ds @ [''caddy-agent-gateway'']"
  have e: "list_all plain_element ?es" "list_all plain_element (?es @ [''configstore.db''])"
    using assms(2) by (simp_all add: plain_element_def)
  have dir: "dir = ''/'' @ joined ''/'' ?es"
    using joined_append [of ds "[''caddy-agent-gateway'']" "''/''"] assms(1,3,4) by simp
  have path: "path = ''/'' @ joined ''/'' (?es @ [''configstore.db''])"
    using joined_append [of ?es "[''configstore.db'']" "''/''"] assms(5) dir by simp
  have "path_Join [fw_AppDataDir fw, ''caddy-agent-gateway'', ''configstore.db''] = path_Clean path"
    using assms(1,4,5) by (simp add: path_Join_def)
  also have "\<dots> = path" using path_Clean_plain(1) [OF e(2)] path by simp
  finally have j: "path_Join [fw_AppDataDir fw, ''caddy-agent-gateway'', ''configstore.db''] = path" .
  have "path_Dir path = path_Clean (dir @ ''/'')"
    using path_Dir_append [of "''configstore.db''" dir] assms(5) by simp
  also have "\<dots> = dir" using path_Clean_plain(2) [OF e(1)] dir by simp
  finally show ?thesis using j by (simp add: sqlite_Provision_def ensure_file_def Let_def)
qed

end
