(* ===== verification/Orchestrator.thy ===== *)
theory Orchestrator
  imports Llm_Api
begin

text \<open>
  Package llm/agent, file orchestrator.go: the loop that calls a provider until an answer asks for no
  tool.  The provider is a parameter: a call takes and returns the state \<open>'w\<close> of the world.  The memory
  is not used by the code yet, and no tool is run between two calls.  The default the code also writes
  into the settings of the caller is left out.
\<close>

record agent_config =
  ac_MaxIterations :: int
  ac_Timeout :: duration

record ('msg, 'tool) agent_request =
  ar_SessionID :: string
  ar_AgentID :: string
  ar_Messages :: "'msg list"
  ar_Tools :: "'tool list"
  ar_Config :: "agent_config option"
  ar_EnableMCP :: bool
  ar_EnableMemory :: bool
  ar_AutoToolCall :: bool

record 'msg agent_response =
  as_SessionID :: string
  as_Messages :: "'msg list"
  as_Usage :: usage

text \<open>The option \<open>einomodel.WithTools\<close>.\<close>

datatype 'tool agent_option = WithTools "'tool list"

type_synonym ('msg, 'tool, 'w) agent_provider =
  "('msg, 'tool agent_option) generate_request \<Rightarrow> 'w \<Rightarrow> (provider_error + eino_message option) \<times> 'w"

definition agent_settings :: "('msg, 'tool) agent_request \<Rightarrow> agent_config" where
  "agent_settings req =
     (let cfg = (case ar_Config req of None \<Rightarrow> \<lparr>ac_MaxIterations = 10, ac_Timeout = 5 * minute\<rparr> | Some cfg \<Rightarrow> cfg)
      in if ac_MaxIterations cfg = 0 then cfg\<lparr>ac_MaxIterations := 10\<rparr> else cfg)"

definition agent_genReq :: "('msg, 'tool) agent_request \<Rightarrow> ('msg, 'tool agent_option) generate_request" where
  "agent_genReq req =
     \<lparr>gq_Model = [], gq_Messages = ar_Messages req,
      gq_Options = (if ar_Tools req \<noteq> [] then [WithTools (ar_Tools req)] else [])\<rparr>"

definition add_usage :: "usage \<Rightarrow> usage \<Rightarrow> usage" where
  "add_usage t u =
     \<lparr>us_InputTokens = wrap64 (us_InputTokens t + us_InputTokens u),
      us_OutputTokens = wrap64 (us_OutputTokens t + us_OutputTokens u)\<rparr>"

definition hasToolUse :: "eino_message option \<Rightarrow> bool" where
  "hasToolUse msg = (case msg of None \<Rightarrow> False | Some m \<Rightarrow> mg_ToolCalls m \<noteq> [])"

text \<open>The loop with \<open>n\<close> iterations left; \<open>None\<close> stands for the end of the loop without an answer.\<close>

fun agent_loop ::
    "('msg, 'tool, 'w) agent_provider \<Rightarrow> ('msg, 'tool) agent_request \<Rightarrow> nat \<Rightarrow> usage \<Rightarrow> 'w \<Rightarrow>
     (provider_error + 'msg agent_response) option \<times> 'w" where
  "agent_loop generate req 0 totalUsage w = (None, w)"
| "agent_loop generate req (Suc n) totalUsage w =
     (case generate (agent_genReq req) w of
        (Inl err, w) \<Rightarrow> (Some (Inl (WrappedError ''agent: generate: '' err)), w)
      | (Inr resp, w) \<Rightarrow>
          (let totalUsage = add_usage totalUsage (UsageFromMessage resp)
           in if \<not> hasToolUse resp \<or> \<not> ar_AutoToolCall req then
                (Some (Inr \<lparr>as_SessionID = ar_SessionID req, as_Messages = ar_Messages req, as_Usage = totalUsage\<rparr>), w)
              else agent_loop generate req n totalUsage w))"

definition agent_Process ::
    "('msg, 'tool, 'w) agent_provider \<Rightarrow> ('msg, 'tool) agent_request \<Rightarrow> 'w \<Rightarrow>
     (provider_error + 'msg agent_response) \<times> 'w" where
  "agent_Process generate req w =
     (let cfg = agent_settings req
      in (case agent_loop generate req (nat (ac_MaxIterations cfg)) \<lparr>us_InputTokens = 0, us_OutputTokens = 0\<rparr> w of
            (Some r, w) \<Rightarrow> (r, w)
          | (None, w) \<Rightarrow> (Inl (PlainError (''agent: exceeded max iterations ('' @ Itoa (ac_MaxIterations cfg) @ '')'')), w)))"

subsection \<open>The calls\<close>

text \<open>\<open>n\<close> calls with the same request, one after the other: their answers and the world after them.\<close>

fun agent_calls :: "('msg, 'tool, 'w) agent_provider \<Rightarrow> ('msg, 'tool) agent_request \<Rightarrow> nat \<Rightarrow> 'w \<Rightarrow>
    (provider_error + eino_message option) list \<times> 'w" where
  "agent_calls generate req 0 w = ([], w)"
| "agent_calls generate req (Suc n) w =
     (case generate (agent_genReq req) w of
        (a, w) \<Rightarrow> (case agent_calls generate req n w of (as, w) \<Rightarrow> (a # as, w)))"

text \<open>An answer after which the loop goes on.\<close>

definition goes_on :: "('msg, 'tool) agent_request \<Rightarrow> provider_error + eino_message option \<Rightarrow> bool" where
  "goes_on req a = (case a of Inl err \<Rightarrow> False | Inr resp \<Rightarrow> hasToolUse resp \<and> ar_AutoToolCall req)"

definition total_usage :: "usage \<Rightarrow> (provider_error + eino_message option) list \<Rightarrow> usage" where
  "total_usage u as = foldl (\<lambda>u a. case a of Inl err \<Rightarrow> u | Inr resp \<Rightarrow> add_usage u (UsageFromMessage resp)) u as"

definition agent_outcome ::
    "('msg, 'tool) agent_request \<Rightarrow> nat \<Rightarrow> usage \<Rightarrow> (provider_error + eino_message option) list \<Rightarrow>
     (provider_error + 'msg agent_response) option \<Rightarrow> bool" where
  "agent_outcome req limit u as r \<longleftrightarrow>
     list_all (goes_on req) (butlast as) \<and> length as \<le> limit \<and>
     (case r of
        None \<Rightarrow> length as = limit \<and> list_all (goes_on req) as
      | Some (Inl err) \<Rightarrow> as \<noteq> [] \<and> (\<exists>e. last as = Inl e \<and> err = WrappedError ''agent: generate: '' e)
      | Some (Inr resp) \<Rightarrow>
          as \<noteq> [] \<and> (\<exists>msg. last as = Inr msg) \<and> \<not> goes_on req (last as) \<and>
          resp = \<lparr>as_SessionID = ar_SessionID req, as_Messages = ar_Messages req, as_Usage = total_usage u as\<rparr>)"

lemma agent_outcome_goes_on:
  assumes "goes_on req a" "a = Inr msg" "agent_outcome req limit (add_usage u (UsageFromMessage msg)) as r"
  shows "agent_outcome req (Suc limit) u (a # as) r"
  using assms by (cases r) (auto simp: agent_outcome_def total_usage_def split: sum.splits)

lemma agent_loop_outcome:
  "\<exists>n as. agent_calls generate req n w = (as, snd (agent_loop generate req limit u w)) \<and>
     agent_outcome req limit u as (fst (agent_loop generate req limit u w))"
proof (induction limit arbitrary: u w)
  case 0
  show ?case by (rule exI [of _ 0]) (simp add: agent_outcome_def)
next
  case (Suc limit)
  obtain a w1 where g: "generate (agent_genReq req) w = (a, w1)" by (rule prod.exhaust)
  show ?case
  proof (cases "goes_on req a")
    case True
    then obtain msg where a: "a = Inr msg" by (auto simp: goes_on_def split: sum.splits)
    obtain n as where n: "agent_calls generate req n w1 =
        (as, snd (agent_loop generate req limit (add_usage u (UsageFromMessage msg)) w1))"
      "agent_outcome req limit (add_usage u (UsageFromMessage msg)) as
         (fst (agent_loop generate req limit (add_usage u (UsageFromMessage msg)) w1))"
      using Suc [where u = "add_usage u (UsageFromMessage msg)" and w = w1] by blast
    show ?thesis
      using g n agent_outcome_goes_on [OF True a n(2)] True a
      by (intro exI [of _ "Suc n"] exI [of _ "a # as"]) (simp add: goes_on_def Let_def)
  next
    case False
    then show ?thesis using g
      by (intro exI [of _ 1] exI [of _ "[a]"]) (auto simp: goes_on_def agent_outcome_def total_usage_def Let_def split: sum.splits)
  qed
qed

text \<open>C28: what one request to the agent does.  It calls the provider at most as often as its settings
  allow, always with the same messages; all answers but the last ask for a tool.  It succeeds exactly
  with an answer that ends the loop; the response then carries the sum of the usages, and the messages
  of the request, without any answer of the model.  Otherwise the error is that of the last call, or
  all calls allowed were made and each asked for a tool.\<close>

theorem agent_process_calls:
  "\<exists>n as. agent_calls generate req n w = (as, snd (agent_Process generate req w)) \<and>
     list_all (goes_on req) (butlast as) \<and> length as \<le> nat (ac_MaxIterations (agent_settings req)) \<and>
     (case fst (agent_Process generate req w) of
        Inr resp \<Rightarrow>
          as \<noteq> [] \<and> (\<exists>msg. last as = Inr msg) \<and> \<not> goes_on req (last as) \<and> as_Messages resp = ar_Messages req \<and>
          as_SessionID resp = ar_SessionID req \<and> as_Usage resp = total_usage \<lparr>us_InputTokens = 0, us_OutputTokens = 0\<rparr> as
      | Inl err \<Rightarrow>
          as \<noteq> [] \<and> (\<exists>e. last as = Inl e \<and> err = WrappedError ''agent: generate: '' e) \<or>
          length as = nat (ac_MaxIterations (agent_settings req)) \<and> list_all (goes_on req) as \<and>
          err = PlainError (''agent: exceeded max iterations ('' @ Itoa (ac_MaxIterations (agent_settings req)) @ '')''))"
proof -
  let ?u = "\<lparr>us_InputTokens = 0, us_OutputTokens = 0\<rparr>" and ?limit = "nat (ac_MaxIterations (agent_settings req))"
  obtain n as where c: "agent_calls generate req n w = (as, snd (agent_loop generate req ?limit ?u w))"
    and o: "agent_outcome req ?limit ?u as (fst (agent_loop generate req ?limit ?u w))"
    using agent_loop_outcome [of generate req w ?limit ?u] by (elim exE conjE)
  obtain r w' where l: "agent_loop generate req ?limit ?u w = (r, w')" by (rule prod.exhaust)
  consider "r = None" | err where "r = Some (Inl err)" | resp where "r = Some (Inr resp)" by (metis option.exhaust sum.exhaust)
  then show ?thesis
    by cases (intro exI [of _ n] exI [of _ as]; use c o l in \<open>simp add: agent_Process_def agent_outcome_def Let_def\<close>)+
qed

end
