(* ===== verification/Mcp_Transport.thy ===== *)
theory Mcp_Transport
  imports Go_Prelude
begin

text \<open>
  Package llm/mcp: the transports of transport/sse.go and transport/stdio.go and the registry of
  manager.go.  A message is a value of \<open>'msg\<close>; encoding/json, the HTTP client and os/exec are parameters.
  What a reader goroutine sends to the channel is a list; the bytes written to a process are a string.
  A transport is connected once.
\<close>

subsection \<open>Lines\<close>

text \<open>\<open>bufio.Scanner\<close> with \<open>ScanLines\<close> and its default buffer: the lines of a text without their ends (a line
  feed, with a carriage return before it); a last line needs no end.  The scanner gives up at a line that
  fills the buffer.\<close>

definition MaxScanTokenSize :: nat where "MaxScanTokenSize = 65536"

definition drop_cr :: "string \<Rightarrow> string" where
  "drop_cr s = (if s \<noteq> [] \<and> last s = CHR 0x0D then butlast s else s)"

fun scan_lines :: "string \<Rightarrow> string \<Rightarrow> string list" where
  "scan_lines line [] = (if line = [] \<or> MaxScanTokenSize \<le> length line then [] else [drop_cr line])"
| "scan_lines line (c # s) =
     (if c = CHR 0x0A then if MaxScanTokenSize \<le> length line then [] else drop_cr line # scan_lines [] s
      else scan_lines (line @ [c]) s)"

definition ScanLines :: "string \<Rightarrow> string list" where
  "ScanLines s = scan_lines [] s"

lemma scan_lines_line:
  "CHR 0x0A \<notin> set l \<Longrightarrow>
   scan_lines line (l @ CHR 0x0A # s) =
     (if MaxScanTokenSize \<le> length line + length l then [] else drop_cr (line @ l) # scan_lines [] s)"
  by (induction l arbitrary: line) auto

text \<open>What a scanner can return as one line.\<close>

definition one_line :: "string \<Rightarrow> bool" where
  "one_line l \<longleftrightarrow> CHR 0x0A \<notin> set l \<and> CHR 0x0D \<notin> set l \<and> length l < MaxScanTokenSize"

lemma ScanLines_line: "one_line l \<Longrightarrow> ScanLines (l @ CHR 0x0A # s) = l # ScanLines s"
  using scan_lines_line [of l "[]" s] by (auto simp: ScanLines_def drop_cr_def one_line_def dest: last_in_set)

lemma one_line_Nil: "one_line []"
  by (simp add: one_line_def MaxScanTokenSize_def)

subsection \<open>Server-sent events\<close>

record 'msg sse_transport =
  se_url :: string
  se_out :: "'msg list"

definition NewSSETransport :: "string \<Rightarrow> 'msg sse_transport" where
  "NewSSETransport url = \<lparr>se_url = url, se_out = []\<rparr>"

text \<open>\<open>readLoop\<close> with the data collected so far.\<close>

fun sse_readLoop :: "(string \<Rightarrow> string + 'msg) \<Rightarrow> string \<Rightarrow> string list \<Rightarrow> 'msg list" where
  "sse_readLoop unmarshal data [] = []"
| "sse_readLoop unmarshal data (line # lines) =
     (if HasPrefix line ''data: '' then sse_readLoop unmarshal (data @ TrimPrefix line ''data: '') lines
      else if line = [] \<and> data \<noteq> [] then
        (case unmarshal data of Inr msg \<Rightarrow> [msg] | Inl err \<Rightarrow> []) @ sse_readLoop unmarshal [] lines
      else sse_readLoop unmarshal data lines)"

text \<open>\<open>newRequest\<close> is the error of building the request, \<open>httpDo\<close> the GET request with \<open>Accept: text/event-stream\<close>:
  an error, or the status with the body.\<close>

definition sse_Connect ::
    "(string \<Rightarrow> string option) \<Rightarrow> (string \<Rightarrow> string + int \<times> string) \<Rightarrow> (string \<Rightarrow> string + 'msg) \<Rightarrow> 'msg sse_transport \<Rightarrow>
     string option \<times> 'msg sse_transport" where
  "sse_Connect newRequest httpDo unmarshal t =
     (case newRequest (se_url t) of
        Some err \<Rightarrow> (Some (''sse: create request: '' @ err), t)
      | None \<Rightarrow>
          (case httpDo (se_url t) of
             Inl err \<Rightarrow> (Some (''sse: connect: '' @ err), t)
           | Inr (status, body) \<Rightarrow>
               if status \<noteq> 200 then (Some (''sse: unexpected status '' @ Itoa status), t)
               else (None, t\<lparr>se_out := se_out t @ sse_readLoop unmarshal [] (ScanLines body)\<rparr>)))"

definition sse_Close :: "'msg sse_transport \<Rightarrow> string option" where
  "sse_Close t = None"

definition sse_Send :: "'msg sse_transport \<Rightarrow> 'msg \<Rightarrow> string option" where
  "sse_Send t msg = Some ''sse: Send not implemented''"

definition sse_Receive :: "'msg sse_transport \<Rightarrow> 'msg list" where
  "sse_Receive t = se_out t"

subsection \<open>Standard input and output\<close>

record 'msg stdio_transport =
  sd_command :: string
  sd_args :: "string list"
  sd_env :: "string list"
  sd_started :: bool
  sd_stdin :: "string option"
  sd_stdinClosed :: bool
  sd_out :: "'msg list"

definition NewStdioTransport :: "string \<Rightarrow> string list \<Rightarrow> string list \<Rightarrow> 'msg stdio_transport" where
  "NewStdioTransport command args env =
     \<lparr>sd_command = command, sd_args = args, sd_env = env, sd_started = False, sd_stdin = None, sd_stdinClosed = False, sd_out = []\<rparr>"

text \<open>What os/exec does with a command: which of the three calls fails, or the output of the process.\<close>

datatype exec_outcome = StdinPipeFails string | StdoutPipeFails string | StartFails string | Started string

fun stdio_readLoop :: "(string \<Rightarrow> string + 'msg) \<Rightarrow> string list \<Rightarrow> 'msg list" where
  "stdio_readLoop unmarshal [] = []"
| "stdio_readLoop unmarshal (line # lines) =
     (case unmarshal line of Inl err \<Rightarrow> [] | Inr msg \<Rightarrow> [msg]) @ stdio_readLoop unmarshal lines"

definition stdio_Connect ::
    "(string \<Rightarrow> string list \<Rightarrow> string list \<Rightarrow> exec_outcome) \<Rightarrow> (string \<Rightarrow> string + 'msg) \<Rightarrow> 'msg stdio_transport \<Rightarrow>
     string option \<times> 'msg stdio_transport" where
  "stdio_Connect exec unmarshal t =
     (case exec (sd_command t) (sd_args t) (sd_env t) of
        StdinPipeFails err \<Rightarrow> (Some (''stdio: stdin pipe: '' @ err), t\<lparr>sd_started := True, sd_stdin := None\<rparr>)
      | StdoutPipeFails err \<Rightarrow> (Some (''stdio: stdout pipe: '' @ err), t\<lparr>sd_started := True, sd_stdin := Some []\<rparr>)
      | StartFails err \<Rightarrow> (Some (''stdio: start: '' @ err), t\<lparr>sd_started := True, sd_stdin := Some []\<rparr>)
      | Started output \<Rightarrow>
          (None, t\<lparr>sd_started := True, sd_stdin := Some [], sd_out := sd_out t @ stdio_readLoop unmarshal (ScanLines output)\<rparr>))"

text \<open>\<open>pipe closed written data\<close> is what a write to the standard input returns: the bytes taken and the error.
  A write to a pipe that was never opened is a nil dereference: the outer \<open>None\<close>.\<close>

type_synonym pipe = "bool \<Rightarrow> string \<Rightarrow> string \<Rightarrow> nat \<times> string option"

definition stdio_Send ::
    "('msg \<Rightarrow> string + string) \<Rightarrow> pipe \<Rightarrow> 'msg stdio_transport \<Rightarrow> 'msg \<Rightarrow> (string option \<times> 'msg stdio_transport) option" where
  "stdio_Send marshal pipe t msg =
     (case marshal msg of
        Inl err \<Rightarrow> Some (Some err, t)
      | Inr data \<Rightarrow>
          (case sd_stdin t of
             None \<Rightarrow> None
           | Some written \<Rightarrow>
               (case pipe (sd_stdinClosed t) written (data @ [CHR 0x0A]) of
                  (n, err) \<Rightarrow> Some (err, t\<lparr>sd_stdin := Some (written @ take n (data @ [CHR 0x0A]))\<rparr>))))"

text \<open>\<open>wait\<close> is what waiting for the process returns.\<close>

definition stdio_Close :: "('msg stdio_transport \<Rightarrow> string option) \<Rightarrow> 'msg stdio_transport \<Rightarrow> string option \<times> 'msg stdio_transport" where
  "stdio_Close wait t =
     (let t = (if sd_stdin t \<noteq> None then t\<lparr>sd_stdinClosed := True\<rparr> else t)
      in (if sd_started t then wait t else None, t))"

definition stdio_Receive :: "'msg stdio_transport \<Rightarrow> 'msg list" where
  "stdio_Receive t = sd_out t"

text \<open>Sending a list of messages, up to the first error.\<close>

fun stdio_send_all :: "('msg \<Rightarrow> string + string) \<Rightarrow> pipe \<Rightarrow> 'msg stdio_transport \<Rightarrow> 'msg list \<Rightarrow> (string option \<times> 'msg stdio_transport) option" where
  "stdio_send_all marshal pipe t [] = Some (None, t)"
| "stdio_send_all marshal pipe t (msg # msgs) =
     (case stdio_Send marshal pipe t msg of
        None \<Rightarrow> None
      | Some (Some err, t) \<Rightarrow> Some (Some err, t)
      | Some (None, t) \<Rightarrow> stdio_send_all marshal pipe t msgs)"

subsection \<open>The WebSocket transport\<close>

text \<open>Nothing is connected or sent: the operations succeed and no message arrives.\<close>

record 'msg websocket_transport =
  ws_url :: string
  ws_out :: "'msg list"

definition NewWebSocketTransport :: "string \<Rightarrow> 'msg websocket_transport" where
  "NewWebSocketTransport url = \<lparr>ws_url = url, ws_out = []\<rparr>"

definition ws_Connect :: "'msg websocket_transport \<Rightarrow> string option \<times> 'msg websocket_transport" where
  "ws_Connect t = (None, t)"

definition ws_Close :: "'msg websocket_transport \<Rightarrow> string option" where
  "ws_Close t = None"

definition ws_Send :: "'msg websocket_transport \<Rightarrow> 'msg \<Rightarrow> string option \<times> 'msg websocket_transport" where
  "ws_Send t msg = (None, t)"

definition ws_Receive :: "'msg websocket_transport \<Rightarrow> 'msg list" where
  "ws_Receive t = ws_out t"

subsection \<open>The registry\<close>

text \<open>The registry of \<open>NewManager\<close> stays empty: \<open>AddClient\<close> returns neither a client nor an error.\<close>

definition mcp_NewManager :: "(string, 'c) gomap" where
  "mcp_NewManager = []"

definition mcp_AddClient :: "(string, 'c) gomap \<Rightarrow> 'config \<Rightarrow> 'c option \<times> string option" where
  "mcp_AddClient clients config = (None, None)"

definition mcp_RemoveClient :: "(string, 'c) gomap \<Rightarrow> string \<Rightarrow> string option" where
  "mcp_RemoveClient clients clientID = None"

definition mcp_GetClient :: "(string, 'c) gomap \<Rightarrow> string \<Rightarrow> 'c option" where
  "mcp_GetClient clients clientID = map_of clients clientID"

definition mcp_ListClients :: "(string, 'c) gomap \<Rightarrow> 'c list" where
  "mcp_ListClients clients = map snd clients"

subsection \<open>Both ends\<close>

text \<open>A pipe takes what is written while it is open and the reader lives.\<close>

definition pipe_open :: "pipe \<Rightarrow> bool" where
  "pipe_open pipe \<longleftrightarrow> (\<forall>written data. pipe False written data = (length data, None))"

lemma stdio_send_all_text:
  assumes "\<forall>m\<in>set msgs. \<exists>data. marshal m = Inr data" and "pipe_open pipe"
  shows "sd_stdin t = Some written \<Longrightarrow> \<not> sd_stdinClosed t \<Longrightarrow>
    stdio_send_all marshal pipe t msgs =
      Some (None, t\<lparr>sd_stdin := Some (written @ concat (map (\<lambda>m. projr (marshal m) @ [CHR 0x0A]) msgs))\<rparr>)"
  using assms by (induction msgs arbitrary: t written) (auto simp: stdio_Send_def pipe_open_def)

lemma readLoop_lines:
  assumes "\<forall>m\<in>set msgs. one_line (f m) \<and> unmarshal (f m) = Inr m"
  shows "stdio_readLoop unmarshal (ScanLines (concat (map (\<lambda>m. f m @ [CHR 0x0A]) msgs) @ s)) = msgs @ stdio_readLoop unmarshal (ScanLines s)"
  using assms by (induction msgs) (simp_all add: ScanLines_line)

lemma ScanLines_Nil: "ScanLines [] = []"
  by (simp add: ScanLines_def)

lemma sse_events:
  assumes "\<forall>m\<in>set msgs. one_line (''data: '' @ f m) \<and> f m \<noteq> [] \<and> unmarshal (f m) = Inr m"
  shows "sse_readLoop unmarshal [] (ScanLines (concat (map (\<lambda>m. ''data: '' @ f m @ [CHR 0x0A, CHR 0x0A]) msgs))) = msgs"
proof -
  have d: "ScanLines (''data: '' @ f m @ CHR 0x0A # CHR 0x0A # s) = (''data: '' @ f m) # [] # ScanLines s" if "m \<in> set msgs" for m s
    using ScanLines_line [of "''data: '' @ f m" "CHR 0x0A # s"] ScanLines_line [OF one_line_Nil, of s] assms that by auto
  show ?thesis
    using assms d
  proof (induction msgs)
    case Nil
    then show ?case by (simp add: ScanLines_def)
  next
    case (Cons m msgs)
    have "sse_readLoop unmarshal [] (ScanLines (''data: '' @ f m @ CHR 0x0A # CHR 0x0A # s)) = m # sse_readLoop unmarshal [] (ScanLines s)" for s
      using Cons.prems by (subst Cons.prems(2)) (auto simp: HasPrefix_def TrimPrefix_def)
    then show ?case using Cons by simp
  qed
qed



text \<open>The lines of one event are joined without a line feed between them, and an event that the stream does
  not close with an empty line is lost.\<close>

lemma sse_joins_lines:
  "sse_readLoop Inr [] [''data: {'', ''data: }'', []] = [''{}'']"
  "sse_readLoop Inr [] [''data: {}''] = []"
  by code_simp+

end
