(* ===== verification/Spec2Isabelle.thy ===== *)
theory Spec2Isabelle
  imports Scheduler_Props Provider_Props Gateway_Props Llm_Props Store_Props Admin_Props Login_Props Caddyfile_Props
    Refresh_Props Provision_Props Handler_Setup Sqlite_Setup Orchestrator Mcp_Transport
begin

text \<open>
  The agent gateway for Caddy: a Go program that serves LLM requests over HTTP.  A chat handler decodes
  a request, the gateway resolves its route, judges its local API key and chooses a target, the target
  names a provider, and the provider sends the request upstream with a key of its own or with a
  credential of the credential manager, which picks it through a scheduler and learns from the outcome.
  Credentials come from CLI logins, which the admin API starts; credentials, providers, routes and keys
  are kept in SQLite; a Caddyfile declares the app.

  \<^bold>\<open>The language.\<close>  \<open>Go_Prelude\<close> (strings as bytes, 64-bit wrap-around, instants, maps as association lists,
  strconv), \<open>Go_Http\<close> (headers, status texts), \<open>Go_Json\<close> (the writer of encoding/json), \<open>Go_Encoding\<close> (net/url
  and base64) model what the sources use of the standard library.  A mutex-protected operation is one
  function on the state; a goroutine is split into the steps between which others can run; an error
  is a value; what a Go map iterates over in any order is a list whose order the theorems leave free.

  \<^bold>\<open>Helpers.\<close>  \<open>Parse_Utils\<close> is internal/utils/parse.go, \<open>Http_Utils\<close> is internal/utils/http.go (the logging
  writer) over a model of \<open>http.ResponseWriter\<close>.

  \<^bold>\<open>Credentials.\<close>  \<open>Credential\<close> is llm/cliauth/credential; \<open>Bucket_Selector\<close> and \<open>Auth_Scheduler\<close> are selector.go
  and scheduler.go of llm/cliauth/manager.  \<open>Scheduler_Inv\<close> proves that every operation keeps the indexes in
  agreement with the entries, \<open>Scheduler_Spec\<close> that the scheduler refines a finite map (locale
  \<open>credential_index\<close>) and defines its reachable states, \<open>Scheduler_Props\<close> what a pick guarantees.
  \<open>Cred_Manager\<close> is manager.go, persist_policy.go and errors.go; \<open>Manager_Inv\<close> has its invariant and the
  reachable states \<open>mgr_reach\<close> under any interleaving, \<open>Manager_Props\<close> the effect of feedback, backoff and
  refresh, \<open>Refresh_Props\<close> how a refresh runs and ends.  The store, hook, refresher and clock are
  parameters.

  \<^bold>\<open>Logins.\<close>  \<open>Oauth_Flow\<close>, \<open>Codex_Auth\<close>, \<open>Claude_Auth\<close>, \<open>Gemini_Auth\<close> are llm/cliauth/authenticator.  Network,
  clock, randomness, browser and callbacks are effects of one world (\<open>oauth_world\<close>).
  \<open>Authenticator_Spec\<close> states the contracts of the retry loop and of a refresher as locales that all three
  authenticators interpret; \<open>Authenticator_Props\<close> has their properties, \<open>Login_Props\<close> follows a login into the
  scheduler.

  \<^bold>\<open>Routes and gateway.\<close>  \<open>Route_Types\<close> and \<open>Route_Select\<close> are gateway/route, with \<open>Route_Props\<close>;
  \<open>Provider_Resolver\<close> and \<open>Agent_Gateway\<close> are providerresolver.go and agentgateway.go; \<open>Gateway_App\<close> and
  \<open>Gateway_Provision\<close> are app.go.  \<open>Gateway_Props\<close> proves what a resolved request has passed and that the cache
  of providers is transparent, \<open>Provision_Props\<close> what a provisioned app is made of.

  \<^bold>\<open>Providers.\<close>  \<open>Provider_Core\<close> (provider.go, registry.go, httputil.go, eino.go), \<open>Provider_Impl\<close> (the five
  providers), \<open>Auth_Provider\<close> (authmanaged.go) and \<open>Provider_Props\<close>: bounded retries, the key of a request, the
  feedback of a call.  The eino chat models, the HTTP transport and \<open>url.Parse\<close> are parameters.

  \<^bold>\<open>Chat handlers.\<close>  \<open>Llm_Api\<close> and \<open>Llm_Handler\<close> are api and api/llmapi with both protocols; \<open>Llm_Props\<close> proves the
  framing and order of the event streams (locale \<open>event_protocol\<close>) and that a missing key is refused before
  any provider is called.  The decoder of request bodies is a parameter; a stream is the list of what
  \<open>Recv\<close> returns.  \<open>Orchestrator\<close> is llm/agent, \<open>Mcp_Transport\<close> the transports of llm/mcp.

  \<^bold>\<open>Store.\<close>  \<open>Json_Store\<close> is configstore/sqlite over gorm as a parameter; \<open>Store_Spec\<close> states what the code relies
  on (locale \<open>gorm_table\<close>) and what the store promises (\<open>object_store\<close>), and that the one gives the other;
  \<open>Store_Props\<close> proves round trips and that a restart restores the credentials of any run.  \<open>Sqlite_Setup\<close>
  is how the database file is found, made and opened.

  \<^bold>\<open>Administration.\<close>  \<open>Admin\<close> and \<open>Admin_Server\<close> are package admin.  \<open>Admin_Props\<close> proves that nothing is reached
  without a session, the life of a session, the invariant of all reachable states (\<open>admin_reach\<close>: requests,
  ends of logins and traffic interleaved), and that what an administrator creates is what the gateway
  uses.

  \<^bold>\<open>Caddyfile.\<close>  \<open>Caddyfile_Dispenser\<close> is the interface of Caddy's dispenser, a parameter, with what its
  documentation promises as two locales; \<open>Caddyfile_Tokens\<close> is a dispenser over a list of tokens that keeps
  the promises.  \<open>Caddyfile_Parse\<close> has the parsers of gateway/caddyfile.go, route_caddyfile.go,
  api/caddyfile.go and of the module blocks; \<open>Caddyfile_Spec\<close> reads a block by a table of settings;
  \<open>Caddyfile_Props\<close> proves that the parsers end and agree with the tables, that a route written out is read
  back, and that the routes of a block are those a gateway serves.  \<open>Handler_Setup\<close> has the setup of the
  chat handlers and of the admin handler, and follows the directive \<open>handle_llm_api\<close> to a handler whose
  gateway is the provisioned app's.

  \<^bold>\<open>Loops and bounds.\<close>  Retry loops count down a natural number that comes from the configuration, so they
  are total; the poll loop of the device login and the loops over a dispenser are \<open>partial_function\<close> into
  \<open>option\<close>, where \<open>None\<close> is a loop that does not end, and theorems prove the result is not \<open>None\<close>: the poll
  loop under a clock that passes the deadline, the others because every turn consumes a token.  64-bit
  arithmetic is written with \<open>wrap64\<close> where a product or a shift could leave the range.

  \<^bold>\<open>Not modelled.\<close>  The registration of Caddy modules (\<open>init\<close>, \<open>CaddyModule\<close>), the text printed by logins and
  the HTML pages of the callback servers, starting a browser, log adapters and trace identifiers,
  recovery from panics in the admin server, cmd and examples: I/O and glue.  llm/memory and the client
  half of llm/mcp: declarations, and stubs that return a not-implemented error.
\<close>

end
